(* ===== verification/Prelude.thy ===== *)
theory Prelude
  imports Main "HOL-Library.Multiset" "HOL-Library.Char_ord" "HOL-Library.List_Lexorder"
begin

text \<open>
  Shared vocabulary of the development: the exceptions of the Python package, results
  that are either an exception or a value, computations that thread a state through
  raising code, association lists with the semantics of Python dictionaries, and the
  generic list lemmas the components use.

  A Python string is modelled by its UTF-8 encoding (a HOL \<open>string\<close>): equality,
  emptiness, concatenation and the code-point order that \<open>sorted\<close> and
  \<open>json.dumps(sort_keys=True)\<close> use are the same on the encoded bytes.
\<close>

named_theorems result_simps \<open>equations of the result combinators\<close>
named_theorems dict_simps \<open>equations of the dictionary operations\<close>

section \<open>Exceptions and results\<close>

text \<open>
  The exceptions the modelled code raises. \<open>StaleEpochError\<close> is a subclass of
  \<open>ProtocolError\<close> (replica.py), so a handler for the latter catches both.
\<close>

datatype err =
    ProtocolError string
  | StaleEpochError string
  | ReplicaUnavailable string
  | QuorumUnavailable string
  | ClusterClosedError string
  | ValidationError string
  | CollectionAlreadyOpenError string
  | CollectionClosedError string
  | CollectionNotFoundError string
  | ValueError string
  | TypeError string
  | KeyError string
  | IndexError string
  | OverflowError string
  | ZeroDivisionError string
  | RuntimeError string
  | JSONDecodeError string
  | UnicodeDecodeError string
  | FileNotFoundError string
  | FileExistsError string

type_synonym 'a result = "err + 'a"

fun is_protocol_error :: "err \<Rightarrow> bool" where
  "is_protocol_error (ProtocolError m) = True"
| "is_protocol_error (StaleEpochError m) = True"
| "is_protocol_error e = False"

fun is_replica_unavailable :: "err \<Rightarrow> bool" where
  "is_replica_unavailable (ReplicaUnavailable m) = True"
| "is_replica_unavailable e = False"

definition rbind :: "'a result \<Rightarrow> ('a \<Rightarrow> 'b result) \<Rightarrow> 'b result" where
  "rbind r f = (case r of Inl e \<Rightarrow> Inl e | Inr x \<Rightarrow> f x)"

lemma rbind_Inl [simp, result_simps]: "rbind (Inl e) f = Inl e"
  by (simp add: rbind_def)

lemma rbind_Inr [simp, result_simps]: "rbind (Inr x) f = f x"
  by (simp add: rbind_def)

lemma rbind_eq_Inr [simp]: "rbind r f = Inr y \<longleftrightarrow> (\<exists>x. r = Inr x \<and> f x = Inr y)"
  by (cases r) simp_all

lemma rbind_eq_Inl: "rbind r f = Inl e \<longleftrightarrow> r = Inl e \<or> (\<exists>x. r = Inr x \<and> f x = Inl e)"
  by (cases r) simp_all

lemma rbind_assoc: "rbind (rbind r f) g = rbind r (\<lambda>x. rbind (f x) g)"
  by (cases r) simp_all

lemma rbind_cong [cong]:
  "r = r' \<Longrightarrow> (\<And>x. r' = Inr x \<Longrightarrow> f x = f' x) \<Longrightarrow> rbind r f = rbind r' f'"
  by (cases r') simp_all

text \<open>\<open>if not c: raise e\<close> followed by the rest of the body.\<close>

definition require :: "bool \<Rightarrow> err \<Rightarrow> 'a result \<Rightarrow> 'a result" where
  "require c e k = (if c then k else Inl e)"

lemma require_True [simp, result_simps]: "require True e k = k"
  by (simp add: require_def)

lemma require_False [simp, result_simps]: "require False e k = Inl e"
  by (simp add: require_def)

lemma require_eq_Inr [simp]: "require c e k = Inr x \<longleftrightarrow> c \<and> k = Inr x"
  by (simp add: require_def)

lemma rbind_require: "rbind (require c e k) f = require c e (rbind k f)"
  by (simp add: require_def)

lemma rbind_Inr_right [simp]: "rbind r Inr = r"
  by (cases r) simp_all

lemma require_cong [cong]: "c = c' \<Longrightarrow> (c' \<Longrightarrow> k = k') \<Longrightarrow> require c e k = require c' e k'"
  by (simp add: require_def)

text \<open>A \<open>for\<close> loop whose body may raise, threading an accumulator.\<close>

primrec rfold :: "('a \<Rightarrow> 's \<Rightarrow> 's result) \<Rightarrow> 'a list \<Rightarrow> 's \<Rightarrow> 's result" where
  "rfold f [] s = Inr s"
| "rfold f (x # xs) s = rbind (f x s) (rfold f xs)"

lemma rfold_append: "rfold f (xs @ ys) s = rbind (rfold f xs s) (rfold f ys)"
  by (induction xs arbitrary: s) (simp_all add: rbind_assoc)

lemma rfold_invariant:
  assumes "rfold f xs s = Inr s'" and "P s"
    and "\<And>x s s'. x \<in> set xs \<Longrightarrow> P s \<Longrightarrow> f x s = Inr s' \<Longrightarrow> P s'"
  shows "P s'"
  using assms by (induction xs arbitrary: s) auto

text \<open>
  A loop that collects the keys it has seen and rejects a repeated one: it succeeds when
  the elements have pairwise distinct keys.
\<close>

lemma rfold_seen:
  assumes "\<And>x S S'. f x S = Inr S' \<longleftrightarrow> (\<exists>n. P n x \<and> n \<notin> S \<and> S' = insert n S)"
  shows "rfold f xs S = Inr S' \<longleftrightarrow>
    (\<exists>ns. list_all2 P ns xs \<and> distinct ns \<and> set ns \<inter> S = {} \<and> S' = S \<union> set ns)"
proof (induction xs arbitrary: S)
  case (Cons x xs)
  have "rfold f (x # xs) S = Inr S' \<longleftrightarrow>
      (\<exists>n ns. P n x \<and> n \<notin> S \<and> list_all2 P ns xs \<and> distinct ns \<and> set ns \<inter> insert n S = {} \<and>
        S' = insert n S \<union> set ns)"
    by (auto simp: assms Cons.IH)
  also have "\<dots> \<longleftrightarrow> (\<exists>ns. list_all2 P ns (x # xs) \<and> distinct ns \<and> set ns \<inter> S = {} \<and> S' = S \<union> set ns)"
    by (fastforce simp: list_all2_Cons2)
  finally show ?case .
qed auto

text \<open>A loop that only checks its elements, and one that converts them.\<close>

primrec rall :: "('a \<Rightarrow> unit result) \<Rightarrow> 'a list \<Rightarrow> unit result" where
  "rall f [] = Inr ()"
| "rall f (x # xs) = rbind (f x) (\<lambda>_. rall f xs)"

lemma rall_ok [simp]: "rall f xs = Inr () \<longleftrightarrow> (\<forall>x\<in>set xs. f x = Inr ())"
  by (induction xs) auto

primrec rmap :: "('a \<Rightarrow> 'b result) \<Rightarrow> 'a list \<Rightarrow> 'b list result" where
  "rmap f [] = Inr []"
| "rmap f (x # xs) = rbind (f x) (\<lambda>y. rbind (rmap f xs) (\<lambda>ys. Inr (y # ys)))"

lemma rmap_eq_Inr: "rmap f xs = Inr ys \<longleftrightarrow> list_all2 (\<lambda>x y. f x = Inr y) xs ys"
proof (induction xs arbitrary: ys)
  case Nil
  show ?case by auto
next
  case (Cons x xs)
  show ?case by (cases ys) (auto simp: Cons.IH)
qed

lemma rmap_length: "rmap f xs = Inr ys \<Longrightarrow> length ys = length xs"
  by (auto simp: rmap_eq_Inr dest: list_all2_lengthD)

lemma rmap_all_Inr: "(\<And>x. x \<in> set xs \<Longrightarrow> f x = Inr (g x)) \<Longrightarrow> rmap f xs = Inr (map g xs)"
  by (induction xs) simp_all

text \<open>Computations whose only exceptions are protocol errors.\<close>

named_theorems protocol_only_intros \<open>introduction rules for \<open>protocol_only\<close>\<close>

definition protocol_only :: "'a result \<Rightarrow> bool" where
  "protocol_only r \<longleftrightarrow> (\<forall>e. r = Inl e \<longrightarrow> is_protocol_error e)"

lemma protocol_only_Inr [protocol_only_intros]: "protocol_only (Inr x)"
  by (simp add: protocol_only_def)

lemma protocol_only_Inl [protocol_only_intros]: "is_protocol_error e \<Longrightarrow> protocol_only (Inl e)"
  by (simp add: protocol_only_def)

lemma protocol_only_rbind [protocol_only_intros]:
  "protocol_only r \<Longrightarrow> (\<And>x. r = Inr x \<Longrightarrow> protocol_only (f x)) \<Longrightarrow> protocol_only (rbind r f)"
  by (cases r) (simp_all add: protocol_only_def)

lemma protocol_only_require [protocol_only_intros]:
  "is_protocol_error e \<Longrightarrow> (c \<Longrightarrow> protocol_only k) \<Longrightarrow> protocol_only (require c e k)"
  by (simp add: protocol_only_def require_def)

lemma protocol_only_if [protocol_only_intros]:
  "(c \<Longrightarrow> protocol_only a) \<Longrightarrow> (\<not> c \<Longrightarrow> protocol_only b) \<Longrightarrow> protocol_only (if c then a else b)"
  by simp

lemma protocol_only_case_option [protocol_only_intros]:
  "(x = None \<Longrightarrow> protocol_only a) \<Longrightarrow> (\<And>y. x = Some y \<Longrightarrow> protocol_only (b y)) \<Longrightarrow>
     protocol_only (case x of None \<Rightarrow> a | Some y \<Rightarrow> b y)"
  by (cases x) simp_all

lemma protocol_only_rfold [protocol_only_intros]:
  "(\<And>x s. x \<in> set xs \<Longrightarrow> protocol_only (f x s)) \<Longrightarrow> protocol_only (rfold f xs s)"
  by (induction xs arbitrary: s) (auto intro!: protocol_only_intros)

lemma protocol_only_rall [protocol_only_intros]:
  "(\<And>x. x \<in> set xs \<Longrightarrow> protocol_only (f x)) \<Longrightarrow> protocol_only (rall f xs)"
  by (induction xs) (auto intro!: protocol_only_intros)

lemma protocol_onlyD: "protocol_only r \<Longrightarrow> r = Inl e \<Longrightarrow> is_protocol_error e"
  by (simp add: protocol_only_def)

lemma protocol_only_case_prod [protocol_only_intros]:
  "(\<And>a b. x = (a, b) \<Longrightarrow> protocol_only (f a b)) \<Longrightarrow> protocol_only (case x of (a, b) \<Rightarrow> f a b)"
  by (cases x) simp

lemma protocol_only_rmap [protocol_only_intros]:
  "(\<And>x. x \<in> set xs \<Longrightarrow> protocol_only (f x)) \<Longrightarrow> protocol_only (rmap f xs)"
  by (induction xs) (auto intro!: protocol_only_intros)

text \<open>What every result of a computation satisfies, exceptions aside.\<close>

named_theorems yields_intros \<open>introduction rules for \<open>yields\<close>\<close>

definition yields :: "('a \<Rightarrow> bool) \<Rightarrow> 'a result \<Rightarrow> bool" where
  "yields P r \<longleftrightarrow> (\<forall>x. r = Inr x \<longrightarrow> P x)"

lemma yields_Inr: "P x \<Longrightarrow> yields P (Inr x)"
  by (simp add: yields_def)

lemma yields_Inl [yields_intros]: "yields P (Inl e)"
  by (simp add: yields_def)

lemma yields_rbind [yields_intros]:
  "(\<And>x. r = Inr x \<Longrightarrow> yields P (f x)) \<Longrightarrow> yields P (rbind r f)"
  by (cases r) (simp_all add: yields_def)

lemma yields_require [yields_intros]: "(c \<Longrightarrow> yields P k) \<Longrightarrow> yields P (require c e k)"
  by (simp add: yields_def)

lemma yields_if [yields_intros]:
  "(c \<Longrightarrow> yields P a) \<Longrightarrow> (\<not> c \<Longrightarrow> yields P b) \<Longrightarrow> yields P (if c then a else b)"
  by simp

lemma yields_case_option [yields_intros]:
  "(x = None \<Longrightarrow> yields P a) \<Longrightarrow> (\<And>y. x = Some y \<Longrightarrow> yields P (b y)) \<Longrightarrow>
     yields P (case x of None \<Rightarrow> a | Some y \<Rightarrow> b y)"
  by (cases x) simp_all

lemma yields_case_prod [yields_intros]:
  "(\<And>a b. x = (a, b) \<Longrightarrow> yields P (f a b)) \<Longrightarrow> yields P (case x of (a, b) \<Rightarrow> f a b)"
  by (cases x) simp

lemma yields_rfold:
  assumes "\<And>x s. I s \<Longrightarrow> yields I (f x s)" and "I s"
  shows "yields I (rfold f xs s)"
  using assms(2)
proof (induction xs arbitrary: s)
  case (Cons x xs)
  then show ?case using assms(1) [OF Cons.prems, of x] by (auto simp: yields_def)
qed (simp add: yields_def)

lemma yields_rmap:
  assumes "\<And>x. yields P (f x)"
  shows "yields (\<lambda>ys. list_all P ys \<and> length ys = length xs) (rmap f xs)"
proof (induction xs)
  case (Cons x xs)
  then show ?case using assms [of x] by (auto simp: yields_def)
qed (simp add: yields_def)

lemma yieldsD: "yields P r \<Longrightarrow> r = Inr x \<Longrightarrow> P x"
  by (simp add: yields_def)

section \<open>Association lists with the semantics of Python dictionaries\<close>

text \<open>
  A dictionary keeps its insertion order. \<open>d[k] = v\<close> replaces the value in place when
  the key is present and appends it otherwise.
\<close>

fun dict_set :: "'k \<Rightarrow> 'v \<Rightarrow> ('k \<times> 'v) list \<Rightarrow> ('k \<times> 'v) list" where
  "dict_set k v [] = [(k, v)]"
| "dict_set k v ((k', v') # d) = (if k = k' then (k, v) # d else (k', v') # dict_set k v d)"

lemma map_of_dict_set [simp, dict_simps]: "map_of (dict_set k v d) = (map_of d)(k \<mapsto> v)"
  by (induction k v d rule: dict_set.induct) (auto simp: fun_eq_iff)

lemma keys_dict_set [simp, dict_simps]: "fst ` set (dict_set k v d) = insert k (fst ` set d)"
  by (induction k v d rule: dict_set.induct) auto

lemma distinct_dict_set [simp]:
  "distinct (map fst d) \<Longrightarrow> distinct (map fst (dict_set k v d))"
  by (induction k v d rule: dict_set.induct) auto

lemma set_dict_set: "set (dict_set k v d) \<subseteq> insert (k, v) (set d)"
  by (induction k v d rule: dict_set.induct) auto

lemma dict_set_fresh: "k \<notin> fst ` set d \<Longrightarrow> dict_set k v d = d @ [(k, v)]"
  by (induction k v d rule: dict_set.induct) auto

definition dict_keys :: "('k \<times> 'v) list \<Rightarrow> 'k set" where
  "dict_keys d = set (map fst d)"

lemma dict_keys_dom: "dict_keys d = dom (map_of d)"
  by (simp add: dict_keys_def dom_map_of_conv_image_fst)

section \<open>Sorting dictionaries by key\<close>

definition sort_items :: "('k::linorder \<times> 'v) list \<Rightarrow> ('k \<times> 'v) list" where
  "sort_items d = sort_key fst d"

lemma set_sort_items [simp]: "set (sort_items d) = set d"
  by (simp add: sort_items_def)

lemma length_sort_items [simp]: "length (sort_items d) = length d"
  by (simp add: sort_items_def)

lemma mset_sort_items: "mset (sort_items d) = mset d"
  by (simp add: sort_items_def)

lemma map_fst_sort_items: "map fst (sort_items d) = sort (map fst d)"
  by (rule properties_for_sort [symmetric]) (simp_all add: sort_items_def)

lemma distinct_sort_items [simp]: "distinct (map fst (sort_items d)) = distinct (map fst d)"
  by (simp add: map_fst_sort_items)

lemma map_of_sort_items [simp]:
  assumes "distinct (map fst d)"
  shows "map_of (sort_items d) = map_of d"
  using assms by (intro map_of_eqI) (auto simp: map_of_eq_Some_iff distinct_sort_items)

end
