(* ===== verification/PyFloat.thy ===== *)
theory PyFloat
  imports Prelude
begin

text \<open>
  Python's \<open>float\<close> (IEEE 754 binary64). Every finite double is an integral multiple
  of the smallest positive one, \<open>2 ^ -1074\<close>; a finite value is a sign (\<open>True\<close>
  for minus) and its magnitude in that unit, so \<open>1.0\<close> is \<open>FFin False (2 ^ 1074)\<close>
  and \<open>-0.0\<close> is \<open>FFin True 0\<close>. A magnitude is representable when it has at most 53
  significant bits and lies below \<open>2 ^ 2098\<close>. Conversions round to nearest, ties to
  even.
\<close>

datatype pyfloat = FNaN | FInf bool | FFin bool nat

section \<open>Bit length\<close>

fun bitlen :: "nat \<Rightarrow> nat" where
  "bitlen n = (if n = 0 then 0 else Suc (bitlen (n div 2)))"

declare bitlen.simps [simp del]

lemma bitlen_0 [simp]: "bitlen 0 = 0"
  by (simp add: bitlen.simps)

lemma bitlen_upper: "n < 2 ^ bitlen n"
proof (induction n rule: bitlen.induct)
  case (1 n)
  show ?case
  proof (cases "n = 0")
    case False
    then have "n div 2 < 2 ^ bitlen (n div 2)" by (rule "1.IH")
    then have "n < 2 * 2 ^ bitlen (n div 2)" by simp
    with False show ?thesis by (simp add: bitlen.simps [of n])
  qed simp
qed

lemma bitlen_lower: "0 < n \<Longrightarrow> 2 ^ (bitlen n - 1) \<le> n"
proof (induction n rule: bitlen.induct)
  case (1 n)
  show ?case
  proof (cases "n div 2 = 0")
    case True
    with "1.prems" have "n = 1" by (auto simp: div_eq_0_iff)
    then show ?thesis by (simp add: bitlen.simps)
  next
    case False
    then have "2 ^ (bitlen (n div 2) - 1) \<le> n div 2"
      using "1.IH" "1.prems" by simp
    moreover have "bitlen (n div 2) \<noteq> 0" using False by (simp add: bitlen.simps [of "n div 2"])
    ultimately have "2 ^ bitlen (n div 2) \<le> n"
      by (cases "bitlen (n div 2)") (auto simp: less_eq_div_iff_mult_less_eq mult.commute)
    with "1.prems" show ?thesis by (simp add: bitlen.simps [of n])
  qed
qed

section \<open>Rounding to nearest, ties to even\<close>

definition round_half_even :: "nat \<Rightarrow> nat \<Rightarrow> nat" where
  "round_half_even num den =
     (let q = num div den; r = num mod den
      in if 2 * r < den then q
         else if den < 2 * r then Suc q
         else if even q then q else Suc q)"

text \<open>The binary64 magnitude nearest to \<open>num / den\<close> units, before the overflow test.\<close>

definition round53 :: "nat \<Rightarrow> nat \<Rightarrow> nat" where
  "round53 num den =
     (let s = bitlen (num div den) - 53 in round_half_even num (den * 2 ^ s) * 2 ^ s)"

definition max_units :: nat where
  "max_units = 2 ^ 2098"

definition representable :: "nat \<Rightarrow> bool" where
  "representable n \<longleftrightarrow> n < max_units \<and> 2 ^ (bitlen n - 53) dvd n"

fun wf_float :: "pyfloat \<Rightarrow> bool" where
  "wf_float (FFin s n) = representable n"
| "wf_float f = True"

lemma round_half_even_exact [simp]: "0 < d \<Longrightarrow> round_half_even (q * d) d = q"
  by (simp add: round_half_even_def)

lemma round53_representable:
  assumes "representable n" and "0 < d"
  shows "round53 (n * d) d = n"
proof -
  let ?s = "bitlen n - 53"
  from assms(1) obtain k where k: "n = k * 2 ^ ?s"
    by (auto simp: representable_def dvd_def mult.commute)
  have "round_half_even (n * d) (d * 2 ^ ?s) = round_half_even (k * (d * 2 ^ ?s)) (d * 2 ^ ?s)"
    by (subst k) (simp add: ac_simps)
  also have "\<dots> = k" using assms(2) by simp
  finally show ?thesis using assms(2) k by (simp add: round53_def)
qed

text \<open>\<open>float(i)\<close> for an integer: it raises \<open>OverflowError\<close> instead of giving an infinity.\<close>

definition unit_exp :: nat where
  "unit_exp = 1074"

definition unit_one :: nat where
  "unit_one = 2 ^ unit_exp"

lemma unit_one_pos [simp]: "0 < unit_one"
  by (simp add: unit_one_def)

definition float_of_int :: "int \<Rightarrow> pyfloat result" where
  "float_of_int i =
     (let m = round53 (nat \<bar>i\<bar> * unit_one) 1
      in if m < max_units then Inr (FFin (i < 0) m)
         else Inl (OverflowError ''int too large to convert to float''))"

text \<open>A decimal literal \<open>m * 10 ^ e\<close>: an overflow gives an infinity.\<close>

definition float_of_decimal :: "bool \<Rightarrow> nat \<Rightarrow> int \<Rightarrow> pyfloat" where
  "float_of_decimal s m e =
     (let u = (if 0 \<le> e then round53 (m * 10 ^ nat e * unit_one) 1
               else round53 (m * unit_one) (10 ^ nat (- e)))
      in if u < max_units then FFin s u else FInf s)"

fun isfinite :: "pyfloat \<Rightarrow> bool" where
  "isfinite (FFin s n) = True"
| "isfinite f = False"

section \<open>Comparison\<close>

text \<open>
  Both zeros compare equal; the infinities lie beyond every finite value; every
  comparison with a NaN is false.
\<close>

fun fkey :: "pyfloat \<Rightarrow> int" where
  "fkey (FFin s n) = (if s then - int n else int n)"
| "fkey (FInf s) = (if s then - int max_units else int max_units)"
| "fkey FNaN = 0"

definition feq :: "pyfloat \<Rightarrow> pyfloat \<Rightarrow> bool" where
  "feq a b \<longleftrightarrow> a \<noteq> FNaN \<and> b \<noteq> FNaN \<and> fkey a = fkey b"

definition flt :: "pyfloat \<Rightarrow> pyfloat \<Rightarrow> bool" where
  "flt a b \<longleftrightarrow> a \<noteq> FNaN \<and> b \<noteq> FNaN \<and> fkey a < fkey b"

fun fneg :: "pyfloat \<Rightarrow> pyfloat" where
  "fneg (FFin s n) = FFin (\<not> s) n"
| "fneg (FInf s) = FInf (\<not> s)"
| "fneg FNaN = FNaN"

lemma fkey_fneg [simp]: "fkey (fneg a) = - fkey a"
  by (cases a) auto

lemma fneg_NaN [simp]: "fneg a = FNaN \<longleftrightarrow> a = FNaN"
  by (cases a) auto

section \<open>Arithmetic\<close>

text \<open>
  Sum and quotient, rounded to nearest. A sum of opposite values is \<open>+0.0\<close>; dividing by a
  zero raises.
\<close>

definition signed_float :: "bool \<Rightarrow> nat \<Rightarrow> pyfloat" where
  "signed_float s n = (if n < max_units then FFin s n else FInf s)"

fun fadd :: "pyfloat \<Rightarrow> pyfloat \<Rightarrow> pyfloat" where
  "fadd (FFin s n) (FFin t m) =
     (let x = fkey (FFin s n) + fkey (FFin t m)
      in signed_float (if x = 0 then s \<and> t else x < 0) (round53 (nat \<bar>x\<bar>) 1))"
| "fadd (FInf s) (FInf t) = (if s = t then FInf s else FNaN)"
| "fadd (FInf s) (FFin t m) = FInf s"
| "fadd (FFin s n) (FInf t) = FInf t"
| "fadd FNaN b = FNaN"
| "fadd a FNaN = FNaN"

fun fdiv :: "pyfloat \<Rightarrow> pyfloat \<Rightarrow> pyfloat result" where
  "fdiv a (FFin t 0) = Inl (ZeroDivisionError ''float division by zero'')"
| "fdiv (FFin s n) (FFin t m) = Inr (signed_float (s \<noteq> t) (round53 (n * unit_one) m))"
| "fdiv (FInf s) (FFin t m) = Inr (FInf (s \<noteq> t))"
| "fdiv (FFin s n) (FInf t) = Inr (FFin (s \<noteq> t) 0)"
| "fdiv (FInf s) (FInf t) = Inr FNaN"
| "fdiv FNaN b = Inr FNaN"
| "fdiv a FNaN = Inr FNaN"

end
