(* ===== verification/PyValue.thy ===== *)
theory PyValue
  imports PyFloat
begin

text \<open>
  The dynamic values that the cluster code exchanges and stores: the JSON fragment of
  Python's objects. Dictionaries are association lists in insertion order with string
  keys; \<open>canon\<close> sorts every dictionary by key, the order in which
  \<open>json.dumps(sort_keys=True)\<close> writes it and in which \<open>json.loads\<close> rebuilds it.
\<close>

datatype pyval =
    PNone
  | PBool bool
  | PInt int
  | PFloat pyfloat
  | PStr string
  | PList "pyval list"
  | PDict "(string \<times> pyval) list"

section \<open>Accessors that raise as Python does\<close>

fun as_dict :: "pyval \<Rightarrow> (string \<times> pyval) list option" where
  "as_dict (PDict d) = Some d"
| "as_dict v = None"

fun as_list :: "pyval \<Rightarrow> pyval list option" where
  "as_list (PList xs) = Some xs"
| "as_list v = None"

fun as_str :: "pyval \<Rightarrow> string option" where
  "as_str (PStr s) = Some s"
| "as_str v = None"

fun as_int :: "pyval \<Rightarrow> int option" where
  "as_int (PInt i) = Some i"
| "as_int v = None"

fun as_bool :: "pyval \<Rightarrow> bool option" where
  "as_bool (PBool b) = Some b"
| "as_bool v = None"

lemma as_Some [simp]:
  "as_dict v = Some d \<longleftrightarrow> v = PDict d" "as_list v = Some xs \<longleftrightarrow> v = PList xs"
  "as_str v = Some s \<longleftrightarrow> v = PStr s" "as_int v = Some i \<longleftrightarrow> v = PInt i"
  "as_bool v = Some b \<longleftrightarrow> v = PBool b"
  by (cases v; auto)+

lemma as_not_None:
  "as_dict v \<noteq> None \<longleftrightarrow> (\<exists>d. v = PDict d)" "as_list v \<noteq> None \<longleftrightarrow> (\<exists>xs. v = PList xs)"
  "as_str v \<noteq> None \<longleftrightarrow> (\<exists>s. v = PStr s)" "as_int v \<noteq> None \<longleftrightarrow> (\<exists>i. v = PInt i)"
  "as_bool v \<noteq> None \<longleftrightarrow> (\<exists>b. v = PBool b)"
  by (cases v; auto)+

text \<open>Success of a body that first tests the type of a value.\<close>

lemma case_as_eq_Inr [result_simps]:
  "(case as_dict v of None \<Rightarrow> Inl e | Some d \<Rightarrow> f d) = Inr y \<longleftrightarrow> (\<exists>d. v = PDict d \<and> f d = Inr y)"
  "(case as_list v of None \<Rightarrow> Inl e | Some xs \<Rightarrow> g xs) = Inr y \<longleftrightarrow> (\<exists>xs. v = PList xs \<and> g xs = Inr y)"
  "(case as_str v of None \<Rightarrow> Inl e | Some s \<Rightarrow> h s) = Inr y \<longleftrightarrow> (\<exists>s. v = PStr s \<and> h s = Inr y)"
  by (cases v; auto)+

definition dget :: "(string \<times> pyval) list \<Rightarrow> string \<Rightarrow> pyval result" where
  "dget d k = (case map_of d k of None \<Rightarrow> Inl (KeyError k) | Some v \<Rightarrow> Inr v)"

lemma dget_Some [simp]: "map_of d k = Some v \<Longrightarrow> dget d k = Inr v"
  by (simp add: dget_def)

lemma dget_eq_Inr: "dget d k = Inr v \<longleftrightarrow> map_of d k = Some v"
  by (simp add: dget_def split: option.splits)

text \<open>\<open>set(d) == fields\<close> for a dictionary and a literal set of names.\<close>

definition has_fields :: "(string \<times> pyval) list \<Rightarrow> string list \<Rightarrow> bool" where
  "has_fields d fs \<longleftrightarrow> dict_keys d = set fs"

lemma has_fields_lookup: "has_fields d fs \<Longrightarrow> k \<in> set fs \<Longrightarrow> \<exists>v. map_of d k = Some v"
  by (auto simp: has_fields_def dict_keys_dom)

lemma has_fields_dget: "has_fields d fs \<Longrightarrow> k \<in> set fs \<Longrightarrow> \<exists>v. dget d k = Inr v"
  by (auto simp: dget_eq_Inr dest: has_fields_lookup)

lemma protocol_only_dget [protocol_only_intros]:
  "has_fields d fs \<Longrightarrow> k \<in> set fs \<Longrightarrow> protocol_only (dget d k)"
  using has_fields_dget [of d fs k] by (auto simp: protocol_only_def)

section \<open>Text and well-formed values\<close>

definition cont_byte :: "char \<Rightarrow> bool" where
  "cont_byte c \<longleftrightarrow> 128 \<le> (of_char c :: nat) \<and> (of_char c :: nat) \<le> 191"

definition second_byte :: "nat \<Rightarrow> char \<Rightarrow> bool" where
  "second_byte b c =
     (let n = (of_char c :: nat)
      in cont_byte c \<and> (b = 224 \<longrightarrow> 160 \<le> n) \<and> (b = 240 \<longrightarrow> 144 \<le> n) \<and> (b = 244 \<longrightarrow> n \<le> 143))"

text \<open>UTF-8 as \<open>bytes.decode("utf-8", "surrogatepass")\<close> accepts it.\<close>

fun utf8_step :: "string \<Rightarrow> string option" where
  "utf8_step [] = None"
| "utf8_step (c # cs) =
     (let b = (of_char c :: nat) in
      if b < 128 then Some cs
      else if 194 \<le> b \<and> b \<le> 223 then
        (case cs of d # ds \<Rightarrow> if cont_byte d then Some ds else None | _ \<Rightarrow> None)
      else if 224 \<le> b \<and> b \<le> 239 then
        (case cs of
           d # e # ds \<Rightarrow> if second_byte b d \<and> cont_byte e then Some ds else None
         | _ \<Rightarrow> None)
      else if 240 \<le> b \<and> b \<le> 244 then
        (case cs of
           d # e # f # ds \<Rightarrow>
             if second_byte b d \<and> cont_byte e \<and> cont_byte f then Some ds else None
         | _ \<Rightarrow> None)
      else None)"

lemma utf8_step_less: "utf8_step s = Some r \<Longrightarrow> length r < length s"
  by (cases s) (auto simp: Let_def split: if_splits list.splits)

lemma utf8_step_append: "utf8_step a = Some r \<Longrightarrow> utf8_step (a @ b) = Some (r @ b)"
  by (cases a) (auto simp: Let_def split: if_splits list.splits)

function utf8_ok :: "string \<Rightarrow> bool" where
  "utf8_ok s = (if s = [] then True
                else case utf8_step s of None \<Rightarrow> False | Some r \<Rightarrow> utf8_ok r)"
  by pat_completeness auto
termination
  by (relation "measure length") (auto dest: utf8_step_less)

declare utf8_ok.simps [simp del]

lemma utf8_ok_Nil [simp]: "utf8_ok []"
  by (simp add: utf8_ok.simps)

lemma utf8_ok_Cons_ascii [simp]: "(of_char c :: nat) < 128 \<Longrightarrow> utf8_ok (c # cs) = utf8_ok cs"
  by (simp add: utf8_ok.simps [of "c # cs"])

lemma utf8_ok_append: "utf8_ok a \<Longrightarrow> utf8_ok (a @ b) = utf8_ok b"
proof (induction a rule: utf8_ok.induct)
  case (1 a)
  show ?case
  proof (cases "a = []")
    case False
    with "1.prems" obtain r where r: "utf8_step a = Some r" and "utf8_ok r"
      by (auto simp: utf8_ok.simps [of a] split: option.splits)
    with False "1.IH" have "utf8_ok (r @ b) = utf8_ok b" by simp
    with False utf8_step_append [OF r] show ?thesis
      by (simp add: utf8_ok.simps [of "a @ b"])
  qed simp
qed

lemma utf8_ok_concat: "(\<And>x. x \<in> set xs \<Longrightarrow> utf8_ok x) \<Longrightarrow> utf8_ok (concat xs)"
  by (induction xs) (simp_all add: utf8_ok_append)

lemma utf8_ok_ascii: "(\<And>c. c \<in> set s \<Longrightarrow> (of_char c :: nat) < 128) \<Longrightarrow> utf8_ok s"
  by (induction s) (simp_all add: Let_def)

fun wf_val :: "pyval \<Rightarrow> bool" where
  "wf_val (PFloat f) = wf_float f"
| "wf_val (PStr s) = utf8_ok s"
| "wf_val (PList xs) = list_all wf_val xs"
| "wf_val (PDict d) =
     (distinct (map fst d) \<and> list_all (\<lambda>(k, v). utf8_ok k \<and> wf_val v) d)"
| "wf_val v = True"

section \<open>Canonical key order\<close>

fun canon :: "pyval \<Rightarrow> pyval" where
  "canon (PList xs) = PList (map canon xs)"
| "canon (PDict d) = PDict (sort_items (map (\<lambda>(k, v). (k, canon v)) d))"
| "canon v = v"

lemmas canon_induct = canon.induct [case_names "1" "2" none truth number float_number str]

definition canon_items :: "(string \<times> pyval) list \<Rightarrow> (string \<times> pyval) list" where
  "canon_items d = sort_items (map (\<lambda>(k, v). (k, canon v)) d)"

lemma canon_PDict [simp]: "canon (PDict d) = PDict (canon_items d)"
  by (simp add: canon_items_def)

declare canon.simps(2) [simp del]

lemma fst_comp_pair [simp]: "fst \<circ> (\<lambda>(k, v). (k, f v)) = fst"
  by auto

lemma set_canon_items: "set (canon_items d) = (\<lambda>(k, v). (k, canon v)) ` set d"
  by (simp add: canon_items_def)

lemma keys_canon_items [simp]: "dict_keys (canon_items d) = dict_keys d"
  by (force simp: dict_keys_def set_canon_items)

lemma has_fields_canon [simp]: "has_fields (canon_items d) fs = has_fields d fs"
  by (simp add: has_fields_def)

lemma distinct_canon_items [simp]: "distinct (map fst (canon_items d)) = distinct (map fst d)"
  by (simp add: canon_items_def)

lemma map_of_map_snd: "map_of (map (\<lambda>(k, v). (k, f v)) d) k = map_option f (map_of d k)"
  by (induction d) auto

lemma map_of_canon_items:
  "distinct (map fst d) \<Longrightarrow> map_of (canon_items d) k = map_option canon (map_of d k)"
  by (simp add: canon_items_def map_of_map_snd)

lemma sorted_canon_items: "sorted (map fst (canon_items d))"
  by (simp add: canon_items_def map_fst_sort_items)

lemma sort_items_id: "sorted (map fst d) \<Longrightarrow> sort_items d = d"
  by (simp add: sort_items_def sorted_sort_id sort_key_id_if_sorted)

lemma canon_idem [simp]: "canon (canon v) = canon v"
proof (induction v rule: canon.induct)
  case (2 d)
  have "map (\<lambda>(k, v). (k, canon v)) (canon_items d) = canon_items d"
    using "2.IH" by (intro map_idI) (auto simp: set_canon_items)
  then show ?case
    by (simp add: canon_items_def [of "canon_items d"] sort_items_id sorted_canon_items)
qed simp_all

lemma wf_val_canon [simp]: "wf_val v \<Longrightarrow> wf_val (canon v)"
proof (induction v rule: canon.induct)
  case (2 d)
  then show ?case by (auto simp: list_all_iff set_canon_items)
qed (simp_all add: list_all_iff)

lemma canon_atom [simp]:
  "canon v = PStr s \<longleftrightarrow> v = PStr s" "canon v = PInt i \<longleftrightarrow> v = PInt i"
  "canon v = PBool b \<longleftrightarrow> v = PBool b" "canon v = PNone \<longleftrightarrow> v = PNone"
  "canon v = PFloat f \<longleftrightarrow> v = PFloat f"
  by (cases v; auto)+

lemma canon_PList_iff: "canon v = PList ys \<longleftrightarrow> (\<exists>xs. v = PList xs \<and> ys = map canon xs)"
  by (cases v) auto

lemma canon_PDict_iff: "canon v = PDict e \<longleftrightarrow> (\<exists>d. v = PDict d \<and> e = canon_items d)"
  by (cases v) auto

lemma wf_val_lookup: "wf_val (PDict d) \<Longrightarrow> map_of d k = Some v \<Longrightarrow> wf_val v"
  by (auto simp: list_all_iff dest!: map_of_SomeD)

section \<open>Equality\<close>

text \<open>
  Python's \<open>==\<close>: numbers compare by value across \<open>bool\<close>, \<open>int\<close> and
  \<open>float\<close>, and dictionaries ignore the order of their keys.
\<close>

fun num_units :: "pyval \<Rightarrow> int option" where
  "num_units (PBool b) = Some (if b then int unit_one else 0)"
| "num_units (PInt i) = Some (i * int unit_one)"
| "num_units (PFloat (FFin s n)) = Some (fkey (FFin s n))"
| "num_units v = None"

fun py_eq :: "pyval \<Rightarrow> pyval \<Rightarrow> bool" where
  "py_eq PNone w = (w = PNone)"
| "py_eq (PStr s) w = (w = PStr s)"
| "py_eq (PList xs) w = (case w of PList ys \<Rightarrow> list_all2 py_eq xs ys | _ \<Rightarrow> False)"
| "py_eq (PDict d) w =
     (case w of
        PDict d' \<Rightarrow>
          length d = length d' \<and>
          list_all (\<lambda>(k, v). case map_of d' k of None \<Rightarrow> False | Some v' \<Rightarrow> py_eq v v') d
      | _ \<Rightarrow> False)"
| "py_eq (PFloat (FInf s)) w = (w = PFloat (FInf s))"
| "py_eq (PFloat FNaN) w = False"
| "py_eq v w = (num_units w = num_units v)"

end
