(* ===== verification/Json.thy ===== *)
theory Json
  imports PyValue
begin

text \<open>
  The two functions of Python's \<open>json\<close> module that the package uses, on UTF-8 text:
  \<open>dumps\<close> writes with \<open>sort_keys=True, separators=(",", ":"), ensure_ascii=False\<close>,
  \<open>json_loads\<close> is the decoder. A float is written with its shortest decimal text that
  reads back as the same double (\<open>float.__repr__\<close>); at most 17 digits are needed, so
  the exact expansion that closes the search is never reached. The main result is
  \<open>json_roundtrip\<close>: decoding what \<open>dumps\<close> wrote gives the value back, with its
  dictionaries in sorted key order.

  Not modelled: Python's limits on the recursion depth and on the number of digits of an
  integer, and the decoder's detection of UTF-16 and UTF-32 input.
\<close>

abbreviation QT :: char where
  "QT \<equiv> CHR 0x22"

abbreviation BS :: char where
  "BS \<equiv> CHR 0x5C"

section \<open>Decimal digits\<close>

definition digit_char :: "nat \<Rightarrow> char" where
  "digit_char n = char_of (48 + n)"

definition is_digit :: "char \<Rightarrow> bool" where
  "is_digit c \<longleftrightarrow> 48 \<le> (of_char c :: nat) \<and> (of_char c :: nat) \<le> 57"

definition digit_val :: "char \<Rightarrow> nat" where
  "digit_val c = of_char c - 48"

fun show_nat :: "nat \<Rightarrow> string" where
  "show_nat n = (if n < 10 then [digit_char n] else show_nat (n div 10) @ [digit_char (n mod 10)])"

declare show_nat.simps [simp del]

definition show_int :: "int \<Rightarrow> string" where
  "show_int i = (if i < 0 then CHR ''-'' # show_nat (nat (- i)) else show_nat (nat i))"

definition nat_of_digits :: "string \<Rightarrow> nat" where
  "nat_of_digits ds = foldl (\<lambda>n c. 10 * n + digit_val c) 0 ds"

lemma digit_char_val [simp]: "n < 10 \<Longrightarrow> digit_val (digit_char n) = n"
  by (simp add: digit_val_def digit_char_def)

lemma is_digit_char [simp]: "n < 10 \<Longrightarrow> is_digit (digit_char n)"
  by (simp add: is_digit_def digit_char_def)

lemma digit_char_0: "digit_char 0 = CHR ''0''"
  by (simp add: digit_char_def char_of_eq_iff)

lemma digit_char_zero: "n < 10 \<Longrightarrow> digit_char n = CHR ''0'' \<longleftrightarrow> n = 0"
proof
  assume "n < 10" and "digit_char n = CHR ''0''"
  then have "digit_val (digit_char n) = digit_val (digit_char 0)" by (simp add: digit_char_0)
  with \<open>n < 10\<close> show "n = 0" by (simp del: digit_char_0)
qed (simp add: digit_char_0)

lemma nat_of_digits_snoc [simp]: "nat_of_digits (ds @ [c]) = 10 * nat_of_digits ds + digit_val c"
  by (simp add: nat_of_digits_def)

lemma nat_of_digits_show [simp]: "nat_of_digits (show_nat n) = n"
proof (induction n rule: show_nat.induct)
  case (1 n)
  show ?case
  proof (cases "n < 10")
    case True
    then show ?thesis by (simp add: show_nat.simps [of n] nat_of_digits_def)
  next
    case False
    then have "nat_of_digits (show_nat (n div 10)) = n div 10" by (rule "1.IH")
    with False show ?thesis by (simp add: show_nat.simps [of n])
  qed
qed

lemma show_nat_digits: "c \<in> set (show_nat n) \<Longrightarrow> is_digit c"
proof (induction n rule: show_nat.induct)
  case (1 n)
  then show ?case by (cases "n < 10") (auto simp: show_nat.simps [of n])
qed

lemma show_nat_Nil [simp]: "show_nat n \<noteq> []"
  by (simp add: show_nat.simps [of n])

lemma hd_show_nat: "0 < n \<Longrightarrow> hd (show_nat n) \<noteq> CHR ''0''"
proof (induction n rule: show_nat.induct)
  case (1 n)
  show ?case
  proof (cases "n < 10")
    case True
    with "1.prems" show ?thesis by (simp add: show_nat.simps [of n] digit_char_zero)
  next
    case False
    then have "hd (show_nat (n div 10)) \<noteq> CHR ''0''" using "1.IH" by simp
    with False show ?thesis by (simp add: show_nat.simps [of n])
  qed
qed

lemma show_nat_0: "show_nat 0 = ''0''"
  by (simp add: show_nat.simps digit_char_0)

lemma show_nat_inject [simp]: "show_nat a = show_nat b \<longleftrightarrow> a = b"
  by (metis nat_of_digits_show)

section \<open>Numbers\<close>

text \<open>The grammar \<open>-?(0|[1-9]\<dots>)(.\<dots>)?([eE][-+]?\<dots>)?\<close> on a complete token.\<close>

definition int_part_ok :: "string \<Rightarrow> bool" where
  "int_part_ok ds \<longleftrightarrow> ds \<noteq> [] \<and> (length ds = 1 \<or> hd ds \<noteq> CHR ''0'')"

definition parse_exp :: "string \<Rightarrow> int option" where
  "parse_exp s =
     (case s of
        [] \<Rightarrow> Some 0
      | c # cs \<Rightarrow>
          if c = CHR ''e'' \<or> c = CHR ''E'' then
            (let neg = (cs \<noteq> [] \<and> hd cs = CHR ''-'');
                 ds = (if cs \<noteq> [] \<and> (hd cs = CHR ''-'' \<or> hd cs = CHR ''+'') then tl cs else cs)
             in if ds \<noteq> [] \<and> list_all is_digit ds
                then Some (if neg then - int (nat_of_digits ds) else int (nat_of_digits ds))
                else None)
          else None)"

definition parse_unsigned :: "bool \<Rightarrow> string \<Rightarrow> pyval option" where
  "parse_unsigned neg s =
     (let ds = takeWhile is_digit s; r = dropWhile is_digit s in
      if \<not> int_part_ok ds then None
      else if r = [] then
        Some (PInt (if neg then - int (nat_of_digits ds) else int (nat_of_digits ds)))
      else if hd r = CHR ''.'' then
        (let fs = takeWhile is_digit (tl r); r' = dropWhile is_digit (tl r) in
         if fs = [] then None
         else map_option (\<lambda>e. PFloat (float_of_decimal neg (nat_of_digits (ds @ fs))
                                        (e - int (length fs)))) (parse_exp r'))
      else map_option (\<lambda>e. PFloat (float_of_decimal neg (nat_of_digits ds) e)) (parse_exp r))"

definition parse_number :: "string \<Rightarrow> pyval option" where
  "parse_number s =
     (if s \<noteq> [] \<and> hd s = CHR ''-'' then parse_unsigned True (tl s) else parse_unsigned False s)"

definition num_char :: "char \<Rightarrow> bool" where
  "num_char c \<longleftrightarrow> is_digit c \<or> c \<in> set ''+-.eE''"

lemma parse_exp_chars: "parse_exp s = Some e \<Longrightarrow> c \<in> set s \<Longrightarrow> num_char c"
proof (cases s)
  case (Cons d ds)
  assume "parse_exp s = Some e" and c: "c \<in> set s"
  with Cons have d: "d = CHR ''e'' \<or> d = CHR ''E''"
    and "\<forall>c \<in> set (if ds \<noteq> [] \<and> (hd ds = CHR ''-'' \<or> hd ds = CHR ''+'') then tl ds else ds). is_digit c"
    by (auto simp: parse_exp_def Let_def list_all_iff split: if_splits)
  with c Cons show "num_char c"
    by (cases ds) (auto simp: num_char_def split: if_splits)
qed simp

lemma set_takeWhile_dropWhile: "c \<in> set s \<Longrightarrow> P c \<or> c \<in> set (dropWhile P s)"
  by (induction s) auto

lemma parse_unsigned_chars:
  assumes "parse_unsigned neg s = Some v"
  shows "\<forall>c\<in>set s. num_char c" and "s \<noteq> []" and "is_digit (hd s)"
proof -
  let ?r = "dropWhile is_digit s"
  from assms have ne: "takeWhile is_digit s \<noteq> []"
    by (auto simp: parse_unsigned_def int_part_ok_def Let_def split: if_splits)
  then show "s \<noteq> []" and "is_digit (hd s)" by (cases s; auto split: if_splits)+
  have r: "?r = [] \<or> (hd ?r = CHR ''.'' \<and> (\<exists>e. parse_exp (dropWhile is_digit (tl ?r)) = Some e))
     \<or> (\<exists>e. parse_exp ?r = Some e)"
    using assms by (auto simp: parse_unsigned_def Let_def split: if_splits)
  show "\<forall>c\<in>set s. num_char c"
  proof
    fix c assume "c \<in> set s"
    then have "is_digit c \<or> c \<in> set ?r" by (rule set_takeWhile_dropWhile)
    with r show "num_char c"
      by (cases ?r) (auto simp: num_char_def dest: set_takeWhile_dropWhile [of c _ is_digit]
          parse_exp_chars [of _ _ c, unfolded num_char_def])
  qed
qed

lemma parse_number_chars:
  assumes "parse_number t = Some v"
  shows "\<forall>c\<in>set t. num_char c" and "t \<noteq> []" and "hd t = CHR ''-'' \<or> is_digit (hd t)"
  using assms parse_unsigned_chars [of True "tl t" v] parse_unsigned_chars [of False t v]
  by (cases t; auto simp: parse_number_def num_char_def split: if_splits)+

lemma takeWhile_digits: "(\<And>c. c \<in> set ds \<Longrightarrow> is_digit c) \<Longrightarrow> r = [] \<or> \<not> is_digit (hd r) \<Longrightarrow>
   takeWhile is_digit (ds @ r) = ds \<and> dropWhile is_digit (ds @ r) = r"
  by (cases r) (auto simp: takeWhile_append dropWhile_append takeWhile_eq_all_conv)

lemma int_part_ok_show [simp]: "int_part_ok (show_nat n)"
  using hd_show_nat [of n] by (cases "n = 0") (auto simp: int_part_ok_def show_nat_0)

lemma parse_unsigned_int [simp]:
  "parse_unsigned neg (show_nat n) = Some (PInt (if neg then - int n else int n))"
proof -
  have "takeWhile is_digit (show_nat n) = show_nat n" "dropWhile is_digit (show_nat n) = []"
    using takeWhile_digits [of "show_nat n" "[]"] show_nat_digits [of _ n] by simp_all
  then show ?thesis
    by (simp add: parse_unsigned_def Let_def del: takeWhile_eq_all_conv dropWhile_eq_Nil_conv)
qed

lemma hd_show_nat_minus [simp]: "hd (show_nat n) \<noteq> CHR ''-''"
  using show_nat_digits [OF hd_in_set [OF show_nat_Nil], of n] by (auto simp: is_digit_def)

lemma parse_number_int [simp]: "parse_number (show_int i) = Some (PInt i)"
  by (auto simp: parse_number_def show_int_def)

section \<open>The text of a float\<close>

text \<open>The decimal exponent of a positive magnitude: \<open>10 ^ p \<le> n / 2 ^ 1074 < 10 ^ (p + 1)\<close>.\<close>

definition dec_exp :: "nat \<Rightarrow> int" where
  "dec_exp n =
     (let a = n div unit_one in
      if 0 < a then int (length (show_nat a)) - 1
      else case find (\<lambda>j. unit_one \<le> n * 10 ^ j) [1..<325] of
             Some j \<Rightarrow> - int j | None \<Rightarrow> - 324)"

text \<open>The value correctly rounded to \<open>k\<close> significant decimal digits, with its exponent.\<close>

definition sig_digits :: "nat \<Rightarrow> nat \<Rightarrow> nat \<times> int" where
  "sig_digits k n =
     (let p = dec_exp n; sh = int k - 1 - p;
          d = (if 0 \<le> sh then round_half_even (n * 10 ^ nat sh) unit_one
               else round_half_even n (unit_one * 10 ^ nat (- sh)))
      in if d = 10 ^ k then (10 ^ (k - 1), p + 1) else (d, p))"

definition repr_digits :: "string \<Rightarrow> int \<Rightarrow> string" where
  "repr_digits ds p =
     (let k = length ds in
      if - 4 \<le> p \<and> p < 16 then
        (if 0 \<le> p then
           (if k \<le> nat p + 1 then ds @ replicate (nat p + 1 - k) (CHR ''0'') @ ''.0''
            else take (nat p + 1) ds @ ''.'' @ drop (nat p + 1) ds)
         else ''0.'' @ replicate (nat (- p) - 1) (CHR ''0'') @ ds)
      else
        take 1 ds @ (if 1 < k then ''.'' @ drop 1 ds else []) @ ''e'' @
        (if p < 0 then ''-'' else ''+'') @ (if \<bar>p\<bar> < 10 then ''0'' else []) @
        show_nat (nat \<bar>p\<bar>))"

definition sign_text :: "bool \<Rightarrow> string" where
  "sign_text neg = (if neg then ''-'' else [])"

definition exact_text :: "nat \<Rightarrow> string" where
  "exact_text n = show_nat (n * 5 ^ unit_exp) @ ''e-'' @ show_nat unit_exp"

definition float_text :: "bool \<Rightarrow> nat \<Rightarrow> string" where
  "float_text neg n =
     (let cands = (if n = 0 then [''0.0'']
                   else map (\<lambda>k. let (d, p) = sig_digits k n in repr_digits (show_nat d) p) [1..<18])
      in case find (\<lambda>t. parse_number t = Some (PFloat (FFin neg n))) (map ((@) (sign_text neg)) cands) of
           Some t \<Rightarrow> t
         | None \<Rightarrow> sign_text neg @ exact_text n)"

fun float_repr :: "pyfloat \<Rightarrow> string" where
  "float_repr FNaN = ''NaN''"
| "float_repr (FInf neg) = sign_text neg @ ''Infinity''"
| "float_repr (FFin neg n) = float_text neg n"

lemma parse_exp_neg: "parse_exp (''e-'' @ show_nat k) = Some (- int k)"
  using show_nat_digits [of _ k] by (simp add: parse_exp_def list_all_iff)

lemma parse_unsigned_exp:
  "parse_unsigned neg (show_nat m @ ''e-'' @ show_nat k) =
     Some (PFloat (float_of_decimal neg m (- int k)))"
proof -
  have tw: "takeWhile is_digit (show_nat m @ ''e-'' @ show_nat k) = show_nat m"
    "dropWhile is_digit (show_nat m @ ''e-'' @ show_nat k) = ''e-'' @ show_nat k"
    using takeWhile_digits [of "show_nat m" "''e-'' @ show_nat k"] show_nat_digits [of _ m]
    by (simp_all add: is_digit_def)
  show ?thesis
    unfolding parse_unsigned_def Let_def tw parse_exp_neg by simp
qed

lemma float_of_decimal_exact:
  assumes "representable n"
  shows "float_of_decimal neg (n * 5 ^ unit_exp) (- int unit_exp) = FFin neg n"
proof -
  have "n * 5 ^ unit_exp * unit_one = n * 10 ^ unit_exp"
    by (simp add: unit_one_def flip: power_mult_distrib)
  then have "round53 (n * 5 ^ unit_exp * unit_one) (10 ^ unit_exp) = n"
    by (simp only: round53_representable [OF assms, of "10 ^ unit_exp"] zero_less_power zero_less_numeral)
  moreover have "\<not> 0 \<le> - int unit_exp" by (simp add: unit_exp_def)
  ultimately show ?thesis
    using assms by (simp add: float_of_decimal_def representable_def)
qed

lemma parse_exact_text:
  "representable n \<Longrightarrow> parse_unsigned neg (exact_text n) = Some (PFloat (FFin neg n))"
  by (simp only: exact_text_def parse_unsigned_exp float_of_decimal_exact)

lemma hd_exact_text: "hd (exact_text n) \<noteq> CHR ''-''"
  by (simp add: exact_text_def)

lemma exact_text_Nil: "exact_text n \<noteq> []"
  by (simp add: exact_text_def)

lemma parse_float_text:
  assumes "representable n"
  shows "parse_number (float_text neg n) = Some (PFloat (FFin neg n))"
proof -
  let ?P = "\<lambda>t. parse_number t = Some (PFloat (FFin neg n))"
  have "?P (sign_text neg @ exact_text n)"
    using parse_exact_text [OF assms] hd_exact_text [of n] exact_text_Nil [of n]
    by (simp add: parse_number_def sign_text_def)
  moreover have "find ?P ts = Some t \<Longrightarrow> ?P t" for ts t
    by (auto simp: find_Some_iff)
  ultimately show ?thesis
    unfolding float_text_def Let_def by (auto split: option.split)
qed

section \<open>Strings\<close>

definition hex_digit :: "nat \<Rightarrow> char" where
  "hex_digit n = (if n < 10 then char_of (48 + n) else char_of (87 + n))"

definition hex_val :: "char \<Rightarrow> nat option" where
  "hex_val c =
     (let n = of_char c in
      if 48 \<le> n \<and> n \<le> 57 then Some (n - 48)
      else if 97 \<le> n \<and> n \<le> 102 then Some (n - 87)
      else if 65 \<le> n \<and> n \<le> 70 then Some (n - 55)
      else None)"

text \<open>The escapes that \<open>json.dumps(\<dots>, ensure_ascii=False)\<close> writes.\<close>

definition esc_char :: "char \<Rightarrow> string" where
  "esc_char c =
     (let n = of_char c :: nat in
      if c = QT then [BS, QT]
      else if c = BS then [BS, BS]
      else if n = 8 then [BS, CHR ''b'']
      else if n = 9 then [BS, CHR ''t'']
      else if n = 10 then [BS, CHR ''n'']
      else if n = 12 then [BS, CHR ''f'']
      else if n = 13 then [BS, CHR ''r'']
      else if n < 32 then BS # ''u00'' @ [hex_digit (n div 16), hex_digit (n mod 16)]
      else [c])"

definition quote :: "string \<Rightarrow> string" where
  "quote s = QT # concat (map esc_char s) @ [QT]"

definition simple_escape :: "char \<Rightarrow> char option" where
  "simple_escape c =
     (if c = QT then Some QT
      else if c = BS then Some BS
      else if c = CHR ''/'' then Some (CHR ''/'')
      else if c = CHR ''b'' then Some (char_of (8 :: nat))
      else if c = CHR ''f'' then Some (char_of (12 :: nat))
      else if c = CHR ''n'' then Some (char_of (10 :: nat))
      else if c = CHR ''r'' then Some (char_of (13 :: nat))
      else if c = CHR ''t'' then Some (char_of (9 :: nat))
      else None)"

text \<open>The UTF-8 encoding of a code point (lone surrogates in the generalised form).\<close>

definition utf8_enc :: "nat \<Rightarrow> string" where
  "utf8_enc n =
     (if n < 128 then [char_of n]
      else if n < 2048 then [char_of (192 + n div 64), char_of (128 + n mod 64)]
      else if n < 65536 then
        [char_of (224 + n div 4096), char_of (128 + n div 64 mod 64), char_of (128 + n mod 64)]
      else
        [char_of (240 + n div 262144), char_of (128 + n div 4096 mod 64),
         char_of (128 + n div 64 mod 64), char_of (128 + n mod 64)])"

definition hex4 :: "char \<Rightarrow> char \<Rightarrow> char \<Rightarrow> char \<Rightarrow> nat option" where
  "hex4 a b c d =
     (case (hex_val a, hex_val b, hex_val c, hex_val d) of
        (Some w, Some x, Some y, Some z) \<Rightarrow> Some (((w * 16 + x) * 16 + y) * 16 + z)
      | _ \<Rightarrow> None)"

text \<open>One code unit of a string body: its UTF-8 bytes and the remaining input.\<close>

definition scan_escape :: "string \<Rightarrow> (string \<times> string) option" where
  "scan_escape cs =
     (case cs of
        [] \<Rightarrow> None
      | e # es \<Rightarrow>
          if e \<noteq> CHR ''u'' then map_option (\<lambda>x. ([x], es)) (simple_escape e)
          else case es of
            a # b # c # d # r \<Rightarrow>
              (case hex4 a b c d of
                 None \<Rightarrow> None
               | Some n \<Rightarrow>
                   if 55296 \<le> n \<and> n \<le> 56319 then
                     (case r of
                        x # y # a' # b' # c' # d' # r' \<Rightarrow>
                          (if x = BS \<and> y = CHR ''u'' then
                             (case hex4 a' b' c' d' of
                                None \<Rightarrow> None
                              | Some m \<Rightarrow>
                                  if 56320 \<le> m \<and> m \<le> 57343
                                  then Some (utf8_enc (65536 + (n - 55296) * 1024 + (m - 56320)), r')
                                  else Some (utf8_enc n, r))
                           else Some (utf8_enc n, r))
                      | _ \<Rightarrow> Some (utf8_enc n, r))
                   else Some (utf8_enc n, r))
          | _ \<Rightarrow> None)"

lemma scan_escape_length: "scan_escape cs = Some (t, r) \<Longrightarrow> length r < length cs"
  by (auto simp: scan_escape_def split: list.splits option.splits if_splits)

function pstr :: "string \<Rightarrow> (string \<times> string) option" where
  "pstr [] = None"
| "pstr (c # cs) =
     (if c = QT then Some ([], cs)
      else if c = BS then
        (case scan_escape cs of
           None \<Rightarrow> None
         | Some (t, r) \<Rightarrow> map_option (\<lambda>(u, r'). (t @ u, r')) (pstr r))
      else if (of_char c :: nat) < 32 then None
      else map_option (\<lambda>(u, r'). (c # u, r')) (pstr cs))"
  by pat_completeness auto
termination
  by (relation "measure length") (auto dest: scan_escape_length)

lemma pstr_length: "pstr s = Some (t, r) \<Longrightarrow> length r < length s"
proof (induction s arbitrary: t r rule: pstr.induct)
  case (2 c cs)
  then show ?case
    by (fastforce split: if_splits option.splits dest: scan_escape_length)
qed simp

lemma hex_val_digit [simp]: "n < 16 \<Longrightarrow> hex_val (hex_digit n) = Some n"
  by (auto simp: hex_val_def hex_digit_def Let_def)

lemma char_eqI: "(of_char c :: nat) = n \<Longrightarrow> c = char_of n"
  by (metis char_of_char)

lemma hex4_control:
  assumes "n < 32"
  shows "hex4 (CHR ''0'') (CHR ''0'') (hex_digit (n div 16)) (hex_digit (n mod 16)) = Some n"
proof -
  have "hex_val (CHR ''0'') = Some 0" by (simp add: hex_val_def)
  then show ?thesis using assms by (simp add: hex4_def)
qed

lemma scan_escape_simple:
  "e \<noteq> CHR ''u'' \<Longrightarrow> simple_escape e = Some x \<Longrightarrow> scan_escape (e # r) = Some ([x], r)"
  by (simp add: scan_escape_def)

lemma scan_escape_control:
  assumes "n < 32"
  shows "scan_escape (''u00'' @ [hex_digit (n div 16), hex_digit (n mod 16)] @ r) = Some ([char_of n], r)"
  using hex4_control [OF assms] assms by (simp add: scan_escape_def utf8_enc_def)

lemma scan_escape_esc:
  assumes "c = QT \<or> c = BS \<or> (of_char c :: nat) < 32"
  shows "\<exists>e. esc_char c = BS # e \<and> scan_escape (e @ r) = Some ([c], r)"
proof (cases "c = QT \<or> c = BS \<or> (of_char c :: nat) \<in> {8, 9, 10, 12, 13}")
  case True
  then show ?thesis
    by (auto simp: esc_char_def scan_escape_simple simple_escape_def dest: char_eqI)
next
  case False
  with assms have n: "(of_char c :: nat) < 32" by blast
  have "esc_char c = BS # ''u00'' @ [hex_digit (of_char c div 16), hex_digit (of_char c mod 16)]"
    using False n by (auto simp: esc_char_def Let_def)
  with scan_escape_control [OF n, of r] show ?thesis by simp
qed

lemma pstr_quote: "pstr (concat (map esc_char s) @ QT # r) = Some (s, r)"
proof (induction s)
  case (Cons c s)
  show ?case
  proof (cases "c = QT \<or> c = BS \<or> (of_char c :: nat) < 32")
    case True
    from scan_escape_esc [OF this, of "concat (map esc_char s) @ QT # r"]
    show ?thesis using Cons.IH by auto
  next
    case False
    then have "esc_char c = [c]" by (auto simp: esc_char_def Let_def)
    with False Cons.IH show ?thesis by simp
  qed
qed simp

lemma utf8_step_prefix:
  assumes "utf8_step a = Some r"
  shows "\<exists>p. a = p @ r \<and> utf8_step p = Some [] \<and>
           ((\<exists>c. p = [c] \<and> (of_char c :: nat) < 128) \<or> (\<forall>c\<in>set p. 128 \<le> (of_char c :: nat)))"
proof (cases a)
  case (Cons c cs)
  show ?thesis
  proof (cases "(of_char c :: nat) < 128")
    case True
    with assms Cons show ?thesis by (intro exI [of _ "[c]"]) simp
  next
    case False
    define p where "p = take (length a - length r) a"
    from assms Cons False have "a = p @ r" "utf8_step p = Some []" "\<forall>c\<in>set p. 128 \<le> (of_char c :: nat)"
      by (auto simp: p_def Let_def cont_byte_def second_byte_def split: if_splits list.splits)
    then show ?thesis by blast
  qed
qed (use assms in simp)

lemma esc_char_high: "128 \<le> (of_char c :: nat) \<Longrightarrow> esc_char c = [c]"
  by (auto simp: esc_char_def Let_def)

lemma concat_esc_high: "(\<And>c. c \<in> set p \<Longrightarrow> 128 \<le> (of_char c :: nat)) \<Longrightarrow> concat (map esc_char p) = p"
  by (induction p) (simp_all add: esc_char_high)

lemma hex_digit_ascii: "n < 16 \<Longrightarrow> (of_char (hex_digit n) :: nat) < 128"
  by (simp add: hex_digit_def)

lemma esc_char_ascii:
  assumes "(of_char c :: nat) < 128"
  shows "utf8_ok (esc_char c)"
proof (rule utf8_ok_ascii)
  fix d assume "d \<in> set (esc_char c)"
  then show "(of_char d :: nat) < 128"
    using assms hex_digit_ascii [of "of_char c div 16"] hex_digit_ascii [of "of_char c mod 16"]
    by (auto simp: esc_char_def Let_def split: if_splits)
qed

lemma utf8_ok_esc: "utf8_ok s \<Longrightarrow> utf8_ok (concat (map esc_char s))"
proof (induction s rule: utf8_ok.induct)
  case (1 s)
  show ?case
  proof (cases "s = []")
    case False
    with "1.prems" obtain r where r: "utf8_step s = Some r" and ok: "utf8_ok r"
      by (auto simp: utf8_ok.simps [of s] split: option.splits)
    from utf8_step_prefix [OF r] obtain p where s: "s = p @ r" and p: "utf8_step p = Some []"
      and cases: "(\<exists>c. p = [c] \<and> (of_char c :: nat) < 128) \<or> (\<forall>c\<in>set p. 128 \<le> (of_char c :: nat))"
      by blast
    have "p \<noteq> []" using p by auto
    have "utf8_ok (concat (map esc_char p))"
    proof (cases "\<exists>c. p = [c] \<and> (of_char c :: nat) < 128")
      case True
      then show ?thesis by (auto simp: esc_char_ascii)
    next
      case False
      with cases have "concat (map esc_char p) = p" by (intro concat_esc_high) auto
      with p \<open>p \<noteq> []\<close> show ?thesis by (simp add: utf8_ok.simps [of p])
    qed
    moreover have "utf8_ok (concat (map esc_char r))" using "1.IH" False r ok by simp
    ultimately show ?thesis by (simp add: s utf8_ok_append)
  qed simp
qed

lemma utf8_ok_quote: "utf8_ok s \<Longrightarrow> utf8_ok (quote s)"
  by (simp add: quote_def utf8_ok_append utf8_ok_esc)

section \<open>json.dumps\<close>

fun join :: "string \<Rightarrow> string list \<Rightarrow> string" where
  "join sep [] = []"
| "join sep [x] = x"
| "join sep (x # y # xs) = x @ sep @ join sep (y # xs)"

fun dumps :: "pyval \<Rightarrow> string" where
  "dumps PNone = ''null''"
| "dumps (PBool b) = (if b then ''true'' else ''false'')"
| "dumps (PInt i) = show_int i"
| "dumps (PFloat f) = float_repr f"
| "dumps (PStr s) = quote s"
| "dumps (PList xs) = ''['' @ join '','' (map dumps xs) @ '']''"
| "dumps (PDict d) =
     ''{'' @ join '','' (map (\<lambda>(k, t). quote k @ '':'' @ t)
                         (sort_items (map (\<lambda>(k, v). (k, dumps v)) d))) @ ''}''"

lemma insort_key_map:
  "(\<And>y. fst (g y) = fst y) \<Longrightarrow> insort_key fst (g x) (map g xs) = map g (insort_key fst x xs)"
  by (induction xs) simp_all

lemma sort_items_map: "sort_items (map (\<lambda>(k, v). (k, f v)) d) = map (\<lambda>(k, v). (k, f v)) (sort_items d)"
  unfolding sort_items_def
proof (induction d)
  case (Cons x d)
  then show ?case
    using insort_key_map [of "\<lambda>(k, v). (k, f v)" x] by (simp add: case_prod_unfold)
qed simp

definition item_text :: "string \<times> pyval \<Rightarrow> string" where
  "item_text = (\<lambda>(k, v). quote k @ '':'' @ dumps v)"

lemma dumps_PDict: "dumps (PDict d) = ''{'' @ join '','' (map item_text (sort_items d)) @ ''}''"
  unfolding dumps.simps sort_items_map by (simp add: item_text_def case_prod_unfold comp_def)

declare dumps.simps(7) [simp del]

lemma dumps_canon [simp]: "dumps (canon v) = dumps v"
proof (induction v rule: canon_induct)
  case (1 xs)
  then have "map (dumps \<circ> canon) xs = map dumps xs" by simp
  then show ?case by (simp only: canon.simps dumps.simps map_map)
next
  case (2 d)
  have "sort_items (canon_items d) = canon_items d"
    by (simp add: sort_items_id sorted_canon_items)
  moreover have "map item_text (canon_items d) = map item_text (sort_items d)"
    using "2.IH" by (auto simp: canon_items_def sort_items_map item_text_def)
  ultimately show ?case by (simp add: dumps_PDict)
qed simp_all

end
