(* ===== verification/JsonDecode.thy ===== *)
theory JsonDecode
  imports Json
begin

text \<open>
  \<open>json.loads\<close> on UTF-8 bytes, as a recursive-descent parser with fuel, and the round
  trip with \<open>dumps\<close>. Every nesting level spends two units of fuel and consumes at least
  one character, so \<open>2 * length + 2\<close> units are enough: \<open>pval_enough\<close> shows that any
  larger amount gives the same result, failures included.
\<close>

section \<open>The decoder\<close>

definition is_ws :: "char \<Rightarrow> bool" where
  "is_ws c \<longleftrightarrow> c = CHR '' '' \<or> (of_char c :: nat) \<in> {9, 10, 13}"

definition skip_ws :: "string \<Rightarrow> string" where
  "skip_ws s = dropWhile is_ws s"

text \<open>A repeated name replaces the earlier value (\<open>dict(pairs)\<close>).\<close>

definition dict_of :: "(string \<times> pyval) list \<Rightarrow> (string \<times> pyval) list" where
  "dict_of ps = foldl (\<lambda>d (k, v). dict_set k v d) [] ps"

definition pconst :: "string \<Rightarrow> (pyval \<times> string) option" where
  "pconst s =
     (if take 3 s = ''NaN'' then Some (PFloat FNaN, drop 3 s)
      else if take 8 s = ''Infinity'' then Some (PFloat (FInf False), drop 8 s)
      else if take 9 s = ''-Infinity'' then Some (PFloat (FInf True), drop 9 s)
      else None)"

definition pnumber :: "bool \<Rightarrow> string \<Rightarrow> (pyval \<times> string) option" where
  "pnumber st s =
     (case parse_number (takeWhile num_char s) of
        Some v \<Rightarrow> Some (v, dropWhile num_char s)
      | None \<Rightarrow> if st then None else pconst s)"

definition patom :: "bool \<Rightarrow> string \<Rightarrow> (pyval \<times> string) option" where
  "patom st s =
     (if take 4 s = ''null'' then Some (PNone, drop 4 s)
      else if take 4 s = ''true'' then Some (PBool True, drop 4 s)
      else if take 5 s = ''false'' then Some (PBool False, drop 5 s)
      else pnumber st s)"

fun pval :: "bool \<Rightarrow> nat \<Rightarrow> string \<Rightarrow> (pyval \<times> string) option"
  and pelems :: "bool \<Rightarrow> nat \<Rightarrow> string \<Rightarrow> (pyval list \<times> string) option"
  and pmembers :: "bool \<Rightarrow> nat \<Rightarrow> string \<Rightarrow> ((string \<times> pyval) list \<times> string) option" where
  "pval st 0 s = None"
| "pval st (Suc f) s =
     (case s of
        [] \<Rightarrow> None
      | c # cs \<Rightarrow>
          if c = QT then map_option (\<lambda>(t, r). (PStr t, r)) (pstr cs)
          else if c = CHR ''{'' then
            (case skip_ws cs of
               [] \<Rightarrow> None
             | d # ds \<Rightarrow>
                 if d = CHR ''}'' then Some (PDict [], ds)
                 else case pmembers st f (d # ds) of
                   None \<Rightarrow> None
                 | Some (ps, r) \<Rightarrow> if st \<and> \<not> distinct (map fst ps) then None else Some (PDict (dict_of ps), r))
          else if c = CHR ''['' then
            (case skip_ws cs of
               [] \<Rightarrow> None
             | d # ds \<Rightarrow>
                 if d = CHR '']'' then Some (PList [], ds)
                 else map_option (\<lambda>(vs, r). (PList vs, r)) (pelems st f (d # ds)))
          else patom st s)"
| "pelems st 0 s = None"
| "pelems st (Suc f) s =
     (case pval st f s of
        None \<Rightarrow> None
      | Some (v, r) \<Rightarrow>
          (case skip_ws r of
             [] \<Rightarrow> None
           | d # ds \<Rightarrow>
               if d = CHR '']'' then Some ([v], ds)
               else if d = CHR '','' then map_option (\<lambda>(vs, r'). (v # vs, r')) (pelems st f (skip_ws ds))
               else None))"
| "pmembers st 0 s = None"
| "pmembers st (Suc f) s =
     (case s of
        [] \<Rightarrow> None
      | c # cs \<Rightarrow>
          if c \<noteq> QT then None
          else case pstr cs of
            None \<Rightarrow> None
          | Some (k, r) \<Rightarrow>
              (case skip_ws r of
                 [] \<Rightarrow> None
               | d # ds \<Rightarrow>
                   if d \<noteq> CHR '':'' then None
                   else case pval st f (skip_ws ds) of
                     None \<Rightarrow> None
                   | Some (v, r2) \<Rightarrow>
                       (case skip_ws r2 of
                          [] \<Rightarrow> None
                        | e # es \<Rightarrow>
                            if e = CHR ''}'' then Some ([(k, v)], es)
                            else if e = CHR '','' then
                              map_option (\<lambda>(ps, r'). ((k, v) # ps, r')) (pmembers st f (skip_ws es))
                            else None)))"

definition strip_bom :: "string \<Rightarrow> string" where
  "strip_bom s =
     (if take 3 s = [char_of (239 :: nat), char_of (187 :: nat), char_of (191 :: nat)]
      then drop 3 s else s)"

definition json_loads :: "string \<Rightarrow> pyval result" where
  "json_loads s =
     (let t = strip_bom s in
      if \<not> utf8_ok t then Inl (UnicodeDecodeError ''invalid utf-8'')
      else case pval False (2 * length t + 2) (skip_ws t) of
             None \<Rightarrow> Inl (JSONDecodeError ''invalid document'')
           | Some (v, r) \<Rightarrow>
               if skip_ws r = [] then Inr v else Inl (JSONDecodeError ''Extra data''))"

section \<open>The input shrinks, and more fuel changes nothing\<close>

lemma skip_ws_length: "length (skip_ws s) \<le> length s"
  by (simp add: skip_ws_def length_dropWhile_le)

lemma skip_ws_Cons_length: "skip_ws s = d # ds \<Longrightarrow> length ds < length s"
  using skip_ws_length [of s] by simp

lemma patom_length: "s \<noteq> [] \<Longrightarrow> patom st s = Some (v, r) \<Longrightarrow> length r < length s"
proof -
  assume ne: "s \<noteq> []" and p: "patom st s = Some (v, r)"
  have num: "length (dropWhile num_char s) < length s"
    if "parse_number (takeWhile num_char s) = Some w" for w
  proof -
    from parse_number_chars(2) [OF that] have "takeWhile num_char s \<noteq> []" .
    then have "0 < length (takeWhile num_char s)" by simp
    moreover have "length (takeWhile num_char s) + length (dropWhile num_char s) = length s"
      by (metis length_append takeWhile_dropWhile_id)
    ultimately show ?thesis by linarith
  qed
  from p ne num show ?thesis
    by (auto simp: patom_def pnumber_def pconst_def split: if_splits option.splits)
qed

text \<open>Which step of the parser produced a result.\<close>

lemma pval_cases:
  assumes "pval st (Suc f) s = Some (v, r)"
  obtains c cs t where "s = c # cs" "pstr cs = Some (t, r)"
  | c cs d where "s = c # cs" "skip_ws cs = d # r"
  | c cs d ds ps where "s = c # cs" "skip_ws cs = d # ds" "pmembers st f (d # ds) = Some (ps, r)"
  | c cs d ds vs where "s = c # cs" "skip_ws cs = d # ds" "pelems st f (d # ds) = Some (vs, r)"
  | "s \<noteq> []" "patom st s = Some (v, r)"
proof (cases s)
  case (Cons c cs)
  consider "c = QT" | "c = CHR ''{''" | "c = CHR ''[''" | "c \<noteq> QT" "c \<noteq> CHR ''{''" "c \<noteq> CHR ''[''"
    by blast
  then show thesis
  proof cases
    case 1
    with assms Cons that(1) show thesis by auto
  next
    case 2
    with assms Cons that(2,3) show thesis by (auto split: list.splits if_splits option.splits)
  next
    case 3
    with assms Cons that(2,4) show thesis by (auto split: list.splits if_splits)
  next
    case 4
    with assms Cons that(5) show thesis by simp
  qed
qed (use assms in simp)

lemma pelems_cases:
  assumes "pelems st (Suc f) s = Some (vs, r)"
  obtains v r1 d where "pval st f s = Some (v, r1)" "skip_ws r1 = d # r"
  | v r1 d ds vs' where "pval st f s = Some (v, r1)" "skip_ws r1 = d # ds"
      "pelems st f (skip_ws ds) = Some (vs', r)"
  using assms by (auto split: option.splits list.splits if_splits)

lemma pmembers_cases:
  assumes "pmembers st (Suc f) s = Some (ps, r)"
  obtains c cs k r0 d ds v r1 e where "s = c # cs" "pstr cs = Some (k, r0)" "skip_ws r0 = d # ds"
      "pval st f (skip_ws ds) = Some (v, r1)" "skip_ws r1 = e # r"
  | c cs k r0 d ds v r1 e es ps' where "s = c # cs" "pstr cs = Some (k, r0)" "skip_ws r0 = d # ds"
      "pval st f (skip_ws ds) = Some (v, r1)" "skip_ws r1 = e # es"
      "pmembers st f (skip_ws es) = Some (ps', r)"
  using assms by (auto split: option.splits list.splits if_splits)

lemma pparse_length:
  "(\<forall>s v r. pval st f s = Some (v, r) \<longrightarrow> length r < length s) \<and>
   (\<forall>s vs r. pelems st f s = Some (vs, r) \<longrightarrow> length r < length s) \<and>
   (\<forall>s ps r. pmembers st f s = Some (ps, r) \<longrightarrow> length r < length s)"
proof (induction f)
  case (Suc f)
  then have v: "\<And>s v r. pval st f s = Some (v, r) \<Longrightarrow> length r < length s"
    and e: "\<And>s vs r. pelems st f s = Some (vs, r) \<Longrightarrow> length r < length s"
    and m: "\<And>s ps r. pmembers st f s = Some (ps, r) \<Longrightarrow> length r < length s" by blast+
  have "length r < length s" if "pval st (Suc f) s = Some (v, r)" for s v r
    using that by (cases rule: pval_cases)
      (auto dest!: pstr_length patom_length skip_ws_Cons_length e m)
  moreover have "length r < length s" if "pelems st (Suc f) s = Some (vs, r)" for s vs r
    using that
  proof (cases rule: pelems_cases)
    case (2 v r1 d ds vs')
    have "length ds < length s" using v [OF 2(1)] skip_ws_Cons_length [OF 2(2)] by simp
    with e [OF 2(3)] skip_ws_length [of ds] show ?thesis by simp
  qed (auto dest!: v skip_ws_Cons_length)
  moreover have "length r < length s" if "pmembers st (Suc f) s = Some (ps, r)" for s ps r
    using that
  proof (cases rule: pmembers_cases)
    case (1 c cs k r0 d ds v r1 e)
    with pstr_length [OF 1(2)] skip_ws_Cons_length [OF 1(3)] v [OF 1(4)] skip_ws_length [of ds]
      skip_ws_Cons_length [OF 1(5)] show ?thesis by simp
  next
    case (2 c cs k r0 d ds v r1 e es ps')
    with pstr_length [OF 2(2)] skip_ws_Cons_length [OF 2(3)] v [OF 2(4)] skip_ws_length [of ds]
      skip_ws_Cons_length [OF 2(5)] m [OF 2(6)] skip_ws_length [of es] show ?thesis by simp
  qed
  ultimately show ?case by blast
qed simp

lemmas pval_length = pparse_length [THEN conjunct1, rule_format]

text \<open>Two runs with enough fuel agree, whether they succeed or fail.\<close>

lemma pparse_enough:
  "(\<forall>g s. 2 * length s < f \<longrightarrow> f \<le> g \<longrightarrow> pval st f s = pval st g s) \<and>
   (\<forall>g s. 2 * length s + 1 < f \<longrightarrow> f \<le> g \<longrightarrow> pelems st f s = pelems st g s) \<and>
   (\<forall>g s. 2 * length s + 1 < f \<longrightarrow> f \<le> g \<longrightarrow> pmembers st f s = pmembers st g s)"
proof (induction f)
  case (Suc f)
  then have v: "\<And>g s. 2 * length s < f \<Longrightarrow> f \<le> g \<Longrightarrow> pval st f s = pval st g s"
    and e: "\<And>g s. 2 * length s + 1 < f \<Longrightarrow> f \<le> g \<Longrightarrow> pelems st f s = pelems st g s"
    and m: "\<And>g s. 2 * length s + 1 < f \<Longrightarrow> f \<le> g \<Longrightarrow> pmembers st f s = pmembers st g s" by blast+
  have 1: "pval st (Suc f) s = pval st (Suc g) s" if "2 * length s < Suc f" "f \<le> g" for g s
  proof -
    have "pmembers st f (d # ds) = pmembers st g (d # ds) \<and> pelems st f (d # ds) = pelems st g (d # ds)"
      if "s = c # cs" "skip_ws cs = d # ds" for c cs d ds
      using that \<open>2 * length s < Suc f\<close> \<open>f \<le> g\<close> skip_ws_length [of cs] by (auto intro!: e m)
    then show ?thesis by (auto split: list.splits)
  qed
  have 2: "pelems st (Suc f) s = pelems st (Suc g) s" if "2 * length s + 1 < Suc f" "f \<le> g" for g s
  proof -
    have "pelems st f (skip_ws ds) = pelems st g (skip_ws ds)"
      if "pval st g s = Some (w, r1)" "skip_ws r1 = d # ds" for w r1 d ds
      using pval_length [OF that(1)] skip_ws_Cons_length [OF that(2)] skip_ws_length [of ds]
        \<open>2 * length s + 1 < Suc f\<close> \<open>f \<le> g\<close> by (intro e) auto
    moreover have "pval st f s = pval st g s" using that by (intro v) auto
    ultimately show ?thesis by (auto split: option.splits list.splits)
  qed
  have 3: "pmembers st (Suc f) s = pmembers st (Suc g) s" if "2 * length s + 1 < Suc f" "f \<le> g" for g s
  proof -
    have a: "pval st f (skip_ws ds) = pval st g (skip_ws ds)"
      if "s = c # cs" "pstr cs = Some (k, r0)" "skip_ws r0 = d # ds" for c cs k r0 d ds
      using that pstr_length [OF that(2)] skip_ws_Cons_length [OF that(3)] skip_ws_length [of ds]
        \<open>2 * length s + 1 < Suc f\<close> \<open>f \<le> g\<close> by (intro v) auto
    have b: "pmembers st f (skip_ws es) = pmembers st g (skip_ws es)"
      if "s = c # cs" "pstr cs = Some (k, r0)" "skip_ws r0 = d # ds"
        "pval st g (skip_ws ds) = Some (w, r1)" "skip_ws r1 = x # es" for c cs k r0 d ds w r1 x es
      using that pstr_length [OF that(2)] skip_ws_Cons_length [OF that(3)] skip_ws_length [of ds]
        pval_length [OF that(4)] skip_ws_Cons_length [OF that(5)] skip_ws_length [of es]
        \<open>2 * length s + 1 < Suc f\<close> \<open>f \<le> g\<close> by (intro m) auto
    show ?thesis using a b by (auto split: option.splits list.splits)
  qed
  have lift: "\<exists>g'. g = Suc g' \<and> f \<le> g'" if "Suc f \<le> g" for g
    using that by (cases g) auto
  show ?case using 1 2 3 lift by blast
qed simp

lemma pval_enough: "2 * length s < f \<Longrightarrow> f \<le> g \<Longrightarrow> pval st f s = pval st g s"
  using pparse_enough by blast

section \<open>Round trip\<close>

definition stops :: "string \<Rightarrow> bool" where
  "stops r \<longleftrightarrow> r = [] \<or> \<not> num_char (hd r)"

lemma stops_Nil [simp]: "stops []"
  by (simp add: stops_def)

lemma stops_delim [simp]:
  "stops (CHR '','' # r)" "stops (CHR '']'' # r)" "stops (CHR ''}'' # r)" "stops (CHR 0x0A # r)"
  by (simp_all add: stops_def num_char_def is_digit_def)

lemma skip_ws_Cons [simp]: "\<not> is_ws c \<Longrightarrow> skip_ws (c # cs) = c # cs"
  by (simp add: skip_ws_def)

lemma skip_ws_Nil [simp]: "skip_ws [] = []"
  by (simp add: skip_ws_def)

lemma not_ws [simp]:
  "\<not> is_ws (CHR '','')" "\<not> is_ws (CHR '':'')" "\<not> is_ws (CHR '']'')" "\<not> is_ws (CHR ''}'')"
  "\<not> is_ws (CHR ''['')" "\<not> is_ws (CHR ''{'')" "\<not> is_ws QT"
  by (simp_all add: is_ws_def)

lemma pval_number:
  assumes "parse_number t = Some v" and "stops r"
  shows "pval st (Suc f) (t @ r) = Some (v, r)"
proof -
  note t = parse_number_chars [OF assms(1)]
  from t(2) obtain c t' where c: "t = c # t'" by (cases t) auto
  with t(3) have d: "c = CHR ''-'' \<or> is_digit c" by simp
  have "takeWhile num_char (t @ r) = t" "dropWhile num_char (t @ r) = r"
    using t(1) assms(2) by (cases r; auto simp: stops_def takeWhile_append dropWhile_append)+
  with assms(1) have "pnumber st (t @ r) = Some (v, r)" by (simp add: pnumber_def)
  moreover have "patom st (t @ r) = pnumber st (t @ r)"
    using c d by (auto simp: patom_def is_digit_def)
  ultimately show ?thesis using c d by (auto simp: is_digit_def)
qed

lemma pval_special:
  "pval False (Suc f) (''NaN'' @ r) = Some (PFloat FNaN, r)"
  "pval False (Suc f) (''Infinity'' @ r) = Some (PFloat (FInf False), r)"
  "pval False (Suc f) (''-Infinity'' @ r) = Some (PFloat (FInf True), r)"
  by (simp_all add: patom_def pnumber_def pconst_def num_char_def is_digit_def parse_number_def
      parse_unsigned_def int_part_ok_def)

lemma dumps_hd:
  assumes "wf_val v"
  shows "\<exists>c cs. dumps v = c # cs \<and> \<not> is_ws c \<and> c \<noteq> CHR '']'' \<and> (of_char c :: nat) < 128"
proof -
  have num: "\<exists>c cs. t = c # cs \<and> \<not> is_ws c \<and> c \<noteq> CHR '']'' \<and> (of_char c :: nat) < 128" if "parse_number t = Some w" for t w
    using parse_number_chars(2,3) [OF that]
    by (cases t) (auto simp: is_digit_def is_ws_def)
  show ?thesis
  proof (cases v)
    case (PInt i)
    then show ?thesis using num [OF parse_number_int] by simp
  next
    case (PFloat x)
    then show ?thesis
      using assms num [OF parse_float_text] by (cases x) (auto simp: sign_text_def is_ws_def)
  qed (auto simp: is_ws_def quote_def dumps_PDict)
qed

lemma skip_ws_dumps [simp]: "wf_val v \<Longrightarrow> skip_ws (dumps v @ r) = dumps v @ r"
  using dumps_hd [of v] by auto

lemma join_Cons: "join sep (x # xs) = x @ (if xs = [] then [] else sep @ join sep xs)"
  by (cases xs) auto

text \<open>
  Lists and objects written by any function \<open>txt\<close> whose texts start like a value and decode
  to \<open>nf\<close> of the value.
\<close>

definition starts_value :: "string \<Rightarrow> bool" where
  "starts_value t \<longleftrightarrow> (case t of [] \<Rightarrow> False | c # _ \<Rightarrow> \<not> is_ws c \<and> c \<noteq> CHR '']'')"

lemma starts_value_skip: "starts_value t \<Longrightarrow> skip_ws (t @ r) = t @ r"
  by (cases t) (simp_all add: starts_value_def)

lemma starts_value_dumps: "wf_val v \<Longrightarrow> starts_value (dumps v)"
  using dumps_hd [of v] by (auto simp: starts_value_def)

definition reads_back :: "bool \<Rightarrow> (pyval \<Rightarrow> string) \<Rightarrow> (pyval \<Rightarrow> pyval) \<Rightarrow> pyval \<Rightarrow> bool" where
  "reads_back st txt nf x \<longleftrightarrow>
     starts_value (txt x) \<and> (\<forall>r f. stops r \<longrightarrow> 2 * length (txt x) < f \<longrightarrow> pval st f (txt x @ r) = Some (nf x, r))"

definition member_text :: "(pyval \<Rightarrow> string) \<Rightarrow> string \<times> pyval \<Rightarrow> string" where
  "member_text txt = (\<lambda>(k, v). quote k @ '':'' @ txt v)"

lemma pelems_join:
  assumes "\<And>x. x \<in> set xs \<Longrightarrow> reads_back st txt nf x" and "xs \<noteq> []"
    and "2 * length (join '','' (map txt xs)) + 1 < f"
  shows "pelems st f (join '','' (map txt xs) @ CHR '']'' # r) = Some (map nf xs, r)"
  using assms
proof (induction xs arbitrary: f)
  case (Cons x xs)
  from Cons.prems(3) obtain f' where f: "f = Suc f'" by (cases f) auto
  have x: "reads_back st txt nf x" using Cons.prems(1) by simp
  show ?case
  proof (cases "xs = []")
    case True
    with f Cons.prems(3) x show ?thesis by (simp add: join_Cons reads_back_def)
  next
    case False
    then obtain y ys where xs: "xs = y # ys" by (cases xs) auto
    let ?j = "join '','' (map txt xs) @ CHR '']'' # r"
    from xs Cons.prems(1) [of y] have sk: "skip_ws ?j = ?j" by (simp add: join_Cons reads_back_def starts_value_skip)
    have "pelems st f' ?j = Some (map nf xs, r)"
      using Cons.prems False f by (intro Cons.IH) (auto simp: join_Cons)
    moreover have "pval st f' (txt x @ CHR '','' # ?j) = Some (nf x, CHR '','' # ?j)"
      using Cons.prems(3) f False x by (auto simp: join_Cons reads_back_def)
    ultimately show ?thesis using f False sk by (simp add: join_Cons)
  qed
qed simp

lemma pmembers_join:
  assumes "\<And>k v. (k, v) \<in> set d \<Longrightarrow> reads_back st txt nf v" and "d \<noteq> []"
    and "2 * length (join '','' (map (member_text txt) d)) + 1 < f"
  shows "pmembers st f (join '','' (map (member_text txt) d) @ CHR ''}'' # r) = Some (map (\<lambda>(k, v). (k, nf v)) d, r)"
  using assms
proof (induction d arbitrary: f)
  case (Cons kv d)
  obtain k v where kv: "kv = (k, v)" by (cases kv)
  from Cons.prems(3) obtain f' where f: "f = Suc f'" by (cases f) auto
  have item: "member_text txt kv = QT # concat (map esc_char k) @ QT # CHR '':'' # txt v"
    by (simp add: member_text_def kv quote_def)
  have v: "reads_back st txt nf v" using Cons.prems(1) [of k v] kv by simp
  then have sv: "skip_ws (txt v @ t) = txt v @ t" for t by (simp add: reads_back_def starts_value_skip)
  show ?case
  proof (cases "d = []")
    case True
    have "pval st f' (txt v @ CHR ''}'' # r) = Some (nf v, CHR ''}'' # r)"
      using Cons.prems(3) f item True v by (auto simp: join_Cons reads_back_def)
    with True f item kv sv show ?thesis by (simp add: join_Cons pstr_quote)
  next
    case False
    then obtain y ys where d: "d = y # ys" by (cases d) auto
    let ?j = "join '','' (map (member_text txt) d) @ CHR ''}'' # r"
    have sk: "skip_ws ?j = ?j"
      by (cases y) (simp add: d join_Cons member_text_def quote_def)
    have "pmembers st f' ?j = Some (map (\<lambda>(k, v). (k, nf v)) d, r)"
      using Cons.prems False f by (intro Cons.IH) (auto simp: join_Cons)
    moreover have "pval st f' (txt v @ CHR '','' # ?j) = Some (nf v, CHR '','' # ?j)"
      using Cons.prems(3) f item False v by (auto simp: join_Cons reads_back_def)
    ultimately show ?thesis using f item False sk kv sv by (simp add: join_Cons pstr_quote)
  qed
qed simp

lemma dict_of_distinct: "distinct (map fst ps) \<Longrightarrow> dict_of ps = ps"
proof (induction ps rule: rev_induct)
  case (snoc p ps)
  then have "dict_of (ps @ [p]) = dict_set (fst p) (snd p) ps"
    by (simp add: dict_of_def case_prod_unfold)
  with snoc.prems show ?case by (simp add: dict_set_fresh)
qed (simp add: dict_of_def)

lemma pval_list:
  assumes "\<And>x. x \<in> set xs \<Longrightarrow> reads_back st txt nf x" "2 * length (join '','' (map txt xs)) + 2 < f"
  shows "pval st f (CHR ''['' # join '','' (map txt xs) @ CHR '']'' # r) = Some (PList (map nf xs), r)"
proof -
  from assms(2) obtain f' where f: "f = Suc f'" by (cases f) auto
  show ?thesis
  proof (cases xs)
    case (Cons y ys)
    let ?j = "join '','' (map txt xs) @ CHR '']'' # r"
    from Cons assms(1) [of y] obtain c cs where c: "?j = c # cs" "\<not> is_ws c" "c \<noteq> CHR '']''"
      by (auto simp: join_Cons reads_back_def starts_value_def split: list.splits)
    have "pelems st f' ?j = Some (map nf xs, r)" using assms f Cons by (intro pelems_join) auto
    with f c show ?thesis by simp
  qed (use f in simp)
qed

lemma pval_object:
  assumes "\<And>k v. (k, v) \<in> set d \<Longrightarrow> reads_back st txt nf v" "distinct (map fst d)"
    "2 * length (join '','' (map (member_text txt) d)) + 2 < f"
  shows "pval st f (CHR ''{'' # join '','' (map (member_text txt) d) @ CHR ''}'' # r) = Some (PDict (map (\<lambda>(k, v). (k, nf v)) d), r)"
proof -
  from assms(3) obtain f' where f: "f = Suc f'" by (cases f) auto
  show ?thesis
  proof (cases d)
    case (Cons y ys)
    let ?j = "join '','' (map (member_text txt) d) @ CHR ''}'' # r"
    have j: "\<exists>cs. ?j = QT # cs" by (cases y) (simp add: Cons join_Cons member_text_def quote_def)
    have "pmembers st f' ?j = Some (map (\<lambda>(k, v). (k, nf v)) d, r)"
      using assms f Cons by (intro pmembers_join) auto
    moreover have "dict_of (map (\<lambda>(k, v). (k, nf v)) d) = map (\<lambda>(k, v). (k, nf v)) d"
      using assms(2) by (intro dict_of_distinct) simp
    ultimately show ?thesis using f j assms(2) by auto
  qed (use f in \<open>simp add: dict_of_def\<close>)
qed

lemma pval_atom:
  assumes "0 < f" "stops r"
  shows "pval st f (''null'' @ r) = Some (PNone, r)" "pval st f (dumps (PBool b) @ r) = Some (PBool b, r)"
    "pval st f (dumps (PInt i) @ r) = Some (PInt i, r)" "pval st f (quote s @ r) = Some (PStr s, r)"
proof -
  from assms(1) obtain f' where f: "f = Suc f'" by (cases f) auto
  show "pval st f (dumps (PInt i) @ r) = Some (PInt i, r)"
    using pval_number [OF parse_number_int assms(2)] f by (simp del: pval.simps)
qed (use assms(1) in \<open>cases f; simp add: patom_def quote_def pstr_quote\<close>)+

lemma pval_dumps:
  "wf_val v \<Longrightarrow> stops r \<Longrightarrow> 2 * length (dumps v) < f \<Longrightarrow> pval False f (dumps v @ r) = Some (canon v, r)"
proof (induction v arbitrary: r f rule: canon_induct)
  case (1 xs)
  then have "reads_back False dumps canon x" if "x \<in> set xs" for x
    using that by (auto simp: reads_back_def list_all_iff intro: starts_value_dumps)
  from pval_list [OF this, where f = f] "1.prems" show ?case by simp
next
  case (2 d)
  then have "reads_back False dumps canon v" if "(k, v) \<in> set (sort_items d)" for k v
    using that by (fastforce simp: reads_back_def list_all_iff intro: starts_value_dumps)
  from pval_object [of "sort_items d", OF this, where f = f and r = r] "2.prems" show ?case
    by (simp add: dumps_PDict item_text_def member_text_def canon_items_def sort_items_map)
next
  case (float_number x)
  then obtain f' where f: "f = Suc f'" by (cases f) auto
  show ?case
    using float_number f pval_special pval_number [OF parse_float_text]
    by (cases x) (auto simp: sign_text_def)
qed (use pval_atom in \<open>simp_all del: pval.simps\<close>)

lemma num_char_ascii: "num_char c \<Longrightarrow> (of_char c :: nat) < 128"
  by (auto simp: num_char_def is_digit_def)

lemma utf8_ok_number: "parse_number t = Some v \<Longrightarrow> utf8_ok t"
  using parse_number_chars(1) num_char_ascii by (intro utf8_ok_ascii) blast

lemma utf8_ok_appendI: "utf8_ok a \<Longrightarrow> utf8_ok b \<Longrightarrow> utf8_ok (a @ b)"
  by (simp add: utf8_ok_append)

lemma utf8_ok_join: "utf8_ok sep \<Longrightarrow> (\<And>x. x \<in> set xs \<Longrightarrow> utf8_ok x) \<Longrightarrow> utf8_ok (join sep xs)"
  by (induction sep xs rule: join.induct) (simp_all add: utf8_ok_append)

lemma utf8_ok_dumps: "wf_val v \<Longrightarrow> utf8_ok (dumps v)"
proof (induction v rule: canon_induct)
  case (1 xs)
  then show ?case by (auto simp: list_all_iff intro!: utf8_ok_join utf8_ok_appendI)
next
  case (2 d)
  then show ?case
    by (fastforce simp: dumps_PDict list_all_iff item_text_def
        intro!: utf8_ok_join utf8_ok_appendI utf8_ok_quote)
next
  case (number i)
  show ?case using utf8_ok_number [OF parse_number_int] by simp
next
  case (float_number x)
  then show ?case
    using utf8_ok_number [OF parse_float_text] by (cases x) (auto simp: sign_text_def)
qed (auto simp: utf8_ok_quote)

lemma strip_bom_dumps [simp]: "wf_val v \<Longrightarrow> strip_bom (dumps v @ r) = dumps v @ r"
  using dumps_hd [of v] by (auto simp: strip_bom_def)

lemma json_roundtrip_suffix:
  assumes "wf_val v" and "stops r" and "utf8_ok r" and "skip_ws r = []"
  shows "json_loads (dumps v @ r) = Inr (canon v)"
  using assms pval_dumps [OF assms(1,2)]
  by (simp add: json_loads_def Let_def utf8_ok_append utf8_ok_dumps del: pval.simps)

text \<open>What \<open>dumps\<close> writes never holds a line break, so a record is one line.\<close>

lemma esc_char_no_newline: "CHR 0x0A \<notin> set (esc_char c)" "CHR 0x0D \<notin> set (esc_char c)"
proof -
  have hex: "hex_digit n \<noteq> CHR 0x0A" "hex_digit n \<noteq> CHR 0x0D" if "n < 16" for n
    using that by (auto simp: hex_digit_def char_of_eq_iff take_bit_eq_mod)
  have "(of_char c :: nat) < 32 \<Longrightarrow> (of_char c :: nat) div 16 < 16" by simp
  then show "CHR 0x0A \<notin> set (esc_char c)" "CHR 0x0D \<notin> set (esc_char c)"
    using hex(1) [of "of_char c div 16"] hex(1) [of "of_char c mod 16"]
      hex(2) [of "of_char c div 16"] hex(2) [of "of_char c mod 16"]
    by (auto simp: esc_char_def Let_def split: if_splits)
qed

definition one_line :: "string \<Rightarrow> bool" where
  "one_line s \<longleftrightarrow> CHR 0x0A \<notin> set s \<and> CHR 0x0D \<notin> set s"

lemma one_line_append [simp]: "one_line (a @ b) \<longleftrightarrow> one_line a \<and> one_line b"
  by (auto simp: one_line_def)

lemma one_line_Nil [simp]: "one_line []"
  by (simp add: one_line_def)

lemma one_line_Cons: "one_line (c # cs) \<longleftrightarrow> c \<noteq> CHR 0x0A \<and> c \<noteq> CHR 0x0D \<and> one_line cs"
  by (auto simp: one_line_def)

lemma one_line_quote [simp]: "one_line (quote s)"
  using esc_char_no_newline by (auto simp: quote_def one_line_def)

lemma one_line_number: "parse_number t = Some v \<Longrightarrow> one_line t"
  using parse_number_chars(1) [of t v] by (auto simp: one_line_def num_char_def is_digit_def)

lemma one_line_join: "one_line sep \<Longrightarrow> (\<And>x. x \<in> set xs \<Longrightarrow> one_line x) \<Longrightarrow> one_line (join sep xs)"
  by (induction sep xs rule: join.induct) simp_all

lemma one_line_dumps: "wf_val v \<Longrightarrow> one_line (dumps v)"
proof (induction v rule: canon_induct)
  case (1 xs)
  then show ?case by (auto simp: list_all_iff one_line_Cons intro!: one_line_join)
next
  case (2 d)
  then show ?case
    by (fastforce simp: dumps_PDict list_all_iff item_text_def one_line_Cons intro!: one_line_join)
next
  case (number i)
  show ?case using one_line_number [OF parse_number_int] by simp
next
  case (float_number x)
  then show ?case
    using one_line_number [OF parse_float_text]
    by (cases x) (auto simp: sign_text_def one_line_Cons)
qed (auto simp: one_line_Cons)

lemma json_roundtrip:
  assumes "wf_val v"
  shows "json_loads (dumps v) = Inr (canon v)"
  using json_roundtrip_suffix [OF assms, of "[]"] by simp

lemma json_roundtrip_line:
  assumes "wf_val v"
  shows "json_loads (dumps v @ [CHR 0x0A]) = Inr (canon v)"
  using assms by (intro json_roundtrip_suffix) (simp_all add: skip_ws_def is_ws_def)

end
