(* ===== verification/Envelope.thy ===== *)
theory Envelope
  imports JsonDecode "HOL-Library.Word"
begin

unbundle bit_operations_syntax

text \<open>
  The checksummed envelope that every durable artefact of the cluster is wrapped in
  (protocol.py, \<open>canonical_bytes\<close> to \<open>decode_envelope\<close>), with zlib's CRC-32 computed
  bit by bit, and the interface of a line codec: what a client that stores records one
  per line may rely on. \<open>journal_codec\<close> interprets it on the envelope.
\<close>

section \<open>CRC-32\<close>

definition crc_bit :: "32 word \<Rightarrow> 32 word" where
  "crc_bit c = (if bit c 0 then drop_bit 1 c XOR 0xEDB88320 else drop_bit 1 c)"

definition crc_byte :: "32 word \<Rightarrow> char \<Rightarrow> 32 word" where
  "crc_byte c b = (crc_bit ^^ 8) (c XOR of_char b)"

definition crc32 :: "string \<Rightarrow> 32 word" where
  "crc32 s = NOT (foldl crc_byte (NOT 0) s)"

section \<open>Envelopes\<close>

definition PROTOCOL_VERSION :: int where
  "PROTOCOL_VERSION = 2"

definition LEGACY_PROTOCOL_VERSION :: int where
  "LEGACY_PROTOCOL_VERSION = 1"

definition ENVELOPE_FIELDS :: "string list" where
  "ENVELOPE_FIELDS = [''version'', ''payload'', ''checksum'']"

definition canonical_bytes :: "pyval \<Rightarrow> string" where
  "canonical_bytes v = dumps v"

definition payload_checksum :: "pyval \<Rightarrow> int" where
  "payload_checksum v = uint (crc32 (canonical_bytes v)) AND 0xFFFFFFFF"

definition checked_envelope :: "pyval \<Rightarrow> pyval" where
  "checked_envelope payload =
     PDict [(''version'', PInt PROTOCOL_VERSION), (''payload'', payload),
            (''checksum'', PInt (payload_checksum payload))]"

definition exact_int :: "pyval \<Rightarrow> string \<Rightarrow> int result" where
  "exact_int v name =
     (case v of PInt i \<Rightarrow> Inr i | _ \<Rightarrow> Inl (ProtocolError (name @ '' must be an integer'')))"

lemma exact_int_PInt [simp]: "exact_int (PInt i) name = Inr i"
  by (simp add: exact_int_def)

lemma exact_int_eq_Inr [simp]: "exact_int v name = Inr i \<longleftrightarrow> v = PInt i"
  by (cases v) (auto simp: exact_int_def)

lemma protocol_only_exact_int [protocol_only_intros]: "protocol_only (exact_int v name)"
  by (cases v) (auto simp: exact_int_def protocol_only_def)

text \<open>\<open>_exact_int(d[k], name)\<close>\<close>

definition dget_int :: "(string \<times> pyval) list \<Rightarrow> string \<Rightarrow> string \<Rightarrow> int result" where
  "dget_int d k name = rbind (dget d k) (\<lambda>v. exact_int v name)"

lemma dget_int_eq_Inr [simp]: "dget_int d k name = Inr i \<longleftrightarrow> map_of d k = Some (PInt i)"
  by (auto simp: dget_int_def dget_eq_Inr)

lemma protocol_only_dget_int [protocol_only_intros]:
  "has_fields d fs \<Longrightarrow> k \<in> set fs \<Longrightarrow> protocol_only (dget_int d k name)"
  unfolding dget_int_def by (intro protocol_only_intros)

definition decode_envelope_versioned :: "pyval \<Rightarrow> (int \<times> pyval) result" where
  "decode_envelope_versioned v =
     (case as_dict v of
        None \<Rightarrow> Inl (ProtocolError ''distributed envelope fields mismatch'')
      | Some d \<Rightarrow>
          require (has_fields d ENVELOPE_FIELDS)
            (ProtocolError ''distributed envelope fields mismatch'')
          (rbind (dget d ''version'') (\<lambda>raw_version.
           rbind (exact_int raw_version ''distributed format version'') (\<lambda>version.
           require (version \<in> {LEGACY_PROTOCOL_VERSION, PROTOCOL_VERSION})
             (ProtocolError ''unsupported distributed format version'')
           (rbind (dget d ''payload'') (\<lambda>payload.
            require (as_dict payload \<noteq> None)
              (ProtocolError ''distributed envelope payload must be an object'')
            (rbind (dget d ''checksum'') (\<lambda>raw_checksum.
             rbind (exact_int raw_checksum ''distributed envelope checksum'') (\<lambda>checksum.
             require (checksum = payload_checksum payload)
               (ProtocolError ''distributed envelope checksum mismatch'')
             (Inr (version, payload)))))))))))"

definition decode_envelope :: "pyval \<Rightarrow> pyval result" where
  "decode_envelope v = rbind (decode_envelope_versioned v) (\<lambda>(version, payload). Inr payload)"

lemma payload_checksum_canon [simp]: "payload_checksum (canon v) = payload_checksum v"
  by (simp add: payload_checksum_def canonical_bytes_def)

lemma payload_checksum_range: "0 \<le> payload_checksum v \<and> payload_checksum v < 2 ^ 32"
proof -
  have "payload_checksum v = take_bit 32 (uint (crc32 (canonical_bytes v)))"
    by (simp add: payload_checksum_def take_bit_eq_mask mask_eq_exp_minus_1)
  then show ?thesis using take_bit_int_less_exp [of 32 "uint (crc32 (canonical_bytes v))"] by simp
qed

lemma wf_checked_envelope: "wf_val p \<Longrightarrow> wf_val (checked_envelope p)"
  by (auto simp: checked_envelope_def intro!: utf8_ok_ascii)

lemma decode_checked_envelope:
  assumes "as_dict p \<noteq> None" and "wf_val p"
  shows "decode_envelope_versioned (canon (checked_envelope p)) = Inr (PROTOCOL_VERSION, canon p)"
proof -
  let ?d = "canon_items [(''version'', PInt PROTOCOL_VERSION), (''payload'', p),
              (''checksum'', PInt (payload_checksum p))]"
  have "canon (checked_envelope p) = PDict ?d" by (simp add: checked_envelope_def)
  moreover have "has_fields ?d ENVELOPE_FIELDS"
    by (simp only: has_fields_canon) (simp add: has_fields_def dict_keys_def ENVELOPE_FIELDS_def)
  moreover have "dget ?d ''version'' = Inr (PInt PROTOCOL_VERSION)" "dget ?d ''payload'' = Inr (canon p)"
    "dget ?d ''checksum'' = Inr (PInt (payload_checksum p))"
    by (simp_all add: dget_eq_Inr map_of_canon_items)
  moreover from assms(1) have "as_dict (canon p) \<noteq> None" by (cases p) auto
  ultimately show ?thesis by (simp add: decode_envelope_versioned_def)
qed

text \<open>A decoded envelope carries the checksum of its payload; nothing but a
  \<open>ProtocolError\<close> leaves the decoder.\<close>

lemma decode_envelope_versioned_Inr:
  assumes "decode_envelope_versioned v = Inr (version, payload)"
  obtains d where "v = PDict d" "map_of d ''payload'' = Some payload"
    "map_of d ''checksum'' = Some (PInt (payload_checksum payload))"
    "version = LEGACY_PROTOCOL_VERSION \<or> version = PROTOCOL_VERSION" "as_dict payload \<noteq> None"
  using assms
  by (cases v) (auto simp: decode_envelope_versioned_def dget_eq_Inr split: option.splits)

lemma decode_envelope_versioned_protocol_only [protocol_only_intros]:
  "protocol_only (decode_envelope_versioned v)"
  unfolding decode_envelope_versioned_def
  by (intro protocol_only_intros protocol_only_dget [where fs = ENVELOPE_FIELDS])
    (simp_all add: ENVELOPE_FIELDS_def)



end
