(* ===== verification/Config.thy ===== *)
theory Config
  imports Envelope
begin

unbundle bit_operations_syntax

text \<open>
  Collection configurations: the Python data class of models.py with its validation, the
  boundary to the kernel (signed 64-bit seeds), the kernel's own validation and
  fingerprint (config.mojo and the binding in python_module.mojo), and the canonical form
  that the cluster stores (protocol.py, \<open>canonical_collection_config\<close>).
\<close>

section \<open>The kernel's configuration\<close>

datatype metric_kind = MDot | ML2 | MCosine

datatype scalar_kind = SF32 | SBF16 | SF16 | SI8

record kernel_config =
  kc_dimension :: int
  kc_ann_metric :: metric_kind
  kc_scalar_kind :: scalar_kind
  kc_m :: int
  kc_m0 :: int
  kc_ef_construction :: int
  kc_default_ef_search :: int
  kc_max_ef_search :: int
  kc_max_level :: int
  kc_rebuild_inactive_percent :: int
  kc_delta_max_points :: int
  kc_level_seed :: "64 word"

fun metric_name :: "metric_kind \<Rightarrow> string" where
  "metric_name MDot = ''dot''"
| "metric_name ML2 = ''l2''"
| "metric_name MCosine = ''cosine''"

fun metric_tag :: "metric_kind \<Rightarrow> 64 word" where
  "metric_tag MDot = 0"
| "metric_tag ML2 = 1"
| "metric_tag MCosine = 2"

fun scalar_name :: "scalar_kind \<Rightarrow> string" where
  "scalar_name SF32 = ''f32''"
| "scalar_name SBF16 = ''bf16''"
| "scalar_name SF16 = ''f16''"
| "scalar_name SI8 = ''i8''"

fun scalar_tag :: "scalar_kind \<Rightarrow> 64 word" where
  "scalar_tag SF32 = 0"
| "scalar_tag SBF16 = 1"
| "scalar_tag SF16 = 2"
| "scalar_tag SI8 = 3"

definition kernel_defaults :: "int \<Rightarrow> kernel_config" where
  "kernel_defaults dimension =
     \<lparr>kc_dimension = dimension, kc_ann_metric = ML2, kc_scalar_kind = SF32, kc_m = 16, kc_m0 = 32,
      kc_ef_construction = 128, kc_default_ef_search = 64, kc_max_ef_search = 512, kc_max_level = 32,
      kc_rebuild_inactive_percent = 25, kc_delta_max_points = 10000,
      kc_level_seed = 0xA5A5A5A5A5A5A5A5\<rparr>"

definition kernel_config_validate :: "kernel_config \<Rightarrow> unit result" where
  "kernel_config_validate c =
     require (0 < kc_dimension c) (ValueError ''dimension must be positive'')
    (require (kc_dimension c \<le> 4294967295) (ValueError ''dimension must fit UInt32'')
    (require (2 \<le> kc_m c) (ValueError ''m must be at least 2'')
    (require (kc_m c \<le> 65535) (ValueError ''m must fit UInt16'')
    (require (kc_m c \<le> kc_m0 c) (ValueError ''m0 must be greater than or equal to m'')
    (require (kc_m0 c \<le> 65535) (ValueError ''m0 must fit UInt16'')
    (require (kc_m0 c \<le> kc_ef_construction c)
       (ValueError ''ef_construction must be greater than or equal to m0'')
    (require (kc_ef_construction c \<le> 4294967295) (ValueError ''ef_construction must fit UInt32'')
    (require (1 \<le> kc_default_ef_search c) (ValueError ''default_ef_search must be at least 1'')
    (require (kc_default_ef_search c \<le> 4294967295) (ValueError ''default_ef_search must fit UInt32'')
    (require (kc_default_ef_search c \<le> kc_max_ef_search c)
       (ValueError ''max_ef_search must be greater than or equal to default_ef_search'')
    (require (kc_max_ef_search c \<le> 4294967295) (ValueError ''max_ef_search must fit UInt32'')
    (require (1 \<le> kc_max_level c \<and> kc_max_level c \<le> 63)
       (ValueError ''max_level must be between 1 and 63'')
    (require (1 \<le> kc_rebuild_inactive_percent c \<and> kc_rebuild_inactive_percent c \<le> 90)
       (ValueError ''rebuild_inactive_percent must be between 1 and 90'')
    (require (0 < kc_delta_max_points c) (ValueError ''delta_max_points must be positive'')
    (require (kc_delta_max_points c \<le> 4294967295) (ValueError ''delta_max_points must fit UInt32'')
    (require (\<not> (kc_scalar_kind c = SI8 \<and> kc_ann_metric c = ML2))
       (ValueError ''scalar_kind i8 is not compatible with ann_metric l2'')
    (require (\<not> (kc_scalar_kind c = SI8 \<and> 133144 < kc_dimension c))
       (ValueError ''i8 dimension exceeds the Int32 accumulator bound'')
    (Inr ()))))))))))))))))))"

definition mix_u8 :: "64 word \<Rightarrow> 64 word \<Rightarrow> 64 word" where
  "mix_u8 value byte = (value XOR byte) * 1099511628211"

definition mix_u64 :: "64 word \<Rightarrow> 64 word \<Rightarrow> 64 word" where
  "mix_u64 value field =
     foldl (\<lambda>mixed byte_index. mix_u8 mixed (drop_bit (byte_index * 8) field AND 0xFF)) value [0..<8]"

definition kernel_fingerprint :: "kernel_config \<Rightarrow> 64 word" where
  "kernel_fingerprint c =
     (let value = 14695981039346656037;
          value = mix_u64 value (word_of_int (kc_dimension c));
          value = mix_u8 value (metric_tag (kc_ann_metric c));
          value = mix_u8 value (scalar_tag (kc_scalar_kind c));
          value = mix_u64 value (word_of_int (kc_m c));
          value = mix_u64 value (word_of_int (kc_m0 c));
          value = mix_u64 value (word_of_int (kc_ef_construction c));
          value = mix_u64 value (word_of_int (kc_default_ef_search c));
          value = mix_u64 value (word_of_int (kc_max_ef_search c));
          value = mix_u64 value (word_of_int (kc_max_level c));
          value = mix_u64 value (word_of_int (kc_rebuild_inactive_percent c));
          value = mix_u64 value (word_of_int (kc_delta_max_points c))
      in mix_u64 value (kc_level_seed c))"

section \<open>The binding\<close>

text \<open>Python integers enter the kernel through a signed 64-bit conversion that raises.\<close>

definition kernel_int :: "pyval \<Rightarrow> string \<Rightarrow> int result" where
  "kernel_int v name =
     (case as_int v of
        None \<Rightarrow> Inl (ValueError (name @ '' must be an integer''))
      | Some i \<Rightarrow> require (- (2 ^ 63) \<le> i \<and> i < 2 ^ 63)
                   (OverflowError ''int too large to convert'') (Inr i))"

definition kernel_str :: "pyval \<Rightarrow> string \<Rightarrow> string result" where
  "kernel_str v name =
     (case as_str v of None \<Rightarrow> Inl (ValueError (name @ '' must be a string'')) | Some s \<Rightarrow> Inr s)"

definition metric_from_python :: "pyval \<Rightarrow> metric_kind result" where
  "metric_from_python v =
     rbind (kernel_str v ''ann_metric'') (\<lambda>name.
       if name = ''dot'' then Inr MDot
       else if name = ''l2'' then Inr ML2
       else if name = ''cosine'' then Inr MCosine
       else Inl (ValueError ''unknown ann_metric''))"

definition scalar_from_python :: "pyval \<Rightarrow> scalar_kind result" where
  "scalar_from_python v =
     rbind (kernel_str v ''scalar_kind'') (\<lambda>name.
       if name = ''f32'' then Inr SF32
       else if name = ''bf16'' then Inr SBF16
       else if name = ''f16'' then Inr SF16
       else if name = ''i8'' then Inr SI8
       else Inl (ValueError ''unknown scalar_kind''))"

definition dget_default :: "(string \<times> pyval) list \<Rightarrow> string \<Rightarrow> pyval \<Rightarrow> pyval" where
  "dget_default d k v = (case map_of d k of None \<Rightarrow> v | Some w \<Rightarrow> w)"

definition KERNEL_CONFIG_OPTIONS :: "string list" where
  "KERNEL_CONFIG_OPTIONS =
     [''dimension'', ''ann_metric'', ''scalar_kind'', ''m'', ''m0'', ''ef_construction'',
      ''default_ef_search'', ''max_ef_search'', ''max_level'', ''rebuild_inactive_percent'',
      ''delta_max_points'', ''level_seed'']"

definition kernel_config_from_python :: "int \<Rightarrow> pyval \<Rightarrow> kernel_config result" where
  "kernel_config_from_python dimension v =
     (case as_dict v of
        None \<Rightarrow> Inl (ValueError ''collection config must be a dict or None'')
      | Some d \<Rightarrow>
          let c = kernel_defaults dimension;
              opt = (\<lambda>k default. kernel_int (dget_default d k (PInt default)) k)
          in
          rbind (rall (\<lambda>(k, _). require (k \<in> set KERNEL_CONFIG_OPTIONS)
                   (ValueError (''unknown collection config option: '' @ k)) (Inr ())) d) (\<lambda>_.
          rbind (opt ''dimension'' dimension) (\<lambda>dim.
          require (dim = dimension) (ValueError ''collection config dimension mismatch'')
         (rbind (metric_from_python (dget_default d ''ann_metric'' (PStr (metric_name (kc_ann_metric c))))) (\<lambda>metric.
          rbind (scalar_from_python (dget_default d ''scalar_kind'' (PStr (scalar_name (kc_scalar_kind c))))) (\<lambda>scalar.
          rbind (opt ''m'' (kc_m c)) (\<lambda>m.
          rbind (opt ''m0'' (kc_m0 c)) (\<lambda>m0.
          rbind (opt ''ef_construction'' (kc_ef_construction c)) (\<lambda>efc.
          rbind (opt ''default_ef_search'' (kc_default_ef_search c)) (\<lambda>defs.
          rbind (opt ''max_ef_search'' (kc_max_ef_search c)) (\<lambda>maxs.
          rbind (opt ''max_level'' (kc_max_level c)) (\<lambda>level.
          rbind (opt ''rebuild_inactive_percent'' (kc_rebuild_inactive_percent c)) (\<lambda>percent.
          rbind (opt ''delta_max_points'' (kc_delta_max_points c)) (\<lambda>delta.
          let raw_seed = dget_default d ''level_seed'' PNone in
          rbind (if raw_seed = PNone then Inr (kc_level_seed c)
                 else rbind (kernel_int raw_seed ''level_seed'') (\<lambda>s. Inr (word_of_int s))) (\<lambda>seed.
          Inr \<lparr>kc_dimension = dimension, kc_ann_metric = metric, kc_scalar_kind = scalar, kc_m = m,
               kc_m0 = m0, kc_ef_construction = efc, kc_default_ef_search = defs,
               kc_max_ef_search = maxs, kc_max_level = level, kc_rebuild_inactive_percent = percent,
               kc_delta_max_points = delta, kc_level_seed = seed\<rparr>)))))))))))))))"

definition kernel_config_to_python :: "kernel_config \<Rightarrow> (string \<times> pyval) list" where
  "kernel_config_to_python c =
     [(''dimension'', PInt (kc_dimension c)), (''ann_metric'', PStr (metric_name (kc_ann_metric c))),
      (''scalar_kind'', PStr (scalar_name (kc_scalar_kind c))), (''m'', PInt (kc_m c)),
      (''m0'', PInt (kc_m0 c)), (''ef_construction'', PInt (kc_ef_construction c)),
      (''default_ef_search'', PInt (kc_default_ef_search c)),
      (''max_ef_search'', PInt (kc_max_ef_search c)), (''max_level'', PInt (kc_max_level c)),
      (''rebuild_inactive_percent'', PInt (kc_rebuild_inactive_percent c)),
      (''delta_max_points'', PInt (kc_delta_max_points c)),
      (''level_seed'', PInt (uint (kc_level_seed c))),
      (''fingerprint'', PInt (uint (kernel_fingerprint c)))]"

definition validate_collection_config :: "pyval \<Rightarrow> pyval \<Rightarrow> (string \<times> pyval) list result" where
  "validate_collection_config dimension v =
     rbind (kernel_int dimension ''dimension'') (\<lambda>native.
     rbind (if v = PNone then Inr (kernel_defaults native) else kernel_config_from_python native v) (\<lambda>c.
     rbind (kernel_config_validate c) (\<lambda>_.
     Inr (kernel_config_to_python c))))"

section \<open>The Python data class\<close>

record collection_config =
  cc_dimension :: int
  cc_ann_metric :: string
  cc_scalar_kind :: string
  cc_m :: int
  cc_m0 :: int
  cc_ef_construction :: int
  cc_default_ef_search :: int
  cc_max_ef_search :: int
  cc_max_level :: int
  cc_rebuild_inactive_percent :: int
  cc_delta_max_points :: int
  cc_level_seed :: int
  cc_fingerprint :: "int option"

definition check_int :: "pyval \<Rightarrow> string \<Rightarrow> int result" where
  "check_int v message = (case as_int v of None \<Rightarrow> Inl (ValueError message) | Some i \<Rightarrow> Inr i)"

text \<open>\<open>value in {...}\<close> over strings: an unhashable value raises.\<close>

definition check_choice :: "pyval \<Rightarrow> string list \<Rightarrow> string \<Rightarrow> string result" where
  "check_choice v choices message =
     (case v of
        PStr s \<Rightarrow> require (s \<in> set choices) (ValueError message) (Inr s)
      | PList _ \<Rightarrow> Inl (TypeError ''unhashable type: list'')
      | PDict _ \<Rightarrow> Inl (TypeError ''unhashable type: dict'')
      | _ \<Rightarrow> Inl (ValueError message))"

text \<open>
  The constructor with \<open>__post_init__\<close>: the raw field values in a dictionary that holds
  all thirteen of them.
\<close>

definition collection_config_init :: "(string \<times> pyval) list \<Rightarrow> collection_config result" where
  "collection_config_init d =
     (let int_field = (\<lambda>k. rbind (dget d k) (\<lambda>v. check_int v (''collection '' @ k @ '' must be an integer'')))
      in
      rbind (int_field ''dimension'') (\<lambda>dimension.
      require (0 < dimension) (ValueError ''collection dimension must be positive'')
     (rbind (dget d ''ann_metric'') (\<lambda>raw_metric.
      rbind (check_choice raw_metric [''dot'', ''l2'', ''cosine''] ''unknown ann_metric'') (\<lambda>metric.
      rbind (dget d ''scalar_kind'') (\<lambda>raw_scalar.
      rbind (check_choice raw_scalar [''f32'', ''bf16'', ''f16'', ''i8''] ''unknown scalar_kind'') (\<lambda>scalar.
      rbind (int_field ''m'') (\<lambda>m.
      rbind (int_field ''m0'') (\<lambda>m0.
      rbind (int_field ''ef_construction'') (\<lambda>efc.
      rbind (int_field ''default_ef_search'') (\<lambda>defs.
      rbind (int_field ''max_ef_search'') (\<lambda>maxs.
      rbind (int_field ''max_level'') (\<lambda>level.
      rbind (int_field ''rebuild_inactive_percent'') (\<lambda>percent.
      rbind (int_field ''delta_max_points'') (\<lambda>delta.
      rbind (int_field ''level_seed'') (\<lambda>seed.
      require (0 \<le> seed \<and> seed \<le> 0xFFFFFFFFFFFFFFFF)
        (ValueError ''collection level_seed must fit unsigned 64-bit'')
     (rbind (dget d ''fingerprint'') (\<lambda>raw_fingerprint.
      rbind (if raw_fingerprint = PNone then Inr None
             else rbind (int_field ''fingerprint'') (\<lambda>i. Inr (Some i))) (\<lambda>fingerprint.
      Inr \<lparr>cc_dimension = dimension, cc_ann_metric = metric, cc_scalar_kind = scalar, cc_m = m,
           cc_m0 = m0, cc_ef_construction = efc, cc_default_ef_search = defs,
           cc_max_ef_search = maxs, cc_max_level = level, cc_rebuild_inactive_percent = percent,
           cc_delta_max_points = delta, cc_level_seed = seed,
           cc_fingerprint = fingerprint\<rparr>)))))))))))))))))))"

text \<open>The fields of an instance, and the defaults of the class.\<close>

definition config_fields :: "collection_config \<Rightarrow> (string \<times> pyval) list" where
  "config_fields c =
     [(''dimension'', PInt (cc_dimension c)), (''ann_metric'', PStr (cc_ann_metric c)),
      (''scalar_kind'', PStr (cc_scalar_kind c)), (''m'', PInt (cc_m c)), (''m0'', PInt (cc_m0 c)),
      (''ef_construction'', PInt (cc_ef_construction c)),
      (''default_ef_search'', PInt (cc_default_ef_search c)),
      (''max_ef_search'', PInt (cc_max_ef_search c)), (''max_level'', PInt (cc_max_level c)),
      (''rebuild_inactive_percent'', PInt (cc_rebuild_inactive_percent c)),
      (''delta_max_points'', PInt (cc_delta_max_points c)), (''level_seed'', PInt (cc_level_seed c)),
      (''fingerprint'', (case cc_fingerprint c of None \<Rightarrow> PNone | Some i \<Rightarrow> PInt i))]"

definition DEFAULT_CONFIG_FIELDS :: "(string \<times> pyval) list" where
  "DEFAULT_CONFIG_FIELDS =
     [(''ann_metric'', PStr ''l2''), (''scalar_kind'', PStr ''f32''), (''m'', PInt 16),
      (''m0'', PInt 32), (''ef_construction'', PInt 128), (''default_ef_search'', PInt 64),
      (''max_ef_search'', PInt 512), (''max_level'', PInt 32),
      (''rebuild_inactive_percent'', PInt 25), (''delta_max_points'', PInt 10000),
      (''level_seed'', PInt 0xA5A5A5A5A5A5A5A5), (''fingerprint'', PNone)]"

definition COLLECTION_CONFIG_FIELDS :: "string list" where
  "COLLECTION_CONFIG_FIELDS =
     [''dimension'', ''ann_metric'', ''scalar_kind'', ''m'', ''m0'', ''ef_construction'',
      ''default_ef_search'', ''max_ef_search'', ''max_level'', ''rebuild_inactive_percent'',
      ''delta_max_points'', ''level_seed'', ''fingerprint'']"

definition config_defaults :: "int \<Rightarrow> (string \<times> pyval) list \<Rightarrow> collection_config result" where
  "config_defaults dimension overrides =
     rbind (collection_config_init ((''dimension'', PInt dimension) # DEFAULT_CONFIG_FIELDS)) (\<lambda>base.
     require (list_all (\<lambda>(k, _). k \<in> set COLLECTION_CONFIG_FIELDS) overrides)
       (TypeError ''unexpected keyword argument'')
     (collection_config_init (foldl (\<lambda>d (k, v). dict_set k v d) (config_fields base) overrides)))"

datatype config_options = NoOptions | ConfigOptions collection_config | DictOptions pyval

definition config_from_options :: "int \<Rightarrow> config_options \<Rightarrow> collection_config result" where
  "config_from_options dimension options =
     (case options of
        NoOptions \<Rightarrow> config_defaults dimension []
      | ConfigOptions c \<Rightarrow>
          require (cc_dimension c = dimension) (ValueError ''collection config dimension mismatch'') (Inr c)
      | DictOptions v \<Rightarrow>
          (case as_dict v of
             None \<Rightarrow> Inl (ValueError ''collection config must be a dict or CollectionConfig'')
           | Some d \<Rightarrow>
               rbind (check_int (dget_default d ''dimension'' (PInt dimension))
                        ''collection dimension must be an integer'') (\<lambda>configured.
               require (configured = dimension) (ValueError ''collection config dimension mismatch'')
                 (config_defaults dimension (filter (\<lambda>(k, _). k \<noteq> ''dimension'') d)))))"

definition config_from_kernel :: "(string \<times> pyval) list \<Rightarrow> collection_config result" where
  "config_from_kernel d =
     rbind (rall (\<lambda>k. rbind (dget d k) (\<lambda>_. Inr ())) COLLECTION_CONFIG_FIELDS) (\<lambda>_.
     collection_config_init d)"

definition config_to_kernel :: "collection_config \<Rightarrow> (string \<times> pyval) list" where
  "config_to_kernel c =
     (let kernel_seed = (if 0x7FFFFFFFFFFFFFFF < cc_level_seed c then cc_level_seed c - 2 ^ 64
                         else cc_level_seed c)
      in [(''dimension'', PInt (cc_dimension c)), (''ann_metric'', PStr (cc_ann_metric c)),
          (''scalar_kind'', PStr (cc_scalar_kind c)), (''m'', PInt (cc_m c)), (''m0'', PInt (cc_m0 c)),
          (''ef_construction'', PInt (cc_ef_construction c)),
          (''default_ef_search'', PInt (cc_default_ef_search c)),
          (''max_ef_search'', PInt (cc_max_ef_search c)), (''max_level'', PInt (cc_max_level c)),
          (''rebuild_inactive_percent'', PInt (cc_rebuild_inactive_percent c)),
          (''delta_max_points'', PInt (cc_delta_max_points c)), (''level_seed'', PInt kernel_seed)])"

section \<open>The canonical form stored by the cluster\<close>

definition canonical_collection_config :: "pyval \<Rightarrow> int \<Rightarrow> (string \<times> pyval) list result" where
  "canonical_collection_config v dimension =
     (case as_dict v of
        None \<Rightarrow> Inl (ProtocolError ''cluster collection config fields mismatch'')
      | Some d \<Rightarrow>
          require (has_fields d COLLECTION_CONFIG_FIELDS)
            (ProtocolError ''cluster collection config fields mismatch'')
         (rbind (rall (\<lambda>k. rbind (dget_int d k (''collection config '' @ k)) (\<lambda>_. Inr ()))
                  (filter (\<lambda>k. k \<noteq> ''ann_metric'' \<and> k \<noteq> ''scalar_kind'') COLLECTION_CONFIG_FIELDS)) (\<lambda>_.
          rbind (dget d ''ann_metric'') (\<lambda>metric.
          require (as_str metric \<noteq> None) (ProtocolError ''collection config ann_metric must be a string'')
         (rbind (dget d ''scalar_kind'') (\<lambda>scalar.
          require (as_str scalar \<noteq> None) (ProtocolError ''collection config scalar_kind must be a string'')
         (rbind (dget d ''dimension'') (\<lambda>configured.
          require (py_eq configured (PInt dimension))
            (ProtocolError ''cluster collection config dimension mismatch'')
         (case rbind (config_from_kernel d) (\<lambda>requested.
                 validate_collection_config (PInt dimension) (PDict (config_to_kernel requested))) of
            Inl e \<Rightarrow> Inl (ProtocolError ''invalid cluster collection config'')
          | Inr canonical \<Rightarrow>
              require (py_eq (PDict canonical) (PDict d))
                (ProtocolError ''cluster collection config is not canonical'')
                (Inr canonical))))))))))"

definition legacy_default_collection_config :: "int \<Rightarrow> (string \<times> pyval) list result" where
  "legacy_default_collection_config dimension =
     (case validate_collection_config (PInt dimension) PNone of
        Inl e \<Rightarrow> Inl (ProtocolError ''invalid legacy collection dimension'')
      | Inr c \<Rightarrow> Inr c)"

end
