(* ===== verification/ConfigCanonical.thy ===== *)
theory ConfigCanonical
  imports Config
begin

text \<open>
  The canonical form of a collection configuration: what the kernel reports for a valid
  configuration passes through the Python data class, the signed seed conversion and the
  kernel again unchanged, and nothing else is accepted.
\<close>

section \<open>Reading the kernel's dictionary\<close>

lemma config_lookup:
  "map_of (kernel_config_to_python c) ''dimension'' = Some (PInt (kc_dimension c))"
  "map_of (kernel_config_to_python c) ''ann_metric'' = Some (PStr (metric_name (kc_ann_metric c)))"
  "map_of (kernel_config_to_python c) ''scalar_kind'' = Some (PStr (scalar_name (kc_scalar_kind c)))"
  "map_of (kernel_config_to_python c) ''m'' = Some (PInt (kc_m c))"
  "map_of (kernel_config_to_python c) ''m0'' = Some (PInt (kc_m0 c))"
  "map_of (kernel_config_to_python c) ''ef_construction'' = Some (PInt (kc_ef_construction c))"
  "map_of (kernel_config_to_python c) ''default_ef_search'' = Some (PInt (kc_default_ef_search c))"
  "map_of (kernel_config_to_python c) ''max_ef_search'' = Some (PInt (kc_max_ef_search c))"
  "map_of (kernel_config_to_python c) ''max_level'' = Some (PInt (kc_max_level c))"
  "map_of (kernel_config_to_python c) ''rebuild_inactive_percent'' =
     Some (PInt (kc_rebuild_inactive_percent c))"
  "map_of (kernel_config_to_python c) ''delta_max_points'' = Some (PInt (kc_delta_max_points c))"
  "map_of (kernel_config_to_python c) ''level_seed'' = Some (PInt (uint (kc_level_seed c)))"
  "map_of (kernel_config_to_python c) ''fingerprint'' = Some (PInt (uint (kernel_fingerprint c)))"
  by (simp_all add: kernel_config_to_python_def)

definition python_config :: "kernel_config \<Rightarrow> collection_config" where
  "python_config c =
     \<lparr>cc_dimension = kc_dimension c, cc_ann_metric = metric_name (kc_ann_metric c),
      cc_scalar_kind = scalar_name (kc_scalar_kind c), cc_m = kc_m c, cc_m0 = kc_m0 c,
      cc_ef_construction = kc_ef_construction c, cc_default_ef_search = kc_default_ef_search c,
      cc_max_ef_search = kc_max_ef_search c, cc_max_level = kc_max_level c,
      cc_rebuild_inactive_percent = kc_rebuild_inactive_percent c,
      cc_delta_max_points = kc_delta_max_points c, cc_level_seed = uint (kc_level_seed c),
      cc_fingerprint = Some (uint (kernel_fingerprint c))\<rparr>"

lemma metric_name_cases: "metric_name k \<in> {''dot'', ''l2'', ''cosine''}"
  by (cases k) simp_all

lemma scalar_name_cases: "scalar_name k \<in> {''f32'', ''bf16'', ''f16'', ''i8''}"
  by (cases k) simp_all

lemma uint_64: "0 \<le> uint (w :: 64 word)" "uint (w :: 64 word) \<le> 18446744073709551615"
  using uint_bounded [of w] by simp_all

lemma check_choice_names:
  "check_choice (PStr (metric_name k)) [''dot'', ''l2'', ''cosine''] e = Inr (metric_name k)"
  "check_choice (PStr (scalar_name s)) [''f32'', ''bf16'', ''f16'', ''i8''] e = Inr (scalar_name s)"
  by (cases k; cases s; simp add: check_choice_def)+

lemma from_kernel_to_python:
  assumes d: "map_of d = map_of (kernel_config_to_python c)" and "0 < kc_dimension c"
  shows "config_from_kernel d = Inr (python_config c)"
proof -
  have dget: "dget d k = dget (kernel_config_to_python c) k" for k
    by (simp add: dget_def d)
  show ?thesis
    unfolding config_from_kernel_def collection_config_init_def Let_def dget python_config_def
    by (simp only: COLLECTION_CONFIG_FIELDS_def rall.simps dget_Some [OF config_lookup(1)]
        dget_Some [OF config_lookup(2)] dget_Some [OF config_lookup(3)] dget_Some [OF config_lookup(4)]
        dget_Some [OF config_lookup(5)] dget_Some [OF config_lookup(6)] dget_Some [OF config_lookup(7)]
        dget_Some [OF config_lookup(8)] dget_Some [OF config_lookup(9)] dget_Some [OF config_lookup(10)]
        dget_Some [OF config_lookup(11)] dget_Some [OF config_lookup(12)] dget_Some [OF config_lookup(13)]
        rbind_Inr check_int_def as_int.simps option.case assms(2) require_True check_choice_names
        uint_64 simp_thms pyval.distinct if_False)
qed

section \<open>Into the kernel and back\<close>

lemma kernel_int_ok: "- 9223372036854775808 \<le> i \<Longrightarrow> i \<le> 9223372036854775807 \<Longrightarrow> kernel_int (PInt i) k = Inr i"
  by (simp add: kernel_int_def)

lemma from_python_names:
  "metric_from_python (PStr (metric_name k)) = Inr k"
  "scalar_from_python (PStr (scalar_name s)) = Inr s"
  by (cases k; cases s; simp add: metric_from_python_def scalar_from_python_def kernel_str_def)+

definition signed_seed :: "64 word \<Rightarrow> int" where
  "signed_seed w = (if 9223372036854775807 < uint w then uint w - 2 ^ 64 else uint w)"

lemma signed_seed_range: "- 9223372036854775808 \<le> signed_seed w" "signed_seed w \<le> 9223372036854775807"
proof -
  define u where "u = uint w"
  have "0 \<le> u" "u \<le> 18446744073709551615" using uint_64 [of w] by (simp_all only: u_def)
  moreover have "signed_seed w = (if 9223372036854775807 < u then u - 2 ^ 64 else u)"
    by (simp only: signed_seed_def u_def)
  ultimately show "- 9223372036854775808 \<le> signed_seed w" "signed_seed w \<le> 9223372036854775807"
    by simp_all
qed

text \<open>All 64 seed bits survive the signed boundary.\<close>

lemma signed_seed_word: "(word_of_int (signed_seed w) :: 64 word) = w"
proof -
  have "(word_of_int (uint w - 2 ^ 64) :: 64 word) = word_of_int (uint w)"
    by (rule word_of_int_eq_iff [THEN iffD2]) (simp add: take_bit_eq_mod)
  then show ?thesis by (simp add: signed_seed_def)
qed

definition kernel_options :: "kernel_config \<Rightarrow> (string \<times> pyval) list" where
  "kernel_options c = config_to_kernel (python_config c)"

lemma options_lookup:
  "map_of (kernel_options c) ''dimension'' = Some (PInt (kc_dimension c))"
  "map_of (kernel_options c) ''ann_metric'' = Some (PStr (metric_name (kc_ann_metric c)))"
  "map_of (kernel_options c) ''scalar_kind'' = Some (PStr (scalar_name (kc_scalar_kind c)))"
  "map_of (kernel_options c) ''m'' = Some (PInt (kc_m c))"
  "map_of (kernel_options c) ''m0'' = Some (PInt (kc_m0 c))"
  "map_of (kernel_options c) ''ef_construction'' = Some (PInt (kc_ef_construction c))"
  "map_of (kernel_options c) ''default_ef_search'' = Some (PInt (kc_default_ef_search c))"
  "map_of (kernel_options c) ''max_ef_search'' = Some (PInt (kc_max_ef_search c))"
  "map_of (kernel_options c) ''max_level'' = Some (PInt (kc_max_level c))"
  "map_of (kernel_options c) ''rebuild_inactive_percent'' = Some (PInt (kc_rebuild_inactive_percent c))"
  "map_of (kernel_options c) ''delta_max_points'' = Some (PInt (kc_delta_max_points c))"
  "map_of (kernel_options c) ''level_seed'' = Some (PInt (signed_seed (kc_level_seed c)))"
  by (simp_all add: kernel_options_def config_to_kernel_def python_config_def signed_seed_def Let_def)

lemma options_known:
  "rall (\<lambda>(k, _). require (k \<in> set KERNEL_CONFIG_OPTIONS)
     (ValueError (''unknown collection config option: '' @ k)) (Inr ())) (kernel_options c) = Inr ()"
proof -
  have "map fst (kernel_options c) = KERNEL_CONFIG_OPTIONS"
    by (simp add: kernel_options_def config_to_kernel_def Let_def KERNEL_CONFIG_OPTIONS_def)
  then have "fst ` set (kernel_options c) \<subseteq> set KERNEL_CONFIG_OPTIONS" by (metis list.set_map subset_refl)
  then show ?thesis by fastforce
qed

lemma kernel_valid_iff:
  "kernel_config_validate c = Inr () \<longleftrightarrow>
     0 < kc_dimension c \<and> kc_dimension c \<le> 4294967295 \<and> 2 \<le> kc_m c \<and> kc_m c \<le> kc_m0 c \<and>
     kc_m0 c \<le> 65535 \<and> kc_m0 c \<le> kc_ef_construction c \<and> kc_ef_construction c \<le> 4294967295 \<and>
     1 \<le> kc_default_ef_search c \<and> kc_default_ef_search c \<le> kc_max_ef_search c \<and>
     kc_max_ef_search c \<le> 4294967295 \<and> 1 \<le> kc_max_level c \<and> kc_max_level c \<le> 63 \<and>
     1 \<le> kc_rebuild_inactive_percent c \<and> kc_rebuild_inactive_percent c \<le> 90 \<and>
     0 < kc_delta_max_points c \<and> kc_delta_max_points c \<le> 4294967295 \<and>
     (kc_scalar_kind c = SI8 \<longrightarrow> kc_ann_metric c \<noteq> ML2 \<and> kc_dimension c \<le> 133144)"
  unfolding kernel_config_validate_def require_eq_Inr
  by (intro iffI; elim conjE; intro conjI impI notI; (elim conjE)?; (assumption | linarith | simp))

definition int64 :: "int \<Rightarrow> bool" where
  "int64 i \<longleftrightarrow> - 9223372036854775808 \<le> i \<and> i \<le> 9223372036854775807"

definition kernel_ranges :: "kernel_config \<Rightarrow> bool" where
  "kernel_ranges c \<longleftrightarrow> int64 (kc_dimension c) \<and> int64 (kc_m c) \<and> int64 (kc_m0 c) \<and>
     int64 (kc_ef_construction c) \<and> int64 (kc_default_ef_search c) \<and> int64 (kc_max_ef_search c) \<and>
     int64 (kc_max_level c) \<and> int64 (kc_rebuild_inactive_percent c) \<and> int64 (kc_delta_max_points c)"

lemma kernel_valid_ranges: "kernel_config_validate c = Inr () \<Longrightarrow> kernel_ranges c"
  unfolding kernel_valid_iff kernel_ranges_def int64_def by (elim conjE, intro conjI; linarith)

lemma kernel_ints:
  assumes "kernel_ranges c"
  shows "kernel_int (PInt (kc_dimension c)) k = Inr (kc_dimension c)"
    "kernel_int (PInt (kc_m c)) k = Inr (kc_m c)" "kernel_int (PInt (kc_m0 c)) k = Inr (kc_m0 c)"
    "kernel_int (PInt (kc_ef_construction c)) k = Inr (kc_ef_construction c)"
    "kernel_int (PInt (kc_default_ef_search c)) k = Inr (kc_default_ef_search c)"
    "kernel_int (PInt (kc_max_ef_search c)) k = Inr (kc_max_ef_search c)"
    "kernel_int (PInt (kc_max_level c)) k = Inr (kc_max_level c)"
    "kernel_int (PInt (kc_rebuild_inactive_percent c)) k = Inr (kc_rebuild_inactive_percent c)"
    "kernel_int (PInt (kc_delta_max_points c)) k = Inr (kc_delta_max_points c)"
  using assms unfolding kernel_ranges_def int64_def by (simp_all add: kernel_int_ok)

lemma kernel_seed: "kernel_int (PInt (signed_seed w)) k = Inr (signed_seed w)"
  using signed_seed_range [of w] by (intro kernel_int_ok)

lemma from_python_options:
  assumes "kernel_ranges c"
  shows "kernel_config_from_python (kc_dimension c) (PDict (kernel_options c)) = Inr c"
  unfolding kernel_config_from_python_def Let_def
  by (simp only: as_dict.simps option.case dget_default_def options_known options_lookup rbind_Inr
      kernel_ints [OF assms] from_python_names require_True simp_thms pyval.distinct if_False
      kernel_seed signed_seed_word) simp

lemma validate_options:
  assumes "kernel_config_validate c = Inr ()"
  shows "validate_collection_config (PInt (kc_dimension c)) (PDict (kernel_options c)) =
    Inr (kernel_config_to_python c)"
  using assms
  by (simp add: validate_collection_config_def from_python_options kernel_ints kernel_valid_ranges)

section \<open>The canonical form\<close>

lemma config_keys: "map fst (kernel_config_to_python c) = COLLECTION_CONFIG_FIELDS"
  by (simp add: kernel_config_to_python_def COLLECTION_CONFIG_FIELDS_def)

lemma config_distinct: "distinct (map fst (kernel_config_to_python c))"
  unfolding config_keys by (simp add: COLLECTION_CONFIG_FIELDS_def)

lemma config_length: "length (kernel_config_to_python c) = 13"
  by (simp add: kernel_config_to_python_def)

lemma config_has_fields: "has_fields (kernel_config_to_python c) COLLECTION_CONFIG_FIELDS"
  by (simp add: has_fields_def dict_keys_def flip: config_keys [of c])

lemma config_ints:
  assumes "k \<in> set COLLECTION_CONFIG_FIELDS" and "k \<noteq> ''ann_metric''" and "k \<noteq> ''scalar_kind''"
  shows "\<exists>i. map_of (kernel_config_to_python c) k = Some (PInt i)"
proof -
  have "k \<in> {''dimension'', ''m'', ''m0'', ''ef_construction'', ''default_ef_search'', ''max_ef_search'',
      ''max_level'', ''rebuild_inactive_percent'', ''delta_max_points'', ''level_seed'', ''fingerprint''}"
    using assms unfolding COLLECTION_CONFIG_FIELDS_def by simp
  then show ?thesis using config_lookup by (elim insertE) auto
qed

text \<open>A dictionary with the same entries in another order compares equal.\<close>

lemma config_py_eq:
  assumes "map_of d = map_of (kernel_config_to_python c)" and "length d = 13"
  shows "py_eq (PDict (kernel_config_to_python c)) (PDict d)"
proof -
  have atoms: "py_eq v v" if "(k, v) \<in> set (kernel_config_to_python c)" for k v
    using that by (auto simp: kernel_config_to_python_def)
  have "length (kernel_config_to_python c) = 13" by (simp add: kernel_config_to_python_def)
  moreover have "map_of d k = Some v" if "(k, v) \<in> set (kernel_config_to_python c)" for k v
    using that config_distinct [of c] by (simp add: assms(1))
  ultimately show ?thesis using atoms assms(2) by (fastforce simp: list_all_iff)
qed

text \<open>Only the entries of the dictionary matter, not their order.\<close>

lemma canonical_accepts:
  assumes d: "map_of d = map_of (kernel_config_to_python c)" and len: "length d = 13"
    and valid: "kernel_config_validate c = Inr ()"
  shows "canonical_collection_config (PDict d) (kc_dimension c) = Inr (kernel_config_to_python c)"
proof -
  have fields: "has_fields d COLLECTION_CONFIG_FIELDS"
    using config_has_fields [of c] by (simp add: has_fields_def dict_keys_dom d)
  have ints: "rall (\<lambda>k. rbind (dget_int d k (''collection config '' @ k)) (\<lambda>_. Inr ()))
      (filter (\<lambda>k. k \<noteq> ''ann_metric'' \<and> k \<noteq> ''scalar_kind'') COLLECTION_CONFIG_FIELDS) = Inr ()"
    using config_ints [of _ c] by (fastforce simp: dget_int_def dget_def d)
  have dget: "dget d ''ann_metric'' = Inr (PStr (metric_name (kc_ann_metric c)))"
    "dget d ''scalar_kind'' = Inr (PStr (scalar_name (kc_scalar_kind c)))"
    "dget d ''dimension'' = Inr (PInt (kc_dimension c))"
    by (simp_all add: dget_def d config_lookup)
  have kernel: "rbind (config_from_kernel d) (\<lambda>requested.
      validate_collection_config (PInt (kc_dimension c)) (PDict (config_to_kernel requested))) =
      Inr (kernel_config_to_python c)"
    using from_kernel_to_python [OF d] validate_options [OF valid] valid
    by (simp add: kernel_valid_iff kernel_options_def)
  show ?thesis
    unfolding canonical_collection_config_def as_dict.simps option.case ints kernel dget rbind_Inr sum.case
    using fields config_py_eq [OF d len] by simp
qed

lemma from_python_dimension:
  assumes "kernel_config_from_python n v = Inr c"
  shows "kc_dimension c = n"
proof -
  obtain d where d: "as_dict v = Some d"
    using assms by (cases "as_dict v") (simp_all add: kernel_config_from_python_def)
  show ?thesis using assms unfolding kernel_config_from_python_def Let_def d option.case
    by (simp only: rbind_eq_Inr require_eq_Inr sum.inject)
      (elim exE conjE, hypsubst, rule kernel_config.select_convs(1))
qed

lemma validate_result:
  assumes "validate_collection_config (PInt n) v = Inr r"
  obtains c where "kernel_config_validate c = Inr ()" "kc_dimension c = n"
    "r = kernel_config_to_python c"
proof -
  obtain c where c: "(if v = PNone then Inr (kernel_defaults n) else kernel_config_from_python n v) = Inr c"
      "kernel_config_validate c = Inr ()" "r = kernel_config_to_python c"
    using assms by (auto simp: validate_collection_config_def kernel_int_def)
  moreover have "kc_dimension c = n"
    using c(1) from_python_dimension [of n v c]
    by (cases "v = PNone") (auto simp: kernel_defaults_def)
  ultimately show ?thesis using that by blast
qed

lemma canonical_result:
  assumes "canonical_collection_config v n = Inr r"
  obtains c where "kernel_config_validate c = Inr ()" "kc_dimension c = n"
    "r = kernel_config_to_python c" "py_eq (PDict r) v"
proof -
  obtain d where v: "v = PDict d"
    using assms by (cases v) (simp_all add: canonical_collection_config_def)
  define q where "q = rbind (config_from_kernel d) (\<lambda>requested.
        validate_collection_config (PInt n) (PDict (config_to_kernel requested)))"
  have "(case q of
       Inl e \<Rightarrow> Inl (ProtocolError ''invalid cluster collection config'')
     | Inr canonical \<Rightarrow>
         require (py_eq (PDict canonical) (PDict d))
           (ProtocolError ''cluster collection config is not canonical'') (Inr canonical)) = Inr r"
    using assms
    unfolding canonical_collection_config_def v as_dict.simps option.case q_def [symmetric]
    by (simp only: rbind_eq_Inr require_eq_Inr) (elim exE conjE)
  then have q: "q = Inr r" "py_eq (PDict r) (PDict d)" by (cases q; simp)+
  then obtain requested where
      "validate_collection_config (PInt n) (PDict (config_to_kernel requested)) = Inr r"
    by (auto simp: q_def)
  then show ?thesis using that q v by (elim validate_result) blast
qed

lemma canonical_protocol_only [protocol_only_intros]: "protocol_only (canonical_collection_config v n)"
proof (cases "as_dict v")
  case (Some d)
  have last: "protocol_only (case r of
       Inl e \<Rightarrow> Inl (ProtocolError ''invalid cluster collection config'')
     | Inr canonical \<Rightarrow>
         require (py_eq (PDict canonical) (PDict d))
           (ProtocolError ''cluster collection config is not canonical'') (Inr canonical))" for r
    by (cases r) (simp_all add: protocol_only_def require_def)
  show ?thesis unfolding canonical_collection_config_def Some option.case
    by (intro protocol_only_intros last protocol_only_dget [where fs = COLLECTION_CONFIG_FIELDS]
        protocol_only_dget_int [where fs = COLLECTION_CONFIG_FIELDS])
      (assumption | erule filter_is_subset [THEN subsetD] | simp (no_asm) add: COLLECTION_CONFIG_FIELDS_def)+
qed (simp add: canonical_collection_config_def protocol_only_def)

section \<open>Properties\<close>

text \<open>
  C20: The configuration a cluster stores is canonical: it is the kernel's own report of a
  valid configuration of the cluster's dimension, equal to what was given, and checking it
  again (for instance after it was read back with its keys in another order) returns it
  unchanged, all 64 bits of the level seed included; everything else is refused with a
  protocol error.
\<close>

theorem canonical_config_fixpoint:
  "(\<forall>r. canonical_collection_config v n = Inr r \<longrightarrow>
      (\<exists>c. kernel_config_validate c = Inr () \<and> kc_dimension c = n \<and>
         r = kernel_config_to_python c \<and> py_eq (PDict r) v) \<and>
      (\<forall>d. map_of d = map_of r \<and> length d = length r \<longrightarrow>
         canonical_collection_config (PDict d) n = Inr r)) \<and>
   (\<forall>e. canonical_collection_config v n = Inl e \<longrightarrow> is_protocol_error e)"
proof (intro conjI allI impI)
  fix r assume r: "canonical_collection_config v n = Inr r"
  then obtain c where c: "kernel_config_validate c = Inr ()" "kc_dimension c = n"
      "r = kernel_config_to_python c" "py_eq (PDict r) v"
    by (rule canonical_result)
  then show "\<exists>c. kernel_config_validate c = Inr () \<and> kc_dimension c = n \<and>
      r = kernel_config_to_python c \<and> py_eq (PDict r) v"
    by blast
  fix d assume "map_of d = map_of r \<and> length d = length r"
  with c have "map_of d = map_of (kernel_config_to_python c)" "length d = 13"
    by (simp_all add: kernel_config_to_python_def)
  from canonical_accepts [OF this c(1)] c show "canonical_collection_config (PDict d) n = Inr r"
    by simp
next
  fix e assume "canonical_collection_config v n = Inl e"
  with canonical_protocol_only [of v n] show "is_protocol_error e" by (simp add: protocol_only_def)
qed

theorem canonical_config_fixpoint_witness:
  "canonical_collection_config (PDict (kernel_config_to_python (kernel_defaults 8))) 8 =
     Inr (kernel_config_to_python (kernel_defaults 8)) \<and>
   (\<exists>e. canonical_collection_config PNone 8 = Inl e \<and> is_protocol_error e)"
proof -
  have "kernel_config_validate (kernel_defaults 8) = Inr ()" "kc_dimension (kernel_defaults 8) = 8"
    by (simp_all add: kernel_valid_iff kernel_defaults_def)
  then have r: "canonical_collection_config (PDict (kernel_config_to_python (kernel_defaults 8))) 8 =
      Inr (kernel_config_to_python (kernel_defaults 8))"
    using canonical_accepts [of "kernel_config_to_python (kernel_defaults 8)" "kernel_defaults 8"]
    by (simp add: kernel_config_to_python_def)
  have e: "canonical_collection_config PNone 8 =
      Inl (ProtocolError ''cluster collection config fields mismatch'')"
    by (simp add: canonical_collection_config_def)
  show ?thesis using r canonical_config_fixpoint [of PNone 8] e by blast
qed

text \<open>
  The defaults of the Python data class and of the kernel agree: for a positive
  dimension the default options construct, and the kernel reports the same canonical
  configuration, fingerprint included, for them and for no options at all.
\<close>

theorem config_defaults_agree:
  assumes "0 < n"
  shows "\<exists>c. config_from_options n NoOptions = Inr c \<and> cc_fingerprint c = None \<and>
    validate_collection_config (PInt n) (PDict (config_to_kernel c)) =
    validate_collection_config (PInt n) PNone"
proof -
  let ?k = "kernel_defaults n"
  let ?c = "(python_config ?k)\<lparr>cc_fingerprint := None\<rparr>"
  have init: "collection_config_init ((''dimension'', PInt n) # DEFAULT_CONFIG_FIELDS) = Inr ?c"
    "collection_config_init (config_fields ?c) = Inr ?c"
    using assms
    by (simp_all add: collection_config_init_def DEFAULT_CONFIG_FIELDS_def config_fields_def
        python_config_def kernel_defaults_def dget_def check_int_def check_choice_def)
  then have "config_from_options n NoOptions = Inr ?c"
    by (simp add: config_from_options_def config_defaults_def)
  moreover have "validate_collection_config (PInt n) (PDict (config_to_kernel ?c)) =
      validate_collection_config (PInt n) PNone"
  proof (cases "n < 2 ^ 63")
    case True
    have options: "config_to_kernel ?c = kernel_options ?k"
      by (simp add: config_to_kernel_def kernel_options_def)
    have "kc_dimension ?k = n" "kernel_ranges ?k"
      using assms True by (simp_all add: kernel_ranges_def int64_def kernel_defaults_def)
    then show ?thesis unfolding options
      using from_python_options [of ?k] kernel_ints(1) [of ?k]
      by (simp add: validate_collection_config_def)
  qed (simp add: validate_collection_config_def kernel_int_def)
  ultimately show ?thesis by (intro exI [of _ ?c]) simp
qed

theorem config_defaults_agree_witness:
  "\<exists>c. config_from_options 3 NoOptions = Inr c \<and>
     validate_collection_config (PInt 3) (PDict (config_to_kernel c)) =
     validate_collection_config (PInt 3) PNone"
  using config_defaults_agree [of 3] by auto

end
