(* ===== verification/Metadata.thy ===== *)
theory Metadata
  imports ConfigCanonical
begin

text \<open>
  The cluster metadata of protocol.py: shard placements, the member and request tables,
  their validation, and the versioned document they are stored in. Dictionaries are
  association lists in insertion order; validation returns the metadata because it
  replaces the collection configuration by its canonical form.
\<close>

section \<open>Data\<close>

definition ROUTING_VERSION :: int where
  "ROUTING_VERSION = 2"

definition LEGACY_ROUTING_VERSION :: int where
  "LEGACY_ROUTING_VERSION = 1"

definition CLUSTER_METADATA_FIELDS_V1 :: "string list" where
  "CLUSTER_METADATA_FIELDS_V1 =
     [''cluster_id'', ''dimension'', ''shard_count'', ''replication_factor'', ''epoch'',
      ''routing_version'', ''members'', ''shards'', ''request_table'']"

definition CLUSTER_METADATA_FIELDS_V2 :: "string list" where
  "CLUSTER_METADATA_FIELDS_V2 = CLUSTER_METADATA_FIELDS_V1 @ [''collection_config'']"

definition SHARD_PLACEMENT_FIELDS :: "string list" where
  "SHARD_PLACEMENT_FIELDS =
     [''shard_id'', ''term'', ''placement_epoch'', ''leader'', ''replicas'', ''last_log_index'',
      ''committed_index'']"

definition REQUEST_RECORD_FIELDS :: "string list" where
  "REQUEST_RECORD_FIELDS = [''shard_id'', ''term'', ''index'', ''checksum'', ''status'']"

record placement =
  p_shard_id :: int
  p_term :: int
  p_placement_epoch :: int
  p_leader :: string
  p_replicas :: "string list"
  p_last_log_index :: int
  p_committed_index :: int

definition quorum :: "placement \<Rightarrow> nat" where
  "quorum p = length (p_replicas p) div 2 + 1"

record metadata =
  cluster_id :: string
  dimension :: int
  shard_count :: int
  replication_factor :: int
  epoch :: int
  members :: "(string \<times> string \<times> int) list"
  shards :: "(int \<times> placement) list"
  collection_config :: "(string \<times> pyval) list"
  request_table :: "(string \<times> pyval) list"
  routing_version :: int

section \<open>Validation\<close>

definition validate_member :: "string \<times> string \<times> int \<Rightarrow> unit result" where
  "validate_member m =
     (case m of (node, host, port) \<Rightarrow>
        require (node \<noteq> []) (ProtocolError ''invalid cluster member'')
       (require (host \<noteq> [] \<and> 0 < port \<and> port \<le> 65535)
          (ProtocolError ''invalid cluster member address'')
       (Inr ())))"

definition validate_placement :: "metadata \<Rightarrow> int \<times> placement \<Rightarrow> unit result" where
  "validate_placement m s =
     (case s of (shard_id, p) \<Rightarrow>
        require (p_shard_id p = shard_id \<and> 0 < p_term p)
          (ProtocolError ''invalid shard placement identity'')
       (require (0 < p_placement_epoch p) (ProtocolError ''invalid shard placement epoch'')
       (require (card (set (p_replicas p)) = length (p_replicas p))
          (ProtocolError ''duplicate shard replica'')
       (require (p_leader p \<in> set (p_replicas p)) (ProtocolError ''shard leader must be a replica'')
       (require (quorum p \<le> length (p_replicas p)) (ProtocolError ''shard cannot form quorum'')
       (require (p_committed_index p \<le> p_last_log_index p)
          (ProtocolError ''committed index exceeds shard log'')
       (require (list_all (\<lambda>node. node \<in> dict_keys (members m)) (p_replicas p))
          (ProtocolError ''shard references an unknown member'')
       (Inr ()))))))))"

definition validate_request :: "string \<times> pyval \<Rightarrow> unit result" where
  "validate_request r =
     (case r of (request_id, request) \<Rightarrow>
        (case as_dict request of
           None \<Rightarrow> Inl (ProtocolError ''invalid request table entry'')
         | Some d \<Rightarrow>
             require (request_id \<noteq> []) (ProtocolError ''invalid request table entry'')
            (require (has_fields d REQUEST_RECORD_FIELDS)
               (ProtocolError ''request table entry fields mismatch'')
            (rbind (dget_int d ''shard_id'' ''request table shard_id'') (\<lambda>_.
             rbind (dget_int d ''term'' ''request table term'') (\<lambda>_.
             rbind (dget_int d ''index'' ''request table index'') (\<lambda>_.
             rbind (dget_int d ''checksum'' ''request table checksum'') (\<lambda>_.
             rbind (dget d ''status'') (\<lambda>status.
             require (status = PStr ''prepared'' \<or> status = PStr ''committed'')
               (ProtocolError ''invalid request table status'')
            (Inr ()))))))))))"

definition metadata_validate :: "metadata \<Rightarrow> metadata result" where
  "metadata_validate m =
     require (cluster_id m \<noteq> []) (ProtocolError ''invalid cluster identifier'')
    (require (0 < dimension m \<and> 0 < shard_count m) (ProtocolError ''invalid cluster metadata header'')
    (require (0 < replication_factor m \<and> replication_factor m \<le> int (length (members m)))
       (ProtocolError ''invalid cluster replication factor'')
    (require (routing_version m = ROUTING_VERSION \<and> 0 < epoch m)
       (ProtocolError ''unsupported routing metadata'')
    (rbind (canonical_collection_config (PDict (collection_config m)) (dimension m)) (\<lambda>config.
     rbind (rall validate_member (members m)) (\<lambda>_.
     require (dict_keys (shards m) = {0..<shard_count m})
       (ProtocolError ''cluster metadata must cover every shard'')
    (rbind (rall (validate_placement m) (shards m)) (\<lambda>_.
     rbind (rall validate_request (request_table m)) (\<lambda>_.
     Inr (m\<lparr>collection_config := config\<rparr>))))))))))"

section \<open>The stored document\<close>

definition placement_dict :: "placement \<Rightarrow> pyval" where
  "placement_dict p =
     PDict [(''shard_id'', PInt (p_shard_id p)), (''term'', PInt (p_term p)),
            (''placement_epoch'', PInt (p_placement_epoch p)), (''leader'', PStr (p_leader p)),
            (''replicas'', PList (map PStr (p_replicas p))),
            (''last_log_index'', PInt (p_last_log_index p)),
            (''committed_index'', PInt (p_committed_index p))]"

definition member_item :: "string \<times> string \<times> int \<Rightarrow> string \<times> pyval" where
  "member_item m = (case m of (node, host, port) \<Rightarrow> (node, PList [PStr host, PInt port]))"

definition shard_item :: "int \<times> placement \<Rightarrow> string \<times> pyval" where
  "shard_item s = (case s of (i, p) \<Rightarrow> (show_int i, placement_dict p))"

definition metadata_fields :: "metadata \<Rightarrow> pyval" where
  "metadata_fields m =
     PDict [(''cluster_id'', PStr (cluster_id m)), (''dimension'', PInt (dimension m)),
            (''shard_count'', PInt (shard_count m)),
            (''replication_factor'', PInt (replication_factor m)), (''epoch'', PInt (epoch m)),
            (''routing_version'', PInt (routing_version m)),
            (''collection_config'', PDict (collection_config m)),
            (''members'', PDict (map member_item (sort_items (members m)))),
            (''shards'', PDict (map shard_item (sort_items (shards m)))),
            (''request_table'', PDict (request_table m))]"

definition to_payload :: "metadata \<Rightarrow> pyval result" where
  "to_payload m = rbind (metadata_validate m) (\<lambda>m'. Inr (metadata_fields m'))"

text \<open>
  \<open>int(text)\<close> on ASCII text: surrounding blanks, a sign, and digits that single
  underscores may group.
\<close>

fun digit_groups :: "string \<Rightarrow> bool" where
  "digit_groups [] = False"
| "digit_groups [c] = is_digit c"
| "digit_groups (c # d # cs) =
     (is_digit c \<and> (digit_groups (d # cs) \<or> d = CHR ''_'' \<and> digit_groups cs))"

definition py_int :: "string \<Rightarrow> int option" where
  "py_int s =
     (let blank = (\<lambda>c. c \<in> {CHR '' '', CHR 0x09, CHR 0x0A, CHR 0x0B, CHR 0x0C, CHR 0x0D});
          t = rev (dropWhile blank (rev (dropWhile blank s)));
          neg = (t \<noteq> [] \<and> hd t = CHR ''-'');
          body = (if t \<noteq> [] \<and> (hd t = CHR ''-'' \<or> hd t = CHR ''+'') then tl t else t)
      in if digit_groups body
         then (let n = int (nat_of_digits (filter is_digit body)) in Some (if neg then - n else n))
         else None)"

definition parse_member :: "string \<times> pyval \<Rightarrow> (string \<times> string \<times> int) result" where
  "parse_member item =
     (case item of (node, address) \<Rightarrow>
        (case as_list address of
           None \<Rightarrow> Inl (ProtocolError ''invalid cluster member'')
         | Some parts \<Rightarrow>
             (case parts of
                [raw_host, raw_port] \<Rightarrow>
                  (case as_str raw_host of
                     None \<Rightarrow> Inl (ProtocolError ''cluster member address must be a string'')
                   | Some host \<Rightarrow>
                       rbind (exact_int raw_port ''cluster member port'') (\<lambda>port. Inr (node, host, port)))
              | _ \<Rightarrow> Inl (ProtocolError ''invalid cluster member''))))"

definition parse_placement :: "string \<times> pyval \<Rightarrow> (int \<times> placement) result" where
  "parse_placement item =
     (case item of (shard, raw) \<Rightarrow>
        (case as_dict raw of
           None \<Rightarrow> Inl (ProtocolError ''invalid shard placement'')
         | Some d \<Rightarrow>
             require (has_fields d SHARD_PLACEMENT_FIELDS)
               (ProtocolError ''shard placement fields mismatch'')
            (case py_int shard of
               None \<Rightarrow> Inl (ProtocolError ''invalid shard key'')
             | Some shard_id \<Rightarrow>
                 require (shard = show_int shard_id) (ProtocolError ''noncanonical shard key'')
                (rbind (dget_int d ''shard_id'' ''shard placement shard_id'') (\<lambda>sid.
                 rbind (dget_int d ''term'' ''shard placement term'') (\<lambda>term.
                 rbind (dget_int d ''placement_epoch'' ''shard placement placement_epoch'') (\<lambda>pe.
                 rbind (dget_int d ''last_log_index'' ''shard placement last_log_index'') (\<lambda>last_index.
                 rbind (dget_int d ''committed_index'' ''shard placement committed_index'') (\<lambda>committed_index.
                 rbind (dget d ''leader'') (\<lambda>raw_leader.
                 rbind (dget d ''replicas'') (\<lambda>raw_replicas.
                 (case (as_str raw_leader, as_list raw_replicas) of
                    (Some leader, Some items) \<Rightarrow>
                      rbind (rmap (\<lambda>v. case as_str v of
                                 None \<Rightarrow> Inl (ProtocolError ''invalid shard replica'')
                               | Some s \<Rightarrow> Inr s) items) (\<lambda>replicas.
                      Inr (shard_id,
                           \<lparr>p_shard_id = sid, p_term = term, p_placement_epoch = pe, p_leader = leader,
                            p_replicas = replicas, p_last_log_index = last_index,
                            p_committed_index = committed_index\<rparr>))
                  | _ \<Rightarrow> Inl (ProtocolError ''invalid shard placement members'')))))))))))))"

text \<open>The tables of the document; a shard key that repeats overwrites (it cannot).\<close>

definition from_payload :: "pyval \<Rightarrow> int \<Rightarrow> metadata result" where
  "from_payload payload version =
     (case as_dict payload of
        None \<Rightarrow> Inl (ProtocolError ''cluster metadata payload must be an object'')
      | Some d \<Rightarrow>
          require (version = PROTOCOL_VERSION \<longrightarrow> ''collection_config'' \<in> dict_keys d)
            (ProtocolError ''cluster collection config is missing'')
         (require (has_fields d (if version = LEGACY_PROTOCOL_VERSION
                                 then CLUSTER_METADATA_FIELDS_V1 else CLUSTER_METADATA_FIELDS_V2))
            (ProtocolError ''cluster metadata fields mismatch'')
         (rbind (dget_int d ''dimension'' ''cluster dimension'') (\<lambda>dim.
          require (0 < dim) (ProtocolError ''cluster dimension must be positive'')
         (rbind (dget d ''cluster_id'') (\<lambda>raw_id.
         (case as_str raw_id of
            None \<Rightarrow> Inl (ProtocolError ''cluster identifier must be a string'')
          | Some cid \<Rightarrow>
          rbind (dget_int d ''routing_version'' ''cluster routing version'') (\<lambda>raw_routing.
          rbind (if version = LEGACY_PROTOCOL_VERSION then
                   require (raw_routing = LEGACY_ROUTING_VERSION)
                     (ProtocolError ''invalid legacy routing version'')
                   (rbind (legacy_default_collection_config dim) (\<lambda>c. Inr (c, ROUTING_VERSION)))
                 else
                   rbind (dget d ''collection_config'') (\<lambda>raw_config.
                   require (as_dict raw_config \<noteq> None)
                     (ProtocolError ''cluster collection config is missing'')
                   (rbind (canonical_collection_config raw_config dim) (\<lambda>c. Inr (c, raw_routing)))))
            (\<lambda>(config, routing).
          rbind (dget d ''members'') (\<lambda>raw_members.
          rbind (dget d ''shards'') (\<lambda>raw_shards.
         (case (as_dict raw_members, as_dict raw_shards) of
            (Some ms, Some ss) \<Rightarrow>
          rbind (rmap parse_member ms) (\<lambda>member_list.
          rbind (rmap parse_placement ss) (\<lambda>shard_list.
          rbind (dget d ''request_table'') (\<lambda>raw_requests.
         (case as_dict raw_requests of
            None \<Rightarrow> Inl (ProtocolError ''cluster request table must be an object'')
          | Some requests \<Rightarrow>
          rbind (dget_int d ''shard_count'' ''cluster shard_count'') (\<lambda>count.
          rbind (dget_int d ''replication_factor'' ''cluster replication_factor'') (\<lambda>factor.
          rbind (dget_int d ''epoch'' ''cluster epoch'') (\<lambda>ep.
          metadata_validate
            \<lparr>cluster_id = cid, dimension = dim, shard_count = count, replication_factor = factor,
             epoch = ep, members = member_list,
             shards = foldl (\<lambda>acc (k, p). dict_set k p acc) [] shard_list,
             collection_config = config, request_table = requests, routing_version = routing\<rparr>)))))))
          | _ \<Rightarrow> Inl (ProtocolError ''cluster members and shards must be objects'')))))))))))))"

definition metadata_text :: "metadata \<Rightarrow> string result" where
  "metadata_text m = rbind (to_payload m) (\<lambda>p. Inr (canonical_bytes (checked_envelope p) @ [CHR 0x0A]))"

definition metadata_load :: "string option \<Rightarrow> metadata result" where
  "metadata_load f =
     (case (case f of None \<Rightarrow> Inl (FileNotFoundError ''cluster metadata'') | Some data \<Rightarrow> json_loads data) of
        Inl (JSONDecodeError m) \<Rightarrow> Inl (ProtocolError ''cannot decode cluster metadata'')
      | Inl (FileNotFoundError m) \<Rightarrow> Inl (ProtocolError ''cannot decode cluster metadata'')
      | Inl e \<Rightarrow> Inl e
      | Inr v \<Rightarrow> rbind (decode_envelope_versioned v) (\<lambda>(version, payload). from_payload payload version))"

end
