(* ===== verification/MetadataStore.thy ===== *)
theory MetadataStore
  imports Metadata
begin

text \<open>
  What the metadata document promises: published metadata is read back unchanged (up to
  the order of its tables), reading raises only protocol errors, and everything that is
  read is valid.
\<close>

section \<open>Tables in another order\<close>

lemma sort_key_map: "sort_key f (map g xs) = map g (sort_key (f \<circ> g) xs)"
proof (induction xs)
  case (Cons x xs)
  have "insort_key f (g x) (map g ys) = map g (insort_key (f \<circ> g) x ys)" for ys
    by (induction ys) simp_all
  with Cons show ?case by (simp add: comp_def)
qed simp

lemma sort_key_perm:
  assumes "mset xs = mset ys" and "inj_on f (set xs)"
  shows "sort_key f xs = sort_key f ys"
  using assms by (intro sort_key_inj_key_eq) simp_all

lemma sort_items_sorted: "sorted (map fst xs) \<Longrightarrow> sort_items xs = xs"
  unfolding sort_items_def by (rule sort_key_id_if_sorted)

lemma foldl_dict_set_distinct:
  "distinct (map fst (acc @ xs)) \<Longrightarrow> foldl (\<lambda>d (k, v). dict_set k v d) acc xs = acc @ xs"
proof (induction xs arbitrary: acc)
  case (Cons x xs)
  obtain k v where x: "x = (k, v)" by force
  have "dict_set k v acc = acc @ [x]" using Cons.prems by (simp add: x dict_set_fresh)
  with Cons.IH [of "acc @ [x]"] Cons.prems show ?case by (simp add: x)
qed simp

lemma show_int_inject [simp]: "show_int a = show_int b \<longleftrightarrow> a = b"
  by (metis parse_number_int option.inject pyval.inject(2))

lemma utf8_ok_show_int [simp]: "utf8_ok (show_int i)"
  using utf8_ok_dumps [of "PInt i"] by simp

section \<open>Shard keys\<close>

lemma digit_groups_digits: "s \<noteq> [] \<Longrightarrow> \<forall>c\<in>set s. is_digit c \<Longrightarrow> digit_groups s"
  by (induction s rule: digit_groups.induct) auto

lemma digit_not:
  assumes "is_digit c"
  shows "c \<notin> {CHR '' '', CHR 0x09, CHR 0x0A, CHR 0x0B, CHR 0x0C, CHR 0x0D}" "c \<noteq> CHR ''-''" "c \<noteq> CHR ''+''"
  using assms by (auto simp: is_digit_def)

lemma strip_id:
  assumes "\<forall>c\<in>set s. c \<notin> B"
  shows "rev (dropWhile (\<lambda>c. c \<in> B) (rev (dropWhile (\<lambda>c. c \<in> B) s))) = s"
proof -
  have "dropWhile (\<lambda>c. c \<in> B) s = s" "dropWhile (\<lambda>c. c \<in> B) (rev s) = rev s"
    using assms by (metis dropWhile_eq_self_iff hd_in_set set_rev)+
  then show ?thesis by simp
qed

lemma show_nat_facts:
  "\<forall>c\<in>set (show_nat n). is_digit c" "digit_groups (show_nat n)"
  "filter is_digit (show_nat n) = show_nat n" "hd (show_nat n) \<noteq> CHR ''+''" "hd (show_nat n) \<noteq> CHR ''-''"
  using show_nat_digits [of _ n] digit_not(3) [OF show_nat_digits [OF hd_in_set [OF show_nat_Nil]], of n]
  by (auto intro: digit_groups_digits)

lemma py_int_show: "py_int (show_int i) = Some i"
proof -
  let ?blank = "{CHR '' '', CHR 0x09, CHR 0x0A, CHR 0x0B, CHR 0x0C, CHR 0x0D}"
  have "\<forall>c\<in>set (show_int i). c \<notin> ?blank"
    using show_nat_facts(1) digit_not(1) by (auto simp: show_int_def split: if_splits)
  from strip_id [OF this] show ?thesis
    unfolding py_int_def Let_def
    by (cases "i < 0") (simp_all add: show_int_def show_nat_facts)
qed

section \<open>Reading what was written\<close>

lemma parse_member_item: "parse_member (member_item m) = Inr m"
  by (simp add: parse_member_def member_item_def exact_int_def split: prod.split)

lemma rmap_map_Inr: "(\<And>x. x \<in> set xs \<Longrightarrow> f (g x) = Inr x) \<Longrightarrow> rmap f (map g xs) = Inr xs"
  by (induction xs) simp_all

lemma rmap_strings:
  "rmap (\<lambda>v. case as_str v of None \<Rightarrow> Inl e | Some s \<Rightarrow> Inr s) (map PStr xs) = Inr xs"
  by (rule rmap_map_Inr) simp

lemma placement_fields:
  obtains d where "canon (placement_dict p) = PDict d" "has_fields d SHARD_PLACEMENT_FIELDS"
    "map_of d ''shard_id'' = Some (PInt (p_shard_id p))" "map_of d ''term'' = Some (PInt (p_term p))"
    "map_of d ''placement_epoch'' = Some (PInt (p_placement_epoch p))"
    "map_of d ''leader'' = Some (PStr (p_leader p))"
    "map_of d ''replicas'' = Some (PList (map PStr (p_replicas p)))"
    "map_of d ''last_log_index'' = Some (PInt (p_last_log_index p))"
    "map_of d ''committed_index'' = Some (PInt (p_committed_index p))"
proof -
  define l where "l = [(''shard_id'', PInt (p_shard_id p)), (''term'', PInt (p_term p)),
            (''placement_epoch'', PInt (p_placement_epoch p)), (''leader'', PStr (p_leader p)),
            (''replicas'', PList (map PStr (p_replicas p))),
            (''last_log_index'', PInt (p_last_log_index p)),
            (''committed_index'', PInt (p_committed_index p))]"
  have look: "map_of (canon_items l) k = map_option canon (map_of l k)" for k
    by (rule map_of_canon_items) (simp add: l_def)
  have "has_fields (canon_items l) SHARD_PLACEMENT_FIELDS"
    unfolding has_fields_canon by (simp add: l_def has_fields_def dict_keys_def SHARD_PLACEMENT_FIELDS_def)
  moreover have "canon (placement_dict p) = PDict (canon_items l)"
    by (simp add: placement_dict_def l_def)
  moreover have strs: "map canon (map PStr xs) = map PStr xs" for xs by simp
  have "map_of l ''shard_id'' = Some (PInt (p_shard_id p))" "map_of l ''term'' = Some (PInt (p_term p))"
    "map_of l ''placement_epoch'' = Some (PInt (p_placement_epoch p))"
    "map_of l ''leader'' = Some (PStr (p_leader p))"
    "map_of l ''replicas'' = Some (PList (map PStr (p_replicas p)))"
    "map_of l ''last_log_index'' = Some (PInt (p_last_log_index p))"
    "map_of l ''committed_index'' = Some (PInt (p_committed_index p))"
    by (simp_all add: l_def)
  ultimately show ?thesis using that [of "canon_items l"] look by simp
qed

lemma parse_placement_item: "parse_placement (show_int i, canon (placement_dict p)) = Inr (i, p)"
proof -
  obtain d where d: "canon (placement_dict p) = PDict d" "has_fields d SHARD_PLACEMENT_FIELDS"
    "map_of d ''shard_id'' = Some (PInt (p_shard_id p))" "map_of d ''term'' = Some (PInt (p_term p))"
    "map_of d ''placement_epoch'' = Some (PInt (p_placement_epoch p))"
    "map_of d ''leader'' = Some (PStr (p_leader p))"
    "map_of d ''replicas'' = Some (PList (map PStr (p_replicas p)))"
    "map_of d ''last_log_index'' = Some (PInt (p_last_log_index p))"
    "map_of d ''committed_index'' = Some (PInt (p_committed_index p))"
    by (rule placement_fields)
  show ?thesis
    unfolding parse_placement_def d(1) prod.case as_dict.simps option.case py_int_show
    by (simp add: d(2-) dget_int_def exact_int_def rmap_strings)
qed

text \<open>Which metadata can be written: its texts are UTF-8 and its dictionaries have no repeated key.\<close>

definition encodable_metadata :: "metadata \<Rightarrow> bool" where
  "encodable_metadata m \<longleftrightarrow>
     utf8_ok (cluster_id m) \<and> list_all (\<lambda>(node, host, port). utf8_ok node \<and> utf8_ok host) (members m) \<and>
     list_all (\<lambda>(i, p). utf8_ok (p_leader p) \<and> list_all utf8_ok (p_replicas p)) (shards m) \<and>
     wf_val (PDict (request_table m)) \<and> distinct (map fst (members m)) \<and> distinct (map fst (shards m))"

text \<open>The metadata as the document gives it back.\<close>

definition stored_metadata :: "metadata \<Rightarrow> metadata" where
  "stored_metadata m = m\<lparr>members := sort_items (members m),
     shards := sort_key (\<lambda>s. show_int (fst s)) (shards m), request_table := canon_items (request_table m)\<rparr>"

lemma canon_member_item: "(case member_item m of (k, v) \<Rightarrow> (k, canon v)) = member_item m"
  by (simp add: member_item_def split: prod.split)

lemma canon_members: "canon_items (map member_item (sort_items ms)) = map member_item (sort_items ms)"
proof -
  have "map fst (map member_item (sort_items ms)) = map fst (sort_items ms)"
    by (simp add: member_item_def split: prod.split)
  then have "sorted (map fst (map member_item (sort_items ms)))"
    by (simp only: map_fst_sort_items sorted_sort)
  then show ?thesis
    unfolding canon_items_def list.map_comp comp_def
    by (simp only: canon_member_item) (simp add: sort_items_sorted comp_def)
qed

lemma canon_shards:
  assumes "distinct (map fst ss)"
  shows "canon_items (map shard_item (sort_items ss)) =
    map (\<lambda>(i, p). (show_int i, canon (placement_dict p))) (sort_key (\<lambda>s. show_int (fst s)) ss)"
proof -
  let ?g = "\<lambda>(i, p). (show_int i, canon (placement_dict p))"
  have "inj_on (\<lambda>s. show_int (fst s)) (set (sort_items ss))"
    using assms by (auto simp: inj_on_def distinct_map)
  then have perm: "sort_key (\<lambda>s. show_int (fst s)) (sort_items ss) = sort_key (\<lambda>s. show_int (fst s)) ss"
    by (intro sort_key_perm) (simp_all add: mset_sort_items)
  have "map (\<lambda>(k, v). (k, canon v)) (map shard_item xs) = map ?g xs" for xs
    by (auto simp: shard_item_def)
  moreover have "fst \<circ> ?g = (\<lambda>s. show_int (fst s))" by (auto simp: fun_eq_iff)
  ultimately show ?thesis
    unfolding canon_items_def by (simp only: sort_items_def [of "map _ _"] sort_key_map perm)
qed

lemma config_canon_items:
  assumes "c = kernel_config_to_python k"
  shows "map_of (canon_items c) = map_of c" "length (canon_items c) = 13"
proof -
  have atom: "canon v = v" if "(a, v) \<in> set c" for a v
    using that by (auto simp: assms kernel_config_to_python_def)
  then have "map (\<lambda>(k, v). (k, canon v)) c = c" by (intro map_idI) auto
  then have "canon_items c = sort_items c" by (simp add: canon_items_def)
  then show "map_of (canon_items c) = map_of c" "length (canon_items c) = 13"
    using config_distinct [of k] by (simp_all add: assms kernel_config_to_python_def)
qed

lemma exact_int_canon: "exact_int (canon v) name = exact_int v name"
  by (cases v) (simp_all add: exact_int_def)

lemma validate_request_canon:
  assumes "wf_val v"
  shows "validate_request (k, canon v) = validate_request (k, v)"
proof (cases v)
  case (PDict d)
  have "distinct (map fst d)" using assms PDict by simp
  then have look: "map_of (canon_items d) n = map_option canon (map_of d n)" for n
    by (rule map_of_canon_items)
  have int: "dget_int (canon_items d) n name = dget_int d n name" for n name
    by (cases "map_of d n") (simp_all add: dget_int_def dget_def look exact_int_canon)
  show ?thesis
    unfolding validate_request_def PDict prod.case canon_PDict as_dict.simps option.case has_fields_canon int
    by (cases "map_of d ''status''") (simp_all add: dget_def look)
qed (simp_all add: validate_request_def)

lemma validate_requests_canon:
  assumes "wf_val (PDict rs)" and "rall validate_request rs = Inr ()"
  shows "rall validate_request (canon_items rs) = Inr ()"
  using assms validate_request_canon by (auto simp: set_canon_items list_all_iff)

lemma wf_metadata_fields:
  assumes "encodable_metadata m" and "wf_val (PDict (collection_config m))"
  shows "wf_val (metadata_fields m)"
proof -
  have "wf_val (PDict (map member_item (sort_items (members m))))"
    using assms(1) by (auto simp: encodable_metadata_def member_item_def list_all_iff comp_def case_prod_unfold)
  moreover have "wf_val (placement_dict p)" if "(i, p) \<in> set (shards m)" for i p
    using assms(1) that by (auto simp: encodable_metadata_def placement_dict_def list_all_iff utf8_ok_ascii)
  then have "wf_val (PDict (map shard_item (sort_items (shards m))))"
    using assms(1)
    by (auto simp: encodable_metadata_def shard_item_def list_all_iff comp_def case_prod_unfold
        distinct_map inj_on_def sort_items_def)
  ultimately show ?thesis
    using assms by (simp add: metadata_fields_def encodable_metadata_def utf8_ok_ascii)
qed

section \<open>Valid metadata\<close>

lemma metadata_validate_ok:
  "metadata_validate m = Inr m' \<longleftrightarrow>
     cluster_id m \<noteq> [] \<and> 0 < dimension m \<and> 0 < shard_count m \<and> 0 < replication_factor m \<and>
     replication_factor m \<le> int (length (members m)) \<and> routing_version m = ROUTING_VERSION \<and>
     0 < epoch m \<and> rall validate_member (members m) = Inr () \<and>
     dict_keys (shards m) = {0..<shard_count m} \<and> rall (validate_placement m) (shards m) = Inr () \<and>
     rall validate_request (request_table m) = Inr () \<and>
     (\<exists>config. canonical_collection_config (PDict (collection_config m)) (dimension m) = Inr config \<and>
        m' = m\<lparr>collection_config := config\<rparr>)"
  unfolding metadata_validate_def require_eq_Inr rbind_eq_Inr sum.inject by (simp del: rall_ok) blast

lemma validate_placement_members:
  "dict_keys (members m') = dict_keys (members m) \<Longrightarrow> validate_placement m' = validate_placement m"
  by (simp add: validate_placement_def fun_eq_iff)

lemma stored_metadata_simps [simp]:
  "cluster_id (stored_metadata m) = cluster_id m" "dimension (stored_metadata m) = dimension m"
  "shard_count (stored_metadata m) = shard_count m" "epoch (stored_metadata m) = epoch m"
  "replication_factor (stored_metadata m) = replication_factor m"
  "members (stored_metadata m) = sort_items (members m)"
  "shards (stored_metadata m) = sort_key (\<lambda>s. show_int (fst s)) (shards m)"
  "collection_config (stored_metadata m) = collection_config m"
  "request_table (stored_metadata m) = canon_items (request_table m)"
  "routing_version (stored_metadata m) = routing_version m"
  by (simp_all add: stored_metadata_def)

lemma validate_stored:
  assumes "metadata_validate m = Inr m" and "encodable_metadata m"
  shows "metadata_validate (stored_metadata m) = Inr (stored_metadata m)"
proof -
  have keys: "validate_placement (stored_metadata m) = validate_placement m"
    by (rule validate_placement_members) (simp add: dict_keys_def)
  obtain config where
      config: "canonical_collection_config (PDict (collection_config m)) (dimension m) = Inr config"
        "m = m\<lparr>collection_config := config\<rparr>"
    using assms(1) unfolding metadata_validate_ok by blast
  then have "stored_metadata m = (stored_metadata m)\<lparr>collection_config := config\<rparr>"
    by (metis metadata.select_convs(8) metadata.surjective metadata.update_convs(8) stored_metadata_simps(8))
  moreover have "rall validate_request (canon_items (request_table m)) = Inr ()"
    using assms validate_requests_canon unfolding metadata_validate_ok encodable_metadata_def by blast
  moreover have "rall validate_member (sort_items (members m)) = Inr ()"
    "rall (validate_placement m) (sort_key (\<lambda>s. show_int (fst s)) (shards m)) = Inr ()"
    using assms(1) unfolding metadata_validate_ok rall_ok by simp_all
  ultimately show ?thesis
    using assms(1) config(1) unfolding metadata_validate_ok
    by (simp add: keys dict_keys_def del: rall_ok)
qed

lemma utf8_ok_names [simp]: "utf8_ok (metric_name k)" "utf8_ok (scalar_name s)"
  by (cases k; cases s; simp)+

lemma wf_config: "wf_val (PDict (kernel_config_to_python c))"
  by (simp add: kernel_config_to_python_def)

lemma canonical_wf:
  assumes "canonical_collection_config v n = Inr r"
  shows "wf_val (PDict r)"
proof -
  obtain c where "r = kernel_config_to_python c" using assms by (rule canonical_result)
  then show ?thesis using wf_config by simp
qed

lemma canonical_reread:
  assumes "canonical_collection_config v n = Inr r"
  shows "canonical_collection_config (PDict (canon_items r)) n = Inr r"
proof -
  obtain c where c: "kernel_config_validate c = Inr ()" "kc_dimension c = n" "r = kernel_config_to_python c"
    using assms by (rule canonical_result)
  then show ?thesis using canonical_accepts [OF _ _ c(1)] config_canon_items [OF c(3)] by auto
qed

lemma metadata_lookup:
  obtains d where "canon (metadata_fields m) = PDict d" "has_fields d CLUSTER_METADATA_FIELDS_V2"
    "map_of d ''cluster_id'' = Some (PStr (cluster_id m))"
    "map_of d ''dimension'' = Some (PInt (dimension m))"
    "map_of d ''shard_count'' = Some (PInt (shard_count m))"
    "map_of d ''replication_factor'' = Some (PInt (replication_factor m))"
    "map_of d ''epoch'' = Some (PInt (epoch m))"
    "map_of d ''routing_version'' = Some (PInt (routing_version m))"
    "map_of d ''collection_config'' = Some (PDict (canon_items (collection_config m)))"
    "map_of d ''members'' = Some (PDict (canon_items (map member_item (sort_items (members m)))))"
    "map_of d ''shards'' = Some (PDict (canon_items (map shard_item (sort_items (shards m)))))"
    "map_of d ''request_table'' = Some (PDict (canon_items (request_table m)))"
proof -
  define l where "l = [(''cluster_id'', PStr (cluster_id m)), (''dimension'', PInt (dimension m)),
            (''shard_count'', PInt (shard_count m)),
            (''replication_factor'', PInt (replication_factor m)), (''epoch'', PInt (epoch m)),
            (''routing_version'', PInt (routing_version m)),
            (''collection_config'', PDict (collection_config m)),
            (''members'', PDict (map member_item (sort_items (members m)))),
            (''shards'', PDict (map shard_item (sort_items (shards m)))),
            (''request_table'', PDict (request_table m))]"
  have look: "map_of (canon_items l) k = map_option canon (map_of l k)" for k
    by (rule map_of_canon_items) (simp add: l_def)
  have keys: "has_fields (canon_items l) CLUSTER_METADATA_FIELDS_V2"
    unfolding has_fields_canon
    by (simp add: l_def has_fields_def dict_keys_def CLUSTER_METADATA_FIELDS_V2_def
        CLUSTER_METADATA_FIELDS_V1_def insert_commute)
  have fields: "canon (metadata_fields m) = PDict (canon_items l)"
    by (simp add: metadata_fields_def l_def)
  have "map_of l ''cluster_id'' = Some (PStr (cluster_id m))"
    "map_of l ''dimension'' = Some (PInt (dimension m))"
    "map_of l ''shard_count'' = Some (PInt (shard_count m))"
    "map_of l ''replication_factor'' = Some (PInt (replication_factor m))"
    "map_of l ''epoch'' = Some (PInt (epoch m))"
    "map_of l ''routing_version'' = Some (PInt (routing_version m))"
    "map_of l ''collection_config'' = Some (PDict (collection_config m))"
    "map_of l ''members'' = Some (PDict (map member_item (sort_items (members m))))"
    "map_of l ''shards'' = Some (PDict (map shard_item (sort_items (shards m))))"
    "map_of l ''request_table'' = Some (PDict (request_table m))"
    by (simp_all add: l_def)
  then show ?thesis using that [of "canon_items l"] look keys fields by (simp only: option.map canon.simps(3-) canon_PDict simp_thms)
qed

lemma from_payload_fields:
  assumes valid: "metadata_validate m = Inr m" and enc: "encodable_metadata m"
  shows "from_payload (canon (metadata_fields m)) PROTOCOL_VERSION = Inr (stored_metadata m)"
proof -
  obtain d where d: "canon (metadata_fields m) = PDict d" "has_fields d CLUSTER_METADATA_FIELDS_V2"
    "map_of d ''cluster_id'' = Some (PStr (cluster_id m))"
    "map_of d ''dimension'' = Some (PInt (dimension m))"
    "map_of d ''shard_count'' = Some (PInt (shard_count m))"
    "map_of d ''replication_factor'' = Some (PInt (replication_factor m))"
    "map_of d ''epoch'' = Some (PInt (epoch m))"
    "map_of d ''routing_version'' = Some (PInt (routing_version m))"
    "map_of d ''collection_config'' = Some (PDict (canon_items (collection_config m)))"
    "map_of d ''members'' = Some (PDict (canon_items (map member_item (sort_items (members m)))))"
    "map_of d ''shards'' = Some (PDict (canon_items (map shard_item (sort_items (shards m)))))"
    "map_of d ''request_table'' = Some (PDict (canon_items (request_table m)))"
    by (rule metadata_lookup)
  have distinct: "distinct (map fst (shards m))" using enc by (simp add: encodable_metadata_def)
  have ms: "rmap parse_member (canon_items (map member_item (sort_items (members m)))) = Inr (sort_items (members m))"
    unfolding canon_members by (rule rmap_map_Inr) (rule parse_member_item)
  let ?ss = "sort_key (\<lambda>s. show_int (fst s)) (shards m)"
  have ss: "rmap parse_placement (canon_items (map shard_item (sort_items (shards m)))) = Inr ?ss"
    unfolding canon_shards [OF distinct] by (rule rmap_map_Inr) (auto simp: parse_placement_item)
  have "distinct (map fst ?ss)" using distinct by (auto simp: distinct_map inj_on_def)
  then have fold: "foldl (\<lambda>acc (k, p). dict_set k p acc) [] ?ss = ?ss"
    using foldl_dict_set_distinct [of "[]" ?ss] by simp
  obtain config where config: "canonical_collection_config (PDict (collection_config m)) (dimension m) = Inr config"
      "m = m\<lparr>collection_config := config\<rparr>"
    using valid unfolding metadata_validate_ok by blast
  then have "config = collection_config m" by (metis metadata.select_convs(8) metadata.surjective metadata.update_convs(8))
  then have canonical: "canonical_collection_config (PDict (canon_items (collection_config m))) (dimension m) =
      Inr (collection_config m)"
    using canonical_reread [OF config(1)] by simp
  have stored: "\<lparr>cluster_id = cluster_id m, dimension = dimension m, shard_count = shard_count m,
      replication_factor = replication_factor m, epoch = epoch m, members = sort_items (members m),
      shards = ?ss, collection_config = collection_config m,
      request_table = canon_items (request_table m), routing_version = routing_version m\<rparr> = stored_metadata m"
    by (simp add: stored_metadata_def)
  have "''collection_config'' \<in> dict_keys d" using d(9) by (auto simp: dict_keys_dom)
  moreover have "PROTOCOL_VERSION \<noteq> LEGACY_PROTOCOL_VERSION"
    by (simp add: PROTOCOL_VERSION_def LEGACY_PROTOCOL_VERSION_def)
  moreover have "0 < dimension m" using valid unfolding metadata_validate_ok by blast
  ultimately show ?thesis
    unfolding from_payload_def d(1) as_dict.simps option.case
    by (simp only: d(2-) dget_Some [OF d(3)] dget_Some [OF d(9)] dget_Some [OF d(10)] dget_Some [OF d(11)]
        dget_Some [OF d(12)] dget_int_def dget_Some [OF d(4)] dget_Some [OF d(5)] dget_Some [OF d(6)]
        dget_Some [OF d(7)] dget_Some [OF d(8)] exact_int_def pyval.case as_str.simps as_dict.simps option.case
        rbind_Inr require_True if_False simp_thms option.distinct prod.case ms ss fold canonical stored
        validate_stored [OF valid enc])
qed

text \<open>Every metadata that validates is a fixed point of validation.\<close>

lemma metadata_validate_idem:
  assumes "metadata_validate m = Inr m'"
  shows "metadata_validate m' = Inr m'"
proof -
  obtain config where c: "canonical_collection_config (PDict (collection_config m)) (dimension m) = Inr config"
      "m' = m\<lparr>collection_config := config\<rparr>"
    using assms unfolding metadata_validate_ok by blast
  obtain k where k: "kernel_config_validate k = Inr ()" "kc_dimension k = dimension m"
      "config = kernel_config_to_python k"
    using c(1) by (rule canonical_result)
  have "canonical_collection_config (PDict config) (dimension m) = Inr config"
    using canonical_accepts [of config k] k by (simp add: kernel_config_to_python_def)
  moreover have "validate_placement m' = validate_placement m"
    by (rule validate_placement_members) (simp add: c(2))
  moreover have "m'\<lparr>collection_config := config\<rparr> = m'" by (simp add: c(2))
  ultimately show ?thesis using assms c(2) unfolding metadata_validate_ok by simp
qed

lemma from_payload_valid: "yields (\<lambda>m. metadata_validate m = Inr m) (from_payload p v)"
proof -
  have leaf: "yields (\<lambda>m. metadata_validate m = Inr m) (metadata_validate raw)" for raw
    by (simp add: yields_def metadata_validate_idem)
  show ?thesis unfolding from_payload_def by (intro yields_intros leaf)
qed

lemma validate_member_protocol_only [protocol_only_intros]: "protocol_only (validate_member m)"
  unfolding validate_member_def by (intro protocol_only_intros) simp_all

lemma validate_placement_protocol_only [protocol_only_intros]: "protocol_only (validate_placement m s)"
  unfolding validate_placement_def by (intro protocol_only_intros) simp_all

lemma validate_request_protocol_only [protocol_only_intros]: "protocol_only (validate_request r)"
  unfolding validate_request_def
  by (intro protocol_only_intros protocol_only_dget [where fs = REQUEST_RECORD_FIELDS]
      protocol_only_dget_int [where fs = REQUEST_RECORD_FIELDS])
    (assumption | simp (no_asm) add: REQUEST_RECORD_FIELDS_def)+

lemma metadata_validate_protocol_only [protocol_only_intros]: "protocol_only (metadata_validate m)"
  unfolding metadata_validate_def by (intro protocol_only_intros) simp_all

lemma legacy_default_protocol_only [protocol_only_intros]:
  "protocol_only (legacy_default_collection_config n)"
  by (simp add: legacy_default_collection_config_def protocol_only_def split: sum.splits)

lemma parse_member_protocol_only [protocol_only_intros]: "protocol_only (parse_member item)"
  unfolding parse_member_def
  by (intro protocol_only_intros) (auto split: list.splits option.splits intro!: protocol_only_intros)

lemma parse_placement_protocol_only [protocol_only_intros]: "protocol_only (parse_placement item)"
  unfolding parse_placement_def
  by (intro protocol_only_intros protocol_only_dget [where fs = SHARD_PLACEMENT_FIELDS]
      protocol_only_dget_int [where fs = SHARD_PLACEMENT_FIELDS])
    (assumption | simp (no_asm) add: SHARD_PLACEMENT_FIELDS_def)+

definition metadata_fields_of :: "int \<Rightarrow> string list" where
  "metadata_fields_of version =
     (if version = LEGACY_PROTOCOL_VERSION then CLUSTER_METADATA_FIELDS_V1 else CLUSTER_METADATA_FIELDS_V2)"

lemma metadata_fields_of_mem:
  "k \<in> set CLUSTER_METADATA_FIELDS_V1 \<Longrightarrow> k \<in> set (metadata_fields_of v)"
  "v \<noteq> LEGACY_PROTOCOL_VERSION \<Longrightarrow> ''collection_config'' \<in> set (metadata_fields_of v)"
  by (simp_all add: metadata_fields_of_def CLUSTER_METADATA_FIELDS_V2_def)

lemma from_payload_protocol_only [protocol_only_intros]: "protocol_only (from_payload p v)"
  unfolding from_payload_def metadata_fields_of_def [symmetric]
  by (intro protocol_only_intros protocol_only_dget [where fs = "metadata_fields_of v"]
      protocol_only_dget_int [where fs = "metadata_fields_of v"])
    (assumption | rule metadata_fields_of_mem | simp (no_asm) add: CLUSTER_METADATA_FIELDS_V1_def)+

end
