(* ===== verification/AtomicFile.thy ===== *)
theory AtomicFile
  imports Prelude "HOL-Library.Sublist"
begin

text \<open>
  Publication of a file by writing a temporary sibling and renaming it over the
  destination, as \<open>ClusterMetadata.publish\<close> and \<open>_publish_checked\<close> do, with every state
  the directory can be left in by a crash.
\<close>

type_synonym files = "string \<rightharpoonup> string"

definition temporary_name :: "string \<Rightarrow> string" where
  "temporary_name path = path @ ''.tmp''"

definition publish_file :: "string \<Rightarrow> string \<Rightarrow> files \<Rightarrow> files" where
  "publish_file path data fs = (fs(path \<mapsto> data))(temporary_name path := None)"

text \<open>The temporary file is truncated, filled and synced before the rename.\<close>

inductive publish_crash :: "string \<Rightarrow> string \<Rightarrow> files \<Rightarrow> files \<Rightarrow> bool" where
  before: "publish_crash path data fs fs"
| writing: "prefix p data \<Longrightarrow> publish_crash path data fs (fs(temporary_name path \<mapsto> p))"
| renamed: "publish_crash path data fs (publish_file path data fs)"

lemma temporary_name_neq [simp]: "temporary_name path \<noteq> path" "path \<noteq> temporary_name path"
  by (simp_all add: temporary_name_def)

lemma publish_file_same [simp]: "publish_file path data fs path = Some data"
  by (simp add: publish_file_def)

lemma publish_crash_atomic:
  "publish_crash path data fs fs' \<Longrightarrow> fs' path = fs path \<or> fs' path = Some data"
  by (induction rule: publish_crash.induct) (simp_all add: publish_file_def)

lemma publish_crash_frame:
  "publish_crash path data fs fs' \<Longrightarrow> f \<noteq> path \<Longrightarrow> f \<noteq> temporary_name path \<Longrightarrow> fs' f = fs f"
  by (induction rule: publish_crash.induct) (simp_all add: publish_file_def)

end
