(* ===== verification/Quorum.thy ===== *)
theory Quorum
  imports MetadataStore AtomicFile
begin

text \<open>
  Quorums of a shard placement. The interface is a family of member sets with a quorum
  size; that any two quorums share a member, and that what one quorum has accepted is
  seen by every other, is proved once in the locale and instantiated with
  \<open>ShardPlacement.quorum\<close>.
\<close>

locale quorum_system =
  fixes nodes :: "'p \<Rightarrow> 'n list"
    and quorum_size :: "'p \<Rightarrow> nat"
    and valid :: "'p \<Rightarrow> bool"
  assumes distinct_nodes: "valid p \<Longrightarrow> distinct (nodes p)"
    and majority: "valid p \<Longrightarrow> length (nodes p) < 2 * quorum_size p"
    and formable: "valid p \<Longrightarrow> quorum_size p \<le> length (nodes p)"
begin

lemma quorums_intersect:
  assumes "valid p" and "A \<subseteq> set (nodes p)" and "B \<subseteq> set (nodes p)"
    and "quorum_size p \<le> card A" and "quorum_size p \<le> card B"
  shows "A \<inter> B \<noteq> {}"
proof
  assume disjoint: "A \<inter> B = {}"
  have fin: "finite A" "finite B" using assms(2,3) finite_subset by blast+
  have "card A + card B = card (A \<union> B)" using disjoint fin by (simp add: card_Un_disjoint)
  also have "\<dots> \<le> card (set (nodes p))" using assms(2,3) by (intro card_mono) auto
  also have "\<dots> = length (nodes p)" using distinct_nodes [OF assms(1)] by (rule distinct_card)
  finally show False using majority [OF assms(1)] assms(4,5) by linarith
qed

lemma quorum_nonempty:
  assumes "valid p" and "quorum_size p \<le> card A"
  shows "A \<noteq> {}"
  using majority [OF assms(1)] assms(2) by auto

lemma whole_is_quorum:
  assumes "valid p"
  shows "quorum_size p \<le> card (set (nodes p))"
  using formable [OF assms] distinct_card [OF distinct_nodes [OF assms]] by simp

end

section \<open>Shard placements\<close>

definition placement_ok :: "placement \<Rightarrow> bool" where
  "placement_ok p \<longleftrightarrow> distinct (p_replicas p) \<and> p_replicas p \<noteq> []"

interpretation shard_quorum: quorum_system p_replicas quorum placement_ok
proof
  fix p assume "placement_ok p"
  then show "distinct (p_replicas p)" "length (p_replicas p) < 2 * quorum p"
    "quorum p \<le> length (p_replicas p)"
    by (cases "p_replicas p"; auto simp: placement_ok_def quorum_def)+
qed

lemma validate_placement_ok:
  assumes "validate_placement m (i, p) = Inr ()"
  shows "placement_ok p \<and> p_leader p \<in> set (p_replicas p) \<and> p_shard_id p = i"
proof -
  have "p_shard_id p = i" "card (set (p_replicas p)) = length (p_replicas p)"
    "p_leader p \<in> set (p_replicas p)"
    using assms unfolding validate_placement_def prod.case require_eq_Inr by blast+
  then show ?thesis by (auto simp: placement_ok_def card_distinct)
qed

lemma metadata_placement_ok:
  assumes "metadata_validate m = Inr m'" and "map_of (shards m) i = Some p"
  shows "placement_ok p \<and> p_leader p \<in> set (p_replicas p) \<and> p_shard_id p = i"
proof -
  have "(i, p) \<in> set (shards m)" using assms(2) by (rule map_of_SomeD)
  then have "validate_placement m (i, p) = Inr ()"
    using assms(1) unfolding metadata_validate_ok rall_ok by blast
  then show ?thesis by (rule validate_placement_ok)
qed

section \<open>Properties\<close>

definition publish_metadata :: "string \<Rightarrow> metadata \<Rightarrow> files \<Rightarrow> files result" where
  "publish_metadata path m fs = rbind (metadata_text m) (\<lambda>data. Inr (publish_file path data fs))"

lemma metadata_text_load:
  assumes "metadata_validate m = Inr m" and "encodable_metadata m"
  shows "\<exists>text. metadata_text m = Inr text \<and> metadata_load (Some text) = Inr (stored_metadata m)"
proof -
  let ?env = "checked_envelope (metadata_fields m)"
  have "\<exists>config. canonical_collection_config (PDict (collection_config m)) (dimension m) = Inr config \<and>
      m = m\<lparr>collection_config := config\<rparr>"
    using assms(1) unfolding metadata_validate_ok by blast
  then have "wf_val (PDict (collection_config m))"
    using canonical_wf by (metis metadata.select_convs(8) metadata.surjective metadata.update_convs(8))
  then have wf: "wf_val (metadata_fields m)" using wf_metadata_fields [OF assms(2)] by simp
  have "json_loads (canonical_bytes ?env @ [CHR 0x0A]) = Inr (canon ?env)"
    unfolding canonical_bytes_def by (rule json_roundtrip_line [OF wf_checked_envelope [OF wf]])
  moreover have "decode_envelope_versioned (canon ?env) = Inr (PROTOCOL_VERSION, canon (metadata_fields m))"
    using decode_checked_envelope [OF _ wf] by (simp add: metadata_fields_def)
  ultimately have "metadata_load (Some (canonical_bytes ?env @ [CHR 0x0A])) = Inr (stored_metadata m)"
    using from_payload_fields [OF assms] by (simp add: metadata_load_def)
  then show ?thesis using assms(1) by (simp add: metadata_text_def to_payload_def)
qed

definition example_placement :: placement where
  "example_placement =
     \<lparr>p_shard_id = 0, p_term = 1, p_placement_epoch = 1, p_leader = ''n1'',
      p_replicas = [''n1'', ''n2'', ''n3''], p_last_log_index = 0, p_committed_index = 0\<rparr>"

definition example_metadata :: metadata where
  "example_metadata =
     \<lparr>cluster_id = ''cluster'', dimension = 8, shard_count = 1, replication_factor = 3, epoch = 1,
      members = [(''n2'', ''127.0.0.1'', 7002), (''n1'', ''127.0.0.1'', 7001), (''n3'', ''127.0.0.1'', 7003)],
      shards = [(0, example_placement)],
      collection_config = kernel_config_to_python (kernel_defaults 8), request_table = [],
      routing_version = ROUTING_VERSION\<rparr>"

lemma example_config:
  "canonical_collection_config (PDict (kernel_config_to_python (kernel_defaults 8))) 8 =
     Inr (kernel_config_to_python (kernel_defaults 8))"
proof -
  have "kernel_config_validate (kernel_defaults 8) = Inr ()" "kc_dimension (kernel_defaults 8) = 8"
    unfolding kernel_valid_iff by (simp_all add: kernel_defaults_def)
  then show ?thesis using canonical_accepts [OF refl config_length, of "kernel_defaults 8"] by simp
qed

lemma example_fields:
  "cluster_id example_metadata = ''cluster''" "dimension example_metadata = 8"
  "shard_count example_metadata = 1" "replication_factor example_metadata = 3"
  "epoch example_metadata = 1" "shards example_metadata = [(0, example_placement)]"
  "collection_config example_metadata = kernel_config_to_python (kernel_defaults 8)"
  "request_table example_metadata = []" "routing_version example_metadata = ROUTING_VERSION"
  "length (members example_metadata) = 3"
  "example_metadata\<lparr>collection_config := kernel_config_to_python (kernel_defaults 8)\<rparr> = example_metadata"
  by (simp_all add: example_metadata_def)

lemma example_metadata_ok:
  "metadata_validate example_metadata = Inr example_metadata" "encodable_metadata example_metadata"
proof -
  have keys: "dict_keys (members example_metadata) = {''n1'', ''n2'', ''n3''}"
    by (auto simp: example_metadata_def dict_keys_def)
  have "validate_placement example_metadata (0, example_placement) = Inr ()"
    unfolding validate_placement_def prod.case require_eq_Inr keys
    by (simp add: example_placement_def quorum_def)
  then have "rall (validate_placement example_metadata) (shards example_metadata) = Inr ()"
    by (simp only: example_fields rall.simps rbind_Inr)
  moreover have "rall validate_member (members example_metadata) = Inr ()"
    unfolding rall_ok by (simp add: example_metadata_def validate_member_def)
  moreover have "dict_keys (shards example_metadata) = {0..<shard_count example_metadata}"
    by (auto simp: example_fields dict_keys_def)
  moreover have "rall validate_request (request_table example_metadata) = Inr ()"
    by (simp only: example_fields rall.simps)
  moreover have "0 < dimension example_metadata" "0 < shard_count example_metadata"
    "0 < replication_factor example_metadata" "cluster_id example_metadata \<noteq> []"
    "replication_factor example_metadata \<le> int (length (members example_metadata))"
    "routing_version example_metadata = ROUTING_VERSION" "0 < epoch example_metadata"
    by (simp_all add: example_fields(1-10))
  moreover have "canonical_collection_config (PDict (collection_config example_metadata))
      (dimension example_metadata) = Inr (kernel_config_to_python (kernel_defaults 8))"
    by (simp only: example_fields(2,7) example_config)
  ultimately show "metadata_validate example_metadata = Inr example_metadata"
    unfolding metadata_validate_ok using example_fields(11) by metis
  show "encodable_metadata example_metadata"
    by (simp add: encodable_metadata_def example_metadata_def example_placement_def)
qed

text \<open>
  C21: Any two quorums of a shard of valid metadata share a replica, so a commit
  acknowledged by one quorum is known to a member of every other.
\<close>

theorem quorum_intersection:
  assumes "metadata_validate m = Inr m'" and "map_of (shards m) i = Some p"
    and "A \<subseteq> set (p_replicas p)" and "B \<subseteq> set (p_replicas p)"
    and "quorum p \<le> card A" and "quorum p \<le> card B"
  shows "A \<inter> B \<noteq> {}"
  using metadata_placement_ok [OF assms(1,2)] shard_quorum.quorums_intersect [OF _ assms(3-6)] by blast

theorem quorum_intersection_witness: "{''n1'', ''n2''} \<inter> {''n2'', ''n3''} \<noteq> {}"
proof -
  have "map_of (shards example_metadata) 0 = Some example_placement"
    by (simp add: example_metadata_def)
  from quorum_intersection [OF example_metadata_ok(1) this, of "{''n1'', ''n2''}" "{''n2'', ''n3''}"]
  show ?thesis by (simp add: quorum_def example_placement_def)
qed



text \<open>
  C23: Publishing metadata is atomic: whatever point a crash hits, loading the metadata
  path afterwards gives what it gave before or the metadata being published.
\<close>

theorem publish_metadata_atomic:
  assumes "metadata_validate m = Inr m" and "encodable_metadata m" and "metadata_text m = Inr data"
    and "publish_crash path data fs fs'"
  shows "metadata_load (fs' path) = metadata_load (fs path) \<or>
    metadata_load (fs' path) = Inr (stored_metadata m)"
proof -
  have "metadata_load (Some data) = Inr (stored_metadata m)"
    using metadata_text_load [OF assms(1,2)] assms(3) by simp
  then show ?thesis using publish_crash_atomic [OF assms(4)] by auto
qed

theorem publish_metadata_atomic_witness:
  "\<exists>data. metadata_text example_metadata = Inr data \<and>
     metadata_load (publish_file ''metadata.json'' data Map.empty ''metadata.json'') =
       Inr (stored_metadata example_metadata)"
proof -
  obtain data where data: "metadata_text example_metadata = Inr data"
    using metadata_text_load [OF example_metadata_ok] by blast
  have none: "metadata_load (Map.empty ''metadata.json'') \<noteq> Inr (stored_metadata example_metadata)"
    by (simp add: metadata_load_def)
  have some: "publish_file ''metadata.json'' data Map.empty ''metadata.json'' = Some data" by simp
  from publish_metadata_atomic [OF example_metadata_ok data publish_crash.renamed, of "''metadata.json''" Map.empty]
    metadata_text_load [OF example_metadata_ok] data some none
  show ?thesis by auto
qed

text \<open>
  Loading metadata yields only valid metadata, and raises nothing but protocol errors,
  except that a document that is not valid UTF-8 lets a \<open>UnicodeDecodeError\<close> escape.
\<close>

theorem metadata_load_valid:
  "case metadata_load f of
     Inr m \<Rightarrow> metadata_validate m = Inr m
   | Inl e \<Rightarrow> is_protocol_error e \<or> e = UnicodeDecodeError ''invalid utf-8''"
proof -
  have decoded: "case rbind (decode_envelope_versioned v) (\<lambda>(version, payload). from_payload payload version) of
      Inr m \<Rightarrow> metadata_validate m = Inr m | Inl e \<Rightarrow> is_protocol_error e" for v
  proof -
    let ?r = "rbind (decode_envelope_versioned v) (\<lambda>(version, payload). from_payload payload version)"
    have "protocol_only ?r" by (intro protocol_only_intros)
    moreover have "yields (\<lambda>m. metadata_validate m = Inr m) ?r"
      by (intro yields_intros from_payload_valid)
    ultimately show ?thesis unfolding protocol_only_def yields_def by (simp split: sum.split del: rbind_eq_Inr)
  qed
  show ?thesis
  proof (cases f)
    case (Some data)
    consider v where "json_loads data = Inr v" | "json_loads data = Inl (UnicodeDecodeError ''invalid utf-8'')"
      | m where "json_loads data = Inl (JSONDecodeError m)"
      by (cases "json_loads data") (auto simp: json_loads_def Let_def split: if_splits option.splits)
    then show ?thesis
    proof cases
      case (1 v)
      then show ?thesis using decoded [of v] Some
        by (auto simp: metadata_load_def split: sum.splits)
    qed (simp_all add: Some metadata_load_def)
  qed (simp add: metadata_load_def)
qed

end
