(* ===== verification/Mutation.thy ===== *)
theory Mutation
  imports Envelope
begin

text \<open>
  The admission check of replicated mutations (protocol.py,
  \<open>validate_replicated_mutation\<close>), branch by branch, and the declarative description of
  the mutations it admits.
\<close>

section \<open>The check\<close>

definition DELETE_MUTATION_FIELDS :: "string list" where
  "DELETE_MUTATION_FIELDS = [''operation'', ''id'']"

definition UPSERT_MUTATION_FIELDS :: "string list" where
  "UPSERT_MUTATION_FIELDS = [''operation'', ''id'', ''vector'', ''fields'', ''sparse'']"

definition MUTATION_PAYLOAD_FIELDS :: "string list" where
  "MUTATION_PAYLOAD_FIELDS = [''name'', ''type'', ''value'']"

definition MUTATION_SPARSE_FIELDS :: "string list" where
  "MUTATION_SPARSE_FIELDS = [''term_id'', ''weight'']"

definition PAYLOAD_KINDS :: "string list" where
  "PAYLOAD_KINDS = [''string'', ''int'', ''float'', ''bool'']"

definition finite_number :: "pyval \<Rightarrow> bool" where
  "finite_number v =
     (case v of
        PInt i \<Rightarrow> (case float_of_int i of Inl e \<Rightarrow> False | Inr f \<Rightarrow> isfinite f)
      | PFloat f \<Rightarrow> isfinite f
      | _ \<Rightarrow> False)"

definition check_payload_value :: "pyval \<Rightarrow> pyval \<Rightarrow> unit result" where
  "check_payload_value kind v =
     (case as_str kind of
        None \<Rightarrow> Inl (ProtocolError ''replicated mutation payload type is invalid'')
      | Some k \<Rightarrow>
          require (k \<in> set PAYLOAD_KINDS)
            (ProtocolError ''replicated mutation payload type is invalid'')
         (require (k = ''string'' \<longrightarrow> as_str v \<noteq> None)
            (ProtocolError ''replicated mutation string payload is invalid'')
         (require (k = ''int'' \<longrightarrow> as_int v \<noteq> None)
            (ProtocolError ''replicated mutation integer payload is invalid'')
         (require (k = ''bool'' \<longrightarrow> as_bool v \<noteq> None)
            (ProtocolError ''replicated mutation boolean payload is invalid'')
         (require (k = ''float'' \<longrightarrow> finite_number v)
            (ProtocolError ''replicated mutation float payload is invalid'')
         (Inr ()))))))"

text \<open>One iteration of the payload loop; the accumulator is the set of names seen.\<close>

definition check_payload_item :: "pyval \<Rightarrow> string set \<Rightarrow> string set result" where
  "check_payload_item item names =
     (case as_dict item of
        None \<Rightarrow> Inl (ProtocolError ''replicated mutation payload fields mismatch'')
      | Some d \<Rightarrow>
          require (has_fields d MUTATION_PAYLOAD_FIELDS)
            (ProtocolError ''replicated mutation payload fields mismatch'')
         (rbind (dget d ''name'') (\<lambda>name.
          rbind (dget d ''type'') (\<lambda>kind.
          rbind (dget d ''value'') (\<lambda>v.
          case as_str name of
            None \<Rightarrow> Inl (ProtocolError ''replicated mutation payload names are invalid'')
          | Some n \<Rightarrow>
              require (n \<noteq> [] \<and> n \<notin> names)
                (ProtocolError ''replicated mutation payload names are invalid'')
             (rbind (check_payload_value kind v) (\<lambda>_. Inr (insert n names))))))))"

definition check_sparse_item :: "pyval \<Rightarrow> int set \<Rightarrow> int set result" where
  "check_sparse_item item terms =
     (case as_dict item of
        None \<Rightarrow> Inl (ProtocolError ''replicated mutation sparse fields mismatch'')
      | Some d \<Rightarrow>
          require (has_fields d MUTATION_SPARSE_FIELDS)
            (ProtocolError ''replicated mutation sparse fields mismatch'')
         (rbind (dget d ''term_id'') (\<lambda>raw_term.
          rbind (exact_int raw_term ''replicated mutation sparse term'') (\<lambda>term_id.
          rbind (dget d ''weight'') (\<lambda>weight.
          require (0 \<le> term_id \<and> term_id \<notin> terms)
            (ProtocolError ''replicated mutation sparse term is invalid'')
         (require (finite_number weight)
            (ProtocolError ''replicated mutation sparse weight is invalid'')
         (Inr (insert term_id terms))))))))"

definition check_vector :: "pyval \<Rightarrow> int option \<Rightarrow> unit result" where
  "check_vector vector dimension =
     (case as_list vector of
        None \<Rightarrow> Inl (ProtocolError ''replicated mutation vector must be a nonempty list'')
      | Some xs \<Rightarrow>
          require (xs \<noteq> [])
            (ProtocolError ''replicated mutation vector must be a nonempty list'')
         (require (case dimension of None \<Rightarrow> True | Some n \<Rightarrow> int (length xs) = n)
            (ProtocolError ''replicated mutation vector dimension mismatch'')
         (rall (\<lambda>x. require (finite_number x)
             (ProtocolError ''replicated mutation vector must contain finite numbers'') (Inr ())) xs)))"

definition check_payload :: "pyval \<Rightarrow> unit result" where
  "check_payload payload =
     (case as_list payload of
        None \<Rightarrow> Inl (ProtocolError ''replicated mutation payload must be a list'')
      | Some xs \<Rightarrow> rbind (rfold check_payload_item xs {}) (\<lambda>_. Inr ()))"

definition check_sparse :: "pyval \<Rightarrow> unit result" where
  "check_sparse sparse =
     (case as_list sparse of
        None \<Rightarrow> Inl (ProtocolError ''replicated mutation sparse vector must be a list'')
      | Some xs \<Rightarrow> rbind (rfold check_sparse_item xs {}) (\<lambda>_. Inr ()))"

definition check_delete :: "(string \<times> pyval) list \<Rightarrow> unit result" where
  "check_delete d =
     require (has_fields d DELETE_MUTATION_FIELDS)
       (ProtocolError ''replicated delete mutation fields mismatch'')
    (rbind (dget d ''id'') (\<lambda>raw_id.
     rbind (exact_int raw_id ''replicated mutation id'') (\<lambda>_. Inr ())))"

definition check_upsert :: "(string \<times> pyval) list \<Rightarrow> int option \<Rightarrow> unit result" where
  "check_upsert d dimension =
     require (has_fields d UPSERT_MUTATION_FIELDS)
       (ProtocolError ''replicated upsert mutation fields mismatch'')
    (rbind (dget d ''id'') (\<lambda>raw_id.
     rbind (exact_int raw_id ''replicated mutation id'') (\<lambda>_.
     rbind (dget d ''vector'') (\<lambda>vector.
     rbind (check_vector vector dimension) (\<lambda>_.
     rbind (dget d ''fields'') (\<lambda>payload.
     rbind (check_payload payload) (\<lambda>_.
     rbind (dget d ''sparse'') (\<lambda>sparse.
     check_sparse sparse))))))))"

definition validate_replicated_mutation :: "pyval \<Rightarrow> int option \<Rightarrow> unit result" where
  "validate_replicated_mutation m dimension =
     (case as_dict m of
        None \<Rightarrow> Inl (ProtocolError ''replicated mutation operation is invalid'')
      | Some d \<Rightarrow>
        (case Option.bind (map_of d ''operation'') as_str of
           None \<Rightarrow> Inl (ProtocolError ''replicated mutation operation is invalid'')
         | Some operation \<Rightarrow>
             if operation = ''delete'' then check_delete d
             else
               require (operation = ''upsert'')
                 (ProtocolError ''replicated mutation operation is invalid'')
                 (check_upsert d dimension)))"

section \<open>What the check admits\<close>

text \<open>The declarative counterpart: shapes, types and distinctness, no order of checks.\<close>

definition payload_value_ok :: "string \<Rightarrow> pyval \<Rightarrow> bool" where
  "payload_value_ok k v \<longleftrightarrow>
     (k = ''string'' \<and> (\<exists>s. v = PStr s)) \<or> (k = ''int'' \<and> (\<exists>i. v = PInt i)) \<or>
     (k = ''bool'' \<and> (\<exists>b. v = PBool b)) \<or> (k = ''float'' \<and> finite_number v)"

definition payload_field_ok :: "string \<Rightarrow> pyval \<Rightarrow> bool" where
  "payload_field_ok n item \<longleftrightarrow>
     (\<exists>d k v. item = PDict d \<and> has_fields d MUTATION_PAYLOAD_FIELDS \<and>
        map_of d ''name'' = Some (PStr n) \<and> map_of d ''type'' = Some (PStr k) \<and>
        map_of d ''value'' = Some v \<and> n \<noteq> [] \<and> payload_value_ok k v)"

definition sparse_item_ok :: "int \<Rightarrow> pyval \<Rightarrow> bool" where
  "sparse_item_ok t item \<longleftrightarrow>
     (\<exists>d w. item = PDict d \<and> has_fields d MUTATION_SPARSE_FIELDS \<and>
        map_of d ''term_id'' = Some (PInt t) \<and> map_of d ''weight'' = Some w \<and>
        0 \<le> t \<and> finite_number w)"

definition delete_ok :: "pyval \<Rightarrow> bool" where
  "delete_ok m \<longleftrightarrow>
     (\<exists>d i. m = PDict d \<and> has_fields d DELETE_MUTATION_FIELDS \<and>
        map_of d ''operation'' = Some (PStr ''delete'') \<and> map_of d ''id'' = Some (PInt i))"

definition vector_ok :: "int option \<Rightarrow> pyval \<Rightarrow> bool" where
  "vector_ok dimension v \<longleftrightarrow>
     (\<exists>vs. v = PList vs \<and> vs \<noteq> [] \<and> (\<forall>n. dimension = Some n \<longrightarrow> int (length vs) = n) \<and>
        list_all finite_number vs)"

definition payload_ok :: "pyval \<Rightarrow> bool" where
  "payload_ok v \<longleftrightarrow> (\<exists>fs names. v = PList fs \<and> list_all2 payload_field_ok names fs \<and> distinct names)"

definition sparse_ok :: "pyval \<Rightarrow> bool" where
  "sparse_ok v \<longleftrightarrow> (\<exists>ss terms. v = PList ss \<and> list_all2 sparse_item_ok terms ss \<and> distinct terms)"

definition upsert_ok :: "int option \<Rightarrow> pyval \<Rightarrow> bool" where
  "upsert_ok dimension m \<longleftrightarrow>
     (\<exists>d i v f s. m = PDict d \<and> has_fields d UPSERT_MUTATION_FIELDS \<and>
        map_of d ''operation'' = Some (PStr ''upsert'') \<and> map_of d ''id'' = Some (PInt i) \<and>
        map_of d ''vector'' = Some v \<and> vector_ok dimension v \<and>
        map_of d ''fields'' = Some f \<and> payload_ok f \<and>
        map_of d ''sparse'' = Some s \<and> sparse_ok s)"

definition mutation_ok :: "int option \<Rightarrow> pyval \<Rightarrow> bool" where
  "mutation_ok dimension m \<longleftrightarrow> delete_ok m \<or> upsert_ok dimension m"

section \<open>The check admits exactly these mutations\<close>

lemma check_payload_value_ok:
  "check_payload_value kind v = Inr () \<longleftrightarrow> (\<exists>k. kind = PStr k \<and> payload_value_ok k v)"
proof (cases kind)
  case (PStr k)
  consider "k = ''string''" | "k = ''int''" | "k = ''bool''" | "k = ''float''" | "k \<notin> set PAYLOAD_KINDS"
    by (auto simp: PAYLOAD_KINDS_def)
  then show ?thesis
    by cases (simp_all add: PStr check_payload_value_def payload_value_ok_def PAYLOAD_KINDS_def)
qed (simp_all add: check_payload_value_def)

lemma check_payload_item_ok:
  "check_payload_item item names = Inr names' \<longleftrightarrow>
     (\<exists>n. payload_field_ok n item \<and> n \<notin> names \<and> names' = insert n names)"
  unfolding check_payload_item_def payload_field_ok_def
  by (simp add: dget_eq_Inr check_payload_value_ok case_as_eq_Inr) blast

lemma check_sparse_item_ok:
  "check_sparse_item item terms = Inr terms' \<longleftrightarrow>
     (\<exists>t. sparse_item_ok t item \<and> t \<notin> terms \<and> terms' = insert t terms)"
  unfolding check_sparse_item_def sparse_item_ok_def
  by (simp add: dget_eq_Inr case_as_eq_Inr) blast

lemma check_vector_ok: "check_vector v dimension = Inr () \<longleftrightarrow> vector_ok dimension v"
  by (cases v) (auto simp: check_vector_def vector_ok_def list_all_iff split: option.splits)

lemma check_payload_ok: "check_payload v = Inr () \<longleftrightarrow> payload_ok v"
  by (cases v) (auto simp: check_payload_def payload_ok_def rfold_seen [OF check_payload_item_ok])

lemma check_sparse_ok: "check_sparse v = Inr () \<longleftrightarrow> sparse_ok v"
  by (cases v) (auto simp: check_sparse_def sparse_ok_def rfold_seen [OF check_sparse_item_ok])

lemma validate_replicated_mutation_ok:
  "validate_replicated_mutation m dimension = Inr () \<longleftrightarrow> mutation_ok dimension m"
proof (cases m)
  case (PDict d)
  have bs: "Option.bind x as_str = Some s \<longleftrightarrow> x = Some (PStr s)" for x s
    by (cases x; cases "the x") auto
  show ?thesis
  proof (cases "Option.bind (map_of d ''operation'') as_str")
    case None
    with PDict show ?thesis
      by (auto simp: validate_replicated_mutation_def mutation_ok_def delete_ok_def upsert_ok_def)
  next
    case (Some operation)
    then have op: "map_of d ''operation'' = Some (PStr operation)" by (simp add: bs)
    show ?thesis
      using PDict op
      by (auto simp: validate_replicated_mutation_def check_delete_def check_upsert_def
          mutation_ok_def delete_ok_def upsert_ok_def dget_eq_Inr check_vector_ok check_payload_ok check_sparse_ok)
  qed
qed (simp_all add: validate_replicated_mutation_def mutation_ok_def delete_ok_def upsert_ok_def)

section \<open>Errors and key order\<close>

text \<open>The check raises nothing but \<open>ProtocolError\<close>: no missing key, no type error.\<close>

lemma check_payload_value_protocol_only [protocol_only_intros]:
  "protocol_only (check_payload_value kind v)"
  unfolding check_payload_value_def by (intro protocol_only_intros) simp_all

lemma check_payload_item_protocol_only [protocol_only_intros]:
  "protocol_only (check_payload_item item names)"
  unfolding check_payload_item_def
  by (intro protocol_only_intros protocol_only_dget [where fs = MUTATION_PAYLOAD_FIELDS])
    (simp_all add: MUTATION_PAYLOAD_FIELDS_def)

lemma check_sparse_item_protocol_only [protocol_only_intros]:
  "protocol_only (check_sparse_item item terms)"
  unfolding check_sparse_item_def
  by (intro protocol_only_intros protocol_only_dget [where fs = MUTATION_SPARSE_FIELDS])
    (simp_all add: MUTATION_SPARSE_FIELDS_def)

lemma check_parts_protocol_only [protocol_only_intros]:
  "protocol_only (check_vector v dimension)" "protocol_only (check_payload v)"
  "protocol_only (check_sparse v)"
  unfolding check_vector_def check_payload_def check_sparse_def
  by (intro protocol_only_intros; simp)+

lemma check_delete_protocol_only [protocol_only_intros]: "protocol_only (check_delete d)"
  unfolding check_delete_def
  by (intro protocol_only_intros protocol_only_dget [where fs = DELETE_MUTATION_FIELDS])
    (simp_all add: DELETE_MUTATION_FIELDS_def)

lemma check_upsert_protocol_only [protocol_only_intros]: "protocol_only (check_upsert d dimension)"
  unfolding check_upsert_def
  by (intro protocol_only_intros protocol_only_dget [where fs = UPSERT_MUTATION_FIELDS])
    (simp_all add: UPSERT_MUTATION_FIELDS_def)

lemma validate_replicated_mutation_protocol_only [protocol_only_intros]:
  "protocol_only (validate_replicated_mutation m dimension)"
  unfolding validate_replicated_mutation_def by (intro protocol_only_intros) simp_all

text \<open>Sorting the keys of a mutation, as storing it does, does not change the verdict.\<close>

lemma finite_number_canon [simp]: "finite_number (canon v) = finite_number v"
  by (cases v) (simp_all add: finite_number_def)

lemma payload_value_ok_canon [simp]: "payload_value_ok k (canon v) = payload_value_ok k v"
  by (simp add: payload_value_ok_def)

lemma payload_field_ok_canon: "wf_val item \<Longrightarrow> payload_field_ok n (canon item) = payload_field_ok n item"
  by (cases item) (simp_all add: payload_field_ok_def map_of_canon_items, metis payload_value_ok_canon)

lemma sparse_item_ok_canon: "wf_val item \<Longrightarrow> sparse_item_ok t (canon item) = sparse_item_ok t item"
  by (cases item) (simp_all add: sparse_item_ok_def map_of_canon_items, metis finite_number_canon)

lemma list_all2_canon:
  assumes "\<And>n x. wf_val x \<Longrightarrow> P n (canon x) = P n x" and "list_all wf_val xs"
  shows "list_all2 P ns (map canon xs) = list_all2 P ns xs"
  using assms(2) by (induction xs arbitrary: ns) (auto simp: list_all2_Cons2 assms(1))

lemma delete_ok_canon: "wf_val m \<Longrightarrow> delete_ok (canon m) = delete_ok m"
  by (cases m) (simp_all add: delete_ok_def map_of_canon_items)

lemma vector_ok_canon: "vector_ok dimension (canon v) = vector_ok dimension v"
  by (cases v) (simp_all add: vector_ok_def list_all_iff)

lemma payload_ok_canon: "wf_val v \<Longrightarrow> payload_ok (canon v) = payload_ok v"
  by (cases v) (simp_all add: payload_ok_def list_all2_canon payload_field_ok_canon)

lemma sparse_ok_canon: "wf_val v \<Longrightarrow> sparse_ok (canon v) = sparse_ok v"
  by (cases v) (simp_all add: sparse_ok_def list_all2_canon sparse_item_ok_canon)

lemma upsert_ok_canon:
  assumes "wf_val m"
  shows "upsert_ok dimension (canon m) = upsert_ok dimension m"
proof (cases m)
  case (PDict d)
  with assms have dist: "distinct (map fst d)" by simp
  have part: "(\<exists>v. map_of (canon_items d) k = Some v \<and> P v) \<longleftrightarrow> (\<exists>v. map_of d k = Some v \<and> P v)"
    if "\<And>v. wf_val v \<Longrightarrow> P (canon v) = P v" for k P
    using that wf_val_lookup [of d k] assms PDict dist by (auto simp: map_of_canon_items)
  show ?thesis
    unfolding upsert_ok_def PDict
    using part [of "\<lambda>v. v = PStr ''upsert''" "''operation''"] part [of "\<lambda>v. \<exists>i. v = PInt i" "''id''"]
      part [of "vector_ok dimension" "''vector''"] part [of payload_ok "''fields''"]
      part [of sparse_ok "''sparse''"] vector_ok_canon payload_ok_canon sparse_ok_canon
    by auto
qed (simp_all add: upsert_ok_def)

lemma mutation_ok_canon: "wf_val m \<Longrightarrow> mutation_ok dimension (canon m) = mutation_ok dimension m"
  by (simp add: mutation_ok_def delete_ok_canon upsert_ok_canon)

text \<open>
  C19: The admission check accepts exactly the mutations of the declarative description
  (a delete with an integer identifier, or an upsert with a nonempty finite vector of the
  collection's dimension, uniquely named typed payload fields and uniquely numbered finite
  sparse terms), and on every other value it raises a protocol error and nothing else.
\<close>

theorem mutation_admission:
  "(validate_replicated_mutation m dimension = Inr () \<longleftrightarrow> mutation_ok dimension m) \<and>
   (\<not> mutation_ok dimension m \<longrightarrow>
      (\<exists>e. validate_replicated_mutation m dimension = Inl e \<and> is_protocol_error e))"
proof -
  have "validate_replicated_mutation m dimension = Inr () \<or>
      (\<exists>e. validate_replicated_mutation m dimension = Inl e \<and> is_protocol_error e)"
    using validate_replicated_mutation_protocol_only [of m dimension]
    by (cases "validate_replicated_mutation m dimension") (auto simp: protocol_only_def)
  then show ?thesis using validate_replicated_mutation_ok [of m dimension] by auto
qed

theorem mutation_admission_witness:
  "\<exists>e. validate_replicated_mutation (PDict [(''operation'', PStr ''delete'')]) None = Inl e \<and>
     is_protocol_error e"
proof -
  have "\<not> mutation_ok None (PDict [(''operation'', PStr ''delete'')])"
    by (simp add: mutation_ok_def delete_ok_def upsert_ok_def has_fields_def dict_keys_def
        DELETE_MUTATION_FIELDS_def)
  with mutation_admission [of "PDict [(''operation'', PStr ''delete'')]" None] show ?thesis by simp
qed

end
