(* ===== verification/LineLog.thy ===== *)
theory LineLog
  imports JsonDecode "HOL-Library.Sublist"
begin

text \<open>
  Files of newline-terminated records: Python's \<open>bytes.splitlines\<close>, the cut after the
  last newline that repairs a torn tail, and the interface of a codec that writes one
  record per line. The facts about whole files and torn files are proved once, in the
  locale \<open>line_codec\<close>.
\<close>

abbreviation LF :: char where
  "LF \<equiv> CHR 0x0A"

abbreviation CR :: char where
  "CR \<equiv> CHR 0x0D"

section \<open>Lines\<close>

definition is_eol :: "char \<Rightarrow> bool" where
  "is_eol c \<longleftrightarrow> c = LF \<or> c = CR"

text \<open>\<open>bytes.splitlines()\<close>: lines end at LF, CR or CR LF; no empty last line.\<close>

function splitlines :: "string \<Rightarrow> string list" where
  "splitlines s =
     (if s = [] then []
      else takeWhile (\<lambda>c. \<not> is_eol c) s #
        (case dropWhile (\<lambda>c. \<not> is_eol c) s of
           [] \<Rightarrow> []
         | c # r \<Rightarrow> splitlines (if c = CR \<and> r \<noteq> [] \<and> hd r = LF then tl r else r)))"
  by pat_completeness auto
termination
proof (relation "measure length")
  fix s c r
  assume "dropWhile (\<lambda>c. \<not> is_eol c) s = c # r"
  then have "length (c # r) \<le> length s" by (metis length_dropWhile_le)
  then show "(if c = CR \<and> r \<noteq> [] \<and> hd r = LF then tl r else r, s) \<in> measure length"
    by (cases r) auto
qed simp

declare splitlines.simps [simp del]

text \<open>\<open>data[:data.rfind(b"\n") + 1]\<close>\<close>

definition complete_part :: "string \<Rightarrow> string" where
  "complete_part s = rev (dropWhile (\<lambda>c. c \<noteq> LF) (rev s))"

lemma splitlines_Nil [simp]: "splitlines [] = []"
  by (simp add: splitlines.simps)

lemma splitlines_line: "one_line l \<Longrightarrow> splitlines (l @ LF # r) = l # splitlines r"
proof -
  assume "one_line l"
  then have "\<forall>c\<in>set l. \<not> is_eol c" by (auto simp: one_line_def is_eol_def)
  then have "takeWhile (\<lambda>c. \<not> is_eol c) (l @ LF # r) = l"
    "dropWhile (\<lambda>c. \<not> is_eol c) (l @ LF # r) = LF # r"
    by (simp_all add: takeWhile_append dropWhile_append is_eol_def)
  then show ?thesis by (simp add: splitlines.simps [of "l @ LF # r"])
qed

lemma complete_part_Nil [simp]: "complete_part [] = []"
  by (simp add: complete_part_def)

lemma complete_part_append:
  "LF \<notin> set p \<Longrightarrow> complete_part (s @ p) = complete_part s"
  by (simp add: complete_part_def dropWhile_append)

lemma complete_part_snoc [simp]: "complete_part (s @ [LF]) = s @ [LF]"
  by (simp add: complete_part_def)

lemma complete_part_prefix: "prefix (complete_part s) s"
proof -
  have "suffix (dropWhile (\<lambda>c. c \<noteq> LF) (rev s)) (rev s)" by (rule suffix_dropWhile)
  then show ?thesis by (simp add: complete_part_def suffix_to_prefix)
qed

section \<open>One record per line\<close>

definition log_text :: "('r \<Rightarrow> string) \<Rightarrow> 'r list \<Rightarrow> string" where
  "log_text encode rs = concat (map (\<lambda>r. encode r @ [LF]) rs)"

lemma log_text_Nil [simp]: "log_text encode [] = []"
  by (simp add: log_text_def)

lemma log_text_snoc: "log_text encode (rs @ [r]) = log_text encode rs @ encode r @ [LF]"
  by (simp add: log_text_def)

lemma complete_part_log [simp]: "complete_part (log_text encode rs) = log_text encode rs"
proof (cases rs rule: rev_cases)
  case (snoc rs' r)
  then show ?thesis using complete_part_snoc [of "log_text encode rs' @ encode r"]
    by (simp add: log_text_snoc)
qed simp

lemma log_text_ends: "log_text encode rs \<noteq> [] \<Longrightarrow> last (log_text encode rs) = LF"
  by (cases rs rule: rev_cases) (simp_all add: log_text_snoc)

text \<open>
  What a store of line records needs of its codec: a storable record is written as one
  nonempty line, and reading that line gives the stored form of the record.
\<close>

locale line_codec =
  fixes encode :: "'r \<Rightarrow> string"
    and decode :: "string \<Rightarrow> 'r result"
    and storable :: "'r \<Rightarrow> bool"
    and stored :: "'r \<Rightarrow> 'r"
  assumes decode_encode: "storable r \<Longrightarrow> decode (encode r) = Inr (stored r)"
    and encode_one_line: "storable r \<Longrightarrow> one_line (encode r)"
    and encode_nonempty: "storable r \<Longrightarrow> encode r \<noteq> []"
begin

lemma splitlines_log: "list_all storable rs \<Longrightarrow> splitlines (log_text encode rs) = map encode rs"
  by (induction rs) (simp_all add: log_text_def splitlines_line encode_one_line)

lemma decode_log:
  assumes "list_all storable rs"
  shows "rmap decode (splitlines (log_text encode rs)) = Inr (map stored rs)"
proof -
  have "rmap decode (map encode rs) = Inr (map stored rs)"
    using assms by (induction rs) (simp_all add: decode_encode)
  with assms show ?thesis by (simp add: splitlines_log)
qed

text \<open>Reading a log record by record is folding over the stored records.\<close>

lemma fold_log:
  assumes "list_all storable rs"
  shows "rfold (\<lambda>l s. if l = [] then Inr s else rbind (decode l) (\<lambda>r. f r s))
           (splitlines (log_text encode rs)) s = rfold f (map stored rs) s"
proof -
  have "rfold (\<lambda>l s. if l = [] then Inr s else rbind (decode l) (\<lambda>r. f r s)) (map encode rs) s =
        rfold f (map stored rs) s"
    using assms
    by (induction rs arbitrary: s) (simp_all add: decode_encode encode_nonempty)
  with assms show ?thesis by (simp add: splitlines_log)
qed

text \<open>A write cut short before its newline leaves the log as it was.\<close>

lemma torn_no_newline:
  assumes "storable r" and "strict_prefix p (encode r @ [LF])"
  shows "LF \<notin> set p"
proof -
  from assms(2) have "prefix p (encode r)" by (auto simp: strict_prefix_def)
  then have "set p \<subseteq> set (encode r)" by (rule set_mono_prefix)
  with encode_one_line [OF assms(1)] show ?thesis by (auto simp: one_line_def)
qed

lemma torn_line:
  assumes "storable r" and "strict_prefix p (encode r @ [LF])"
  shows "complete_part (log_text encode rs @ p) = log_text encode rs"
  using torn_no_newline [OF assms] by (simp add: complete_part_append)

lemma torn_line_last:
  assumes "storable r" and "strict_prefix p (encode r @ [LF])" and "p \<noteq> []"
  shows "last (log_text encode rs @ p) \<noteq> LF"
  using torn_no_newline [OF assms(1,2)] assms(3) by (metis last_appendR last_in_set)

end

end
