(* ===== verification/Journal.thy ===== *)
theory Journal
  imports Mutation LineLog
begin

text \<open>
  The replicated entries and the replica journal of protocol.py: an append-only file of
  checksummed \<open>prepare\<close>, \<open>commit\<close> and \<open>snapshot\<close> records with the in-memory tables
  that mirror it. The file is part of the state (\<open>None\<close> when it does not exist yet), so
  that reopening a journal, with or without a torn last record, can be compared with the
  journal that wrote it.
\<close>

section \<open>Replicated entries\<close>

definition REPLICATED_ENTRY_FIELDS :: "string list" where
  "REPLICATED_ENTRY_FIELDS =
     [''shard_id'', ''term'', ''placement_epoch'', ''index'', ''request_id'', ''mutation'',
      ''mutation_checksum'']"

record entry =
  e_shard_id :: int
  e_term :: int
  e_placement_epoch :: int
  e_index :: int
  e_request_id :: string
  e_mutation :: pyval
  e_mutation_checksum :: int

definition entry_create :: "int \<Rightarrow> int \<Rightarrow> int \<Rightarrow> int \<Rightarrow> string \<Rightarrow> pyval \<Rightarrow> entry" where
  "entry_create shard_id term placement_epoch index request_id mutation =
     \<lparr>e_shard_id = shard_id, e_term = term, e_placement_epoch = placement_epoch, e_index = index,
      e_request_id = request_id, e_mutation = mutation,
      e_mutation_checksum = payload_checksum mutation\<rparr>"

definition entry_validate :: "entry \<Rightarrow> unit result" where
  "entry_validate e =
     require (0 \<le> e_shard_id e \<and> 0 < e_term e \<and> 0 < e_placement_epoch e)
       (ProtocolError ''invalid replicated entry epoch'')
    (require (0 < e_index e \<and> e_request_id e \<noteq> [])
       (ProtocolError ''invalid replicated entry identity'')
    (rbind (validate_replicated_mutation (e_mutation e) None) (\<lambda>_.
     require (e_mutation_checksum e = payload_checksum (e_mutation e))
       (ProtocolError ''replicated mutation checksum mismatch'')
    (Inr ()))))"

definition entry_fields :: "entry \<Rightarrow> pyval" where
  "entry_fields e =
     PDict [(''shard_id'', PInt (e_shard_id e)), (''term'', PInt (e_term e)),
            (''placement_epoch'', PInt (e_placement_epoch e)), (''index'', PInt (e_index e)),
            (''request_id'', PStr (e_request_id e)), (''mutation'', e_mutation e),
            (''mutation_checksum'', PInt (e_mutation_checksum e))]"

definition entry_to_dict :: "entry \<Rightarrow> pyval result" where
  "entry_to_dict e = rbind (entry_validate e) (\<lambda>_. Inr (entry_fields e))"

definition entry_from_dict :: "pyval \<Rightarrow> entry result" where
  "entry_from_dict v =
     (case as_dict v of
        None \<Rightarrow> Inl (ProtocolError ''replicated entry fields mismatch'')
      | Some d \<Rightarrow>
          require (has_fields d REPLICATED_ENTRY_FIELDS)
            (ProtocolError ''replicated entry fields mismatch'')
         (rbind (dget d ''mutation'') (\<lambda>mutation.
          require (as_dict mutation \<noteq> None)
            (ProtocolError ''replicated mutation must be an object'')
         (rbind (dget_int d ''shard_id'' ''replicated shard_id'') (\<lambda>shard_id.
          rbind (dget_int d ''term'' ''replicated term'') (\<lambda>term.
          rbind (dget_int d ''placement_epoch'' ''replicated placement_epoch'') (\<lambda>placement_epoch.
          rbind (dget_int d ''index'' ''replicated index'') (\<lambda>index.
          rbind (dget d ''request_id'') (\<lambda>raw_request.
          rbind (dget_int d ''mutation_checksum'' ''replicated mutation_checksum'') (\<lambda>checksum.
          let e = \<lparr>e_shard_id = shard_id, e_term = term, e_placement_epoch = placement_epoch,
                    e_index = index,
                    e_request_id = (case as_str raw_request of Some s \<Rightarrow> s | None \<Rightarrow> []),
                    e_mutation = mutation, e_mutation_checksum = checksum\<rparr>
          in rbind (entry_validate e) (\<lambda>_. Inr e)))))))))))"

section \<open>The journal\<close>

definition PREPARE_RECORD_FIELDS :: "string list" where
  "PREPARE_RECORD_FIELDS = [''kind'', ''entry'']"

definition INDEX_RECORD_FIELDS :: "string list" where
  "INDEX_RECORD_FIELDS = [''kind'', ''index'']"

record journal =
  j_file :: "string option"
  prepared :: "int \<rightharpoonup> entry"
  committed :: "int set"
  snapshot_index :: int

definition empty_journal :: "string option \<Rightarrow> journal" where
  "empty_journal f = \<lparr>j_file = f, prepared = Map.empty, committed = {}, snapshot_index = 0\<rparr>"

text \<open>One decoded record of the file, applied to the tables.\<close>

definition load_record :: "pyval \<Rightarrow> journal \<Rightarrow> journal result" where
  "load_record payload j =
     (case as_dict payload of
        None \<Rightarrow> Inl (TypeError ''payload has no attribute get'')
      | Some d \<Rightarrow>
          if map_of d ''kind'' = Some (PStr ''prepare'') then
            require (has_fields d PREPARE_RECORD_FIELDS)
              (ProtocolError ''replica journal prepare fields mismatch'')
           (rbind (dget d ''entry'') (\<lambda>raw.
            rbind (entry_from_dict raw) (\<lambda>e.
            require (case prepared j (e_index e) of
                       None \<Rightarrow> True
                     | Some existing \<Rightarrow> e_mutation_checksum existing = e_mutation_checksum e)
              (ProtocolError ''conflicting replicated journal entry'')
            (Inr (j\<lparr>prepared := (prepared j)(e_index e \<mapsto> e)\<rparr>)))))
          else if map_of d ''kind'' = Some (PStr ''commit'') then
            require (has_fields d INDEX_RECORD_FIELDS)
              (ProtocolError ''replica journal commit fields mismatch'')
           (rbind (dget d ''index'') (\<lambda>raw.
            rbind (exact_int raw ''replica commit index'') (\<lambda>index.
            require (prepared j index \<noteq> None)
              (ProtocolError ''commit marker has no prepared entry'')
            (Inr (j\<lparr>committed := insert index (committed j)\<rparr>)))))
          else if map_of d ''kind'' = Some (PStr ''snapshot'') then
            require (has_fields d INDEX_RECORD_FIELDS)
              (ProtocolError ''replica journal snapshot fields mismatch'')
           (rbind (dget d ''index'') (\<lambda>raw.
            rbind (exact_int raw ''replica snapshot index'') (\<lambda>index.
            Inr (j\<lparr>snapshot_index := max (snapshot_index j) index\<rparr>))))
          else Inl (ProtocolError ''unknown replica journal record''))"

text \<open>
  \<open>json.loads\<close> and the envelope check of one line; a decoding error or a protocol error
  is reported as corruption, every other exception passes.
\<close>

definition decode_journal_line :: "string \<Rightarrow> pyval result" where
  "decode_journal_line line =
     (case rbind (json_loads line) decode_envelope_versioned of
        Inr (version, payload) \<Rightarrow> Inr payload
      | Inl (JSONDecodeError m) \<Rightarrow> Inl (ProtocolError ''replica journal corruption'')
      | Inl (ProtocolError m) \<Rightarrow> Inl (ProtocolError ''replica journal corruption'')
      | Inl (StaleEpochError m) \<Rightarrow> Inl (ProtocolError ''replica journal corruption'')
      | Inl e \<Rightarrow> Inl e)"

definition load_line :: "string \<Rightarrow> journal \<Rightarrow> journal result" where
  "load_line line j =
     (if line = [] then Inr j else rbind (decode_journal_line line) (\<lambda>p. load_record p j))"

definition journal_load :: "string option \<Rightarrow> journal result" where
  "journal_load f =
     (case f of
        None \<Rightarrow> Inr (empty_journal None)
      | Some data \<Rightarrow>
          (let repair_torn_tail = (data \<noteq> [] \<and> last data \<noteq> LF);
               body = (if repair_torn_tail then complete_part data else data)
           in rbind (rfold load_line (splitlines body) (empty_journal (Some data))) (\<lambda>j.
              Inr (if repair_torn_tail then j\<lparr>j_file := Some body\<rparr> else j))))"

definition record_text :: "pyval \<Rightarrow> string" where
  "record_text payload = canonical_bytes (checked_envelope payload)"

definition journal_append :: "pyval \<Rightarrow> journal \<Rightarrow> journal" where
  "journal_append payload j =
     j\<lparr>j_file := Some ((case j_file j of None \<Rightarrow> [] | Some data \<Rightarrow> data) @ record_text payload @ [LF])\<rparr>"

definition journal_prepare :: "entry \<Rightarrow> journal \<Rightarrow> journal result" where
  "journal_prepare e j =
     rbind (entry_validate e) (\<lambda>_.
     case prepared j (e_index e) of
       Some existing \<Rightarrow>
         require (e_mutation_checksum existing = e_mutation_checksum e)
           (ProtocolError ''conflicting duplicate replicated entry'') (Inr j)
     | None \<Rightarrow>
         rbind (entry_to_dict e) (\<lambda>d.
         Inr ((journal_append (PDict [(''kind'', PStr ''prepare''), (''entry'', d)]) j)
                \<lparr>prepared := (prepared j)(e_index e \<mapsto> e)\<rparr>)))"

definition journal_commit :: "int \<Rightarrow> journal \<Rightarrow> (entry \<times> journal) result" where
  "journal_commit index j =
     (case prepared j index of
        None \<Rightarrow> Inl (ProtocolError ''cannot commit an unprepared entry'')
      | Some e \<Rightarrow>
          Inr (e, if index \<in> committed j then j
                  else (journal_append (PDict [(''kind'', PStr ''commit''), (''index'', PInt index)]) j)
                         \<lparr>committed := insert index (committed j)\<rparr>))"

definition journal_install_snapshot :: "int \<Rightarrow> journal \<Rightarrow> journal result" where
  "journal_install_snapshot index j =
     require (snapshot_index j \<le> index) (ProtocolError ''snapshot index regression'')
       (Inr ((journal_append (PDict [(''kind'', PStr ''snapshot''), (''index'', PInt index)]) j)
               \<lparr>snapshot_index := index\<rparr>))"

definition committed_after :: "int \<Rightarrow> journal \<Rightarrow> entry list result" where
  "committed_after index j =
     rmap (\<lambda>i. case prepared j i of None \<Rightarrow> Inl (KeyError (show_int i)) | Some e \<Rightarrow> Inr e)
       (filter (\<lambda>i. index < i) (sorted_list_of_set (committed j)))"

section \<open>Entries survive their encoding\<close>

text \<open>The entry as the file gives it back: the same, with the mutation's keys sorted.\<close>

definition stored_entry :: "entry \<Rightarrow> entry" where
  "stored_entry e = e\<lparr>e_mutation := canon (e_mutation e)\<rparr>"

definition encodable_entry :: "entry \<Rightarrow> bool" where
  "encodable_entry e \<longleftrightarrow> wf_val (e_mutation e) \<and> utf8_ok (e_request_id e)"

lemma stored_entry_simps [simp]:
  "e_shard_id (stored_entry e) = e_shard_id e" "e_term (stored_entry e) = e_term e"
  "e_placement_epoch (stored_entry e) = e_placement_epoch e" "e_index (stored_entry e) = e_index e"
  "e_request_id (stored_entry e) = e_request_id e" "e_mutation (stored_entry e) = canon (e_mutation e)"
  "e_mutation_checksum (stored_entry e) = e_mutation_checksum e"
  "stored_entry (stored_entry e) = stored_entry e"
  by (simp_all add: stored_entry_def)

lemma encodable_stored [simp]: "encodable_entry e \<Longrightarrow> encodable_entry (stored_entry e)"
  by (simp add: encodable_entry_def)

lemma entry_validate_ok:
  "entry_validate e = Inr () \<longleftrightarrow>
     0 \<le> e_shard_id e \<and> 0 < e_term e \<and> 0 < e_placement_epoch e \<and> 0 < e_index e \<and>
     e_request_id e \<noteq> [] \<and> mutation_ok None (e_mutation e) \<and>
     e_mutation_checksum e = payload_checksum (e_mutation e)"
  by (auto simp: entry_validate_def validate_replicated_mutation_ok)

lemma entry_validate_stored [simp]:
  "encodable_entry e \<Longrightarrow> entry_validate e = Inr () \<Longrightarrow> entry_validate (stored_entry e) = Inr ()"
  by (simp add: entry_validate_ok encodable_entry_def mutation_ok_canon)

lemma entry_validate_protocol_only [protocol_only_intros]: "protocol_only (entry_validate e)"
  unfolding entry_validate_def by (intro protocol_only_intros) simp_all

lemma mutation_ok_dict: "mutation_ok dimension m \<Longrightarrow> \<exists>d. m = PDict d"
  by (auto simp: mutation_ok_def delete_ok_def upsert_ok_def)

lemma entry_from_dict_fields:
  assumes "entry_validate e = Inr ()" and "encodable_entry e"
  shows "entry_from_dict (canon (entry_fields e)) = Inr (stored_entry e)"
proof -
  define l where "l = [(''shard_id'', PInt (e_shard_id e)), (''term'', PInt (e_term e)),
     (''placement_epoch'', PInt (e_placement_epoch e)), (''index'', PInt (e_index e)),
     (''request_id'', PStr (e_request_id e)), (''mutation'', e_mutation e),
     (''mutation_checksum'', PInt (e_mutation_checksum e))]"
  have fields: "has_fields (canon_items l) REPLICATED_ENTRY_FIELDS"
    unfolding has_fields_canon
    by (simp add: l_def has_fields_def dict_keys_def REPLICATED_ENTRY_FIELDS_def)
  have look: "map_of (canon_items l) k = map_option canon (map_of l k)" for k
    by (rule map_of_canon_items) (simp add: l_def)
  have vals: "map_of l ''shard_id'' = Some (PInt (e_shard_id e))"
    "map_of l ''term'' = Some (PInt (e_term e))"
    "map_of l ''placement_epoch'' = Some (PInt (e_placement_epoch e))"
    "map_of l ''index'' = Some (PInt (e_index e))"
    "map_of l ''request_id'' = Some (PStr (e_request_id e))"
    "map_of l ''mutation'' = Some (e_mutation e)"
    "map_of l ''mutation_checksum'' = Some (PInt (e_mutation_checksum e))"
    by (simp_all add: l_def)
  have canon: "canon (entry_fields e) = PDict (canon_items l)"
    by (simp add: entry_fields_def l_def)
  have m: "as_dict (canon (e_mutation e)) \<noteq> None"
    using assms(1) by (auto simp: entry_validate_ok dest!: mutation_ok_dict)
  have stored: "stored_entry e =
      \<lparr>e_shard_id = e_shard_id e, e_term = e_term e, e_placement_epoch = e_placement_epoch e,
       e_index = e_index e, e_request_id = e_request_id e, e_mutation = canon (e_mutation e),
       e_mutation_checksum = e_mutation_checksum e\<rparr>"
    by (simp add: stored_entry_def)
  have "entry_validate (stored_entry e) = Inr ()" using assms by simp
  then show ?thesis
    using m unfolding canon stored
    by (simp add: entry_from_dict_def fields look vals dget_def dget_int_def
        del: has_fields_canon)
qed

text \<open>An entry sent as it is comes back as it is.\<close>

lemma entry_from_dict_raw:
  assumes "entry_validate e = Inr ()"
  shows "entry_from_dict (entry_fields e) = Inr e"
proof -
  have fields: "has_fields [(''shard_id'', PInt (e_shard_id e)), (''term'', PInt (e_term e)),
     (''placement_epoch'', PInt (e_placement_epoch e)), (''index'', PInt (e_index e)),
     (''request_id'', PStr (e_request_id e)), (''mutation'', e_mutation e),
     (''mutation_checksum'', PInt (e_mutation_checksum e))] REPLICATED_ENTRY_FIELDS"
    by (simp add: has_fields_def dict_keys_def REPLICATED_ENTRY_FIELDS_def)
  have "as_dict (e_mutation e) \<noteq> None"
    using assms by (auto simp: entry_validate_ok dest!: mutation_ok_dict)
  then show ?thesis
    using assms fields by (cases e) (simp add: entry_from_dict_def entry_fields_def dget_def dget_int_def)
qed

text \<open>An entry that was read is valid, and reading raises only protocol errors.\<close>

lemma entry_from_dict_valid:
  assumes "entry_from_dict v = Inr e"
  shows "entry_validate e = Inr ()"
proof -
  obtain d where v: "as_dict v = Some d"
    using assms by (cases "as_dict v") (simp_all add: entry_from_dict_def)
  show ?thesis using assms unfolding entry_from_dict_def v Let_def
    by (simp only: option.case rbind_eq_Inr require_eq_Inr sum.inject) (elim exE conjE, simp)
qed

lemma entry_from_dict_protocol_only [protocol_only_intros]: "protocol_only (entry_from_dict v)"
  unfolding entry_from_dict_def Let_def
  by (intro protocol_only_intros protocol_only_dget [where fs = REPLICATED_ENTRY_FIELDS]
      protocol_only_dget_int [where fs = REPLICATED_ENTRY_FIELDS])
    (assumption | simp (no_asm) add: REPLICATED_ENTRY_FIELDS_def)+

section \<open>The envelope is a line codec\<close>

definition storable_payload :: "pyval \<Rightarrow> bool" where
  "storable_payload p \<longleftrightarrow> wf_val p \<and> as_dict p \<noteq> None"

lemma decode_record_text: "storable_payload p \<Longrightarrow> decode_journal_line (record_text p) = Inr (canon p)"
  using json_roundtrip [OF wf_checked_envelope, of p] decode_checked_envelope [of p]
  by (simp add: decode_journal_line_def record_text_def canonical_bytes_def storable_payload_def)

interpretation journal_codec: line_codec record_text decode_journal_line storable_payload canon
proof
  fix p assume p: "storable_payload p"
  then have env: "wf_val (checked_envelope p)"
    by (simp add: storable_payload_def wf_checked_envelope)
  show "decode_journal_line (record_text p) = Inr (canon p)" using p by (rule decode_record_text)
  show "one_line (record_text p)"
    unfolding record_text_def canonical_bytes_def using env by (rule one_line_dumps)
  show "record_text p \<noteq> []"
    unfolding record_text_def canonical_bytes_def using dumps_hd [OF env] by auto
qed

section \<open>The file and the tables agree\<close>

definition journal_text :: "journal \<Rightarrow> string" where
  "journal_text j = (case j_file j of None \<Rightarrow> [] | Some data \<Rightarrow> data)"

definition stored_journal :: "journal \<Rightarrow> journal" where
  "stored_journal j = j\<lparr>prepared := (\<lambda>i. map_option stored_entry (prepared j i))\<rparr>"

definition tables_ok :: "journal \<Rightarrow> bool" where
  "tables_ok j \<longleftrightarrow>
     (\<forall>i e. prepared j i = Some e \<longrightarrow>
        e_index e = i \<and> entry_validate e = Inr () \<and> encodable_entry e) \<and>
     committed j \<subseteq> dom (prepared j) \<and> finite (committed j) \<and> 0 \<le> snapshot_index j"

text \<open>
  The journal invariant: the file is a sequence of whole records, and loading them gives
  the tables (up to the key order of the mutations).
\<close>

definition journal_inv :: "journal \<Rightarrow> bool" where
  "journal_inv j \<longleftrightarrow> tables_ok j \<and>
     (\<exists>ps. list_all storable_payload ps \<and> journal_text j = log_text record_text ps \<and>
        rfold load_record (map canon ps) (empty_journal (j_file j)) = Inr (stored_journal j))"

lemma stored_journal_simps [simp]:
  "j_file (stored_journal j) = j_file j" "committed (stored_journal j) = committed j"
  "snapshot_index (stored_journal j) = snapshot_index j"
  "prepared (stored_journal j) i = map_option stored_entry (prepared j i)"
  "journal_text (stored_journal j) = journal_text j"
  "stored_journal (j\<lparr>j_file := f\<rparr>) = (stored_journal j)\<lparr>j_file := f\<rparr>"
  by (simp_all add: stored_journal_def journal_text_def)

lemma stored_journal_idem [simp]: "stored_journal (stored_journal j) = stored_journal j"
  by (simp add: stored_journal_def option.map_comp comp_def)

lemma empty_journal_simps [simp]:
  "j_file (empty_journal f) = f" "committed (empty_journal f) = {}"
  "snapshot_index (empty_journal f) = 0" "prepared (empty_journal f) = Map.empty"
  "stored_journal (empty_journal f) = empty_journal f"
  "(empty_journal f)\<lparr>j_file := g\<rparr> = empty_journal g"
  by (simp_all add: empty_journal_def stored_journal_def)

text \<open>Loading does not look at the file it came from.\<close>

lemma load_record_file:
  "load_record p (j\<lparr>j_file := f\<rparr>) = rbind (load_record p j) (\<lambda>j'. Inr (j'\<lparr>j_file := f\<rparr>))"
  unfolding load_record_def
  by (cases j; cases "as_dict p") (simp_all add: rbind_require rbind_assoc)

lemma rfold_load_record_file:
  "rfold load_record ps (j\<lparr>j_file := f\<rparr>) =
     rbind (rfold load_record ps j) (\<lambda>j'. Inr (j'\<lparr>j_file := f\<rparr>))"
  by (induction ps arbitrary: j) (simp_all add: load_record_file rbind_assoc)

lemma load_lines:
  assumes "list_all storable_payload ps"
  shows "rfold load_line (splitlines (log_text record_text ps)) j = rfold load_record (map canon ps) j"
proof -
  have "load_line =
      (\<lambda>l s. if l = [] then Inr s else rbind (decode_journal_line l) (\<lambda>r. load_record r s))"
    by (simp add: load_line_def fun_eq_iff)
  then show ?thesis using journal_codec.fold_log [OF assms, of load_record j] by simp
qed

lemma journal_load_log:
  assumes "list_all storable_payload ps"
  shows "journal_load (Some (log_text record_text ps)) =
    rfold load_record (map canon ps) (empty_journal (Some (log_text record_text ps)))"
  using load_lines [OF assms] log_text_ends [of record_text ps]
  by (auto simp: journal_load_def Let_def)

lemma journal_load_torn:
  assumes "list_all storable_payload ps" and "storable_payload r"
    and "strict_prefix p (record_text r @ [LF])" and "p \<noteq> []"
  shows "journal_load (Some (log_text record_text ps @ p)) =
    rfold load_record (map canon ps) (empty_journal (Some (log_text record_text ps)))"
proof -
  let ?t = "log_text record_text ps"
  have "journal_load (Some (?t @ p)) =
      rbind (rfold load_record (map canon ps) (empty_journal (Some (?t @ p))))
        (\<lambda>j. Inr (j\<lparr>j_file := Some ?t\<rparr>))"
    using journal_codec.torn_line [OF assms(2,3), of ps]
      journal_codec.torn_line_last [OF assms(2,3,4), of ps] assms(4) load_lines [OF assms(1)]
    by (simp add: journal_load_def Let_def)
  also have "\<dots> = rfold load_record (map canon ps) ((empty_journal (Some (?t @ p)))\<lparr>j_file := Some ?t\<rparr>)"
    by (simp only: rfold_load_record_file)
  finally show ?thesis by simp
qed

lemma log_text_None:
  "list_all storable_payload ps \<Longrightarrow> log_text record_text ps = [] \<Longrightarrow> ps = []"
  by (cases ps) (simp_all add: log_text_def)

lemma journal_inv_reload: "journal_inv j \<Longrightarrow> journal_load (j_file j) = Inr (stored_journal j)"
proof (cases "j_file j")
  case None
  assume "journal_inv j"
  then obtain ps where "list_all storable_payload ps" "log_text record_text ps = []"
    "rfold load_record (map canon ps) (empty_journal None) = Inr (stored_journal j)"
    using None by (auto simp: journal_inv_def journal_text_def)
  then show ?thesis using log_text_None [of ps] None by (simp add: journal_load_def)
next
  case (Some data)
  assume "journal_inv j"
  then show ?thesis using Some journal_load_log by (auto simp: journal_inv_def journal_text_def)
qed

lemma journal_inv_torn:
  assumes "journal_inv j" and "storable_payload r" and "strict_prefix p (record_text r @ [LF])"
  shows "journal_load (Some (journal_text j @ p)) =
    Inr ((stored_journal j)\<lparr>j_file := Some (journal_text j)\<rparr>)"
proof -
  obtain ps where ps: "list_all storable_payload ps" "journal_text j = log_text record_text ps"
    "rfold load_record (map canon ps) (empty_journal (j_file j)) = Inr (stored_journal j)"
    using assms(1) by (auto simp: journal_inv_def)
  have "rfold load_record (map canon ps) (empty_journal (Some (journal_text j))) =
      Inr ((stored_journal j)\<lparr>j_file := Some (journal_text j)\<rparr>)"
    using rfold_load_record_file [of "map canon ps" "Some (journal_text j)" "empty_journal (j_file j)"] ps(3)
    by simp
  then show ?thesis
    using journal_load_log [OF ps(1)] journal_load_torn [OF ps(1) assms(2,3)] ps(2)
    by (cases "p = []") simp_all
qed

end
