(* ===== verification/Snapshot.thy ===== *)
theory Snapshot
  imports Journal
begin

text \<open>
  The rows of a shard snapshot (replica.py, \<open>_parse_snapshot_rows\<close>): typed conversion of
  exported rows with every rejection, the batch of upserts and the sparse vectors they
  turn into, and the checksum that travels with a snapshot.
\<close>

section \<open>Typed values of models.py\<close>

record payload_field =
  pf_name :: string
  pf_type :: string
  pf_value :: pyval

record sparse_element =
  se_term_id :: int
  se_weight :: pyfloat

datatype batch_mutation =
    BatchUpsert int "pyfloat list" "payload_field list"
  | BatchDelete int

definition payload_field_to_kernel :: "payload_field \<Rightarrow> pyval" where
  "payload_field_to_kernel f =
     PDict [(''name'', PStr (pf_name f)), (''type'', PStr (pf_type f)), (''value'', pf_value f)]"

definition sparse_element_to_kernel :: "sparse_element \<Rightarrow> pyval" where
  "sparse_element_to_kernel e =
     PDict [(''term_id'', PInt (se_term_id e)), (''weight'', PFloat (se_weight e))]"

section \<open>Checksums\<close>

definition snapshot_payload_value :: "pyval \<Rightarrow> (string \<times> pyval) list \<Rightarrow> int \<Rightarrow> pyval" where
  "snapshot_payload_value rows config index =
     PDict [(''rows'', rows), (''collection_config'', PDict config), (''index'', PInt index)]"

definition snapshot_checksum :: "pyval \<Rightarrow> (string \<times> pyval) list \<Rightarrow> int \<Rightarrow> int" where
  "snapshot_checksum rows config index = payload_checksum (snapshot_payload_value rows config index)"

section \<open>Rows\<close>

definition SNAPSHOT_ROW_FIELDS :: "string list" where
  "SNAPSHOT_ROW_FIELDS = [''id'', ''sequence'', ''vector'', ''fields'', ''sparse'']"

definition SNAPSHOT_FIELD_FIELDS :: "string list" where
  "SNAPSHOT_FIELD_FIELDS = [''name'', ''type'', ''value'']"

definition SNAPSHOT_SPARSE_FIELDS :: "string list" where
  "SNAPSHOT_SPARSE_FIELDS = [''term_id'', ''weight'']"

text \<open>\<open>float(value)\<close> of a number; \<open>None\<close> when the type is neither \<open>int\<close> nor \<open>float\<close>.\<close>

definition number_to_float :: "pyval \<Rightarrow> pyfloat result option" where
  "number_to_float v =
     (case v of PInt i \<Rightarrow> Some (float_of_int i) | PFloat f \<Rightarrow> Some (Inr f) | _ \<Rightarrow> None)"

definition parse_vector_value :: "pyval \<Rightarrow> pyfloat result" where
  "parse_vector_value v =
     (case number_to_float v of
        None \<Rightarrow> Inl (ProtocolError ''snapshot vector values must be numeric'')
      | Some r \<Rightarrow> rbind r (\<lambda>x. require (isfinite x)
                   (ProtocolError ''snapshot vector values must be finite'') (Inr x)))"

definition parse_finite :: "pyval \<Rightarrow> string \<Rightarrow> pyfloat result" where
  "parse_finite v message =
     (case number_to_float v of
        None \<Rightarrow> Inl (ProtocolError message)
      | Some r \<Rightarrow> rbind r (\<lambda>x. require (isfinite x) (ProtocolError message) (Inr x)))"

definition parse_payload_value :: "pyval \<Rightarrow> pyval \<Rightarrow> (string \<times> pyval) result" where
  "parse_payload_value kind v =
     (case as_str kind of
        None \<Rightarrow> Inl (ProtocolError ''snapshot payload type is invalid'')
      | Some k \<Rightarrow>
          require (k \<in> set PAYLOAD_KINDS) (ProtocolError ''snapshot payload type is invalid'')
         (require (k = ''string'' \<longrightarrow> as_str v \<noteq> None)
            (ProtocolError ''snapshot string payload type mismatch'')
         (require (k = ''int'' \<longrightarrow> as_int v \<noteq> None)
            (ProtocolError ''snapshot integer payload type mismatch'')
         (require (k = ''bool'' \<longrightarrow> as_bool v \<noteq> None)
            (ProtocolError ''snapshot boolean payload type mismatch'')
         (if k = ''float''
          then rbind (parse_finite v ''snapshot float payload type mismatch'') (\<lambda>x. Inr (k, PFloat x))
          else Inr (k, v))))))"

definition parse_snapshot_field ::
  "pyval \<Rightarrow> payload_field list \<times> string set \<Rightarrow> (payload_field list \<times> string set) result" where
  "parse_snapshot_field item acc =
     (case acc of (collected, names) \<Rightarrow>
      case as_dict item of
        None \<Rightarrow> Inl (ProtocolError ''snapshot payload fields mismatch'')
      | Some d \<Rightarrow>
          require (has_fields d SNAPSHOT_FIELD_FIELDS)
            (ProtocolError ''snapshot payload fields mismatch'')
         (rbind (dget d ''name'') (\<lambda>name.
          rbind (dget d ''type'') (\<lambda>kind.
          rbind (dget d ''value'') (\<lambda>v.
          case as_str name of
            None \<Rightarrow> Inl (ProtocolError ''snapshot payload names must be unique strings'')
          | Some n \<Rightarrow>
              require (n \<noteq> [] \<and> n \<notin> names)
                (ProtocolError ''snapshot payload names must be unique strings'')
             (rbind (parse_payload_value kind v) (\<lambda>(k, w).
              Inr (collected @ [\<lparr>pf_name = n, pf_type = k, pf_value = w\<rparr>], insert n names))))))))"

definition parse_snapshot_sparse ::
  "pyval \<Rightarrow> sparse_element list \<times> int set \<Rightarrow> (sparse_element list \<times> int set) result" where
  "parse_snapshot_sparse item acc =
     (case acc of (elements, terms) \<Rightarrow>
      case as_dict item of
        None \<Rightarrow> Inl (ProtocolError ''snapshot sparse fields mismatch'')
      | Some d \<Rightarrow>
          require (has_fields d SNAPSHOT_SPARSE_FIELDS)
            (ProtocolError ''snapshot sparse fields mismatch'')
         (rbind (dget_int d ''term_id'' ''snapshot sparse term ID'') (\<lambda>term_id.
          rbind (dget d ''weight'') (\<lambda>weight.
          require (0 \<le> term_id \<and> term_id \<notin> terms)
            (ProtocolError ''snapshot sparse term IDs must be unique and non-negative'')
         (rbind (parse_finite weight ''snapshot sparse weights must be finite numbers'') (\<lambda>w.
          Inr (elements @ [\<lparr>se_term_id = term_id, se_weight = w\<rparr>], insert term_id terms)))))))"

type_synonym sparse_row = "int \<times> sparse_element list"

type_synonym parsed_rows = "batch_mutation list \<times> sparse_row list \<times> int set"

definition parse_snapshot_row :: "int \<Rightarrow> pyval \<Rightarrow> parsed_rows \<Rightarrow> parsed_rows result" where
  "parse_snapshot_row dimension row acc =
     (case acc of (mutations, sparse_rows, seen) \<Rightarrow>
      case as_dict row of
        None \<Rightarrow> Inl (ProtocolError ''snapshot row fields mismatch'')
      | Some d \<Rightarrow>
          require (has_fields d SNAPSHOT_ROW_FIELDS) (ProtocolError ''snapshot row fields mismatch'')
         (rbind (dget_int d ''id'' ''snapshot point id'') (\<lambda>point_id.
          rbind (dget_int d ''sequence'' ''snapshot sequence'') (\<lambda>sequence.
          require (0 < sequence) (ProtocolError ''snapshot sequence must be positive'')
         (require (point_id \<notin> seen) (ProtocolError ''snapshot point IDs must be unique'')
         (rbind (dget d ''vector'') (\<lambda>raw_vector.
         (case as_list raw_vector of
            None \<Rightarrow> Inl (ProtocolError ''snapshot vector dimension mismatch'')
          | Some vs \<Rightarrow>
          require (int (length vs) = dimension) (ProtocolError ''snapshot vector dimension mismatch'')
         (rbind (rmap parse_vector_value vs) (\<lambda>vector.
          rbind (dget d ''fields'') (\<lambda>raw_fields.
         (case as_list raw_fields of
            None \<Rightarrow> Inl (ProtocolError ''snapshot fields must be a list'')
          | Some fs \<Rightarrow>
          rbind (rfold parse_snapshot_field fs ([], {})) (\<lambda>(payload, _).
          rbind (dget d ''sparse'') (\<lambda>raw_sparse.
         (case as_list raw_sparse of
            None \<Rightarrow> Inl (ProtocolError ''snapshot sparse vector must be a list'')
          | Some ss \<Rightarrow>
          rbind (rfold parse_snapshot_sparse ss ([], {})) (\<lambda>(sparse, _).
          Inr (mutations @ [BatchUpsert point_id vector payload], sparse_rows @ [(point_id, sparse)],
               insert point_id seen)))))))))))))))))"

definition parse_snapshot_rows ::
  "pyval \<Rightarrow> int \<Rightarrow> (batch_mutation list \<times> sparse_row list) result" where
  "parse_snapshot_rows rows dimension =
     (case as_list rows of
        None \<Rightarrow> Inl (ProtocolError ''snapshot rows must be a list'')
      | Some rs \<Rightarrow>
          rbind (rfold (parse_snapshot_row dimension) rs ([], [], {})) (\<lambda>(mutations, sparse_rows, _).
          Inr (mutations, sparse_rows)))"

section \<open>What parsed rows satisfy\<close>

definition names_tracked :: "payload_field list \<times> string set \<Rightarrow> bool" where
  "names_tracked acc \<longleftrightarrow> (case acc of (fs, names) \<Rightarrow> distinct (map pf_name fs) \<and> names = pf_name ` set fs)"

definition terms_tracked :: "sparse_element list \<times> int set \<Rightarrow> bool" where
  "terms_tracked acc \<longleftrightarrow>
     (case acc of (es, terms) \<Rightarrow> distinct (map se_term_id es) \<and> terms = se_term_id ` set es \<and>
        list_all (\<lambda>e. 0 \<le> se_term_id e \<and> isfinite (se_weight e)) es)"

lemma parse_snapshot_field_tracks:
  assumes "names_tracked acc"
  shows "yields names_tracked (parse_snapshot_field item acc)"
  unfolding parse_snapshot_field_def
  by (intro yields_intros yields_Inr) (use assms in \<open>auto simp: names_tracked_def\<close>)

lemma parse_finite_yields: "yields isfinite (parse_finite v message)"
  unfolding parse_finite_def by (intro yields_intros yields_Inr)

lemma parse_vector_value_yields: "yields isfinite (parse_vector_value v)"
  unfolding parse_vector_value_def by (intro yields_intros yields_Inr)

lemma parse_snapshot_sparse_tracks:
  assumes "terms_tracked acc"
  shows "yields terms_tracked (parse_snapshot_sparse item acc)"
  unfolding parse_snapshot_sparse_def
  by (intro yields_intros yields_Inr)
    (use assms parse_finite_yields in \<open>auto simp: terms_tracked_def dest: yieldsD\<close>)

text \<open>A row, the upsert and the sparse vector it becomes.\<close>

definition row_parsed :: "int \<Rightarrow> pyval \<Rightarrow> batch_mutation \<Rightarrow> sparse_row \<Rightarrow> bool" where
  "row_parsed n row m s \<longleftrightarrow>
     (\<exists>d i v fs es. row = PDict d \<and> map_of d ''id'' = Some (PInt i) \<and> m = BatchUpsert i v fs \<and> s = (i, es) \<and>
        int (length v) = n \<and> list_all isfinite v \<and> distinct (map pf_name fs) \<and>
        distinct (map se_term_id es) \<and> list_all (\<lambda>e. 0 \<le> se_term_id e \<and> isfinite (se_weight e)) es)"

lemma parse_snapshot_row_parsed:
  "yields (\<lambda>acc. \<exists>m s. acc = (ms @ [m], ss @ [s], insert (fst s) seen) \<and> row_parsed n row m s \<and> fst s \<notin> seen)
     (parse_snapshot_row n row (ms, ss, seen))"
proof -
  have v: "list_all isfinite v \<and> length v = length vs" if "rmap parse_vector_value vs = Inr v" for vs v
    using yields_rmap [OF parse_vector_value_yields] that by (rule yieldsD)
  have "yields names_tracked (rfold parse_snapshot_field fs ([], {}))" for fs
    by (rule yields_rfold) (rule parse_snapshot_field_tracks, assumption, simp add: names_tracked_def)
  then have f: "names_tracked acc" if "rfold parse_snapshot_field fs ([], {}) = Inr acc" for fs acc
    using that by (rule yieldsD)
  have "yields terms_tracked (rfold parse_snapshot_sparse ss ([], {}))" for ss
    by (rule yields_rfold) (rule parse_snapshot_sparse_tracks, assumption, simp add: terms_tracked_def)
  then have e: "terms_tracked acc" if "rfold parse_snapshot_sparse ss ([], {}) = Inr acc" for ss acc
    using that by (rule yieldsD)
  show ?thesis
    unfolding parse_snapshot_row_def prod.case
    by (intro yields_intros yields_Inr)
      (fastforce simp: row_parsed_def dget_int_def dget_eq_Inr exact_int_eq_Inr names_tracked_def terms_tracked_def
        dest!: v f e)
qed

lemma parse_rows_parsed:
  "rfold (parse_snapshot_row n) rs (ms, ss, seen) = Inr (ms', ss', seen') \<Longrightarrow>
     \<exists>ms2 ss2. ms' = ms @ ms2 \<and> ss' = ss @ ss2 \<and> length ms2 = length rs \<and> length ss2 = length rs \<and>
       (\<forall>i < length rs. row_parsed n (rs ! i) (ms2 ! i) (ss2 ! i)) \<and>
       distinct (map fst ss2) \<and> fst ` set ss2 \<inter> seen = {}"
proof (induction rs arbitrary: ms ss seen)
  case (Cons r rs)
  obtain m s where step: "parse_snapshot_row n r (ms, ss, seen) = Inr (ms @ [m], ss @ [s], insert (fst s) seen)"
      "row_parsed n r m s" "fst s \<notin> seen"
      "rfold (parse_snapshot_row n) rs (ms @ [m], ss @ [s], insert (fst s) seen) = Inr (ms', ss', seen')"
    using Cons.prems parse_snapshot_row_parsed [of ms ss seen n r] by (auto simp: yields_def)
  obtain ms2 ss2 where rest: "ms' = (ms @ [m]) @ ms2" "ss' = (ss @ [s]) @ ss2" "length ms2 = length rs"
      "length ss2 = length rs" "\<forall>i < length rs. row_parsed n (rs ! i) (ms2 ! i) (ss2 ! i)"
      "distinct (map fst ss2)" "fst ` set ss2 \<inter> insert (fst s) seen = {}"
    using Cons.IH [OF step(4)] by blast
  have "row_parsed n ((r # rs) ! i) ((m # ms2) ! i) ((s # ss2) ! i)" if "i < length (r # rs)" for i
    using that step(2) rest(5) by (cases i) simp_all
  then show ?case using rest step(3) by (intro exI [of _ "m # ms2"] exI [of _ "s # ss2"]) auto
qed simp


definition example_rows :: pyval where
  "example_rows = PList [PDict [(''id'', PInt 3), (''sequence'', PInt 1), (''vector'', PList [PFloat (FFin False 0), PFloat (FFin True 3)]),
     (''fields'', PList [PDict [(''name'', PStr ''a''), (''type'', PStr ''bool''), (''value'', PBool True)]]),
     (''sparse'', PList [PDict [(''term_id'', PInt 0), (''weight'', PFloat (FFin False 7))]])]]"


end
