(* ===== verification/Action.thy ===== *)
theory Action
  imports Prelude "HOL-Library.Sublist"
begin

text \<open>
  Stateful code that may raise: an action maps a state to a result and the state it leaves
  behind, which an exception keeps. \<open>inv_action\<close> is the statement that an action
  preserves an invariant whatever its result.
\<close>

type_synonym ('s, 'a) action = "'s \<Rightarrow> 'a result \<times> 's"

definition ok :: "'a \<Rightarrow> ('s, 'a) action" where
  "ok x = (\<lambda>s. (Inr x, s))"

definition raise :: "err \<Rightarrow> ('s, 'a) action" where
  "raise e = (\<lambda>s. (Inl e, s))"

definition bind :: "('s, 'a) action \<Rightarrow> ('a \<Rightarrow> ('s, 'b) action) \<Rightarrow> ('s, 'b) action" where
  "bind a f = (\<lambda>s. case a s of (Inl e, s') \<Rightarrow> (Inl e, s') | (Inr x, s') \<Rightarrow> f x s')"

definition pure :: "'a result \<Rightarrow> ('s, 'a) action" where
  "pure r = (\<lambda>s. (r, s))"

definition check :: "bool \<Rightarrow> err \<Rightarrow> ('s, unit) action" where
  "check c e = (if c then ok () else raise e)"

definition gets :: "('s \<Rightarrow> 'a) \<Rightarrow> ('s, 'a) action" where
  "gets f = (\<lambda>s. (Inr (f s), s))"

definition modify :: "('s \<Rightarrow> 's) \<Rightarrow> ('s, unit) action" where
  "modify f = (\<lambda>s. (Inr (), f s))"

text \<open>A computation on a part of the state.\<close>

definition zoom :: "('s \<Rightarrow> 't) \<Rightarrow> ('t \<Rightarrow> 's \<Rightarrow> 's) \<Rightarrow> ('t, 'a) action \<Rightarrow> ('s, 'a) action" where
  "zoom get put a = (\<lambda>s. case a (get s) of (r, t) \<Rightarrow> (r, put t s))"

text \<open>\<open>try: ... except E: ...\<close>\<close>

definition catching :: "(err \<Rightarrow> bool) \<Rightarrow> ('s, 'a) action \<Rightarrow> (err \<Rightarrow> ('s, 'a) action) \<Rightarrow> ('s, 'a) action" where
  "catching P a h = (\<lambda>s. case a s of (Inl e, s') \<Rightarrow> (if P e then h e s' else (Inl e, s')) | (Inr x, s') \<Rightarrow> (Inr x, s'))"

fun each :: "('a \<Rightarrow> ('s, unit) action) \<Rightarrow> 'a list \<Rightarrow> ('s, unit) action" where
  "each f [] = ok ()"
| "each f (x # xs) = bind (f x) (\<lambda>_. each f xs)"

text \<open>
  \<open>for x in xs: try: ... append(y) except P: continue\<close>, and
  \<open>for x in xs: try: ... return y except P: continue\<close> followed by a \<open>raise\<close>.
\<close>

fun collect :: "(err \<Rightarrow> bool) \<Rightarrow> ('a \<Rightarrow> ('s, 'b option) action) \<Rightarrow> 'a list \<Rightarrow> ('s, 'b list) action" where
  "collect P f [] = ok []"
| "collect P f (x # xs) =
     bind (catching P (f x) (\<lambda>_. ok None)) (\<lambda>r.
     bind (collect P f xs) (\<lambda>rs. ok (case r of None \<Rightarrow> rs | Some y \<Rightarrow> y # rs)))"

fun first_of :: "(err \<Rightarrow> bool) \<Rightarrow> ('a \<Rightarrow> ('s, 'b option) action) \<Rightarrow> err \<Rightarrow> 'a list \<Rightarrow> ('s, 'b) action" where
  "first_of P f e [] = raise e"
| "first_of P f e (x # xs) =
     bind (catching P (f x) (\<lambda>_. ok None)) (\<lambda>r. case r of Some y \<Rightarrow> ok y | None \<Rightarrow> first_of P f e xs)"

section \<open>Evaluation\<close>

named_theorems action_simps \<open>evaluation of actions\<close>

lemma bind_run [simp, action_simps]:
  "bind a f s = (case a s of (Inl e, s') \<Rightarrow> (Inl e, s') | (Inr x, s') \<Rightarrow> f x s')"
  by (simp add: bind_def)

lemma basic_run [simp, action_simps]:
  "ok x s = (Inr x, s)" "raise e s = (Inl e, s)" "pure r s = (r, s)" "gets g s = (Inr (g s), s)"
  "modify m s = (Inr (), m s)" "check c e s = (if c then Inr () else Inl e, s)"
  "zoom get put a s = (case a (get s) of (r, t) \<Rightarrow> (r, put t s))"
  by (simp_all add: ok_def raise_def pure_def gets_def modify_def check_def zoom_def)

lemma catching_run [simp, action_simps]:
  "catching P a h s =
     (case a s of (Inl e, s') \<Rightarrow> (if P e then h e s' else (Inl e, s')) | (Inr x, s') \<Rightarrow> (Inr x, s'))"
  by (simp add: catching_def)

lemma bind_return [simp]: "bind (pure (Inr x)) f = f x" "bind (ok x) f = f x" "bind (pure (Inl e)) f = raise e"
  by (simp_all add: fun_eq_iff)

lemma bind_assoc: "bind (bind a f) g = bind a (\<lambda>x. bind (f x) g)"
  by (simp add: bind_def fun_eq_iff split: prod.splits sum.splits)

text \<open>Splitting a run that succeeded.\<close>

lemma bind_Inr:
  "bind a f s = (Inr y, t) \<longleftrightarrow> (\<exists>x s'. a s = (Inr x, s') \<and> f x s' = (Inr y, t))"
  by (auto split: prod.splits sum.splits)

lemma pure_Inr: "pure r s = (Inr y, t) \<longleftrightarrow> r = Inr y \<and> t = s"
  by auto

lemma check_Inr: "check c e s = (Inr y, t) \<longleftrightarrow> c \<and> t = s"
  by auto

lemma bindE:
  assumes "bind a f s = (Inr y, t)"
  obtains x u where "a s = (Inr x, u)" "f x u = (Inr y, t)"
proof -
  obtain x u where "a s = (Inr x, u) \<and> f x u = (Inr y, t)" using assms unfolding bind_Inr by (elim exE)
  then show ?thesis by (elim conjE) (rule that)
qed

lemma pureE: "pure r s = (Inr y, t) \<Longrightarrow> (r = Inr y \<Longrightarrow> t = s \<Longrightarrow> R) \<Longrightarrow> R"
  by simp

lemma checkE: "check c e s = (Inr y, t) \<Longrightarrow> (c \<Longrightarrow> t = s \<Longrightarrow> R) \<Longrightarrow> R"
  by (simp split: if_splits)

lemma okE: "ok x s = (Inr y, t) \<Longrightarrow> (y = x \<Longrightarrow> t = s \<Longrightarrow> R) \<Longrightarrow> R"
  by simp

lemma modifyE: "modify m s = (Inr y, t) \<Longrightarrow> (t = m s \<Longrightarrow> R) \<Longrightarrow> R"
  by simp

lemma getsE:
  assumes "gets g s = (Inr y, t)"
  obtains "y = g s" "t = s"
proof -
  have "y = g s \<and> t = s" using assms unfolding gets_def by blast
  then show ?thesis by (elim conjE) (rule that)
qed

lemmas runE = bindE pureE checkE okE modifyE getsE

section \<open>Invariants\<close>

named_theorems inv_intros \<open>introduction rules for \<open>inv_action\<close>\<close>

definition inv_action :: "('s \<Rightarrow> bool) \<Rightarrow> ('s, 'a) action \<Rightarrow> bool" where
  "inv_action I a \<longleftrightarrow> (\<forall>s. I s \<longrightarrow> I (snd (a s)))"

lemma inv_actionD: "inv_action I a \<Longrightarrow> I s \<Longrightarrow> a s = (r, t) \<Longrightarrow> I t"
  by (auto simp: inv_action_def)

lemma inv_basic [inv_intros]:
  "inv_action I (ok x)" "inv_action I (raise e)" "inv_action I (pure r)" "inv_action I (gets g)"
  "inv_action I (check c e)"
  by (simp_all add: inv_action_def)

lemma inv_modify [inv_intros]: "(\<And>s. I s \<Longrightarrow> I (m s)) \<Longrightarrow> inv_action I (modify m)"
  by (simp add: inv_action_def)

lemma inv_bind [inv_intros]:
  "inv_action I a \<Longrightarrow> (\<And>x. inv_action I (f x)) \<Longrightarrow> inv_action I (bind a f)"
  by (auto simp: inv_action_def split: prod.splits sum.splits)

text \<open>Sequencing that keeps what a pure step or a guard established.\<close>

lemma inv_bind_pure: "(\<And>x. r = Inr x \<Longrightarrow> inv_action I (f x)) \<Longrightarrow> inv_action I (bind (pure r) f)"
  by (cases r) (simp_all add: inv_action_def)

lemma inv_bind_check: "(c \<Longrightarrow> inv_action I (f ())) \<Longrightarrow> inv_action I (bind (check c e) f)"
  by (simp add: inv_action_def)

lemma inv_catching [inv_intros]:
  "inv_action I a \<Longrightarrow> (\<And>e. inv_action I (h e)) \<Longrightarrow> inv_action I (catching P a h)"
  by (auto simp: inv_action_def split: prod.splits sum.splits)

lemma inv_if [inv_intros]:
  "(c \<Longrightarrow> inv_action I a) \<Longrightarrow> (\<not> c \<Longrightarrow> inv_action I b) \<Longrightarrow> inv_action I (if c then a else b)"
  by simp

lemma inv_case_option [inv_intros]:
  "(x = None \<Longrightarrow> inv_action I a) \<Longrightarrow> (\<And>y. x = Some y \<Longrightarrow> inv_action I (b y)) \<Longrightarrow>
     inv_action I (case x of None \<Rightarrow> a | Some y \<Rightarrow> b y)"
  by (cases x) simp_all

lemma inv_case_prod [inv_intros]:
  "(\<And>a b. x = (a, b) \<Longrightarrow> inv_action I (f a b)) \<Longrightarrow> inv_action I (case x of (a, b) \<Rightarrow> f a b)"
  by (cases x) simp

lemma inv_each [inv_intros]: "(\<And>x. x \<in> set xs \<Longrightarrow> inv_action I (f x)) \<Longrightarrow> inv_action I (each f xs)"
  by (induction xs) (auto intro!: inv_intros)

lemma inv_collect [inv_intros]: "(\<And>x. x \<in> set xs \<Longrightarrow> inv_action I (f x)) \<Longrightarrow> inv_action I (collect P f xs)"
  by (induction xs) (auto intro!: inv_intros)

lemma inv_first_of [inv_intros]: "(\<And>x. x \<in> set xs \<Longrightarrow> inv_action I (f x)) \<Longrightarrow> inv_action I (first_of P f e xs)"
  by (induction xs) (auto intro!: inv_intros)

text \<open>What \<open>collect\<close> returns was returned for one of the elements, on the way.\<close>

lemma collect_run:
  assumes "collect P f xs s = (Inr ys, t)" and "\<And>x. inv_action I (f x)" and "I s"
    and "\<And>x y u v. x \<in> set xs \<Longrightarrow> I u \<Longrightarrow> f x u = (Inr (Some y), v) \<Longrightarrow> Q x y"
  shows "\<exists>zs. subseq zs xs \<and> list_all2 Q zs ys"
  using assms
proof (induction xs arbitrary: s ys)
  case (Cons x xs)
  obtain r u where run: "catching P (f x) (\<lambda>_. ok None) s = (r, u)" by force
  with Cons.prems(1) obtain r' ys' where r: "r = Inr r'" and rest: "collect P f xs u = (Inr ys', t)"
    and ys: "ys = (case r' of None \<Rightarrow> ys' | Some y \<Rightarrow> y # ys')"
    by (auto simp del: catching_run split: sum.splits prod.splits)
  have "I u" using inv_actionD [OF inv_catching [OF Cons.prems(2) inv_basic(1)] Cons.prems(3) run] .
  then obtain zs where zs: "subseq zs xs" "list_all2 Q zs ys'"
    using Cons.IH [OF rest Cons.prems(2)] Cons.prems(4) by (meson list.set_intros(2))
  show ?case
  proof (cases r')
    case None
    then show ?thesis using zs ys by (auto intro: list_emb_Cons)
  next
    case (Some y)
    then have "f x s = (Inr (Some y), u)"
      using run r by (auto split: sum.splits prod.splits if_splits)
    then have "Q x y" using Cons.prems(3,4) by (meson list.set_intros(1))
    then show ?thesis using zs ys Some by (intro exI [of _ "x # zs"]) simp
  qed
qed auto

section \<open>Partial correctness\<close>

text \<open>What holds when an action returns; an exception ends it. \<open>triple P a (\<lambda>_ _. False)\<close> says it never returns.\<close>

definition triple :: "('s \<Rightarrow> bool) \<Rightarrow> ('s, 'a) action \<Rightarrow> ('a \<Rightarrow> 's \<Rightarrow> bool) \<Rightarrow> bool" where
  "triple P a Q \<longleftrightarrow> (\<forall>s x t. P s \<longrightarrow> a s = (Inr x, t) \<longrightarrow> Q x t)"

lemma tripleD: "triple P a Q \<Longrightarrow> P s \<Longrightarrow> a s = (Inr x, t) \<Longrightarrow> Q x t"
  by (auto simp: triple_def)

lemma triple_bind: "triple P a R \<Longrightarrow> (\<And>x. triple (R x) (f x) Q) \<Longrightarrow> triple P (bind a f) Q"
  by (fastforce simp: triple_def bind_Inr simp del: bind_run)

lemma triple_weaken:
  "triple P' a Q' \<Longrightarrow> (\<And>s. P s \<Longrightarrow> P' s) \<Longrightarrow> (\<And>x s. Q' x s \<Longrightarrow> Q x s) \<Longrightarrow> triple P a Q"
  unfolding triple_def by blast

lemma triple_conj: "triple P a Q \<Longrightarrow> triple P a R \<Longrightarrow> triple P a (\<lambda>x s. Q x s \<and> R x s)"
  by (auto simp: triple_def)

lemma triple_keep: "inv_action I a \<Longrightarrow> triple I a (\<lambda>_. I)"
  by (auto simp: triple_def dest: inv_actionD)

lemma triple_keep_conj:
  "inv_action I a \<Longrightarrow> triple (\<lambda>s. I s \<and> P s) a Q \<Longrightarrow> triple (\<lambda>s. I s \<and> P s) a (\<lambda>x s. I s \<and> Q x s)"
  by (auto simp: triple_def dest: inv_actionD)

text \<open>Sequencing after a step of which only the invariant is needed.\<close>

lemma triple_step: "inv_action I a \<Longrightarrow> (\<And>x. triple I (f x) Q) \<Longrightarrow> triple I (bind a f) Q"
  by (rule triple_bind [OF triple_keep])

lemma triple_pure: "(\<And>x. r = Inr x \<Longrightarrow> triple P (f x) Q) \<Longrightarrow> triple P (bind (pure r) f) Q"
  by (cases r) (simp_all add: triple_def)

lemma triple_check: "(c \<Longrightarrow> triple P (f ()) Q) \<Longrightarrow> triple P (bind (check c e) f) Q"
  by (auto simp: triple_def)

lemma triple_refused: "(\<And>s. P s \<Longrightarrow> \<not> c) \<Longrightarrow> triple P (bind (check c e) f) Q"
  by (auto simp: triple_def)

lemma triple_gets: "(\<And>x. triple (\<lambda>s. P s \<and> g s = x) (f x) Q) \<Longrightarrow> triple P (bind (gets g) f) Q"
  by (auto simp: triple_def)

lemma triple_raise: "triple P (raise e) Q"
  by (simp add: triple_def)

lemma triple_ok: "(\<And>s. P s \<Longrightarrow> Q x s) \<Longrightarrow> triple P (ok x) Q"
  by (auto simp: triple_def)

lemma triple_if: "(c \<Longrightarrow> triple P a Q) \<Longrightarrow> (\<not> c \<Longrightarrow> triple P b Q) \<Longrightarrow> triple P (if c then a else b) Q"
  by simp

text \<open>What holds in the end, also after an exception.\<close>

definition ends :: "('s \<Rightarrow> bool) \<Rightarrow> ('s, 'a) action \<Rightarrow> ('s \<Rightarrow> bool) \<Rightarrow> bool" where
  "ends P a I \<longleftrightarrow> (\<forall>s. P s \<longrightarrow> I (snd (a s)))"

lemma ends_inv: "inv_action I a \<Longrightarrow> (\<And>s. P s \<Longrightarrow> I s) \<Longrightarrow> ends P a I"
  by (simp add: ends_def inv_action_def)

lemma ends_bind:
  "ends P a I \<Longrightarrow> triple P a R \<Longrightarrow> (\<And>x. ends (R x) (f x) I) \<Longrightarrow> ends P (bind a f) I"
  by (fastforce simp: ends_def triple_def split: prod.splits sum.splits)

lemma ends_step:
  assumes "inv_action K a" and "\<And>s. K s \<Longrightarrow> I s" and "\<And>x. ends K (f x) I"
  shows "ends K (bind a f) I"
  by (rule ends_bind [OF _ triple_keep [OF assms(1)] assms(3)])
    (use assms in \<open>auto simp: ends_def inv_action_def\<close>)

lemma ends_if: "(c \<Longrightarrow> ends P a I) \<Longrightarrow> (\<not> c \<Longrightarrow> ends P b I) \<Longrightarrow> ends P (if c then a else b) I"
  by simp

section \<open>Progress\<close>

text \<open>
  Actions that only move the state forward in a preorder, whatever they raise. The order is
  the interface; each stateful component instantiates it with its own.
\<close>

locale state_order =
  fixes before :: "'s \<Rightarrow> 's \<Rightarrow> bool"
  assumes before_refl: "before s s"
    and before_trans: "before s t \<Longrightarrow> before t u \<Longrightarrow> before s u"
begin

definition forward :: "('s, 'a) action \<Rightarrow> bool" where
  "forward a \<longleftrightarrow> (\<forall>s. before s (snd (a s)))"

lemma forwardD: "forward a \<Longrightarrow> a s = (r, t) \<Longrightarrow> before s t"
  by (auto simp: forward_def dest: spec [of _ s])

lemma forward_basic:
  "forward (ok x)" "forward (raise e)" "forward (pure r)" "forward (gets g)" "forward (check c e)"
  by (simp_all add: forward_def before_refl)

lemma forward_modify: "(\<And>s. before s (m s)) \<Longrightarrow> forward (modify m)"
  by (simp add: forward_def)

lemma forward_bind:
  assumes "forward a" and "\<And>x. forward (f x)"
  shows "forward (bind a f)"
  unfolding forward_def
proof
  fix s
  obtain r t where a: "a s = (r, t)" by force
  then have "before s t" using forwardD [OF assms(1)] by blast
  moreover have "before t (snd (f x t))" for x using assms(2) by (simp add: forward_def)
  ultimately show "before s (snd (bind a f s))" using a by (auto intro: before_trans split: sum.splits)
qed

text \<open>A step whose guard refers to the state it starts from.\<close>

lemma forward_gets: "(\<And>s. before s (snd (f (g s) s))) \<Longrightarrow> forward (bind (gets g) f)"
  by (simp add: forward_def)

lemma forward_if: "forward a \<Longrightarrow> forward b \<Longrightarrow> forward (if c then a else b)"
  by simp

lemma forward_case_prod: "(\<And>a b. forward (f a b)) \<Longrightarrow> forward (case x of (a, b) \<Rightarrow> f a b)"
  by (cases x) simp

lemma forward_catching: "forward a \<Longrightarrow> (\<And>e. forward (h e)) \<Longrightarrow> forward (catching P a h)"
  unfolding forward_def by (auto split: prod.splits sum.splits) (metis before_trans snd_conv)+

lemma forward_each: "(\<And>x. forward (f x)) \<Longrightarrow> forward (each f xs)"
  by (induction xs) (auto intro: forward_basic forward_bind)

text \<open>Walking through the steps from one given state.\<close>

lemma from_pure: "(\<And>x. r = Inr x \<Longrightarrow> before u (snd (f x s))) \<Longrightarrow> before u s \<Longrightarrow> before u (snd (bind (pure r) f s))"
  by (cases r) simp_all

lemma from_check: "(c \<Longrightarrow> before u (snd (f () s))) \<Longrightarrow> before u s \<Longrightarrow> before u (snd (bind (check c e) f s))"
  by simp

lemma from_modify: "before u (snd (f () (m s))) \<Longrightarrow> before u (snd (bind (modify m) f s))"
  by simp

lemma from_case_prod: "(\<And>a b. before u (snd (f a b s))) \<Longrightarrow> before u (snd ((case x of (a, b) \<Rightarrow> f a b) s))"
  by (cases x) simp

lemmas forward_intros = forward_basic forward_bind forward_if forward_case_prod forward_each

end

end
