(* ===== verification/Replica.thy ===== *)
theory Replica
  imports Snapshot ConfigCanonical Action AtomicFile
begin

text \<open>
  One replica of one shard (replica.py, \<open>ReplicaShard\<close>): its directory with the state
  file, the journal and the collection, the snapshot workspaces beside it, and the
  operations a replica server performs on it. The collection is the class
  \<open>akashadb.database.Collection\<close> over the compiled kernel; the replica uses it through the
  record \<open>collection_api\<close>, a parameter of every definition here. Failures of the operating
  system (a full disk, a failing rename) are not modelled.
\<close>

section \<open>The collection a replica writes to\<close>

record search_request =
  sr_metric :: pyval
  sr_k :: int
  sr_vector :: pyval
  sr_sparse :: "sparse_element list"
  sr_mode :: pyval
  sr_ef_search :: int
  sr_fetch_k :: int
  sr_rank_constant :: int
  sr_filter :: pyval

record document =
  doc_id :: int
  doc_sequence :: int
  doc_vector :: "pyfloat list"
  doc_fields :: "payload_field list"

record 'c collection_api =
  c_open :: "'c option \<Rightarrow> int \<Rightarrow> collection_config \<Rightarrow> 'c result"
  c_close :: "('c, unit) action"
  c_delete :: "int \<Rightarrow> ('c, unit) action"
  c_upsert :: "int \<Rightarrow> pyfloat list \<Rightarrow> payload_field list \<Rightarrow> ('c, unit) action"
  c_upsert_sparse :: "int \<Rightarrow> sparse_element list \<Rightarrow> ('c, unit) action"
  c_apply_batch :: "batch_mutation list \<Rightarrow> ('c, unit) action"
  c_flush :: "('c, unit) action"
  c_search :: "search_request \<Rightarrow> ('c, (int \<times> pyfloat) list) action"
  c_last_search_stats :: "('c, pyval) action"
  c_get :: "int \<Rightarrow> ('c, document option) action"
  c_export_records :: "('c, pyval) action"
  c_collection_config :: "('c, collection_config) action"
  c_last_sequence :: "('c, int) action"

section \<open>Conversions\<close>

text \<open>
  \<open>int(value)\<close> and \<open>float(value)\<close>. A numeric string, which both accept too, is not
  among the values the callers pass and raises here.
\<close>

fun py_to_int :: "pyval \<Rightarrow> int result" where
  "py_to_int (PInt i) = Inr i"
| "py_to_int (PBool b) = Inr (if b then 1 else 0)"
| "py_to_int (PFloat (FFin s n)) = Inr (if s then - int (n div unit_one) else int (n div unit_one))"
| "py_to_int (PFloat (FInf s)) = Inl (OverflowError ''cannot convert float infinity to integer'')"
| "py_to_int (PFloat FNaN) = Inl (ValueError ''cannot convert float NaN to integer'')"
| "py_to_int (PStr s) = Inl (ValueError ''invalid literal for int()'')"
| "py_to_int v = Inl (TypeError ''int() argument must be a string or a real number'')"

fun py_to_float :: "pyval \<Rightarrow> pyfloat result" where
  "py_to_float (PInt i) = float_of_int i"
| "py_to_float (PFloat f) = Inr f"
| "py_to_float (PBool b) = Inr (FFin False (if b then unit_one else 0))"
| "py_to_float (PStr s) = Inl (ValueError ''could not convert string to float'')"
| "py_to_float v = Inl (TypeError ''float() argument must be a string or a real number'')"

definition as_dict_or :: "pyval \<Rightarrow> (string \<times> pyval) list result" where
  "as_dict_or v = (case as_dict v of None \<Rightarrow> Inl (TypeError ''value is not a dictionary'') | Some d \<Rightarrow> Inr d)"

definition as_list_or :: "pyval \<Rightarrow> pyval list result" where
  "as_list_or v = (case as_list v of None \<Rightarrow> Inl (TypeError ''value is not iterable'') | Some xs \<Rightarrow> Inr xs)"

definition as_str_or :: "pyval \<Rightarrow> string result" where
  "as_str_or v = (case as_str v of None \<Rightarrow> Inl (TypeError ''value is not a string'') | Some s \<Rightarrow> Inr s)"

section \<open>Directories\<close>

record 'c shard_dir =
  d_state :: "string option"
  d_log :: "string option"
  d_collection :: "'c option"

record 'c shard_root =
  r_root :: "'c shard_dir option"
  r_stage :: "'c shard_dir option"
  r_backup :: "'c shard_dir option"
  r_failed :: "'c shard_dir option"

definition empty_dir :: "'c shard_dir" where
  "empty_dir = \<lparr>d_state = None, d_log = None, d_collection = None\<rparr>"

definition recover_snapshot_workspaces :: "'c shard_root \<Rightarrow> 'c shard_root" where
  "recover_snapshot_workspaces r =
     (let r = (if r_backup r \<noteq> None
               then if r_root r \<noteq> None then r\<lparr>r_backup := None\<rparr>
                    else r\<lparr>r_root := r_backup r, r_backup := None\<rparr>
               else r)
      in r\<lparr>r_stage := None, r_failed := None\<rparr>)"

text \<open>The text of a checked file, and reading one.\<close>

definition checked_text :: "pyval \<Rightarrow> string" where
  "checked_text payload = record_text payload @ [LF]"

definition load_checked :: "string option \<Rightarrow> pyval \<Rightarrow> pyval result" where
  "load_checked f fallback =
     (case f of
        None \<Rightarrow> Inr fallback
      | Some data \<Rightarrow>
          (case rbind (json_loads data) decode_envelope of
             Inr v \<Rightarrow> Inr v
           | Inl (JSONDecodeError m) \<Rightarrow> Inl (ProtocolError ''corrupt replica state'')
           | Inl (ProtocolError m) \<Rightarrow> Inl (ProtocolError ''corrupt replica state'')
           | Inl (StaleEpochError m) \<Rightarrow> Inl (ProtocolError ''corrupt replica state'')
           | Inl e \<Rightarrow> Inl e))"

definition REPLICA_STATE_FIELDS :: "string list" where
  "REPLICA_STATE_FIELDS = [''term'', ''placement_epoch'', ''applied_index'']"

definition state_payload :: "int \<Rightarrow> int \<Rightarrow> int \<Rightarrow> pyval" where
  "state_payload term placement_epoch applied_index =
     PDict [(''term'', PInt term), (''placement_epoch'', PInt placement_epoch),
            (''applied_index'', PInt applied_index)]"

definition parse_state :: "pyval \<Rightarrow> (int \<times> int \<times> int) result" where
  "parse_state v =
     (case as_dict v of
        None \<Rightarrow> Inl (ProtocolError ''replica state fields mismatch'')
      | Some d \<Rightarrow>
          require (has_fields d REPLICA_STATE_FIELDS) (ProtocolError ''replica state fields mismatch'')
         (rbind (dget_int d ''term'' ''replica state term'') (\<lambda>term.
          rbind (dget_int d ''placement_epoch'' ''replica state placement epoch'') (\<lambda>placement_epoch.
          rbind (dget_int d ''applied_index'' ''replica state applied index'') (\<lambda>applied_index.
          Inr (term, placement_epoch, applied_index))))))"

section \<open>The shard\<close>

record 'c shard =
  sh_shard_id :: int
  sh_dimension :: int
  sh_config :: collection_config
  sh_term :: int
  sh_placement_epoch :: int
  sh_applied_index :: int
  sh_journal :: journal
  sh_collection :: 'c
  sh_state_file :: "string option"
  sh_stage :: "'c shard_dir option"
  sh_backup :: "'c shard_dir option"
  sh_failed :: "'c shard_dir option"

text \<open>What is on disk while the shard is open.\<close>

definition shard_disk :: "'c shard \<Rightarrow> 'c shard_root" where
  "shard_disk s =
     \<lparr>r_root = Some \<lparr>d_state = sh_state_file s, d_log = j_file (sh_journal s),
                    d_collection = Some (sh_collection s)\<rparr>,
      r_stage = sh_stage s, r_backup = sh_backup s, r_failed = sh_failed s\<rparr>"

definition on_collection :: "('c, 'a) action \<Rightarrow> ('c shard, 'a) action" where
  "on_collection = zoom sh_collection (\<lambda>c s. s\<lparr>sh_collection := c\<rparr>)"

definition on_journal :: "(journal \<Rightarrow> journal result) \<Rightarrow> ('c shard, unit) action" where
  "on_journal f = (\<lambda>s. case f (sh_journal s) of
     Inl e \<Rightarrow> (Inl e, s) | Inr j \<Rightarrow> (Inr (), s\<lparr>sh_journal := j\<rparr>))"

definition publish_state :: "('c shard, unit) action" where
  "publish_state = modify (\<lambda>s. s\<lparr>sh_state_file :=
     Some (checked_text (state_payload (sh_term s) (sh_placement_epoch s) (sh_applied_index s)))\<rparr>)"

definition mutation_field :: "pyval \<Rightarrow> payload_field result" where
  "mutation_field item =
     rbind (as_dict_or item) (\<lambda>d.
     rbind (dget d ''name'') (\<lambda>raw_name. rbind (as_str_or raw_name) (\<lambda>name.
     rbind (dget d ''type'') (\<lambda>raw_type. rbind (as_str_or raw_type) (\<lambda>type.
     rbind (dget d ''value'') (\<lambda>v.
     Inr \<lparr>pf_name = name, pf_type = type, pf_value = v\<rparr>))))))"

definition mutation_sparse :: "pyval \<Rightarrow> sparse_element result" where
  "mutation_sparse item =
     rbind (as_dict_or item) (\<lambda>d.
     rbind (dget d ''term_id'') (\<lambda>raw_term. rbind (py_to_int raw_term) (\<lambda>term_id.
     rbind (dget d ''weight'') (\<lambda>raw_weight. rbind (py_to_float raw_weight) (\<lambda>weight.
     Inr \<lparr>se_term_id = term_id, se_weight = weight\<rparr>)))))"

definition apply_mutation :: "'c collection_api \<Rightarrow> pyval \<Rightarrow> ('c shard, unit) action" where
  "apply_mutation api mutation =
     bind (gets sh_dimension) (\<lambda>dimension.
     bind (pure (validate_replicated_mutation mutation (Some dimension))) (\<lambda>_.
     bind (pure (as_dict_or mutation)) (\<lambda>d.
     bind (pure (dget d ''operation'')) (\<lambda>operation.
     bind (pure (rbind (dget d ''id'') py_to_int)) (\<lambda>point_id.
     if operation = PStr ''delete'' then on_collection (c_delete api point_id)
     else if operation \<noteq> PStr ''upsert'' then raise (ProtocolError ''unknown replicated mutation operation'')
     else
       bind (pure (rbind (as_list_or (dget_default d ''fields'' (PList []))) (rmap mutation_field))) (\<lambda>payload.
       bind (pure (rbind (dget d ''vector'') (\<lambda>v. rbind (as_list_or v) (rmap py_to_float)))) (\<lambda>vector.
       bind (on_collection (c_upsert api point_id vector payload)) (\<lambda>_.
       bind (pure (rbind (as_list_or (dget_default d ''sparse'' (PList []))) (rmap mutation_sparse))) (\<lambda>sparse.
       if sparse \<noteq> [] then on_collection (c_upsert_sparse api point_id sparse) else ok ())))))))))"

definition replay_entry :: "'c collection_api \<Rightarrow> entry \<Rightarrow> ('c shard, unit) action" where
  "replay_entry api e =
     bind (apply_mutation api (e_mutation e)) (\<lambda>_.
     bind (modify (\<lambda>s. s\<lparr>sh_applied_index := e_index e\<rparr>)) (\<lambda>_.
     publish_state))"

definition replay_committed :: "'c collection_api \<Rightarrow> ('c shard, unit) action" where
  "replay_committed api =
     bind (gets (\<lambda>s. committed_after (sh_applied_index s) (sh_journal s))) (\<lambda>r.
     bind (pure r) (\<lambda>entries. each (replay_entry api) entries))"

definition shard_status :: "'c collection_api \<Rightarrow> ('c shard, pyval) action" where
  "shard_status api =
     bind (on_collection (c_last_sequence api)) (\<lambda>last_sequence.
     bind (on_collection (c_collection_config api)) (\<lambda>config.
     gets (\<lambda>s. PDict [(''shard_id'', PInt (sh_shard_id s)), (''term'', PInt (sh_term s)),
       (''placement_epoch'', PInt (sh_placement_epoch s)),
       (''applied_index'', PInt (sh_applied_index s)), (''last_sequence'', PInt last_sequence),
       (''config_fingerprint'', (case cc_fingerprint config of None \<Rightarrow> PNone | Some i \<Rightarrow> PInt i))])))"

definition shard_configure :: "'c collection_api \<Rightarrow> int \<Rightarrow> int \<Rightarrow> ('c shard, pyval) action" where
  "shard_configure api term placement_epoch =
     bind (gets id) (\<lambda>s.
     bind (check (sh_term s \<le> term \<and> sh_placement_epoch s \<le> placement_epoch)
       (StaleEpochError ''replica configuration epoch regression'')) (\<lambda>_.
     bind (modify (\<lambda>s. s\<lparr>sh_term := term, sh_placement_epoch := placement_epoch\<rparr>)) (\<lambda>_.
     bind publish_state (\<lambda>_.
     shard_status api))))"

definition validate_entry_epoch :: "entry \<Rightarrow> ('c shard, unit) action" where
  "validate_entry_epoch e =
     bind (gets id) (\<lambda>s.
     bind (check (e_shard_id e = sh_shard_id s)
       (ProtocolError ''replicated entry routed to wrong shard'')) (\<lambda>_.
     check (e_term e = sh_term s \<and> e_placement_epoch e = sh_placement_epoch s)
       (StaleEpochError ''stale shard term or placement epoch'')))"

definition shard_prepare :: "entry \<Rightarrow> ('c shard, pyval) action" where
  "shard_prepare e =
     bind (validate_entry_epoch e) (\<lambda>_.
     bind (gets id) (\<lambda>s.
     bind (pure (validate_replicated_mutation (e_mutation e) (Some (sh_dimension s)))) (\<lambda>_.
     bind (check (snapshot_index (sh_journal s) < e_index e)
       (ProtocolError ''replicated index predates installed snapshot'')) (\<lambda>_.
     bind (on_journal (journal_prepare e)) (\<lambda>_.
     ok (PDict [(''prepared_index'', PInt (e_index e)), (''checksum'', PInt (e_mutation_checksum e))]))))))"

definition journal_commit_action :: "int \<Rightarrow> ('c shard, entry) action" where
  "journal_commit_action index = (\<lambda>s. case journal_commit index (sh_journal s) of
     Inl e \<Rightarrow> (Inl e, s) | Inr (e, j) \<Rightarrow> (Inr e, s\<lparr>sh_journal := j\<rparr>))"

definition shard_commit :: "'c collection_api \<Rightarrow> entry \<Rightarrow> ('c shard, pyval) action" where
  "shard_commit api e =
     bind (validate_entry_epoch e) (\<lambda>_.
     bind (gets sh_dimension) (\<lambda>dimension.
     bind (pure (validate_replicated_mutation (e_mutation e) (Some dimension))) (\<lambda>_.
     bind (on_journal (journal_prepare e)) (\<lambda>_.
     bind (journal_commit_action (e_index e)) (\<lambda>committed_entry.
     bind (gets sh_applied_index) (\<lambda>applied.
     bind (if applied < e_index committed_entry then replay_entry api committed_entry else ok ()) (\<lambda>_.
     bind (gets sh_applied_index) (\<lambda>applied_now.
     ok (PDict [(''committed_index'', PInt (e_index e)), (''applied_index'', PInt applied_now)])))))))))"

section \<open>Opening a shard\<close>

definition open_shard ::
  "'c collection_api \<Rightarrow> int \<Rightarrow> int \<Rightarrow> pyval \<Rightarrow> 'c shard_root \<Rightarrow> 'c shard result \<times> 'c shard_root" where
  "open_shard api shard_id dimension config disk =
     (case rbind (canonical_collection_config config dimension) config_from_kernel of
        Inl e \<Rightarrow> (Inl e, disk)
      | Inr typed_config \<Rightarrow>
          let disk = recover_snapshot_workspaces disk;
              dir = (case r_root disk of None \<Rightarrow> empty_dir | Some dir \<Rightarrow> dir);
              disk = disk\<lparr>r_root := Some dir\<rparr>
          in
          (case rbind (load_checked (d_state dir) (state_payload 0 0 0)) parse_state of
             Inl e \<Rightarrow> (Inl e, disk)
           | Inr (term, placement_epoch, applied_index) \<Rightarrow>
               (case journal_load (d_log dir) of
                  Inl e \<Rightarrow> (Inl e, disk)
                | Inr j \<Rightarrow>
                    (case c_open api (d_collection dir) dimension typed_config of
                       Inl e \<Rightarrow> (Inl e, disk\<lparr>r_root := Some (dir\<lparr>d_log := j_file j\<rparr>)\<rparr>)
                     | Inr c \<Rightarrow>
                         let s = \<lparr>sh_shard_id = shard_id, sh_dimension = dimension, sh_config = typed_config,
                                  sh_term = term, sh_placement_epoch = placement_epoch,
                                  sh_applied_index = applied_index, sh_journal = j, sh_collection = c,
                                  sh_state_file = d_state dir, sh_stage = None, sh_backup = None,
                                  sh_failed = None\<rparr>
                         in (case replay_committed api s of
                               (Inl e, s') \<Rightarrow> (Inl e, shard_disk s')
                             | (Inr _, s') \<Rightarrow> (Inr s', shard_disk s'))))))"

section \<open>Reading\<close>

definition shard_query :: "'c collection_api \<Rightarrow> pyval \<Rightarrow> ('c shard, pyval) action" where
  "shard_query api request =
     bind (pure (as_dict_or request)) (\<lambda>d.
     bind (pure (rbind (as_list_or (dget_default d ''sparse'' (PList []))) (rmap mutation_sparse))) (\<lambda>sparse.
     bind (pure (dget d ''metric'')) (\<lambda>metric.
     bind (pure (rbind (dget d ''k'') py_to_int)) (\<lambda>k.
     bind (pure (py_to_int (dget_default d ''ef_search'' (PInt 64)))) (\<lambda>ef_search.
     bind (pure (py_to_int (dget_default d ''fetch_k'' (PInt 50)))) (\<lambda>fetch_k.
     bind (pure (py_to_int (dget_default d ''rank_constant'' (PInt 60)))) (\<lambda>rank_constant.
     let typed = \<lparr>sr_metric = metric, sr_k = k, sr_vector = dget_default d ''vector'' PNone,
                  sr_sparse = sparse, sr_mode = dget_default d ''mode'' (PStr ''exact''),
                  sr_ef_search = ef_search, sr_fetch_k = fetch_k, sr_rank_constant = rank_constant,
                  sr_filter = dget_default d ''filter'' PNone\<rparr>
     in
     bind (on_collection (c_search api typed)) (\<lambda>results.
     bind (on_collection (c_last_search_stats api)) (\<lambda>stats.
     ok (PDict [(''items'', PList (map (\<lambda>(i, x). PDict [(''id'', PInt i), (''score'', PFloat x)]) results)),
                (''stats'', stats)]))))))))))"

definition shard_get :: "'c collection_api \<Rightarrow> int \<Rightarrow> ('c shard, pyval) action" where
  "shard_get api point_id =
     bind (on_collection (c_get api point_id)) (\<lambda>r.
     ok (case r of
           None \<Rightarrow> PNone
         | Some doc \<Rightarrow>
             PDict [(''id'', PInt (doc_id doc)), (''sequence'', PInt (doc_sequence doc)),
                    (''vector'', PList (map PFloat (doc_vector doc))),
                    (''fields'', PList (map payload_field_to_kernel (doc_fields doc)))]))"

definition shard_export :: "'c collection_api \<Rightarrow> ('c shard, pyval) action" where
  "shard_export api = on_collection (c_export_records api)"

definition shard_entries_after :: "int \<Rightarrow> ('c shard, pyval) action" where
  "shard_entries_after index =
     bind (gets (\<lambda>s. committed_after index (sh_journal s))) (\<lambda>r.
     bind (pure r) (\<lambda>entries.
     bind (pure (rmap entry_to_dict entries)) (\<lambda>ds. ok (PList ds))))"

definition shard_close :: "'c collection_api \<Rightarrow> ('c shard, unit) action" where
  "shard_close api = on_collection (c_close api)"

section \<open>Installing a snapshot\<close>

definition fill_staged ::
  "'c collection_api \<Rightarrow> batch_mutation list \<Rightarrow> sparse_row list \<Rightarrow> (string \<times> pyval) list \<Rightarrow> ('c, unit) action" where
  "fill_staged api mutations sparse_rows incoming =
     bind (if mutations \<noteq> [] then
             bind (c_apply_batch api mutations) (\<lambda>_.
             each (\<lambda>(point_id, sparse). if sparse \<noteq> [] then c_upsert_sparse api point_id sparse else ok ())
               sparse_rows)
           else ok ()) (\<lambda>_.
     bind (c_flush api) (\<lambda>_.
     bind (c_collection_config api) (\<lambda>config.
     check (py_eq (PDict (config_fields config)) (PDict incoming))
       (ProtocolError ''staged snapshot config mismatch''))))"

text \<open>
  The staged directory: the collection is closed whatever happened to it, then the journal
  and the state file are written.
\<close>

definition stage_snapshot ::
  "'c collection_api \<Rightarrow> 'c shard \<Rightarrow> batch_mutation list \<Rightarrow> sparse_row list \<Rightarrow> (string \<times> pyval) list \<Rightarrow>
     int \<Rightarrow> int \<Rightarrow> int \<Rightarrow> 'c shard_dir result" where
  "stage_snapshot api s mutations sparse_rows incoming index term placement_epoch =
     rbind (c_open api None (sh_dimension s) (sh_config s)) (\<lambda>opened.
     case fill_staged api mutations sparse_rows incoming opened of (filled, c) \<Rightarrow>
     case c_close api c of (closed, c') \<Rightarrow>
     rbind closed (\<lambda>_. rbind filled (\<lambda>_.
     rbind (journal_load None) (\<lambda>j.
     rbind (journal_install_snapshot index j) (\<lambda>j'.
     Inr \<lparr>d_state = Some (checked_text (state_payload term placement_epoch index)),
          d_log = j_file j', d_collection = Some c'\<rparr>)))))"

text \<open>
  After a failed installation the replaced directory is moved aside, the backup comes back
  and is reopened, and the original exception is raised again.
\<close>

definition rollback_snapshot ::
  "'c collection_api \<Rightarrow> err \<Rightarrow> 'c shard_dir \<Rightarrow> 'c \<Rightarrow> 'c shard \<Rightarrow> 'a result \<times> 'c shard" where
  "rollback_snapshot api e staged closed s =
     (case c_open api (Some closed) (sh_dimension s) (sh_config s) of
        Inl e' \<Rightarrow> (Inl e', s\<lparr>sh_collection := closed, sh_failed := Some staged\<rparr>)
      | Inr c \<Rightarrow>
          (case journal_load (j_file (sh_journal s)) of
             Inl e' \<Rightarrow> (Inl e', s\<lparr>sh_collection := c, sh_failed := Some staged\<rparr>)
           | Inr j \<Rightarrow> (Inl e, s\<lparr>sh_collection := c, sh_journal := j\<rparr>)))"

text \<open>
  When even closing the replacement fails, nothing is moved back: the installed directory
  stays under the root, the old one under the backup, and the handle stays closed.
\<close>

definition abandon_snapshot :: "'c shard_dir \<Rightarrow> 'c \<Rightarrow> 'c \<Rightarrow> 'c shard \<Rightarrow> 'c shard" where
  "abandon_snapshot staged c closed s =
     s\<lparr>sh_collection := c, sh_journal := (sh_journal s)\<lparr>j_file := d_log staged\<rparr>,
       sh_state_file := d_state staged, sh_backup := r_root (shard_disk (s\<lparr>sh_collection := closed\<rparr>))\<rparr>"

text \<open>
  The two renames and the reopening of the installed directory.
\<close>

definition swap_snapshot ::
  "'c collection_api \<Rightarrow> 'c shard_dir \<Rightarrow> int \<Rightarrow> int \<Rightarrow> int \<Rightarrow> ('c shard, unit) action" where
  "swap_snapshot api staged index term placement_epoch s =
     (case c_close api (sh_collection s) of
        (Inl e, c) \<Rightarrow> (Inl e, s\<lparr>sh_collection := c\<rparr>)
      | (Inr _, closed) \<Rightarrow>
          (case c_open api (d_collection staged) (sh_dimension s) (sh_config s) of
             Inl e \<Rightarrow> rollback_snapshot api e staged closed s
           | Inr replacement \<Rightarrow>
               (case journal_load (d_log staged) of
                  Inl e \<Rightarrow>
                    (case c_close api replacement of
                       (Inl e', c) \<Rightarrow> (Inl e', abandon_snapshot staged c closed s)
                     | (Inr _, c) \<Rightarrow> rollback_snapshot api e (staged\<lparr>d_collection := Some c\<rparr>) closed s)
                | Inr j \<Rightarrow>
                    if snapshot_index j \<noteq> index then
                      (case bind (c_close api) (\<lambda>_. c_close api) replacement of
                         (Inl e', c) \<Rightarrow> (Inl e', abandon_snapshot staged c closed s)
                       | (Inr _, c) \<Rightarrow>
                           rollback_snapshot api (ProtocolError ''installed snapshot journal mismatch'')
                             (staged\<lparr>d_collection := Some c\<rparr>) closed s)
                    else
                      (Inr (), s\<lparr>sh_collection := replacement, sh_journal := j, sh_term := term,
                                 sh_placement_epoch := placement_epoch, sh_applied_index := index,
                                 sh_state_file := d_state staged\<rparr>))))"

definition shard_install_snapshot ::
  "'c collection_api \<Rightarrow> pyval \<Rightarrow> pyval \<Rightarrow> pyval \<Rightarrow> pyval \<Rightarrow> pyval \<Rightarrow> pyval \<Rightarrow> ('c shard, pyval) action" where
  "shard_install_snapshot api rows config raw_index raw_term raw_epoch raw_checksum =
     bind (pure (exact_int raw_index ''snapshot index'')) (\<lambda>index.
     bind (pure (exact_int raw_term ''snapshot term'')) (\<lambda>term.
     bind (pure (exact_int raw_epoch ''snapshot placement epoch'')) (\<lambda>placement_epoch.
     bind (pure (exact_int raw_checksum ''snapshot checksum'')) (\<lambda>checksum.
     bind (gets id) (\<lambda>s.
     bind (check (sh_applied_index s \<le> index) (ProtocolError ''snapshot cannot regress applied index'')) (\<lambda>_.
     bind (check (sh_term s \<le> term \<and> sh_placement_epoch s \<le> placement_epoch)
       (StaleEpochError ''snapshot epoch regression'')) (\<lambda>_.
     bind (pure (canonical_collection_config config (sh_dimension s))) (\<lambda>incoming.
     bind (check (py_eq (PDict incoming) (PDict (config_fields (sh_config s))))
       (ProtocolError ''snapshot collection config mismatch'')) (\<lambda>_.
     bind (pure (parse_snapshot_rows rows (sh_dimension s))) (\<lambda>(mutations, sparse_rows).
     bind (check (checksum = snapshot_checksum rows incoming index)
       (ProtocolError ''snapshot checksum mismatch'')) (\<lambda>_.
     bind (modify (\<lambda>s. s\<lparr>sh_stage := None, sh_backup := None, sh_failed := None\<rparr>)) (\<lambda>_.
     bind (pure (stage_snapshot api s mutations sparse_rows incoming index term placement_epoch)) (\<lambda>staged.
     bind (swap_snapshot api staged index term placement_epoch) (\<lambda>_.
     shard_status api))))))))))))))"

end
