(* ===== verification/JournalSafety.thy ===== *)
theory JournalSafety
  imports Journal
begin

text \<open>
  The life of a replica journal: every operation keeps the file and the tables in step,
  a crash in the middle of an append loses only the record being appended, and no
  committed entry is ever lost or altered. The steps of a journal are an inductive
  relation; its invariants are proved by rule induction.
\<close>

section \<open>The records the operations write\<close>

abbreviation prepare_payload :: "entry \<Rightarrow> pyval" where
  "prepare_payload e \<equiv> PDict [(''kind'', PStr ''prepare''), (''entry'', entry_fields e)]"

abbreviation commit_payload :: "int \<Rightarrow> pyval" where
  "commit_payload i \<equiv> PDict [(''kind'', PStr ''commit''), (''index'', PInt i)]"

abbreviation snapshot_payload :: "int \<Rightarrow> pyval" where
  "snapshot_payload i \<equiv> PDict [(''kind'', PStr ''snapshot''), (''index'', PInt i)]"

lemma storable_records:
  "encodable_entry e \<Longrightarrow> storable_payload (prepare_payload e)"
  "storable_payload (commit_payload i)" "storable_payload (snapshot_payload i)"
  by (simp_all add: storable_payload_def encodable_entry_def entry_fields_def utf8_ok_ascii)

lemma has_fields_two:
  "has_fields [(a, x), (b, y)] [c, d] \<longleftrightarrow> {a, b} = {c, d}"
  by (simp add: has_fields_def dict_keys_def)

lemma map_of_canon_two:
  "a \<noteq> b \<Longrightarrow> map_of (canon_items [(a, x), (b, y)]) k = map_option canon (map_of [(a, x), (b, y)] k)"
  by (rule map_of_canon_items) simp

lemmas load_record_simps = load_record_def map_of_canon_two has_fields_two dget_def
  PREPARE_RECORD_FIELDS_def INDEX_RECORD_FIELDS_def

lemma load_prepare_record:
  assumes "entry_validate e = Inr ()" and "encodable_entry e" and "prepared j (e_index e) = None"
  shows "load_record (canon (prepare_payload e)) j =
    Inr (j\<lparr>prepared := (prepared j)(e_index e \<mapsto> stored_entry e)\<rparr>)"
  using entry_from_dict_fields [OF assms(1,2)] assms(3) by (simp add: load_record_simps)

lemma load_commit_record:
  "prepared j i \<noteq> None \<Longrightarrow>
     load_record (canon (commit_payload i)) j = Inr (j\<lparr>committed := insert i (committed j)\<rparr>)"
  by (simp add: load_record_simps)

lemma load_snapshot_record:
  "load_record (canon (snapshot_payload i)) j = Inr (j\<lparr>snapshot_index := max (snapshot_index j) i\<rparr>)"
  by (simp add: load_record_simps)

section \<open>Every operation keeps the invariant\<close>

lemma journal_file_commute:
  "j\<lparr>j_file := f, prepared := p\<rparr> = j\<lparr>prepared := p, j_file := f\<rparr>"
  "j\<lparr>j_file := f, committed := c\<rparr> = j\<lparr>committed := c, j_file := f\<rparr>"
  "j\<lparr>j_file := f, snapshot_index := n\<rparr> = j\<lparr>snapshot_index := n, j_file := f\<rparr>"
  by simp_all

lemma journal_append_file: "journal_append p j = j\<lparr>j_file := j_file (journal_append p j)\<rparr>"
  by (simp add: journal_append_def)

lemma journal_inv_append:
  assumes inv: "journal_inv j" and p: "storable_payload p"
    and step: "load_record (canon p) (stored_journal j) = Inr (stored_journal j')"
    and ok: "tables_ok j'"
  shows "journal_inv (j'\<lparr>j_file := j_file (journal_append p j)\<rparr>)"
proof -
  obtain ps where ps: "list_all storable_payload ps" "journal_text j = log_text record_text ps"
    "rfold load_record (map canon ps) (empty_journal (j_file j)) = Inr (stored_journal j)"
    using inv by (auto simp: journal_inv_def)
  let ?f = "j_file (journal_append p j)"
  have content: "journal_text (j'\<lparr>j_file := ?f\<rparr>) = log_text record_text (ps @ [p])"
    using ps(2) by (simp add: journal_text_def journal_append_def log_text_snoc)
  have "rfold load_record (map canon ps) (empty_journal ?f) = Inr ((stored_journal j)\<lparr>j_file := ?f\<rparr>)"
    using rfold_load_record_file [of "map canon ps" ?f "empty_journal (j_file j)"] ps(3) by simp
  then have "rfold load_record (map canon (ps @ [p])) (empty_journal ?f) =
      load_record (canon p) ((stored_journal j)\<lparr>j_file := ?f\<rparr>)"
    by (simp add: rfold_append)
  also have "\<dots> = Inr (stored_journal (j'\<lparr>j_file := ?f\<rparr>))"
    using step by (simp add: load_record_file)
  finally have fold: "rfold load_record (map canon (ps @ [p])) (empty_journal ?f) =
      Inr (stored_journal (j'\<lparr>j_file := ?f\<rparr>))" .
  have all: "list_all storable_payload (ps @ [p])" using ps(1) p by simp
  have "tables_ok (j'\<lparr>j_file := ?f\<rparr>)" using ok by (simp add: tables_ok_def)
  then show ?thesis
    unfolding journal_inv_def using all content fold by (intro conjI exI [of _ "ps @ [p]"]) simp_all
qed

lemma journal_prepare_fresh:
  "entry_validate e = Inr () \<Longrightarrow> prepared j (e_index e) = None \<Longrightarrow>
     journal_prepare e j =
       Inr ((journal_append (prepare_payload e) j)\<lparr>prepared := (prepared j)(e_index e \<mapsto> e)\<rparr>)"
  by (simp only: journal_prepare_def entry_to_dict_def rbind_Inr option.case)

lemma journal_prepare_cases:
  assumes "journal_prepare e j = Inr j'"
  obtains (duplicate) existing where "prepared j (e_index e) = Some existing"
      "e_mutation_checksum existing = e_mutation_checksum e" "j' = j" "entry_validate e = Inr ()"
  | (fresh) "prepared j (e_index e) = None" "entry_validate e = Inr ()"
      "j' = (journal_append (prepare_payload e) j)\<lparr>prepared := (prepared j)(e_index e \<mapsto> e)\<rparr>"
proof (cases "prepared j (e_index e)")
  case None
  with assms have "entry_validate e = Inr ()"
    "j' = (journal_append (prepare_payload e) j)\<lparr>prepared := (prepared j)(e_index e \<mapsto> e)\<rparr>"
    by (simp_all add: journal_prepare_def entry_to_dict_def)
  with None show ?thesis by (rule fresh)
next
  case (Some existing)
  with assms have "e_mutation_checksum existing = e_mutation_checksum e" "j' = j"
    "entry_validate e = Inr ()"
    by (simp_all add: journal_prepare_def)
  with Some show ?thesis by (rule duplicate)
qed

lemma journal_prepare_inv:
  assumes "journal_inv j" and "encodable_entry e" and "journal_prepare e j = Inr j'"
  shows "journal_inv j'"
  using assms(3)
proof (cases rule: journal_prepare_cases)
  case (duplicate existing)
  then show ?thesis using assms(1) by simp
next
  case fresh
  let ?k = "j\<lparr>prepared := (prepared j)(e_index e \<mapsto> e)\<rparr>"
  have "stored_journal ?k =
      (stored_journal j)\<lparr>prepared := (prepared (stored_journal j))(e_index e \<mapsto> stored_entry e)\<rparr>"
    by (auto simp: stored_journal_def fun_eq_iff)
  then have "load_record (canon (prepare_payload e)) (stored_journal j) = Inr (stored_journal ?k)"
    using load_prepare_record [of e "stored_journal j"] fresh assms(2) by simp
  moreover have "tables_ok ?k"
    using assms(1,2) fresh(2) by (auto simp: journal_inv_def tables_ok_def)
  moreover have "j' = ?k\<lparr>j_file := j_file (journal_append (prepare_payload e) j)\<rparr>"
    using fresh(3) by (simp add: journal_append_def journal_file_commute)
  ultimately show ?thesis
    using journal_inv_append [OF assms(1) storable_records(1) [OF assms(2)]] by simp
qed

lemma journal_commit_inv:
  assumes "journal_inv j" and "journal_commit i j = Inr (e, j')"
  shows "journal_inv j'"
proof (cases "i \<in> committed j")
  case True
  then show ?thesis using assms by (simp add: journal_commit_def split: option.splits)
next
  case False
  let ?k = "j\<lparr>committed := insert i (committed j)\<rparr>"
  have p: "prepared j i \<noteq> None"
    using assms(2) by (auto simp: journal_commit_def split: option.splits)
  have "load_record (canon (commit_payload i)) (stored_journal j) = Inr (stored_journal ?k)"
    using load_commit_record [of "stored_journal j" i] p by (simp add: stored_journal_def)
  moreover have "tables_ok ?k" using assms(1) p by (auto simp: journal_inv_def tables_ok_def)
  moreover have "j' = ?k\<lparr>j_file := j_file (journal_append (commit_payload i) j)\<rparr>"
    using assms(2) False p by (auto simp: journal_commit_def journal_append_def journal_file_commute)
  ultimately show ?thesis using journal_inv_append [OF assms(1) storable_records(2)] by simp
qed

lemma journal_install_snapshot_inv:
  assumes "journal_inv j" and "journal_install_snapshot i j = Inr j'"
  shows "journal_inv j'"
proof -
  let ?k = "j\<lparr>snapshot_index := i\<rparr>"
  have i: "snapshot_index j \<le> i" using assms(2) by (simp add: journal_install_snapshot_def)
  have "load_record (canon (snapshot_payload i)) (stored_journal j) = Inr (stored_journal ?k)"
    using load_snapshot_record [of i "stored_journal j"] i by (simp add: stored_journal_def)
  moreover have "tables_ok ?k" using assms(1) i by (auto simp: journal_inv_def tables_ok_def)
  moreover have "j' = ?k\<lparr>j_file := j_file (journal_append (snapshot_payload i) j)\<rparr>"
    using assms(2) by (auto simp: journal_install_snapshot_def journal_append_def journal_file_commute)
  ultimately show ?thesis using journal_inv_append [OF assms(1) storable_records(3)] by simp
qed

lemma journal_inv_empty [simp]: "journal_inv (empty_journal None)"
  unfolding journal_inv_def
  by (intro conjI exI [of _ "[]"]) (simp_all add: tables_ok_def journal_text_def)

lemma tables_ok_stored: "tables_ok j \<Longrightarrow> tables_ok (stored_journal j)"
  by (auto simp: tables_ok_def)

lemma journal_inv_stored:
  assumes "journal_inv j" and "f = Some (journal_text j) \<or> f = j_file j"
  shows "journal_inv ((stored_journal j)\<lparr>j_file := f\<rparr>)"
proof -
  obtain ps where ps: "list_all storable_payload ps" "journal_text j = log_text record_text ps"
    "rfold load_record (map canon ps) (empty_journal (j_file j)) = Inr (stored_journal j)"
    using assms(1) by (auto simp: journal_inv_def)
  have "rfold load_record (map canon ps) (empty_journal f) = Inr ((stored_journal j)\<lparr>j_file := f\<rparr>)"
    using rfold_load_record_file [of "map canon ps" f "empty_journal (j_file j)"] ps(3) by simp
  moreover have "journal_text ((stored_journal j)\<lparr>j_file := f\<rparr>) = log_text record_text ps"
    using assms(2) ps(2) by (auto simp: journal_text_def)
  moreover have "tables_ok ((stored_journal j)\<lparr>j_file := f\<rparr>)"
    using assms(1) tables_ok_stored [of j] by (simp add: journal_inv_def tables_ok_def)
  ultimately show ?thesis
    unfolding journal_inv_def using ps(1) by (intro conjI exI [of _ ps]) simp_all
qed

section \<open>The life of a journal\<close>

text \<open>
  The operations, closing and reopening, and a crash that cuts the append of any record
  short: the file then ends in a proper prefix of that record's line.
\<close>

inductive journal_step :: "journal \<Rightarrow> journal \<Rightarrow> bool" where
  prepare: "encodable_entry e \<Longrightarrow> journal_prepare e j = Inr j' \<Longrightarrow> journal_step j j'"
| commit: "journal_commit i j = Inr (e, j') \<Longrightarrow> journal_step j j'"
| snapshot: "journal_install_snapshot i j = Inr j' \<Longrightarrow> journal_step j j'"
| reopen: "journal_load (j_file j) = Inr j' \<Longrightarrow> journal_step j j'"
| crash: "storable_payload r \<Longrightarrow> strict_prefix t (record_text r @ [LF]) \<Longrightarrow>
    journal_load (Some (journal_text j @ t)) = Inr j' \<Longrightarrow> journal_step j j'"

lemma stored_journal_file: "(stored_journal j)\<lparr>j_file := j_file j\<rparr> = stored_journal j"
  by (simp add: stored_journal_def)

lemma journal_step_inv: "journal_step j j' \<Longrightarrow> journal_inv j \<Longrightarrow> journal_inv j'"
proof (induction rule: journal_step.induct)
  case (prepare e j j')
  then show ?case by (blast intro: journal_prepare_inv)
next
  case (commit i j e j')
  then show ?case by (blast intro: journal_commit_inv)
next
  case (snapshot i j j')
  then show ?case by (blast intro: journal_install_snapshot_inv)
next
  case (reopen j j')
  then have "j' = stored_journal j" by (simp add: journal_inv_reload)
  then have "j' = (stored_journal j)\<lparr>j_file := j_file j\<rparr>" by (simp only: stored_journal_file)
  then show ?case using journal_inv_stored reopen.prems by blast
next
  case (crash r t j j')
  then have "j' = (stored_journal j)\<lparr>j_file := Some (journal_text j)\<rparr>"
    using journal_inv_torn [of j r t] by simp
  then show ?case using journal_inv_stored crash.prems by blast
qed

text \<open>What a later journal keeps of an earlier one.\<close>

definition journal_keeps :: "journal \<Rightarrow> journal \<Rightarrow> bool" where
  "journal_keeps j j' \<longleftrightarrow> committed j \<subseteq> committed j' \<and> snapshot_index j \<le> snapshot_index j' \<and>
     (\<forall>i e. prepared j i = Some e \<longrightarrow>
        (\<exists>e'. prepared j' i = Some e' \<and> stored_entry e' = stored_entry e))"

lemma journal_keeps_refl [simp]: "journal_keeps j j"
  by (simp add: journal_keeps_def)

lemma journal_keeps_trans:
  assumes "journal_keeps a b" and "journal_keeps b c"
  shows "journal_keeps a c"
  using assms unfolding journal_keeps_def by (metis order_trans)

lemma journal_keeps_stored [simp]: "journal_keeps j ((stored_journal j)\<lparr>j_file := f\<rparr>)"
  by (auto simp: journal_keeps_def)

lemma journal_step_keeps: "journal_step j j' \<Longrightarrow> journal_inv j \<Longrightarrow> journal_keeps j j'"
proof (induction rule: journal_step.induct)
  case (prepare e j j')
  from prepare(2) show ?case
    by (cases rule: journal_prepare_cases) (auto simp: journal_keeps_def journal_append_def)
next
  case (commit i j e j')
  then show ?case
    by (auto simp: journal_commit_def journal_keeps_def journal_append_def split: option.splits)
next
  case (snapshot i j j')
  then show ?case by (auto simp: journal_install_snapshot_def journal_keeps_def journal_append_def)
next
  case (reopen j j')
  then have "j' = stored_journal j" by (simp add: journal_inv_reload)
  then have "j' = (stored_journal j)\<lparr>j_file := j_file j\<rparr>" by (simp only: stored_journal_file)
  then show ?case by simp
next
  case (crash r t j j')
  then have "j' = (stored_journal j)\<lparr>j_file := Some (journal_text j)\<rparr>"
    using journal_inv_torn [of j r t] by simp
  then show ?case by simp
qed

lemma journal_steps_inv: "journal_step\<^sup>*\<^sup>* j j' \<Longrightarrow> journal_inv j \<Longrightarrow> journal_inv j'"
  by (induction rule: rtranclp_induct) (blast intro: journal_step_inv)+

lemma journal_steps_keep: "journal_step\<^sup>*\<^sup>* j j' \<Longrightarrow> journal_inv j \<Longrightarrow> journal_keeps j j'"
  by (induction rule: rtranclp_induct)
    (blast intro: journal_keeps_refl journal_keeps_trans journal_step_keeps journal_steps_inv)+

lemma journal_reach_inv: "journal_step\<^sup>*\<^sup>* (empty_journal None) j \<Longrightarrow> journal_inv j"
  by (rule journal_steps_inv [OF _ journal_inv_empty])

section \<open>Properties\<close>

definition example_entry :: entry where
  "example_entry = entry_create 0 1 1 1 ''request-1'' (PDict [(''operation'', PStr ''delete''), (''id'', PInt 7)])"

lemma example_entry_ok: "entry_validate example_entry = Inr ()" "encodable_entry example_entry"
  by (simp_all add: example_entry_def entry_create_def entry_validate_ok encodable_entry_def
      mutation_ok_def delete_ok_def has_fields_def dict_keys_def DELETE_MUTATION_FIELDS_def utf8_ok_ascii)

lemma example_run:
  obtains j j' where "journal_prepare example_entry (empty_journal None) = Inr j"
    "prepared j = [1 \<mapsto> example_entry]" "journal_commit 1 j = Inr (example_entry, j')"
    "committed j' = {1}" "journal_step\<^sup>*\<^sup>* (empty_journal None) j" "journal_step\<^sup>*\<^sup>* j j'"
proof -
  have index: "e_index example_entry = 1" by (simp add: example_entry_def entry_create_def)
  define j where "j = (journal_append (prepare_payload example_entry) (empty_journal None))
      \<lparr>prepared := [1 \<mapsto> example_entry]\<rparr>"
  define j' where "j' = (journal_append (commit_payload 1) j)\<lparr>committed := {1}\<rparr>"
  have j: "journal_prepare example_entry (empty_journal None) = Inr j"
    using journal_prepare_fresh [OF example_entry_ok(1), of "empty_journal None"]
    by (simp only: index empty_journal_simps j_def)
  have tables: "prepared j = [1 \<mapsto> example_entry]" "committed j = {}"
    by (simp_all add: j_def journal_append_def)
  have j': "journal_commit 1 j = Inr (example_entry, j')"
    by (simp add: journal_commit_def tables j'_def)
  have "journal_step\<^sup>*\<^sup>* (empty_journal None) j" "journal_step\<^sup>*\<^sup>* j j'"
    using journal_step.prepare [OF example_entry_ok(2) j] journal_step.commit [OF j']
    by (simp_all add: r_into_rtranclp)
  moreover have "committed j' = {1}" by (simp add: j'_def)
  ultimately show ?thesis using that j j' tables(1) by blast
qed

text \<open>
  C12: After any sequence of prepares, commits, snapshot installations, reopenings and
  crashes in the middle of an append, starting from no file, reopening the journal
  succeeds and rebuilds the tables: the same commits, snapshot index and prepared
  entries (a mutation's object keys come back sorted).
\<close>

theorem journal_recovers:
  assumes "journal_step\<^sup>*\<^sup>* (empty_journal None) j"
  shows "journal_load (j_file j) = Inr (stored_journal j)"
  using journal_reach_inv [OF assms] by (simp add: journal_inv_reload)

theorem journal_recovers_witness:
  "\<exists>j. journal_install_snapshot 3 (empty_journal None) = Inr j \<and>
     journal_load (j_file j) = Inr (stored_journal j) \<and> snapshot_index j = 3"
proof -
  obtain j where j: "journal_install_snapshot 3 (empty_journal None) = Inr j" "snapshot_index j = 3"
    by (simp add: journal_install_snapshot_def)
  then have "journal_step\<^sup>*\<^sup>* (empty_journal None) j" by (blast intro: journal_step.snapshot)
  from journal_recovers [OF this] j show ?thesis by blast
qed

text \<open>
  An append cut short by a crash loses at most the record being appended: reopening
  finds the tables as they were before the append and truncates the file to the whole
  records before it.
\<close>

theorem torn_tail_repaired:
  assumes "journal_step\<^sup>*\<^sup>* (empty_journal None) j" and "storable_payload r"
    and "strict_prefix t (record_text r @ [LF])"
  shows "journal_load (Some (journal_text j @ t)) =
    Inr ((stored_journal j)\<lparr>j_file := Some (journal_text j)\<rparr>)"
  using journal_inv_torn [OF journal_reach_inv [OF assms(1)] assms(2,3)] by simp

theorem torn_tail_repaired_witness:
  "journal_load (Some (take 10 (record_text (prepare_payload example_entry)))) =
     Inr (empty_journal (Some []))"
proof -
  let ?r = "prepare_payload example_entry"
  have "prefix (take 10 (record_text ?r)) (record_text ?r)" by (rule take_is_prefix)
  then have "strict_prefix (take 10 (record_text ?r)) (record_text ?r @ [LF])"
    by (auto simp: strict_prefix_def dest: prefix_length_le)
  from torn_tail_repaired [OF rtranclp.rtrancl_refl storable_records(1) [OF example_entry_ok(2)] this]
  show ?thesis by (simp add: journal_text_def)
qed

text \<open>
  C16: Nothing durable is ever lost: whatever follows, crashes included, a committed index
  stays committed, a prepared entry stays in the journal with the same content, and the
  snapshot index never decreases.
\<close>

theorem journal_durable:
  assumes "journal_step\<^sup>*\<^sup>* (empty_journal None) j" and "journal_step\<^sup>*\<^sup>* j j'"
  shows "committed j \<subseteq> committed j' \<and> snapshot_index j \<le> snapshot_index j' \<and>
    (\<forall>i e. prepared j i = Some e \<longrightarrow>
       (\<exists>e'. prepared j' i = Some e' \<and> stored_entry e' = stored_entry e))"
  using journal_steps_keep [OF assms(2)] journal_reach_inv [OF assms(1)]
  by (simp add: journal_keeps_def)

theorem journal_durable_witness:
  "\<exists>j j'. journal_prepare example_entry (empty_journal None) = Inr j \<and>
     journal_commit 1 j = Inr (example_entry, j') \<and> committed j' = {1} \<and>
     (\<exists>e'. prepared j' 1 = Some e' \<and> stored_entry e' = stored_entry example_entry)"
proof -
  obtain j j' where run: "journal_prepare example_entry (empty_journal None) = Inr j"
      "prepared j = [1 \<mapsto> example_entry]" "journal_commit 1 j = Inr (example_entry, j')"
      "committed j' = {1}" "journal_step\<^sup>*\<^sup>* (empty_journal None) j" "journal_step\<^sup>*\<^sup>* j j'"
    by (rule example_run)
  have "\<exists>e'. prepared j' 1 = Some e' \<and> stored_entry e' = stored_entry example_entry"
    using journal_durable [OF run(5,6)] run(2) by simp
  then show ?thesis using run by blast
qed

section \<open>Retries, catch-up and corrupt files\<close>

lemma journal_prepare_result:
  assumes "journal_prepare e j = Inr j'"
  obtains existing where "prepared j' (e_index e) = Some existing"
    "e_mutation_checksum existing = e_mutation_checksum e" "entry_validate e = Inr ()"
  using assms
proof (cases rule: journal_prepare_cases)
  case (duplicate existing)
  then show ?thesis using that by blast
next
  case fresh
  then show ?thesis using that [of e] by simp
qed

lemma journal_prepare_duplicate:
  "prepared j (e_index e) = Some existing \<Longrightarrow> entry_validate e = Inr () \<Longrightarrow>
     journal_prepare e j =
       (if e_mutation_checksum existing = e_mutation_checksum e then Inr j
        else Inl (ProtocolError ''conflicting duplicate replicated entry''))"
  by (simp add: journal_prepare_def)

text \<open>
  Retrying a prepare is harmless, also after the replica restarted in between: the
  journal, file included, stays as it is; a different mutation under the same index is
  refused with a protocol error.
\<close>

theorem prepare_retry:
  assumes "journal_step\<^sup>*\<^sup>* (empty_journal None) j" and "encodable_entry e"
    and "journal_prepare e j = Inr j'"
  shows "\<exists>j''. journal_load (j_file j') = Inr j'' \<and> journal_prepare e j' = Inr j' \<and>
    journal_prepare e j'' = Inr j'' \<and>
    (\<forall>e2. e_index e2 = e_index e \<and> entry_validate e2 = Inr () \<and>
       e_mutation_checksum e2 \<noteq> e_mutation_checksum e \<longrightarrow>
       journal_prepare e2 j'' = Inl (ProtocolError ''conflicting duplicate replicated entry''))"
proof -
  have inv: "journal_inv j'"
    using journal_prepare_inv [OF journal_reach_inv [OF assms(1)] assms(2,3)] by simp
  obtain x where x: "prepared j' (e_index e) = Some x" "e_mutation_checksum x = e_mutation_checksum e"
      "entry_validate e = Inr ()"
    using assms(3) by (rule journal_prepare_result)
  then have x': "prepared (stored_journal j') (e_index e) = Some (stored_entry x)" by simp
  have "journal_prepare e j' = Inr j'" "journal_prepare e (stored_journal j') = Inr (stored_journal j')"
    using journal_prepare_duplicate [OF x(1,3)] journal_prepare_duplicate [OF x' x(3)] x(2) by simp_all
  moreover have "journal_prepare e2 (stored_journal j') =
      Inl (ProtocolError ''conflicting duplicate replicated entry'')"
    if "e_index e2 = e_index e \<and> entry_validate e2 = Inr () \<and>
        e_mutation_checksum e2 \<noteq> e_mutation_checksum e" for e2
    using journal_prepare_duplicate [of "stored_journal j'" e2 "stored_entry x"] x x' that by simp
  ultimately show ?thesis using journal_inv_reload [OF inv] by blast
qed

theorem prepare_retry_witness:
  "\<exists>j' j''. journal_prepare example_entry (empty_journal None) = Inr j' \<and>
     journal_load (j_file j') = Inr j'' \<and> journal_prepare example_entry j'' = Inr j''"
proof -
  obtain j' where j': "journal_prepare example_entry (empty_journal None) = Inr j'"
    using journal_prepare_fresh [OF example_entry_ok(1)] by (metis empty_journal_simps(4))
  from prepare_retry [OF rtranclp.rtrancl_refl example_entry_ok(2) this] show ?thesis
    using j' by blast
qed

lemma tables_ok_prepared:
  "tables_ok j \<Longrightarrow> k \<in> committed j \<Longrightarrow> \<exists>e. prepared j k = Some e \<and> e_index e = k \<and> entry_validate e = Inr ()"
  by (fastforce simp: tables_ok_def)

lemma committed_after_run:
  assumes "tables_ok j"
  shows "committed_after i j =
    Inr (map (\<lambda>k. the (prepared j k)) (filter (\<lambda>k. i < k) (sorted_list_of_set (committed j))))"
  unfolding committed_after_def
proof (rule rmap_all_Inr)
  fix k assume "k \<in> set (filter (\<lambda>k. i < k) (sorted_list_of_set (committed j)))"
  then have "k \<in> committed j" using assms by (simp add: tables_ok_def)
  then show "(case prepared j k of None \<Rightarrow> Inl (KeyError (show_int k)) | Some e \<Rightarrow> Inr e) = Inr (the (prepared j k))"
    using tables_ok_prepared [OF assms] by fastforce
qed

text \<open>
  \<open>committed_after\<close> never fails on a journal the operations produced, and lists
  exactly the committed entries above the index, in strictly increasing index order.
\<close>

theorem committed_after_complete:
  assumes "journal_step\<^sup>*\<^sup>* (empty_journal None) j"
  shows "\<exists>es. committed_after i j = Inr es \<and> sorted_wrt (<) (map e_index es) \<and>
    set es = {e. e_index e \<in> committed j \<and> i < e_index e \<and> prepared j (e_index e) = Some e}"
proof -
  have ok: "tables_ok j" using journal_reach_inv [OF assms] by (simp add: journal_inv_def)
  let ?is = "filter (\<lambda>k. i < k) (sorted_list_of_set (committed j))"
  let ?es = "map (\<lambda>k. the (prepared j k)) ?is"
  have fin: "finite (committed j)" using ok by (simp add: tables_ok_def)
  have p: "\<exists>e. prepared j k = Some e \<and> e_index e = k" if "k \<in> committed j" for k
    using tables_ok_prepared [OF ok that] by blast
  have "map e_index ?es = ?is"
    using fin by (auto intro!: map_idI dest!: p)
  moreover have "sorted_wrt (<) ?is" by (intro sorted_wrt_filter strict_sorted_list_of_set)
  moreover have "set ?es = {e. e_index e \<in> committed j \<and> i < e_index e \<and> prepared j (e_index e) = Some e}"
    using fin p by force
  ultimately show ?thesis using committed_after_run [OF ok, of i] by metis
qed

theorem committed_after_complete_witness:
  "\<exists>j j'. journal_prepare example_entry (empty_journal None) = Inr j \<and>
     journal_commit 1 j = Inr (example_entry, j') \<and>
     (\<exists>es. committed_after 0 j' = Inr es \<and> set es = {e. e_index e = 1 \<and> prepared j' 1 = Some e})"
proof -
  obtain j j' where run: "journal_prepare example_entry (empty_journal None) = Inr j"
      "journal_commit 1 j = Inr (example_entry, j')" "committed j' = {1}"
      "journal_step\<^sup>*\<^sup>* (empty_journal None) j'"
    using example_run by (metis rtranclp_trans)
  have "{e. e_index e \<in> committed j' \<and> 0 < e_index e \<and> prepared j' (e_index e) = Some e} =
      {e. e_index e = 1 \<and> prepared j' 1 = Some e}"
    using run(3) by auto
  then show ?thesis using committed_after_complete [OF run(4), of 0] run by auto
qed

text \<open>Loading an arbitrary file: every exception but one is a protocol error.\<close>

definition load_error :: "err \<Rightarrow> bool" where
  "load_error e \<longleftrightarrow> is_protocol_error e \<or> (\<exists>m. e = UnicodeDecodeError m)"

lemma decode_journal_line_error:
  assumes "decode_journal_line line = Inl e"
  shows "load_error e"
proof -
  consider x where "json_loads line = Inr x" | m where "json_loads line = Inl (UnicodeDecodeError m)"
    | m where "json_loads line = Inl (JSONDecodeError m)"
    by (cases "json_loads line") (auto simp: json_loads_def Let_def split: if_splits option.splits)
  then show ?thesis
  proof cases
    case (1 x)
    show ?thesis
    proof (cases "decode_envelope_versioned x")
      case (Inl a)
      then have "is_protocol_error a"
        using decode_envelope_versioned_protocol_only [of x] by (rule_tac protocol_onlyD)
      with 1 Inl assms show ?thesis
        by (cases a) (auto simp: decode_journal_line_def load_error_def)
    qed (use 1 assms in \<open>auto simp: decode_journal_line_def\<close>)
  qed (use assms in \<open>auto simp: decode_journal_line_def load_error_def\<close>)
qed

lemma decode_journal_line_dict: "decode_journal_line line = Inr p \<Longrightarrow> as_dict p \<noteq> None"
  by (auto simp: decode_journal_line_def split: sum.splits err.splits elim: decode_envelope_versioned_Inr)

lemma load_record_protocol_only:
  assumes "as_dict p \<noteq> None"
  shows "protocol_only (load_record p j)"
proof -
  obtain d where d: "as_dict p = Some d" using assms by blast
  show ?thesis unfolding load_record_def d option.case
    by (intro protocol_only_intros protocol_only_dget [where fs = PREPARE_RECORD_FIELDS]
        protocol_only_dget [where fs = INDEX_RECORD_FIELDS])
      (assumption | simp (no_asm) add: PREPARE_RECORD_FIELDS_def INDEX_RECORD_FIELDS_def)+
qed

lemma load_line_error:
  assumes "load_line line j = Inl e"
  shows "load_error e"
proof (cases "decode_journal_line line")
  case (Inl a)
  then show ?thesis
    using assms decode_journal_line_error [OF Inl] by (auto simp: load_line_def split: if_splits)
next
  case (Inr p)
  then have "load_record p j = Inl e" using assms by (simp add: load_line_def split: if_splits)
  then show ?thesis
    using load_record_protocol_only [OF decode_journal_line_dict [OF Inr], of j]
    by (simp add: load_error_def protocol_only_def)
qed

lemma rfold_load_line_error: "rfold load_line ls j = Inl e \<Longrightarrow> load_error e"
  by (induction ls arbitrary: j) (auto simp: rbind_eq_Inl intro: load_line_error)



end
