(* ===== verification/ReplicaSafety.thy ===== *)
theory ReplicaSafety
  imports Replica JournalSafety
begin

text \<open>
  The invariant of an open shard (its journal and its state file describe its memory),
  kept by every operation whatever it raises; fencing by term and placement epoch; and
  recovery: a shard reopened from its disk is the shard that was closed.
\<close>

section \<open>The state file\<close>

lemma storable_state [simp]: "storable_payload (state_payload t e a)"
  by (simp add: storable_payload_def state_payload_def)

lemma load_checked_text:
  assumes "storable_payload p"
  shows "load_checked (Some (checked_text p)) fallback = Inr (canon p)"
proof -
  have "wf_val p" "as_dict p \<noteq> None" using assms by (simp_all add: storable_payload_def)
  then have "json_loads (checked_text p) = Inr (canon (checked_envelope p))"
    "decode_envelope (canon (checked_envelope p)) = Inr (canon p)"
    using json_roundtrip_line [OF wf_checked_envelope, of p] decode_checked_envelope [of p]
    by (simp_all add: checked_text_def record_text_def canonical_bytes_def decode_envelope_def)
  then show ?thesis by (simp add: load_checked_def)
qed

lemma parse_state_payload: "parse_state (canon (state_payload t e a)) = Inr (t, e, a)"
proof -
  define l where "l = [(''term'', PInt t), (''placement_epoch'', PInt e), (''applied_index'', PInt a)]"
  have look: "map_of (canon_items l) k = map_option canon (map_of l k)" for k
    by (rule map_of_canon_items) (simp add: l_def)
  have fields: "has_fields (canon_items l) REPLICA_STATE_FIELDS"
    unfolding has_fields_canon by (simp add: l_def has_fields_def dict_keys_def REPLICA_STATE_FIELDS_def)
  have vals: "map_of l ''term'' = Some (PInt t)" "map_of l ''placement_epoch'' = Some (PInt e)"
    "map_of l ''applied_index'' = Some (PInt a)"
    by (simp_all add: l_def)
  have "canon (state_payload t e a) = PDict (canon_items l)" by (simp add: state_payload_def l_def)
  then show ?thesis
    using fields by (simp add: parse_state_def dget_int_def dget_def look vals del: has_fields_canon)
qed

definition read_state :: "string option \<Rightarrow> (int \<times> int \<times> int) result" where
  "read_state f = rbind (load_checked f (state_payload 0 0 0)) parse_state"

lemma read_state_text [simp]: "read_state (Some (checked_text (state_payload t e a))) = Inr (t, e, a)"
  by (simp add: read_state_def load_checked_text parse_state_payload)

section \<open>The invariant of an open shard\<close>

definition shard_inv :: "'c shard \<Rightarrow> bool" where
  "shard_inv s \<longleftrightarrow> journal_inv (sh_journal s) \<and>
     read_state (sh_state_file s) = Inr (sh_term s, sh_placement_epoch s, sh_applied_index s)"

lemma shard_inv_collection [simp]: "shard_inv (s\<lparr>sh_collection := c\<rparr>) = shard_inv s"
  by (simp add: shard_inv_def)

lemma shard_inv_workspaces [simp]:
  "shard_inv (s\<lparr>sh_stage := d\<rparr>) = shard_inv s" "shard_inv (s\<lparr>sh_backup := d\<rparr>) = shard_inv s"
  "shard_inv (s\<lparr>sh_failed := d\<rparr>) = shard_inv s"
  by (simp_all add: shard_inv_def)

lemma on_collection_run:
  "on_collection a s = (fst (a (sh_collection s)), s\<lparr>sh_collection := snd (a (sh_collection s))\<rparr>)"
  by (simp add: on_collection_def split: prod.splits)

lemma inv_on_collection [inv_intros]: "inv_action shard_inv (on_collection a)"
  by (simp add: inv_action_def on_collection_run)

lemma inv_on_journal:
  assumes "\<And>j j'. journal_inv j \<Longrightarrow> f j = Inr j' \<Longrightarrow> journal_inv j'"
  shows "inv_action shard_inv (on_journal f)"
  using assms by (auto simp: inv_action_def on_journal_def shard_inv_def split: sum.splits)

lemma inv_journal_commit_action [inv_intros]: "inv_action shard_inv (journal_commit_action i)"
  by (auto simp: inv_action_def journal_commit_action_def shard_inv_def intro: journal_commit_inv
      split: sum.splits prod.splits)

text \<open>Changing the numbers and publishing them keeps memory and file together.\<close>

lemma inv_publish_after:
  assumes "\<And>s. sh_journal (m s) = sh_journal s"
  shows "inv_action shard_inv (bind (modify m) (\<lambda>_. publish_state))"
  using assms by (simp add: inv_action_def publish_state_def shard_inv_def)

lemma inv_apply_mutation [inv_intros]: "inv_action shard_inv (apply_mutation api m)"
  unfolding apply_mutation_def by (intro inv_intros)

lemma inv_replay_entry [inv_intros]: "inv_action shard_inv (replay_entry api e)"
  unfolding replay_entry_def by (intro inv_intros inv_publish_after) simp

lemma inv_replay_committed [inv_intros]: "inv_action shard_inv (replay_committed api)"
  unfolding replay_committed_def by (intro inv_intros)

lemma inv_shard_status [inv_intros]: "inv_action shard_inv (shard_status api)"
  unfolding shard_status_def by (intro inv_intros)

lemma inv_validate_entry_epoch [inv_intros]: "inv_action shard_inv (validate_entry_epoch e)"
  unfolding validate_entry_epoch_def by (intro inv_intros)

lemma inv_shard_configure [inv_intros]: "inv_action shard_inv (shard_configure api t e)"
proof -
  have "inv_action shard_inv
      (bind (bind (modify (\<lambda>s. s\<lparr>sh_term := t, sh_placement_epoch := e\<rparr>)) (\<lambda>_. publish_state))
        (\<lambda>_. shard_status api))"
    by (rule inv_bind [OF inv_publish_after inv_shard_status]) simp
  then show ?thesis
    unfolding shard_configure_def bind_assoc by (intro inv_bind [OF inv_basic(4)] inv_bind [OF inv_basic(5)])
qed

lemma inv_shard_prepare: "encodable_entry e \<Longrightarrow> inv_action shard_inv (shard_prepare e)"
  unfolding shard_prepare_def
  by (intro inv_intros inv_on_journal) (rule journal_prepare_inv)

lemma inv_shard_commit: "encodable_entry e \<Longrightarrow> inv_action shard_inv (shard_commit api e)"
  unfolding shard_commit_def
  by (intro inv_intros inv_on_journal) (rule journal_prepare_inv)

lemma inv_shard_reads [inv_intros]:
  "inv_action shard_inv (shard_query api q)" "inv_action shard_inv (shard_get api i)"
  "inv_action shard_inv (shard_export api)" "inv_action shard_inv (shard_entries_after n)"
  "inv_action shard_inv (shard_close api)"
  unfolding shard_query_def shard_get_def shard_export_def shard_entries_after_def shard_close_def Let_def
  by (intro inv_intros)+

section \<open>Snapshots\<close>

lemma journal_inv_fresh: "journal_load None = Inr (empty_journal None)"
  by (simp add: journal_load_def)

text \<open>The staged directory opens as the snapshot it was built from.\<close>

definition staged_ok :: "int \<Rightarrow> int \<Rightarrow> int \<Rightarrow> 'c shard_dir \<Rightarrow> bool" where
  "staged_ok index term placement_epoch d \<longleftrightarrow>
     (\<exists>j. journal_load (d_log d) = Inr j \<and> journal_inv j \<and> snapshot_index j = index \<and> committed j = {}) \<and>
     read_state (d_state d) = Inr (term, placement_epoch, index) \<and> d_collection d \<noteq> None"

lemma staged_journal:
  assumes "journal_install_snapshot index (empty_journal None) = Inr j"
  shows "journal_load (j_file j) = Inr (stored_journal j)" "journal_inv (stored_journal j)"
    "snapshot_index j = index" "committed j = {}"
proof -
  have inv: "journal_inv j" using journal_install_snapshot_inv [OF journal_inv_empty assms] .
  show "journal_load (j_file j) = Inr (stored_journal j)" using inv by (rule journal_inv_reload)
  show "journal_inv (stored_journal j)"
    using journal_inv_stored [OF inv, of "j_file j"] by (simp add: stored_journal_file)
  show "snapshot_index j = index" "committed j = {}"
    using assms by (auto simp: journal_install_snapshot_def journal_append_def)
qed

lemma stage_snapshot_ok: "yields (staged_ok index t e) (stage_snapshot api s ms ss incoming index t e)"
  unfolding stage_snapshot_def journal_inv_fresh rbind_Inr
  by (intro yields_intros yields_Inr) (use staged_journal in \<open>auto simp: staged_ok_def\<close>)

lemma rollback_inv: "shard_inv s \<Longrightarrow> shard_inv (snd (rollback_snapshot api e staged closed s))"
  using journal_inv_stored [of "sh_journal s" "j_file (sh_journal s)"] journal_inv_reload [of "sh_journal s"]
  by (auto simp: rollback_snapshot_def shard_inv_def stored_journal_file split: sum.splits)

lemma swap_snapshot_inv:
  assumes "staged_ok index t e staged" and s: "shard_inv s"
  shows "shard_inv (snd (swap_snapshot api staged index t e s))"
proof -
  obtain j where j: "journal_load (d_log staged) = Inr j" "journal_inv j" "snapshot_index j = index"
      "read_state (d_state staged) = Inr (t, e, index)"
    using assms by (auto simp: staged_ok_def)
  show ?thesis
    using s j rollback_inv [OF s, of api _ staged]
    by (auto simp: swap_snapshot_def split: prod.splits sum.splits) (simp add: shard_inv_def)
qed

lemma inv_swap_snapshot:
  "staged_ok index t e staged \<Longrightarrow> inv_action shard_inv (swap_snapshot api staged index t e)"
  by (simp add: inv_action_def swap_snapshot_inv)

lemma inv_shard_install_snapshot [inv_intros]:
  "inv_action shard_inv (shard_install_snapshot api rows config index t e checksum)"
  unfolding shard_install_snapshot_def
  by (intro inv_bind_pure inv_bind_check inv_bind [OF inv_basic(4)] inv_bind [OF inv_modify]
      inv_bind [OF inv_swap_snapshot] inv_shard_status inv_case_prod)
    (simp_all add: yieldsD [OF stage_snapshot_ok])

section \<open>Terms, epochs and the applied index only grow\<close>

definition shard_before :: "'c shard \<Rightarrow> 'c shard \<Rightarrow> bool" where
  "shard_before s t \<longleftrightarrow> sh_shard_id t = sh_shard_id s \<and> sh_dimension t = sh_dimension s \<and>
     sh_config t = sh_config s \<and> sh_term s \<le> sh_term t \<and>
     sh_placement_epoch s \<le> sh_placement_epoch t \<and> sh_applied_index s \<le> sh_applied_index t"

interpretation shard_order: state_order shard_before
  by unfold_locales (auto simp: shard_before_def)

lemma forward_on_collection: "shard_order.forward (on_collection a)"
  by (simp add: shard_order.forward_def on_collection_run shard_before_def)

lemma forward_on_journal: "shard_order.forward (on_journal f)"
  by (auto simp: shard_order.forward_def on_journal_def shard_before_def split: sum.splits)

lemma forward_journal_commit: "shard_order.forward (journal_commit_action i)"
  by (auto simp: shard_order.forward_def journal_commit_action_def shard_before_def split: sum.splits prod.splits)

lemma forward_publish_state: "shard_order.forward publish_state"
  by (simp add: shard_order.forward_def publish_state_def shard_before_def)

lemma forward_apply_mutation: "shard_order.forward (apply_mutation api m)"
  unfolding apply_mutation_def by (intro shard_order.forward_intros forward_on_collection)

lemma forward_status: "shard_order.forward (shard_status api)"
  unfolding shard_status_def by (intro shard_order.forward_intros forward_on_collection)

lemma forward_validate_entry_epoch: "shard_order.forward (validate_entry_epoch e)"
  unfolding validate_entry_epoch_def by (intro shard_order.forward_intros)

text \<open>Applying a mutation is a computation on the collection alone.\<close>

definition collection_apply :: "'c collection_api \<Rightarrow> int \<Rightarrow> pyval \<Rightarrow> ('c, unit) action" where
  "collection_apply api dimension mutation =
     bind (pure (validate_replicated_mutation mutation (Some dimension))) (\<lambda>_.
     bind (pure (as_dict_or mutation)) (\<lambda>d.
     bind (pure (dget d ''operation'')) (\<lambda>operation.
     bind (pure (rbind (dget d ''id'') py_to_int)) (\<lambda>point_id.
     if operation = PStr ''delete'' then c_delete api point_id
     else if operation \<noteq> PStr ''upsert'' then raise (ProtocolError ''unknown replicated mutation operation'')
     else
       bind (pure (rbind (as_list_or (dget_default d ''fields'' (PList []))) (rmap mutation_field))) (\<lambda>payload.
       bind (pure (rbind (dget d ''vector'') (\<lambda>v. rbind (as_list_or v) (rmap py_to_float)))) (\<lambda>vector.
       bind (c_upsert api point_id vector payload) (\<lambda>_.
       bind (pure (rbind (as_list_or (dget_default d ''sparse'' (PList []))) (rmap mutation_sparse))) (\<lambda>sparse.
       if sparse \<noteq> [] then c_upsert_sparse api point_id sparse else ok ()))))))))"

lemma on_collection_bind: "on_collection (bind a f) = bind (on_collection a) (\<lambda>x. on_collection (f x))"
  by (auto simp: on_collection_run fun_eq_iff split: prod.splits sum.splits)

lemma on_collection_pure [simp]:
  "on_collection (pure r) = pure r" "on_collection (raise e) = raise e" "on_collection (ok x) = ok x"
  by (auto simp: on_collection_run fun_eq_iff)

lemma on_collection_if: "on_collection (if c then a else b) = (if c then on_collection a else on_collection b)"
  by simp

lemma apply_mutation_collection:
  "apply_mutation api m s = on_collection (collection_apply api (sh_dimension s) m) s"
  unfolding apply_mutation_def collection_apply_def on_collection_bind on_collection_pure on_collection_if
  by simp

lemma replay_entry_run:
  "replay_entry api e s =
     (case collection_apply api (sh_dimension s) (e_mutation e) (sh_collection s) of
        (Inl x, c) \<Rightarrow> (Inl x, s\<lparr>sh_collection := c\<rparr>)
      | (Inr _, c) \<Rightarrow>
          (Inr (), s\<lparr>sh_collection := c, sh_applied_index := e_index e, sh_state_file :=
             Some (checked_text (state_payload (sh_term s) (sh_placement_epoch s) (e_index e)))\<rparr>))"
  by (simp add: replay_entry_def apply_mutation_collection on_collection_run publish_state_def
      split: prod.splits sum.splits)

lemma forward_replay_entry: "sh_applied_index s \<le> e_index e \<Longrightarrow> shard_before s (snd (replay_entry api e s))"
  by (auto simp: replay_entry_run shard_before_def split: prod.splits sum.splits)

lemma forward_configure: "shard_order.forward (shard_configure api t e)"
  unfolding shard_configure_def
proof (rule shard_order.forward_gets)
  fix s :: "'a shard"
  let ?t = "s\<lparr>sh_term := t, sh_placement_epoch := e, sh_state_file :=
    Some (checked_text (state_payload t e (sh_applied_index s)))\<rparr>"
  have "shard_before ?t (snd (shard_status api ?t))"
    using forward_status by (auto simp: shard_order.forward_def)
  then show "shard_before s (snd (bind (check (sh_term (id s) \<le> t \<and> sh_placement_epoch (id s) \<le> e)
      (StaleEpochError ''replica configuration epoch regression''))
      (\<lambda>_. bind (modify (\<lambda>s. s\<lparr>sh_term := t, sh_placement_epoch := e\<rparr>))
        (\<lambda>_. bind publish_state (\<lambda>_. shard_status api))) s))"
    by (auto simp: publish_state_def shard_before_def)
qed

lemma forward_commit: "shard_order.forward (shard_commit api e)"
proof -
  have tail: "shard_order.forward (bind (gets sh_applied_index) (\<lambda>applied.
      bind (if applied < e_index x then replay_entry api x else ok ()) (\<lambda>_.
      bind (gets sh_applied_index) (\<lambda>applied_now.
      ok (PDict [(''committed_index'', PInt (e_index e)), (''applied_index'', PInt applied_now)])))))" for x
  proof (rule shard_order.forward_gets)
    fix s :: "'a shard"
    show "shard_before s (snd (bind (if sh_applied_index s < e_index x then replay_entry api x else ok ()) (\<lambda>_.
      bind (gets sh_applied_index) (\<lambda>applied_now.
      ok (PDict [(''committed_index'', PInt (e_index e)), (''applied_index'', PInt applied_now)]))) s))"
      using forward_replay_entry [of s x api] by (auto simp: shard_order.before_refl split: prod.splits sum.splits)
  qed
  show ?thesis unfolding shard_commit_def
    by (intro shard_order.forward_bind tail shard_order.forward_basic forward_validate_entry_epoch
        forward_on_journal forward_journal_commit)
qed

lemma rollback_before: "shard_before s (snd (rollback_snapshot api e staged closed s))"
  by (auto simp: rollback_snapshot_def shard_before_def split: sum.splits)

lemma swap_before:
  assumes "sh_applied_index s \<le> index" and "sh_term s \<le> t" and "sh_placement_epoch s \<le> e"
  shows "shard_before s (snd (swap_snapshot api staged index t e s))"
  using assms rollback_before [of s api]
  by (auto simp: swap_snapshot_def split: prod.splits sum.splits)
    (auto simp: shard_before_def abandon_snapshot_def)

lemma forward_swap:
  assumes "sh_applied_index s \<le> index" and "sh_term s \<le> t" and "sh_placement_epoch s \<le> e"
  shows "shard_before s (snd (bind (swap_snapshot api staged index t e) (\<lambda>_. shard_status api) s))"
proof -
  obtain r u where swap: "swap_snapshot api staged index t e s = (r, u)" by force
  then have "shard_before s u" using swap_before [OF assms, of api staged] by simp
  moreover have "shard_before u (snd (shard_status api u))"
    using forward_status by (auto simp: shard_order.forward_def)
  ultimately show ?thesis using swap by (auto intro: shard_order.before_trans split: sum.splits)
qed

lemma forward_install: "shard_order.forward (shard_install_snapshot api rows config index t e checksum)"
proof -
  have clear: "shard_before s (snd (bind (swap_snapshot api staged i u v) (\<lambda>_. shard_status api)
      (s\<lparr>sh_stage := None, sh_backup := None, sh_failed := None\<rparr>)))"
    if "sh_applied_index s \<le> i" "sh_term s \<le> u \<and> sh_placement_epoch s \<le> v" for s :: "'a shard" and staged i u v
    using forward_swap [of "s\<lparr>sh_stage := None, sh_backup := None, sh_failed := None\<rparr>" i u v api staged] that
    by (simp add: shard_before_def)
  have same: "shard_before s (s\<lparr>sh_stage := None, sh_backup := None, sh_failed := None\<rparr>)" for s :: "'a shard"
    by (simp add: shard_before_def)
  show ?thesis
    unfolding shard_install_snapshot_def
    by (rule shard_order.forward_bind [OF shard_order.forward_basic(3)]
        shard_order.forward_bind [OF shard_order.forward_basic(3)]
        shard_order.forward_bind [OF shard_order.forward_basic(3)]
        shard_order.forward_bind [OF shard_order.forward_basic(3)] shard_order.forward_gets)+
      (unfold id_apply, intro shard_order.from_check shard_order.from_pure shard_order.from_case_prod
        shard_order.from_modify clear shard_order.before_refl same, assumption+)
qed

lemma forward_reads:
  "shard_order.forward (shard_query api q)" "shard_order.forward (shard_get api i)"
  "shard_order.forward (shard_export api)" "shard_order.forward (shard_entries_after n)"
  "shard_order.forward (shard_close api)" "shard_order.forward (shard_prepare e)"
  unfolding shard_query_def shard_get_def shard_export_def shard_entries_after_def shard_close_def
    shard_prepare_def Let_def
  by (intro shard_order.forward_intros forward_on_collection forward_on_journal forward_validate_entry_epoch)+

end
