(* ===== verification/ReplicaRecovery.thy ===== *)
theory ReplicaRecovery
  imports ReplicaSafety
begin

text \<open>
  A shard through its life: the operations as a step relation, reopening from the disk, and
  the log a replica implements: its collection is the committed entries applied in index
  order, as long as commits arrive in order. ReplicaProperties states the properties.
\<close>

section \<open>Steps of an open shard\<close>

inductive shard_step :: "'c collection_api \<Rightarrow> 'c shard \<Rightarrow> 'c shard \<Rightarrow> bool" for api where
  configure: "shard_configure api t e s = (r, s') \<Longrightarrow> shard_step api s s'"
| prepare: "encodable_entry en \<Longrightarrow> shard_prepare en s = (r, s') \<Longrightarrow> shard_step api s s'"
| commit: "encodable_entry en \<Longrightarrow> shard_commit api en s = (r, s') \<Longrightarrow> shard_step api s s'"
| query: "shard_query api q s = (r, s') \<Longrightarrow> shard_step api s s'"
| point: "shard_get api i s = (r, s') \<Longrightarrow> shard_step api s s'"
| export: "shard_export api s = (r, s') \<Longrightarrow> shard_step api s s'"
| entries: "shard_entries_after n s = (r, s') \<Longrightarrow> shard_step api s s'"
| install: "shard_install_snapshot api rows config i t e c s = (r, s') \<Longrightarrow> shard_step api s s'"
| status: "shard_status api s = (r, s') \<Longrightarrow> shard_step api s s'"

lemma shard_step_inv: "shard_step api s s' \<Longrightarrow> shard_inv s \<Longrightarrow> shard_inv s'"
  by (induction rule: shard_step.induct)
    (blast intro: inv_actionD inv_shard_configure inv_shard_prepare inv_shard_commit inv_shard_reads
      inv_shard_install_snapshot inv_shard_status)+

lemma shard_step_before: "shard_step api s s' \<Longrightarrow> shard_before s s'"
  by (induction rule: shard_step.induct)
    (blast intro: shard_order.forwardD forward_configure forward_commit forward_reads
      forward_install forward_status)+

lemma shard_steps_inv: "(shard_step api)\<^sup>*\<^sup>* s s' \<Longrightarrow> shard_inv s \<Longrightarrow> shard_inv s' \<and> shard_before s s'"
proof (induction rule: rtranclp_induct)
  case base
  then show ?case by (simp add: shard_order.before_refl)
next
  case (step t u)
  then show ?case using shard_step_inv shard_step_before shard_order.before_trans by blast
qed

section \<open>Reopening\<close>

definition reopened :: "'c shard \<Rightarrow> 'c \<Rightarrow> 'c shard" where
  "reopened s c = s\<lparr>sh_journal := stored_journal (sh_journal s), sh_collection := c, sh_stage := None,
     sh_backup := None, sh_failed := None\<rparr>"

definition empty_root :: "'c shard_root" where
  "empty_root = \<lparr>r_root = None, r_stage = None, r_backup = None, r_failed = None\<rparr>"

lemma recover_disk:
  "recover_snapshot_workspaces (shard_disk s) =
     (shard_disk s)\<lparr>r_stage := None, r_backup := None, r_failed := None\<rparr>"
  by (simp add: recover_snapshot_workspaces_def shard_disk_def)

lemma open_shard_disk:
  assumes "shard_inv s"
    and "rbind (canonical_collection_config config (sh_dimension s)) config_from_kernel = Inr (sh_config s)"
    and "c_open api (Some (sh_collection s)) (sh_dimension s) (sh_config s) = Inr c"
  shows "open_shard api (sh_shard_id s) (sh_dimension s) config (shard_disk s) =
    (case replay_committed api (reopened s c) of
       (Inl e, s') \<Rightarrow> (Inl e, shard_disk s') | (Inr _, s') \<Rightarrow> (Inr s', shard_disk s'))"
proof -
  have "rbind (load_checked (sh_state_file s) (state_payload 0 0 0)) parse_state =
      Inr (sh_term s, sh_placement_epoch s, sh_applied_index s)"
    and "journal_load (j_file (sh_journal s)) = Inr (stored_journal (sh_journal s))"
    using assms(1) journal_inv_reload by (simp_all add: shard_inv_def read_state_def del: rbind_eq_Inr)
  moreover have "\<lparr>sh_shard_id = sh_shard_id s, sh_dimension = sh_dimension s, sh_config = sh_config s,
      sh_term = sh_term s, sh_placement_epoch = sh_placement_epoch s, sh_applied_index = sh_applied_index s,
      sh_journal = stored_journal (sh_journal s), sh_collection = c, sh_state_file = sh_state_file s,
      sh_stage = None, sh_backup = None, sh_failed = None\<rparr> = reopened s c"
    by (simp add: reopened_def)
  ultimately show ?thesis
    unfolding open_shard_def recover_disk assms(2) Let_def
    by (simp add: shard_disk_def assms(3) del: rbind_eq_Inr)
qed

section \<open>Replaying a stored mutation\<close>

text \<open>
  The journal gives an entry back with its object keys sorted. Applied to a collection, the
  stored mutation is the one that was journalled.
\<close>

lemma py_to_int_canon [simp]: "py_to_int (canon v) = py_to_int v"
  by (cases v rule: canon.cases) simp_all

lemma py_to_float_canon [simp]: "py_to_float (canon v) = py_to_float v"
  by (cases v rule: canon.cases) simp_all

lemma canon_finite_number: "finite_number v \<Longrightarrow> canon v = v"
  by (cases v) (simp_all add: finite_number_def)

lemma canon_payload_value: "payload_value_ok k v \<Longrightarrow> canon v = v"
  by (auto simp: payload_value_ok_def canon_finite_number)

lemma mutation_field_canon:
  "wf_val x \<Longrightarrow> payload_field_ok n x \<Longrightarrow> mutation_field (canon x) = mutation_field x"
  by (auto simp: payload_field_ok_def mutation_field_def as_dict_or_def dget_def map_of_canon_items
      canon_payload_value)

lemma mutation_sparse_canon:
  "wf_val x \<Longrightarrow> sparse_item_ok n x \<Longrightarrow> mutation_sparse (canon x) = mutation_sparse x"
  by (auto simp: sparse_item_ok_def mutation_sparse_def as_dict_or_def dget_def map_of_canon_items)

lemma rmap_canon:
  assumes "\<And>n x. wf_val x \<Longrightarrow> P n x \<Longrightarrow> f (canon x) = f x" and "list_all2 P ns xs" and "list_all wf_val xs"
  shows "rmap f (map canon xs) = rmap f xs"
  using assms(2,3) by (induction rule: list_all2_induct) (simp_all add: assms(1))

lemma payload_list_canon:
  "wf_val v \<Longrightarrow> payload_ok v \<Longrightarrow>
     rbind (as_list_or (canon v)) (rmap mutation_field) = rbind (as_list_or v) (rmap mutation_field)"
  by (auto simp: payload_ok_def as_list_or_def intro!: rmap_canon [where P = payload_field_ok] mutation_field_canon)

lemma sparse_list_canon:
  "wf_val v \<Longrightarrow> sparse_ok v \<Longrightarrow>
     rbind (as_list_or (canon v)) (rmap mutation_sparse) = rbind (as_list_or v) (rmap mutation_sparse)"
  by (auto simp: sparse_ok_def as_list_or_def intro!: rmap_canon [where P = sparse_item_ok] mutation_sparse_canon)

lemma rmap_cong_map: "(\<And>x. f (g x) = f x) \<Longrightarrow> rmap f (map g xs) = rmap f xs"
  by (induction xs) simp_all

lemma vector_list_canon:
  "rbind (as_list_or (canon v)) (rmap py_to_float) = rbind (as_list_or v) (rmap py_to_float)"
  by (cases v) (simp_all add: as_list_or_def rmap_cong_map)


lemma collection_apply_canon:
  assumes wf: "wf_val m" and m_ok: "mutation_ok (Some n) m"
  shows "collection_apply api n (canon m) = collection_apply api n m"
proof -
  obtain d where d: "m = PDict d" using m_ok mutation_ok_dict by blast
  have look: "map_of (canon_items d) k = map_option canon (map_of d k)" for k
    using wf d by (simp add: map_of_canon_items)
  have valid: "validate_replicated_mutation m (Some n) = Inr ()"
    "validate_replicated_mutation (canon m) (Some n) = Inr ()"
    using m_ok by (simp_all add: validate_replicated_mutation_ok mutation_ok_canon wf)
  from m_ok consider (delete) "delete_ok m" | (upsert) "upsert_ok (Some n) m" by (auto simp: mutation_ok_def)
  then show ?thesis
  proof cases
    case delete
    then obtain i where "map_of d ''operation'' = Some (PStr ''delete'')" "map_of d ''id'' = Some (PInt i)"
      using d by (auto simp: delete_ok_def)
    then show ?thesis
      using valid unfolding collection_apply_def d canon_PDict
      by (simp add: as_dict_or_def dget_def look)
  next
    case upsert
    then obtain i v f s where u: "map_of d ''operation'' = Some (PStr ''upsert'')" "map_of d ''id'' = Some (PInt i)"
        "map_of d ''vector'' = Some v" "map_of d ''fields'' = Some f" "map_of d ''sparse'' = Some s"
        "payload_ok f" "sparse_ok s"
      using d by (auto simp: upsert_ok_def)
    then have "wf_val f" "wf_val s" using wf d wf_val_lookup by blast+
    with u valid show ?thesis
      unfolding collection_apply_def d canon_PDict
      by (simp add: as_dict_or_def dget_def dget_default_def look payload_list_canon sparse_list_canon vector_list_canon)
  qed
qed

section \<open>A commit, step by step\<close>

definition caught_up :: "'c shard \<Rightarrow> bool" where
  "caught_up s \<longleftrightarrow> (\<forall>i \<in> committed (sh_journal s). i \<le> sh_applied_index s)"

lemma shard_commit_Inr:
  assumes "shard_commit api e s = (Inr r, s')"
  obtains j x k where "e_shard_id e = sh_shard_id s" "e_term e = sh_term s"
    "e_placement_epoch e = sh_placement_epoch s"
    "mutation_ok (Some (sh_dimension s)) (e_mutation e)"
    "journal_prepare e (sh_journal s) = Inr j" "journal_commit (e_index e) j = Inr (x, k)"
    "r = PDict [(''committed_index'', PInt (e_index e)), (''applied_index'', PInt (sh_applied_index s'))]"
    "if sh_applied_index s < e_index x then replay_entry api x (s\<lparr>sh_journal := k\<rparr>) = (Inr (), s')
     else s' = s\<lparr>sh_journal := k\<rparr>"
  using assms
  unfolding shard_commit_def validate_entry_epoch_def bind_assoc
  by (auto simp: bind_Inr on_journal_def journal_commit_action_def validate_replicated_mutation_ok
      simp del: bind_run split: sum.splits prod.splits if_splits)

lemma journal_commit_entry:
  assumes "journal_inv j" and "encodable_entry e" and "journal_prepare e j = Inr j'"
    and "journal_commit (e_index e) j' = Inr (x, k)"
  shows "e_index x = e_index e" "e_mutation_checksum x = e_mutation_checksum e"
    "prepared k (e_index e) = Some x" "committed k = insert (e_index e) (committed j)"
    "snapshot_index k = snapshot_index j" "\<And>i. i \<noteq> e_index e \<Longrightarrow> prepared k i = prepared j i"
    "encodable_entry x" "entry_validate x = Inr ()"
proof -
  have inv: "journal_inv j'" using assms journal_prepare_inv by blast
  then have ok: "tables_ok j'" by (simp add: journal_inv_def)
  obtain y where y: "prepared j' (e_index e) = Some y" "e_mutation_checksum y = e_mutation_checksum e"
    using assms(3) by (rule journal_prepare_result)
  have x: "x = y" "prepared k = prepared j'" "committed k = insert (e_index e) (committed j')"
    "snapshot_index k = snapshot_index j'"
    using assms(4) y by (auto simp: journal_commit_def journal_append_def split: if_splits)
  have j: "committed j' = committed j" "snapshot_index j' = snapshot_index j"
    "i \<noteq> e_index e \<Longrightarrow> prepared j' i = prepared j i" for i
    using assms(3) by (cases rule: journal_prepare_cases; simp add: journal_append_def)+
  show "e_index x = e_index e" "encodable_entry x" "entry_validate x = Inr ()"
    using ok y x by (auto simp: tables_ok_def)
  show "e_mutation_checksum x = e_mutation_checksum e"
    "prepared k (e_index e) = Some x" "committed k = insert (e_index e) (committed j)"
    "snapshot_index k = snapshot_index j" "\<And>i. i \<noteq> e_index e \<Longrightarrow> prepared k i = prepared j i"
    using x y j by simp_all
qed

section \<open>The log a replica implements\<close>

definition log_entries :: "journal \<Rightarrow> entry list" where
  "log_entries j = map (\<lambda>i. the (prepared j i)) (sorted_list_of_set (committed j))"

definition run_log :: "'c collection_api \<Rightarrow> int \<Rightarrow> entry list \<Rightarrow> ('c, unit) action" where
  "run_log api n = each (\<lambda>e. collection_apply api n (e_mutation e))"

definition implements_log :: "'c collection_api \<Rightarrow> 'c \<Rightarrow> 'c shard \<Rightarrow> bool" where
  "implements_log api c s \<longleftrightarrow> caught_up s \<and>
     run_log api (sh_dimension s) (log_entries (sh_journal s)) c = (Inr (), sh_collection s)"

lemma run_log_append:
  "run_log api n (es @ fs) c = (Inr (), c') \<longleftrightarrow>
     (\<exists>d. run_log api n es c = (Inr (), d) \<and> run_log api n fs d = (Inr (), c'))"
proof (induction es arbitrary: c)
  case (Cons e es)
  then show ?case by (auto simp: run_log_def split: prod.splits sum.splits)
qed (simp add: run_log_def)

lemma sorted_list_insert_last:
  fixes A :: "int set"
  assumes "finite A" and "\<forall>a \<in> A. a < i"
  shows "sorted_list_of_set (insert i A) = sorted_list_of_set A @ [i]"
proof -
  let ?l = "sorted_list_of_set A @ [i]"
  have "sorted ?l" "distinct ?l" "set ?l = insert i A"
    using assms by (auto simp: sorted_append intro: less_imp_le)
  then show ?thesis using sorted_list_of_set.idem_if_sorted_distinct [of ?l] by simp
qed

lemma log_entries_commit:
  assumes "finite (committed j)" and "\<forall>k \<in> committed j. k < i" and "committed k = insert i (committed j)"
    and "prepared k i = Some x" and "\<And>l. l \<noteq> i \<Longrightarrow> prepared k l = prepared j l"
  shows "log_entries k = log_entries j @ [x]"
proof -
  have "the (prepared k l) = the (prepared j l)" if "l \<in> committed j" for l
    using assms(2,5) that by force
  then show ?thesis
    using assms(1,3,4) unfolding log_entries_def assms(3) sorted_list_insert_last [OF assms(1,2)] by simp
qed

lemma collection_apply_ok:
  "collection_apply api n m c = (Inr (), c') \<Longrightarrow> mutation_ok (Some n) m"
  unfolding collection_apply_def
  by (cases "validate_replicated_mutation m (Some n)") (simp_all add: validate_replicated_mutation_ok)

lemma run_log_stored:
  assumes "list_all encodable_entry es" and "run_log api n es c = (Inr (), c')"
  shows "run_log api n (map stored_entry es) c = (Inr (), c')"
  using assms
proof (induction es arbitrary: c)
  case (Cons e es)
  then show ?case
    using collection_apply_ok [of api n "e_mutation e" c] collection_apply_canon [of "e_mutation e" n api]
    by (auto simp: run_log_def encodable_entry_def split: prod.splits sum.splits)
qed (simp add: run_log_def)

lemma commit_in_order:
  assumes inv: "shard_inv s" and up: "caught_up s" and e: "encodable_entry e"
    and order: "sh_applied_index s < e_index e" and run: "shard_commit api e s = (Inr r, s')"
  obtains x k c where "journal_inv k" "log_entries k = log_entries (sh_journal s) @ [x]"
    "e_index x = e_index e" "e_mutation_checksum x = e_mutation_checksum e" "encodable_entry x"
    "committed k = insert (e_index e) (committed (sh_journal s))" "prepared k (e_index e) = Some x"
    "collection_apply api (sh_dimension s) (e_mutation x) (sh_collection s) = (Inr (), c)"
    "s' = s\<lparr>sh_journal := k, sh_collection := c, sh_applied_index := e_index e, sh_state_file :=
       Some (checked_text (state_payload (sh_term s) (sh_placement_epoch s) (e_index e)))\<rparr>"
proof -
  obtain j x k where p: "journal_prepare e (sh_journal s) = Inr j" and c: "journal_commit (e_index e) j = Inr (x, k)"
    and step: "if sh_applied_index s < e_index x then replay_entry api x (s\<lparr>sh_journal := k\<rparr>) = (Inr (), s')
      else s' = s\<lparr>sh_journal := k\<rparr>"
    using run by (rule shard_commit_Inr)
  have j: "journal_inv (sh_journal s)" using inv by (simp add: shard_inv_def)
  note x = journal_commit_entry [OF j e p c]
  have "journal_inv k" using journal_commit_inv [OF journal_prepare_inv [OF j e p] c] .
  moreover have "log_entries k = log_entries (sh_journal s) @ [x]"
    using j up order x by (intro log_entries_commit [where i = "e_index e"])
      (auto simp: journal_inv_def tables_ok_def caught_up_def)
  moreover obtain d where
    "collection_apply api (sh_dimension s) (e_mutation x) (sh_collection s) = (Inr (), d)"
    "s' = s\<lparr>sh_journal := k, sh_collection := d, sh_applied_index := e_index e, sh_state_file :=
       Some (checked_text (state_payload (sh_term s) (sh_placement_epoch s) (e_index e)))\<rparr>"
    using step order x(1) by (auto simp: replay_entry_run split: prod.splits sum.splits)
  ultimately show ?thesis using that x by blast
qed

lemma implements_log_commit:
  assumes "implements_log api c s" and "shard_inv s" and "encodable_entry e"
    and "sh_applied_index s < e_index e" and "shard_commit api e s = (Inr r, s')"
  shows "implements_log api c s' \<and> sh_applied_index s' = e_index e \<and>
    (\<exists>x. log_entries (sh_journal s') = log_entries (sh_journal s) @ [x] \<and> e_index x = e_index e \<and>
       e_mutation_checksum x = e_mutation_checksum e)"
proof -
  have up: "caught_up s" using assms(1) by (simp add: implements_log_def)
  show ?thesis
    using assms(2) up assms(3-5)
  proof (rule commit_in_order)
    fix x k d assume h: "log_entries k = log_entries (sh_journal s) @ [x]"
      "e_index x = e_index e" "e_mutation_checksum x = e_mutation_checksum e"
      "committed k = insert (e_index e) (committed (sh_journal s))"
      "collection_apply api (sh_dimension s) (e_mutation x) (sh_collection s) = (Inr (), d)"
      "s' = s\<lparr>sh_journal := k, sh_collection := d, sh_applied_index := e_index e, sh_state_file :=
         Some (checked_text (state_payload (sh_term s) (sh_placement_epoch s) (e_index e)))\<rparr>"
    have "run_log api (sh_dimension s) [x] (sh_collection s) = (Inr (), d)" using h(5) by (simp add: run_log_def)
    then have "run_log api (sh_dimension s) (log_entries k) c = (Inr (), d)"
      using assms(1) h(1) run_log_append [of api _ "log_entries (sh_journal s)" "[x]" c d]
      by (auto simp: implements_log_def)
    moreover have "caught_up s'" using up assms(4) h(4,6) by (auto simp: caught_up_def)
    ultimately show ?thesis using h by (simp add: implements_log_def)
  qed
qed

text \<open>After the marker is durable, reopening finishes what the commit was doing.\<close>

lemma replay_one:
  assumes up: "caught_up s" and inv: "journal_inv k" and order: "sh_applied_index s < i"
    and k: "committed k = insert i (committed (sh_journal s))" "prepared k i = Some x"
  shows "replay_committed api (s\<lparr>sh_journal := stored_journal k\<rparr>) =
    replay_entry api (stored_entry x) (s\<lparr>sh_journal := stored_journal k\<rparr>)"
proof -
  have tables: "tables_ok k" using inv by (simp add: journal_inv_def)
  then have fin: "finite (committed (sh_journal s))" and ok: "tables_ok (stored_journal k)"
    using k(1) tables_ok_stored by (simp_all add: tables_ok_def [of k])
  have below: "\<forall>l \<in> committed (sh_journal s). l < i" "filter (\<lambda>l. sh_applied_index s < l) (sorted_list_of_set (committed (sh_journal s))) = []"
    using up order fin by (auto simp: caught_up_def filter_empty_conv)
  have "committed_after (sh_applied_index s) (stored_journal k) = Inr [stored_entry x]"
    using committed_after_run [OF ok, of "sh_applied_index s"] sorted_list_insert_last [OF fin below(1)] below(2) order k
    by simp
  then show ?thesis by (simp add: replay_committed_def split: prod.splits sum.splits)
qed

lemma commit_crash:
  assumes inv: "shard_inv s" and up: "caught_up s" and e: "encodable_entry e"
    and order: "sh_applied_index s < e_index e" and run: "shard_commit api e s = (Inr r, s')"
    and again: "collection_apply api (sh_dimension s) (e_mutation (last (log_entries (sh_journal s')))) c =
      (Inr (), sh_collection s')"
    and config: "rbind (canonical_collection_config config (sh_dimension s)) config_from_kernel = Inr (sh_config s)"
    and durable: "c_open api (Some c) (sh_dimension s) (sh_config s) = Inr c"
  shows "fst (open_shard api (sh_shard_id s) (sh_dimension s) config
      (shard_disk (s\<lparr>sh_journal := sh_journal s', sh_collection := c\<rparr>))) =
    Inr (reopened s' (sh_collection s'))"
proof -
  obtain x k d where k: "journal_inv k" "log_entries k = log_entries (sh_journal s) @ [x]"
      "e_index x = e_index e" "encodable_entry x"
      "committed k = insert (e_index e) (committed (sh_journal s))" "prepared k (e_index e) = Some x"
    and s': "s' = s\<lparr>sh_journal := k, sh_collection := d, sh_applied_index := e_index e, sh_state_file :=
       Some (checked_text (state_payload (sh_term s) (sh_placement_epoch s) (e_index e)))\<rparr>"
    using inv up e order run by (rule commit_in_order)
  let ?s = "s\<lparr>sh_journal := k, sh_collection := c\<rparr>"
  let ?t = "s\<lparr>sh_collection := c, sh_stage := None, sh_backup := None, sh_failed := None\<rparr>"
  have x: "collection_apply api (sh_dimension s) (e_mutation x) c = (Inr (), d)"
    using again k(2) s' by simp
  have stored: "collection_apply api (sh_dimension s) (canon (e_mutation x)) c = (Inr (), d)"
    using collection_apply_canon [of "e_mutation x" "sh_dimension s" api] collection_apply_ok [OF x] x k(4)
    by (simp add: encodable_entry_def)
  have "shard_inv ?s" using inv k(1) by (simp add: shard_inv_def)
  then have "open_shard api (sh_shard_id s) (sh_dimension s) config (shard_disk ?s) =
    (case replay_committed api (reopened ?s c) of
       (Inl e, s') \<Rightarrow> (Inl e, shard_disk s') | (Inr _, s') \<Rightarrow> (Inr s', shard_disk s'))"
    using open_shard_disk [of ?s config api c] config durable by simp
  moreover have "reopened ?s c = ?t\<lparr>sh_journal := stored_journal k\<rparr>"
    by (simp add: reopened_def)
  moreover have "replay_committed api (?t\<lparr>sh_journal := stored_journal k\<rparr>) =
      replay_entry api (stored_entry x) (?t\<lparr>sh_journal := stored_journal k\<rparr>)"
    using replay_one [of ?t k "e_index e" x api] up k order by (simp add: caught_up_def)
  moreover have "replay_entry api (stored_entry x) (?t\<lparr>sh_journal := stored_journal k\<rparr>) =
      (Inr (), reopened s' (sh_collection s'))"
    using stored k(3) by (simp add: replay_entry_run reopened_def s')
  ultimately show ?thesis by (simp add: s')
qed

end
