(* ===== verification/ReplicaProperties.thy ===== *)
theory ReplicaProperties
  imports ReplicaRecovery
begin

text \<open>
  The properties of a replica: it implements its log, a crash in the middle of a commit or of
  a snapshot installation is finished or undone by reopening, deposed leaders are fenced off,
  retries are harmless, and what happens to a commit that arrives late.
\<close>

section \<open>An instance for the witnesses\<close>

text \<open>A collection that keeps the vectors by identifier, and a shard on it.\<close>

definition list_api :: "(int \<times> pyfloat list) list collection_api" where
  "list_api =
     \<lparr>c_open = (\<lambda>stored _ _. Inr (case stored of None \<Rightarrow> [] | Some c \<Rightarrow> c)),
      c_close = ok (), c_delete = (\<lambda>i. modify (filter (\<lambda>p. fst p \<noteq> i))),
      c_upsert = (\<lambda>i v _. modify (\<lambda>c. (i, v) # filter (\<lambda>p. fst p \<noteq> i) c)),
      c_upsert_sparse = (\<lambda>_ _. ok ()), c_apply_batch = (\<lambda>_. ok ()), c_flush = ok (),
      c_search = (\<lambda>_. ok []), c_last_search_stats = ok PNone, c_get = (\<lambda>_. ok None),
      c_export_records = ok (PList []), c_collection_config = ok (python_config (kernel_defaults 8)),
      c_last_sequence = ok 0\<rparr>"

definition example_config :: pyval where
  "example_config = PDict (kernel_config_to_python (kernel_defaults 8))"

definition example_shard :: "(int \<times> pyfloat list) list shard" where
  "example_shard =
     \<lparr>sh_shard_id = 0, sh_dimension = 8, sh_config = python_config (kernel_defaults 8), sh_term = 1,
      sh_placement_epoch = 1, sh_applied_index = 0, sh_journal = empty_journal None, sh_collection = [(7, [])],
      sh_state_file = Some (checked_text (state_payload 1 1 0)), sh_stage = None, sh_backup = None,
      sh_failed = None\<rparr>"

lemma example_shard_simps [simp]:
  "sh_shard_id example_shard = 0" "sh_dimension example_shard = 8"
  "sh_config example_shard = python_config (kernel_defaults 8)" "sh_term example_shard = 1"
  "sh_placement_epoch example_shard = 1" "sh_applied_index example_shard = 0"
  "sh_journal example_shard = empty_journal None" "sh_collection example_shard = [(7, [])]"
  "sh_state_file example_shard = Some (checked_text (state_payload 1 1 0))"
  by (simp_all add: example_shard_def)

lemma example_shard_inv: "shard_inv example_shard" "caught_up example_shard"
  "implements_log list_api [(7, [])] example_shard"
  by (simp_all add: shard_inv_def caught_up_def implements_log_def log_entries_def run_log_def)

lemma example_config_ok:
  "rbind (canonical_collection_config example_config 8) config_from_kernel = Inr (python_config (kernel_defaults 8))"
proof -
  have valid: "kernel_config_validate (kernel_defaults 8) = Inr ()" "kc_dimension (kernel_defaults 8) = 8"
    by (simp_all add: kernel_valid_iff kernel_defaults_def)
  then have "canonical_collection_config example_config 8 = Inr (kernel_config_to_python (kernel_defaults 8))"
    using canonical_accepts [of "kernel_config_to_python (kernel_defaults 8)" "kernel_defaults 8"]
    by (simp add: kernel_config_to_python_def example_config_def)
  then show ?thesis using from_kernel_to_python [of _ "kernel_defaults 8"] valid by simp
qed

lemma example_entry_simps [simp]:
  "e_shard_id example_entry = 0" "e_term example_entry = 1" "e_placement_epoch example_entry = 1"
  "e_index example_entry = 1"
  "e_mutation example_entry = PDict [(''operation'', PStr ''delete''), (''id'', PInt 7)]"
  by (simp_all add: example_entry_def entry_create_def)

section \<open>When a commit succeeds\<close>

lemma shard_commit_fresh:
  assumes "e_shard_id e = sh_shard_id s" and "e_term e = sh_term s"
    and "e_placement_epoch e = sh_placement_epoch s" and "entry_validate e = Inr ()"
    and "mutation_ok (Some (sh_dimension s)) (e_mutation e)" and "prepared (sh_journal s) (e_index e) = None"
    and "e_index e \<notin> committed (sh_journal s)" and "sh_applied_index s < e_index e"
    and "collection_apply api (sh_dimension s) (e_mutation e) (sh_collection s) = (Inr (), c)"
  shows "\<exists>r s'. shard_commit api e s = (Inr r, s') \<and> sh_collection s' = c \<and> sh_applied_index s' = e_index e"
proof -
  let ?j = "(journal_append (prepare_payload e) (sh_journal s))\<lparr>prepared := (prepared (sh_journal s))(e_index e \<mapsto> e)\<rparr>"
  have "journal_prepare e (sh_journal s) = Inr ?j" using assms journal_prepare_fresh by blast
  moreover obtain k where "journal_commit (e_index e) ?j = Inr (e, k)" by (simp add: journal_commit_def)
  moreover have "validate_replicated_mutation (e_mutation e) (Some (sh_dimension s)) = Inr ()"
    using assms(5) by (simp add: validate_replicated_mutation_ok)
  ultimately show ?thesis
    using assms(1-3,8,9)
    by (simp add: shard_commit_def validate_entry_epoch_def on_journal_def journal_commit_action_def
        replay_entry_run)
qed

lemma example_apply:
  "collection_apply list_api 8 (e_mutation example_entry) c = (Inr (), filter (\<lambda>p. fst p \<noteq> 7) c)"
proof -
  have "mutation_ok (Some 8) (e_mutation example_entry)"
    by (simp add: mutation_ok_def delete_ok_def has_fields_def dict_keys_def DELETE_MUTATION_FIELDS_def)
  then have "validate_replicated_mutation (e_mutation example_entry) (Some 8) = Inr ()"
    by (simp add: validate_replicated_mutation_ok)
  then show ?thesis by (simp add: collection_apply_def as_dict_or_def dget_def list_api_def)
qed

lemma example_commit:
  obtains r s' where "shard_commit list_api example_entry example_shard = (Inr r, s')" "sh_collection s' = []"
    "sh_applied_index s' = 1"
proof -
  have "mutation_ok (Some 8) (e_mutation example_entry)" using collection_apply_ok [OF example_apply] .
  then have "\<exists>r s'. shard_commit list_api example_entry example_shard = (Inr r, s') \<and> sh_collection s' = [] \<and>
      sh_applied_index s' = e_index example_entry"
    by (intro shard_commit_fresh) (simp_all only: example_shard_simps example_apply empty_journal_simps
        example_entry_ok, simp_all)
  then show ?thesis using that by auto
qed

section \<open>The log\<close>

text \<open>
  C3: A replica implements its log: when the collection is the result of applying the
  committed entries in index order and a commit with a higher index succeeds, the entry is
  appended to the log and the collection is the result of applying the longer log.
\<close>

theorem replica_refines_log:
  assumes "implements_log api c s" and "shard_inv s" and "encodable_entry e"
    and "sh_applied_index s < e_index e" and "shard_commit api e s = (Inr r, s')"
  shows "implements_log api c s' \<and> sh_applied_index s' = e_index e \<and>
    (\<exists>x. log_entries (sh_journal s') = log_entries (sh_journal s) @ [x] \<and> e_index x = e_index e \<and>
       e_mutation_checksum x = e_mutation_checksum e)"
  using implements_log_commit [OF assms] .

theorem replica_refines_log_witness:
  "\<exists>r s'. shard_commit list_api example_entry example_shard = (Inr r, s') \<and>
     implements_log list_api [(7, [])] s' \<and> sh_applied_index s' = 1"
proof -
  obtain r s' where run: "shard_commit list_api example_entry example_shard = (Inr r, s')"
    by (rule example_commit)
  then show ?thesis
    using replica_refines_log [OF example_shard_inv(3,1) example_entry_ok(2) _ run] by auto
qed

section \<open>Crashes\<close>

lemma reopen_caught_up:
  assumes inv: "shard_inv s" and up: "caught_up s"
    and config: "rbind (canonical_collection_config config (sh_dimension s)) config_from_kernel = Inr (sh_config s)"
    and durable: "c_open api (Some (sh_collection s)) (sh_dimension s) (sh_config s) = Inr c"
  shows "open_shard api (sh_shard_id s) (sh_dimension s) config (shard_disk s) =
    (Inr (reopened s c), shard_disk (reopened s c))"
proof -
  have ok: "tables_ok (stored_journal (sh_journal s))" "finite (committed (sh_journal s))"
    using inv tables_ok_stored by (auto simp: shard_inv_def journal_inv_def tables_ok_def [of "sh_journal s"])
  then have "committed_after (sh_applied_index s) (stored_journal (sh_journal s)) = Inr []"
    using committed_after_run [OF ok(1)] up by (auto simp: caught_up_def filter_empty_conv)
  then have "replay_committed api (reopened s c) = (Inr (), reopened s c)"
    by (simp add: replay_committed_def reopened_def)
  then show ?thesis using open_shard_disk [OF inv config durable] by simp
qed



section \<open>The life of a replica\<close>

lemma parse_state_fallback: "parse_state (state_payload 0 0 0) = Inr (0, 0, 0)"
  by (simp add: parse_state_def state_payload_def has_fields_def dict_keys_def REPLICA_STATE_FIELDS_def
      dget_int_def dget_def insert_commute)

lemma fresh_shard_inv:
  assumes "open_shard api i n config empty_root = (Inr s, disk)"
  shows "shard_inv s"
proof -
  obtain t c where t: "rbind (canonical_collection_config config n) config_from_kernel = Inr t"
    and c: "c_open api None n t = Inr c"
    and s: "replay_committed api \<lparr>sh_shard_id = i, sh_dimension = n, sh_config = t, sh_term = 0,
      sh_placement_epoch = 0, sh_applied_index = 0, sh_journal = empty_journal None, sh_collection = c,
      sh_state_file = None, sh_stage = None, sh_backup = None, sh_failed = None\<rparr> = (Inr (), s)"
    using assms parse_state_fallback
    by (auto simp: open_shard_def empty_root_def recover_snapshot_workspaces_def empty_dir_def load_checked_def
        journal_inv_fresh Let_def simp del: rbind_eq_Inr split: sum.splits prod.splits)
  have "replay_committed api u = (Inr (), u)" if "sh_journal u = empty_journal None" for u :: "'a shard"
    using that by (simp add: replay_committed_def committed_after_def)
  then show ?thesis using s by (auto simp: shard_inv_def read_state_def load_checked_def parse_state_fallback)
qed

text \<open>
  C13: From the moment a replica is created, through any sequence of configurations,
  prepares, commits, reads and snapshot installations, whatever they raise: its journal
  file and its state file describe its memory, and its term, placement epoch and applied
  index never decrease.
\<close>

theorem replica_invariant:
  assumes "open_shard api i n config empty_root = (Inr s, disk)"
    and "(shard_step api)\<^sup>*\<^sup>* s t" and "(shard_step api)\<^sup>*\<^sup>* t u"
  shows "journal_load (j_file (sh_journal u)) = Inr (stored_journal (sh_journal u)) \<and>
    read_state (sh_state_file u) = Inr (sh_term u, sh_placement_epoch u, sh_applied_index u) \<and>
    sh_term t \<le> sh_term u \<and> sh_placement_epoch t \<le> sh_placement_epoch u \<and>
    sh_applied_index t \<le> sh_applied_index u"
proof -
  have "shard_inv t" using shard_steps_inv [OF assms(2)] fresh_shard_inv [OF assms(1)] by blast
  then have "shard_inv u" "shard_before t u" using shard_steps_inv [OF assms(3)] by blast+
  then show ?thesis by (simp add: shard_inv_def shard_before_def journal_inv_reload)
qed

theorem replica_invariant_witness:
  "\<exists>s disk r u. open_shard list_api 0 8 example_config empty_root = (Inr s, disk) \<and>
     shard_configure list_api 3 1 s = (r, u) \<and> sh_term u = 3 \<and> read_state (sh_state_file u) = Inr (3, 1, 0)"
proof -
  obtain s disk where s: "open_shard list_api 0 8 example_config empty_root = (Inr s, disk)"
      "sh_term s = 0" "sh_placement_epoch s = 0" "sh_applied_index s = 0"
    using example_config_ok parse_state_fallback
    by (simp add: open_shard_def empty_root_def recover_snapshot_workspaces_def empty_dir_def load_checked_def
        journal_inv_fresh list_api_def replay_committed_def committed_after_def Let_def)
  obtain r u where u: "shard_configure list_api 3 1 s = (r, u)" by force
  then have "sh_term u = 3" "sh_placement_epoch u = 1" "sh_applied_index u = 0"
    using s by (auto simp: shard_configure_def publish_state_def shard_status_def on_collection_run
        split: prod.splits sum.splits)
  then show ?thesis
    using replica_invariant [OF s(1) _ r_into_rtranclp, OF rtranclp.rtrancl_refl shard_step.configure [OF u]] s u
    by auto
qed

section \<open>Fencing\<close>

lemma shard_configure_Inr:
  "shard_configure api t p s = (Inr r, s') \<Longrightarrow> sh_term s' = t \<and> sh_placement_epoch s' = p \<and> sh_shard_id s' = sh_shard_id s"
  by (auto simp: shard_configure_def publish_state_def shard_status_def on_collection_run
      split: prod.splits sum.splits if_splits)

lemma stale_entry:
  assumes "e_term e \<noteq> sh_term s \<or> e_placement_epoch e \<noteq> sh_placement_epoch s" and "e_shard_id e = sh_shard_id s"
  shows "shard_prepare e s = (Inl (StaleEpochError ''stale shard term or placement epoch''), s)"
    "shard_commit api e s = (Inl (StaleEpochError ''stale shard term or placement epoch''), s)"
  using assms by (auto simp: shard_prepare_def shard_commit_def validate_entry_epoch_def)

text \<open>
  C11: Once a replica accepted a configuration, every later prepare or commit of an entry
  with an older term or an older placement epoch is refused with \<open>StaleEpochError\<close> and
  leaves the replica as it was, whatever happened to it in between.
\<close>

theorem deposed_leader_fenced:
  assumes "shard_configure api t p s = (Inr r, s1)" and "(shard_step api)\<^sup>*\<^sup>* s1 s2" and "shard_inv s1"
    and "e_term e < t \<or> e_placement_epoch e < p" and "e_shard_id e = sh_shard_id s"
  shows "shard_prepare e s2 = (Inl (StaleEpochError ''stale shard term or placement epoch''), s2) \<and>
    shard_commit api e s2 = (Inl (StaleEpochError ''stale shard term or placement epoch''), s2)"
proof -
  have "shard_before s1 s2" using shard_steps_inv [OF assms(2,3)] by blast
  then have "e_term e \<noteq> sh_term s2 \<or> e_placement_epoch e \<noteq> sh_placement_epoch s2" "e_shard_id e = sh_shard_id s2"
    using shard_configure_Inr [OF assms(1)] assms(4,5) by (auto simp: shard_before_def)
  then show ?thesis using stale_entry by blast
qed

theorem deposed_leader_fenced_witness:
  "\<exists>r s1. shard_configure list_api 2 1 example_shard = (Inr r, s1) \<and>
     shard_commit list_api example_entry s1 =
       (Inl (StaleEpochError ''stale shard term or placement epoch''), s1)"
proof -
  obtain r s1 where run: "shard_configure list_api 2 1 example_shard = (Inr r, s1)"
    by (auto simp: shard_configure_def publish_state_def shard_status_def on_collection_run list_api_def)
  moreover have "shard_inv s1"
    using inv_actionD [OF inv_shard_configure example_shard_inv(1) run] .
  ultimately show ?thesis
    using deposed_leader_fenced [OF run rtranclp.rtrancl_refl, of example_entry] by auto
qed

section \<open>Retried and late commits\<close>

lemma shard_commit_again:
  assumes "e_shard_id e = sh_shard_id s" "e_term e = sh_term s" "e_placement_epoch e = sh_placement_epoch s"
    and "entry_validate e = Inr ()" and "mutation_ok (Some (sh_dimension s)) (e_mutation e)"
    and "prepared (sh_journal s) (e_index e) = Some x" and "e_mutation_checksum x = e_mutation_checksum e"
    and "e_index e \<in> committed (sh_journal s)" and "e_index x \<le> sh_applied_index s"
  shows "shard_commit api e s = (Inr (PDict [(''committed_index'', PInt (e_index e)),
    (''applied_index'', PInt (sh_applied_index s))]), s)"
proof -
  have "journal_prepare e (sh_journal s) = Inr (sh_journal s)"
    using journal_prepare_duplicate [OF assms(6,4)] assms(7) by simp
  moreover have "journal_commit (e_index e) (sh_journal s) = Inr (x, sh_journal s)"
    using assms(6,8) by (simp add: journal_commit_def)
  moreover have "validate_replicated_mutation (e_mutation e) (Some (sh_dimension s)) = Inr ()"
    using assms(5) by (simp add: validate_replicated_mutation_ok)
  ultimately show ?thesis
    using assms(1-3,9)
    by (simp add: shard_commit_def validate_entry_epoch_def on_journal_def journal_commit_action_def)
qed

lemma shard_commit_idem:
  assumes "shard_inv s" and "encodable_entry e" and "shard_commit api e s = (Inr r, s')"
  shows "shard_commit api e s' = (Inr r, s')"
proof -
  obtain j x k where c: "e_shard_id e = sh_shard_id s" "e_term e = sh_term s"
    "e_placement_epoch e = sh_placement_epoch s" "mutation_ok (Some (sh_dimension s)) (e_mutation e)"
    and p: "journal_prepare e (sh_journal s) = Inr j" "journal_commit (e_index e) j = Inr (x, k)"
    and r: "r = PDict [(''committed_index'', PInt (e_index e)), (''applied_index'', PInt (sh_applied_index s'))]"
    and step: "if sh_applied_index s < e_index x then replay_entry api x (s\<lparr>sh_journal := k\<rparr>) = (Inr (), s')
     else s' = s\<lparr>sh_journal := k\<rparr>"
    using assms(3) by (rule shard_commit_Inr)
  have inv: "journal_inv (sh_journal s)" using assms(1) by (simp add: shard_inv_def)
  note x = journal_commit_entry [OF inv assms(2) p]
  have s': "sh_shard_id s' = sh_shard_id s" "sh_term s' = sh_term s" "sh_dimension s' = sh_dimension s"
    "sh_placement_epoch s' = sh_placement_epoch s" "sh_journal s' = k" "e_index x \<le> sh_applied_index s'"
    using step by (auto simp: replay_entry_run split: if_splits prod.splits sum.splits)
  have "entry_validate e = Inr ()" using p(1) by (rule journal_prepare_result)
  then show ?thesis using shard_commit_again [of e s' x api] c x r s' by auto
qed

text \<open>
  A commit that is retried (the coordinator lost the response) answers the same and
  changes nothing: the mutation is not applied a second time.
\<close>

theorem commit_retry:
  assumes "shard_inv s" and "encodable_entry e" and "shard_commit api e s = (Inr r, s')"
  shows "shard_commit api e s' = (Inr r, s')"
  using shard_commit_idem [OF assms] .

theorem commit_retry_witness:
  "\<exists>r s'. shard_commit list_api example_entry example_shard = (Inr r, s') \<and>
     shard_commit list_api example_entry s' = (Inr r, s')"
proof -
  obtain r s' where run: "shard_commit list_api example_entry example_shard = (Inr r, s')"
    by (rule example_commit)
  then show ?thesis using commit_retry [OF example_shard_inv(1) example_entry_ok(2) run] by blast
qed

text \<open>
  A commit whose index is not above the applied index, as when it is delivered after a
  later one, is journalled and acknowledged as committed, but its mutation is never applied:
  the collection does not change, and neither the replay of a reopening nor catching up from
  the applied index has the entry.
\<close>

theorem late_commit_not_applied:
  assumes "shard_inv s" and "encodable_entry e" and "e_index e \<le> sh_applied_index s"
    and "shard_commit api e s = (Inr r, s')"
  shows "sh_collection s' = sh_collection s \<and> sh_applied_index s' = sh_applied_index s \<and>
    e_index e \<in> committed (sh_journal s') \<and>
    (\<exists>es. committed_after (sh_applied_index s') (sh_journal s') = Inr es \<and> e_index e \<notin> set (map e_index es))"
proof -
  obtain j x k where p: "journal_prepare e (sh_journal s) = Inr j" "journal_commit (e_index e) j = Inr (x, k)"
    and step: "if sh_applied_index s < e_index x then replay_entry api x (s\<lparr>sh_journal := k\<rparr>) = (Inr (), s')
     else s' = s\<lparr>sh_journal := k\<rparr>"
    using assms(4) by (rule shard_commit_Inr)
  have inv: "journal_inv (sh_journal s)" using assms(1) by (simp add: shard_inv_def)
  note x = journal_commit_entry [OF inv assms(2) p]
  have s': "s' = s\<lparr>sh_journal := k\<rparr>" using step x(1) assms(3) by simp
  have tables: "tables_ok k" using journal_commit_inv [OF journal_prepare_inv [OF inv assms(2) p(1)] p(2)]
    by (simp add: journal_inv_def)
  have "e_index (the (prepared k i)) = i" if "i \<in> committed k" for i
    using tables_ok_prepared [OF tables that] by auto
  then have "e_index e \<notin> set (map e_index (map (\<lambda>i. the (prepared k i))
      (filter (\<lambda>i. sh_applied_index s < i) (sorted_list_of_set (committed k)))))"
    using assms(3) tables by (auto simp: tables_ok_def [of k])
  then show ?thesis using committed_after_run [OF tables] x(4) by (simp add: s' image_image)
qed

text \<open>A replica that applied index 2 before index 1 arrived.\<close>

theorem late_commit_not_applied_witness:
  "\<exists>r s'. shard_commit list_api example_entry (example_shard\<lparr>sh_applied_index := 2, sh_state_file :=
       Some (checked_text (state_payload 1 1 2))\<rparr>) = (Inr r, s') \<and>
     sh_collection s' = [(7, [])] \<and> 1 \<in> committed (sh_journal s')"
proof -
  let ?s = "example_shard\<lparr>sh_applied_index := 2, sh_state_file := Some (checked_text (state_payload 1 1 2))\<rparr>"
  have inv: "shard_inv ?s" by (simp add: shard_inv_def)
  let ?j = "(journal_append (prepare_payload example_entry) (empty_journal None))\<lparr>prepared := [1 \<mapsto> example_entry]\<rparr>"
  have "journal_prepare example_entry (empty_journal None) = Inr ?j"
    using journal_prepare_fresh [OF example_entry_ok(1), of "empty_journal None"] by simp
  moreover obtain k where "journal_commit 1 ?j = Inr (example_entry, k)" by (simp add: journal_commit_def)
  moreover have "validate_replicated_mutation (e_mutation example_entry) (Some 8) = Inr ()"
    using collection_apply_ok [OF example_apply] by (simp add: validate_replicated_mutation_ok)
  ultimately obtain r s' where run: "shard_commit list_api example_entry ?s = (Inr r, s')"
    by (simp add: shard_commit_def validate_entry_epoch_def on_journal_def journal_commit_action_def)
  then show ?thesis using late_commit_not_applied [OF inv example_entry_ok(2) _ run] by auto
qed

section \<open>Installing a snapshot\<close>

text \<open>
  The directories as the two renames of an installation leave them one after the other:
  staging, the old directory moved aside, the staged one moved in, the old one removed; and
  those of a rollback: the installed directory moved aside, the old one moved back.
\<close>

definition install_disks :: "'c shard_dir \<Rightarrow> 'c shard_dir \<Rightarrow> 'c shard_root list" where
  "install_disks old staged =
     [\<lparr>r_root = Some old, r_stage = Some staged, r_backup = None, r_failed = None\<rparr>,
      \<lparr>r_root = None, r_stage = Some staged, r_backup = Some old, r_failed = None\<rparr>,
      \<lparr>r_root = Some staged, r_stage = None, r_backup = Some old, r_failed = None\<rparr>,
      \<lparr>r_root = Some staged, r_stage = None, r_backup = None, r_failed = None\<rparr>]"

definition rollback_disks :: "'c shard_dir \<Rightarrow> 'c shard_dir \<Rightarrow> 'c shard_root list" where
  "rollback_disks old staged =
     [\<lparr>r_root = None, r_stage = None, r_backup = Some old, r_failed = Some staged\<rparr>,
      \<lparr>r_root = Some old, r_stage = None, r_backup = None, r_failed = Some staged\<rparr>,
      \<lparr>r_root = Some old, r_stage = None, r_backup = None, r_failed = None\<rparr>]"

lemma open_shard_recovered:
  assumes "recover_snapshot_workspaces disk = recover_snapshot_workspaces disk'"
    and "rbind (canonical_collection_config config n) config_from_kernel = Inr t"
  shows "open_shard api i n config disk = open_shard api i n config disk'"
  unfolding open_shard_def assms by simp

lemma open_staged:
  assumes staged: "staged_ok index t p d" and "d_collection d = Some c"
    and config: "rbind (canonical_collection_config config n) config_from_kernel = Inr cfg"
    and durable: "c_open api (Some c) n cfg = Inr c"
    and root: "recover_snapshot_workspaces disk = \<lparr>r_root = Some d, r_stage = None, r_backup = None, r_failed = None\<rparr>"
  shows "\<exists>s. fst (open_shard api i n config disk) = Inr s \<and> sh_term s = t \<and> sh_placement_epoch s = p \<and>
    sh_applied_index s = index \<and> sh_collection s = c \<and> snapshot_index (sh_journal s) = index"
proof -
  obtain j where j: "journal_load (d_log d) = Inr j" "snapshot_index j = index" "committed j = {}"
      "rbind (load_checked (d_state d) (state_payload 0 0 0)) parse_state = Inr (t, p, index)"
    using staged by (auto simp: staged_ok_def read_state_def simp del: rbind_eq_Inr)
  have "replay_committed api s = (Inr (), s)" if "sh_journal s = j" for s :: "'a shard"
    using that j(3) by (simp add: replay_committed_def committed_after_def)
  then show ?thesis
    using j assms(2) durable unfolding open_shard_def config root Let_def by (simp del: rbind_eq_Inr)
qed



end
