(* ===== verification/Server.thy ===== *)
theory Server
  imports ReplicaProperties
begin

text \<open>
  The process of a replica (replica.py, \<open>replica_server_main\<close> and \<open>ReplicaProcess\<close>): the
  request loop over the shards the process has opened, with its fault injection, and the
  client side that starts, calls, stops and kills it. A request is the dictionary that goes
  over the connection. Timeouts of the operating system (a process that does not get ready,
  a join that expires) are not modelled.
\<close>

section \<open>Error names\<close>

text \<open>\<open>type(error).__name__\<close> and \<open>str(error)\<close> of what the operations raise.\<close>

fun error_name :: "err \<Rightarrow> string" where
  "error_name (ProtocolError m) = ''ProtocolError''"
| "error_name (StaleEpochError m) = ''StaleEpochError''"
| "error_name (ReplicaUnavailable m) = ''ReplicaUnavailable''"
| "error_name (QuorumUnavailable m) = ''QuorumUnavailable''"
| "error_name (ClusterClosedError m) = ''ClusterClosedError''"
| "error_name (ValidationError m) = ''ValidationError''"
| "error_name (CollectionAlreadyOpenError m) = ''CollectionAlreadyOpenError''"
| "error_name (CollectionClosedError m) = ''CollectionClosedError''"
| "error_name (CollectionNotFoundError m) = ''CollectionNotFoundError''"
| "error_name (ValueError m) = ''ValueError''"
| "error_name (TypeError m) = ''TypeError''"
| "error_name (KeyError m) = ''KeyError''"
| "error_name (IndexError m) = ''IndexError''"
| "error_name (OverflowError m) = ''OverflowError''"
| "error_name (ZeroDivisionError m) = ''ZeroDivisionError''"
| "error_name (RuntimeError m) = ''RuntimeError''"
| "error_name (JSONDecodeError m) = ''JSONDecodeError''"
| "error_name (UnicodeDecodeError m) = ''UnicodeDecodeError''"
| "error_name (FileNotFoundError m) = ''FileNotFoundError''"
| "error_name (FileExistsError m) = ''FileExistsError''"

fun error_text :: "err \<Rightarrow> string" where
  "error_text (ProtocolError m) = m"
| "error_text (StaleEpochError m) = m"
| "error_text (ReplicaUnavailable m) = m"
| "error_text (QuorumUnavailable m) = m"
| "error_text (ClusterClosedError m) = m"
| "error_text (ValidationError m) = m"
| "error_text (CollectionAlreadyOpenError m) = m"
| "error_text (CollectionClosedError m) = m"
| "error_text (CollectionNotFoundError m) = m"
| "error_text (ValueError m) = m"
| "error_text (TypeError m) = m"
| "error_text (KeyError m) = CHR 0x27 # m @ [CHR 0x27]"
| "error_text (IndexError m) = m"
| "error_text (OverflowError m) = m"
| "error_text (ZeroDivisionError m) = m"
| "error_text (RuntimeError m) = m"
| "error_text (JSONDecodeError m) = m"
| "error_text (UnicodeDecodeError m) = m"
| "error_text (FileNotFoundError m) = m"
| "error_text (FileExistsError m) = m"

section \<open>The server\<close>

type_synonym request = "(string \<times> pyval) list"

record 'c server =
  sv_shards :: "(int \<times> 'c shard) list"
  sv_disks :: "int \<Rightarrow> 'c shard_root"
  sv_partitioned :: bool
  sv_drop_commit :: int
  sv_drop_query :: int
  sv_running :: bool

definition start_server :: "(int \<Rightarrow> 'c shard_root) \<Rightarrow> 'c server" where
  "start_server disks =
     \<lparr>sv_shards = [], sv_disks = disks, sv_partitioned = False, sv_drop_commit = 0, sv_drop_query = 0,
      sv_running = True\<rparr>"

text \<open>The directories of all shards, opened or not.\<close>

definition server_disks :: "'c server \<Rightarrow> int \<Rightarrow> 'c shard_root" where
  "server_disks s i = (case map_of (sv_shards s) i of Some sh \<Rightarrow> shard_disk sh | None \<Rightarrow> sv_disks s i)"

text \<open>\<open>bool(value)\<close>\<close>

fun py_truth :: "pyval \<Rightarrow> bool" where
  "py_truth PNone = False"
| "py_truth (PBool b) = b"
| "py_truth (PInt i) = (i \<noteq> 0)"
| "py_truth (PFloat f) = (case f of FFin s n \<Rightarrow> n \<noteq> 0 | FInf s \<Rightarrow> True | FNaN \<Rightarrow> True)"
| "py_truth (PStr s) = (s \<noteq> [])"
| "py_truth (PList xs) = (xs \<noteq> [])"
| "py_truth (PDict d) = (d \<noteq> [])"

text \<open>A dictionary key or set member must be hashable.\<close>

fun hashable :: "pyval \<Rightarrow> bool" where
  "hashable (PList xs) = False"
| "hashable (PDict d) = False"
| "hashable v = True"

definition on_shard :: "int \<Rightarrow> ('c shard, 'a) action \<Rightarrow> ('c server, 'a) action" where
  "on_shard i a = (\<lambda>s.
     case map_of (sv_shards s) i of
       None \<Rightarrow> (Inl (ProtocolError ''replica does not own requested shard''), s)
     | Some sh \<Rightarrow>
         (case a sh of (r, sh') \<Rightarrow> (r, s\<lparr>sv_shards := dict_set i sh' (sv_shards s)\<rparr>)))"

definition open_if_absent :: "'c collection_api \<Rightarrow> int \<Rightarrow> pyval \<Rightarrow> int \<Rightarrow> ('c server, unit) action" where
  "open_if_absent api dimension config shard_id = (\<lambda>s.
     case map_of (sv_shards s) shard_id of
       Some sh \<Rightarrow> (Inr (), s)
     | None \<Rightarrow>
         (case open_shard api shard_id dimension config (sv_disks s shard_id) of
            (Inl e, disk) \<Rightarrow> (Inl e, s\<lparr>sv_disks := (sv_disks s)(shard_id := disk)\<rparr>)
          | (Inr sh, disk) \<Rightarrow>
              (Inr (), s\<lparr>sv_disks := (sv_disks s)(shard_id := disk),
                         sv_shards := dict_set shard_id sh (sv_shards s)\<rparr>)))"

definition int_item :: "request \<Rightarrow> string \<Rightarrow> int result" where
  "int_item request k = rbind (dget request k) py_to_int"

definition export_shard :: "'c collection_api \<Rightarrow> ('c shard, pyval) action" where
  "export_shard api =
     bind (shard_export api) (\<lambda>rows.
     bind (gets sh_applied_index) (\<lambda>applied_index.
     bind (gets (\<lambda>s. config_fields (sh_config s))) (\<lambda>exported_config.
     ok (PDict [(''rows'', rows), (''applied_index'', PInt applied_index),
       (''collection_config'', PDict exported_config),
       (''snapshot_checksum'', PInt (snapshot_checksum rows exported_config applied_index))]))))"

definition shard_operation :: "'c collection_api \<Rightarrow> pyval \<Rightarrow> request \<Rightarrow> ('c shard, pyval) action" where
  "shard_operation api operation request =
     (if operation = PStr ''prepare'' then
        bind (pure (rbind (dget request ''entry'') entry_from_dict)) shard_prepare
      else if operation = PStr ''commit'' then
        bind (pure (rbind (dget request ''entry'') entry_from_dict)) (shard_commit api)
      else if operation = PStr ''query'' then
        bind (pure (dget request ''request'')) (shard_query api)
      else if operation = PStr ''get'' then
        bind (pure (int_item request ''id'')) (shard_get api)
      else if operation = PStr ''export'' then export_shard api
      else if operation = PStr ''entries'' then
        bind (pure (int_item request ''after_index'')) shard_entries_after
      else if operation = PStr ''install_snapshot'' then
        bind (pure (dget request ''rows'')) (\<lambda>rows.
        bind (pure (dget request ''collection_config'')) (\<lambda>config.
        bind (pure (dget request ''index'')) (\<lambda>index.
        bind (pure (dget request ''term'')) (\<lambda>term.
        bind (pure (dget request ''placement_epoch'')) (\<lambda>placement_epoch.
        bind (pure (dget request ''snapshot_checksum'')) (\<lambda>checksum.
        shard_install_snapshot api rows config index term placement_epoch checksum))))))
      else if operation = PStr ''status'' then shard_status api
      else raise (ProtocolError ''unknown replica RPC operation''))"

definition serve_operation ::
  "'c collection_api \<Rightarrow> int \<Rightarrow> pyval \<Rightarrow> pyval \<Rightarrow> request \<Rightarrow> ('c server, pyval) action" where
  "serve_operation api dimension config operation request =
     (if operation = PStr ''partition'' then
        bind (pure (dget request ''enabled'')) (\<lambda>enabled.
        bind (modify (\<lambda>s. s\<lparr>sv_partitioned := py_truth enabled\<rparr>)) (\<lambda>_.
        ok (PDict [(''partitioned'', PBool (py_truth enabled))])))
      else if operation = PStr ''fault'' then
        bind (pure (py_to_int (dget_default request ''drop_commit_responses'' (PInt 0)))) (\<lambda>commits.
        bind (modify (\<lambda>s. s\<lparr>sv_drop_commit := commits\<rparr>)) (\<lambda>_.
        bind (pure (py_to_int (dget_default request ''drop_query_responses'' (PInt 0)))) (\<lambda>queries.
        bind (modify (\<lambda>s. s\<lparr>sv_drop_query := queries\<rparr>)) (\<lambda>_.
        ok (PDict [(''drop_commit_responses'', PInt commits), (''drop_query_responses'', PInt queries)])))))
      else if operation = PStr ''shutdown'' then
        bind (modify (\<lambda>s. s\<lparr>sv_running := False\<rparr>)) (\<lambda>_. ok (PDict [(''stopped'', PBool True)]))
      else
        bind (pure (int_item request ''shard_id'')) (\<lambda>shard_id.
        if operation = PStr ''configure'' then
          bind (open_if_absent api dimension config shard_id) (\<lambda>_.
          bind (pure (int_item request ''term'')) (\<lambda>term.
          bind (pure (int_item request ''placement_epoch'')) (\<lambda>placement_epoch.
          on_shard shard_id (shard_configure api term placement_epoch))))
        else on_shard shard_id (shard_operation api operation request)))"

text \<open>What the client sees of one request.\<close>

datatype reply = Answer pyval | Failure string string | Dropped | Crashed

definition handle_request ::
  "'c collection_api \<Rightarrow> int \<Rightarrow> pyval \<Rightarrow> request \<Rightarrow> 'c server \<Rightarrow> reply \<times> 'c server" where
  "handle_request api dimension config request s =
     (let operation = dget_default request ''operation'' PNone in
      if sv_partitioned s \<and> \<not> hashable operation then (Failure ''TypeError'' ''unhashable type'', s)
      else if sv_partitioned s \<and> operation \<notin> {PStr ''partition'', PStr ''fault'', PStr ''shutdown''} then
        (Failure ''ReplicaUnavailable'' ''replica is network partitioned'', s)
      else if operation = PStr ''crash'' then (Crashed, s)
      else
        (case serve_operation api dimension config operation request s of
           (Inl e, s') \<Rightarrow> (Failure (error_name e) (error_text e), s')
         | (Inr result, s') \<Rightarrow>
             if operation = PStr ''commit'' \<and> 0 < sv_drop_commit s' then
               (Dropped, s'\<lparr>sv_drop_commit := sv_drop_commit s' - 1\<rparr>)
             else if operation = PStr ''query'' \<and> 0 < sv_drop_query s' then
               (Dropped, s'\<lparr>sv_drop_query := sv_drop_query s' - 1\<rparr>)
             else (Answer result, s')))"

text \<open>
  After the loop every shard is closed; a failing close ends the process, so the shards
  after it are left as a crash leaves them.
\<close>

fun close_shards :: "'c collection_api \<Rightarrow> (int \<times> 'c shard) list \<Rightarrow> (int \<times> 'c shard) list" where
  "close_shards api [] = []"
| "close_shards api ((i, sh) # rest) =
     (case shard_close api sh of
        (Inl e, sh') \<Rightarrow> (i, sh') # rest
      | (Inr _, sh') \<Rightarrow> (i, sh') # close_shards api rest)"

section \<open>The client\<close>

record 'c node =
  nd_disks :: "int \<Rightarrow> 'c shard_root"
  nd_server :: "'c server option"

definition node_alive :: "'c node \<Rightarrow> bool" where
  "node_alive n \<longleftrightarrow> nd_server n \<noteq> None"

definition node_start :: "('c node, unit) action" where
  "node_start = (\<lambda>n.
     if node_alive n then (Inl (RuntimeError ''replica process is already running''), n)
     else (Inr (), n\<lparr>nd_server := Some (start_server (nd_disks n))\<rparr>))"

text \<open>The process is gone; what it wrote stays.\<close>

definition node_exit :: "'c server \<Rightarrow> 'c node \<Rightarrow> 'c node" where
  "node_exit s n = n\<lparr>nd_disks := server_disks s, nd_server := None\<rparr>"

definition reply_result :: "reply \<Rightarrow> pyval result" where
  "reply_result r =
     (case r of
        Answer v \<Rightarrow> Inr v
      | Failure name message \<Rightarrow>
          if name = ''StaleEpochError'' then Inl (StaleEpochError message)
          else if name = ''ReplicaUnavailable'' then Inl (ReplicaUnavailable message)
          else Inl (ProtocolError message)
      | Dropped \<Rightarrow> Inl (ReplicaUnavailable ''replica RPC failed'')
      | Crashed \<Rightarrow> Inl (ReplicaUnavailable ''replica RPC failed''))"

definition node_rpc :: "'c collection_api \<Rightarrow> int \<Rightarrow> pyval \<Rightarrow> request \<Rightarrow> ('c node, pyval) action" where
  "node_rpc api dimension config request = (\<lambda>n.
     case nd_server n of
       None \<Rightarrow> (Inl (ReplicaUnavailable ''replica is unavailable''), n)
     | Some s \<Rightarrow>
         (case handle_request api dimension config request s of (reply, s') \<Rightarrow>
          (reply_result reply,
           if reply = Crashed then node_exit s' n
           else if \<not> sv_running s' then node_exit (s'\<lparr>sv_shards := close_shards api (sv_shards s')\<rparr>) n
           else n\<lparr>nd_server := Some s'\<rparr>)))"

definition node_crash :: "('c node, unit) action" where
  "node_crash = modify (\<lambda>n. case nd_server n of None \<Rightarrow> n | Some s \<Rightarrow> node_exit s n)"

text \<open>The process is joined, and terminated if it did not leave.\<close>

definition node_stop :: "'c collection_api \<Rightarrow> int \<Rightarrow> pyval \<Rightarrow> ('c node, unit) action" where
  "node_stop api dimension config = (\<lambda>n.
     if \<not> node_alive n then (Inr (), n)
     else
       (case node_rpc api dimension config [(''operation'', PStr ''shutdown'')] n of (r, n') \<Rightarrow>
        (rbind r (\<lambda>_. Inr ()), snd (node_crash n'))))"

end
