(* ===== verification/ServerSafety.thy ===== *)
theory ServerSafety
  imports Server
begin

text \<open>
  The invariant of a replica process: every open shard satisfies the shard invariant, and the
  directories of all other shards can be read. It survives requests, whatever they raise,
  stopping, crashes between requests and crashes that cut a journal append short.
\<close>

section \<open>Directories that can be read\<close>

definition disk_readable :: "'c shard_root \<Rightarrow> bool" where
  "disk_readable d \<longleftrightarrow>
     (case r_root (recover_snapshot_workspaces d) of
        None \<Rightarrow> True
      | Some dir \<Rightarrow> (\<exists>t. read_state (d_state dir) = Inr t) \<and> (\<exists>j. journal_load (d_log dir) = Inr j \<and> journal_inv j))"

lemma recover_idem [simp]:
  "recover_snapshot_workspaces (recover_snapshot_workspaces d) = recover_snapshot_workspaces d"
  by (simp add: recover_snapshot_workspaces_def Let_def)

lemma recover_root [simp]:
  "r_root d \<noteq> None \<Longrightarrow> r_root (recover_snapshot_workspaces d) = r_root d"
  "r_backup (recover_snapshot_workspaces d) = None"
  by (simp_all add: recover_snapshot_workspaces_def Let_def)

lemma shard_disk_readable: "shard_inv s \<Longrightarrow> disk_readable (shard_disk s)"
  using journal_inv_reload [of "sh_journal s"] journal_inv_stored [of "sh_journal s" "j_file (sh_journal s)"]
  by (auto simp: disk_readable_def shard_inv_def recover_disk shard_disk_def stored_journal_file)

lemma empty_root_readable [simp]: "disk_readable empty_root"
  by (simp add: disk_readable_def empty_root_def recover_snapshot_workspaces_def)

lemma read_state_none [simp]: "read_state None = Inr (0, 0, 0)"
  by (simp add: read_state_def load_checked_def parse_state_fallback)

lemma replay_entry_shard: "replay_entry api e s = (x, s') \<Longrightarrow> sh_shard_id s' = sh_shard_id s"
  by (auto simp: replay_entry_run split: prod.splits sum.splits)

lemma each_replay_shard: "each (replay_entry api) es s = (x, s') \<Longrightarrow> sh_shard_id s' = sh_shard_id s"
  by (induction es arbitrary: s) (auto split: prod.splits sum.splits dest!: replay_entry_shard)

lemma replay_committed_shard: "replay_committed api s = (x, s') \<Longrightarrow> sh_shard_id s' = sh_shard_id s"
  by (auto simp: replay_committed_def each_replay_shard split: sum.splits)

lemma open_shard_readable:
  fixes d :: "'c shard_root"
  assumes "disk_readable d" and "open_shard api i n config d = (r, d')"
  shows "disk_readable d'" "\<And>s. r = Inr s \<Longrightarrow> shard_inv s \<and> sh_shard_id s = i \<and> d' = shard_disk s"
proof -
  let ?dir = "case r_root (recover_snapshot_workspaces d) of None \<Rightarrow> empty_dir | Some dir \<Rightarrow> dir"
  obtain t p a j where st: "rbind (load_checked (d_state ?dir) (state_payload 0 0 0)) parse_state = Inr (t, p, a)"
    and j: "journal_load (d_log ?dir) = Inr j" "journal_inv j"
  proof (cases "r_root (recover_snapshot_workspaces d)")
    case None
    then show ?thesis
      using that [of 0 0 0 "empty_journal None"] read_state_none
      by (simp add: empty_dir_def read_state_def journal_inv_fresh del: rbind_eq_Inr)
  next
    case (Some dir)
    then obtain x j where "read_state (d_state dir) = Inr x" "journal_load (d_log dir) = Inr j" "journal_inv j"
      using assms(1) by (auto simp: disk_readable_def)
    then show ?thesis using that Some by (cases x) (simp add: read_state_def del: rbind_eq_Inr)
  qed
  have stays: "disk_readable ((recover_snapshot_workspaces d)\<lparr>r_root := Some (?dir\<lparr>d_log := f\<rparr>)\<rparr>)"
    if "journal_load f = Inr k" "journal_inv k" for f k
    using that st by (auto simp: disk_readable_def read_state_def simp del: rbind_eq_Inr)
  have reload: "journal_load (j_file j) = Inr (stored_journal j)" "journal_inv (stored_journal j)"
    using j(2) journal_inv_reload journal_inv_stored [of j "j_file j"] by (simp_all add: stored_journal_file)
  define s0 where "s0 cfg c = \<lparr>sh_shard_id = i, sh_dimension = n, sh_config = cfg, sh_term = t,
      sh_placement_epoch = p, sh_applied_index = a, sh_journal = j, sh_collection = c,
      sh_state_file = d_state ?dir, sh_stage = None, sh_backup = None, sh_failed = None\<rparr>" for cfg and c :: 'c
  have inv0: "shard_inv (s0 cfg c)" "sh_shard_id (s0 cfg c) = i" for cfg c
    using st j(2) by (simp_all add: s0_def shard_inv_def read_state_def del: rbind_eq_Inr)
  have run: "open_shard api i n config d =
    (case rbind (canonical_collection_config config n) config_from_kernel of
       Inl e \<Rightarrow> (Inl e, d)
     | Inr cfg \<Rightarrow>
         (case c_open api (d_collection ?dir) n cfg of
            Inl e \<Rightarrow> (Inl e, (recover_snapshot_workspaces d)\<lparr>r_root := Some (?dir\<lparr>d_log := j_file j\<rparr>)\<rparr>)
          | Inr c \<Rightarrow>
              (case replay_committed api (s0 cfg c) of
                 (Inl e, s') \<Rightarrow> (Inl e, shard_disk s') | (Inr _, s') \<Rightarrow> (Inr s', shard_disk s'))))"
    unfolding open_shard_def Let_def s0_def by (simp add: st j(1) del: rbind_eq_Inr split: sum.split)
  have replayed: "shard_inv s' \<and> sh_shard_id s' = i" if "replay_committed api (s0 cfg c) = (x, s')" for cfg c x s'
    using inv_actionD [OF inv_replay_committed inv0(1) that] replay_committed_shard [OF that] inv0(2) by simp
  have "disk_readable (shard_disk s')" if "replay_committed api (s0 cfg c) = (x, s')" for cfg c x s'
    using replayed [OF that] shard_disk_readable by blast
  then show "disk_readable d'"
    using assms(2) assms(1) stays [OF reload] unfolding run
    by (auto split: sum.splits prod.splits)
  show "shard_inv s \<and> sh_shard_id s = i \<and> d' = shard_disk s" if "r = Inr s" for s
    using assms(2) that replayed unfolding run by (auto split: sum.splits prod.splits)
qed


section \<open>The server\<close>

definition server_inv :: "'c server \<Rightarrow> bool" where
  "server_inv s \<longleftrightarrow>
     (\<forall>i sh. map_of (sv_shards s) i = Some sh \<longrightarrow> shard_inv sh \<and> sh_shard_id sh = i) \<and>
     (\<forall>i. disk_readable (sv_disks s i))"

lemma server_inv_flags [simp]:
  "server_inv (s\<lparr>sv_partitioned := b\<rparr>) = server_inv s" "server_inv (s\<lparr>sv_running := b\<rparr>) = server_inv s"
  "server_inv (s\<lparr>sv_drop_commit := k\<rparr>) = server_inv s" "server_inv (s\<lparr>sv_drop_query := k\<rparr>) = server_inv s"
  by (simp_all add: server_inv_def)

lemma server_inv_start: "(\<And>i. disk_readable (disks i)) \<Longrightarrow> server_inv (start_server disks)"
  by (simp add: server_inv_def start_server_def)

lemma server_disks_readable: "server_inv s \<Longrightarrow> disk_readable (server_disks s i)"
  by (auto simp: server_inv_def server_disks_def shard_disk_readable split: option.split)

text \<open>An operation on a shard keeps the server's invariant if it keeps the shard's.\<close>

definition shard_safe :: "('c shard, 'a) action \<Rightarrow> bool" where
  "shard_safe a \<longleftrightarrow> inv_action shard_inv a \<and> shard_order.forward a"

lemma inv_on_shard:
  assumes "shard_safe a"
  shows "inv_action server_inv (on_shard i a)"
  unfolding inv_action_def
proof (intro allI impI)
  fix s :: "'a server" assume s: "server_inv s"
  show "server_inv (snd (on_shard i a s))"
  proof (cases "map_of (sv_shards s) i")
    case (Some sh)
    obtain r sh' where run: "a sh = (r, sh')" by force
    have "shard_inv sh" "sh_shard_id sh = i" using s Some by (auto simp: server_inv_def)
    then have "shard_inv sh'" "sh_shard_id sh' = i"
      using assms inv_actionD [where a = a, OF _ _ run] shard_order.forwardD [where a = a, OF _ run]
      by (auto simp: shard_safe_def shard_before_def)
    then show ?thesis using s Some run by (auto simp: on_shard_def server_inv_def)
  qed (use s in \<open>simp add: on_shard_def\<close>)
qed

lemma inv_open_if_absent: "inv_action server_inv (open_if_absent api n config i)"
  unfolding inv_action_def
proof (intro allI impI)
  fix s :: "'a server" assume s: "server_inv s"
  obtain r d where run: "open_shard api i n config (sv_disks s i) = (r, d)" by force
  have "disk_readable (sv_disks s i)" using s by (simp add: server_inv_def)
  note o = open_shard_readable [OF this run]
  show "server_inv (snd (open_if_absent api n config i s))"
    using s run o by (auto simp: open_if_absent_def server_inv_def split: option.split sum.split)
qed

lemma entry_from_dict_encodable:
  assumes "wf_val v" and "entry_from_dict v = Inr e"
  shows "encodable_entry e"
proof -
  obtain d where d: "v = PDict d" using assms(2) by (cases v) (simp_all add: entry_from_dict_def)
  obtain r where r: "map_of d ''request_id'' = Some r" "map_of d ''mutation'' = Some (e_mutation e)"
      "e_request_id e = (case as_str r of Some s \<Rightarrow> s | None \<Rightarrow> [])"
    using assms(2) unfolding entry_from_dict_def d as_dict.simps Let_def
    by (simp only: option.case rbind_eq_Inr require_eq_Inr sum.inject dget_eq_Inr) (elim exE conjE, hypsubst, simp)
  then have "wf_val r" "wf_val (e_mutation e)" using wf_val_lookup assms(1) d by blast+
  then show ?thesis using r(3) by (cases r) (simp_all add: encodable_entry_def)
qed

lemma shard_safe_pure: "(\<And>x. r = Inr x \<Longrightarrow> shard_safe (f x)) \<Longrightarrow> shard_safe (bind (pure r) f)"
  by (cases r) (auto simp: shard_safe_def inv_basic shard_order.forward_basic)

lemma shard_safe_if: "(c \<Longrightarrow> shard_safe a) \<Longrightarrow> (\<not> c \<Longrightarrow> shard_safe b) \<Longrightarrow> shard_safe (if c then a else b)"
  by simp

lemma shard_safe_raise: "shard_safe (raise e)"
  by (simp add: shard_safe_def inv_basic shard_order.forward_basic)

lemma shard_safe_ops:
  "shard_safe (shard_configure api t p)" "shard_safe (shard_query api q)" "shard_safe (shard_get api i)"
  "shard_safe (shard_entries_after k)" "shard_safe (shard_status api)"
  "shard_safe (shard_install_snapshot api rows config index term epoch checksum)" "shard_safe (shard_close api)"
  unfolding shard_safe_def
  by (intro conjI inv_shard_configure forward_configure inv_shard_reads forward_reads inv_shard_status
      forward_status inv_shard_install_snapshot forward_install)+

lemma shard_safe_entry:
  "encodable_entry e \<Longrightarrow> shard_safe (shard_prepare e)" "encodable_entry e \<Longrightarrow> shard_safe (shard_commit api e)"
  unfolding shard_safe_def
  by (intro conjI inv_shard_prepare inv_shard_commit forward_commit forward_reads; assumption)+

lemma shard_safe_export: "shard_safe (export_shard api)"
  unfolding export_shard_def shard_safe_def
  by (intro conjI inv_intros shard_order.forward_intros forward_reads)

lemma request_entry:
  assumes "wf_val (PDict request)" and "rbind (dget request ''entry'') entry_from_dict = Inr e"
  shows "encodable_entry e"
  using assms wf_val_lookup [OF assms(1)] entry_from_dict_encodable by (auto simp: dget_eq_Inr)

lemma shard_safe_operation:
  assumes "wf_val (PDict request)"
  shows "shard_safe (shard_operation api operation request)"
  unfolding shard_operation_def
  by (intro shard_safe_if shard_safe_pure shard_safe_ops shard_safe_entry shard_safe_export shard_safe_raise
      request_entry [OF assms]; assumption)

lemma inv_serve_operation:
  assumes "wf_val (PDict request)"
  shows "inv_action server_inv (serve_operation api n config operation request)"
  unfolding serve_operation_def
  by (intro inv_intros inv_on_shard inv_open_if_absent shard_safe_ops shard_safe_operation assms) simp_all

lemma handle_request_inv:
  assumes "server_inv s" and "wf_val (PDict request)" and "handle_request api n config request s = (r, s')"
  shows "server_inv s'"
proof -
  obtain x t where run: "serve_operation api n config (dget_default request ''operation'' PNone) request s = (x, t)"
    by force
  have "server_inv t" using inv_actionD [OF inv_serve_operation [OF assms(2)] assms(1) run] .
  then show ?thesis
    using assms(1,3) run by (auto simp: handle_request_def Let_def split: if_splits sum.splits)
qed

section \<open>The node\<close>

definition node_disks :: "'c node \<Rightarrow> int \<Rightarrow> 'c shard_root" where
  "node_disks n = (case nd_server n of None \<Rightarrow> nd_disks n | Some s \<Rightarrow> server_disks s)"

definition node_inv :: "'c node \<Rightarrow> bool" where
  "node_inv n \<longleftrightarrow>
     (case nd_server n of None \<Rightarrow> (\<forall>i. disk_readable (nd_disks n i)) | Some s \<Rightarrow> server_inv s)"

definition new_node :: "'c node" where
  "new_node = \<lparr>nd_disks = (\<lambda>_. empty_root), nd_server = None\<rparr>"

text \<open>A crash in the middle of appending record \<open>r\<close> to the journal of shard \<open>i\<close>.\<close>

definition torn_disk :: "string \<Rightarrow> 'c shard \<Rightarrow> 'c shard_root" where
  "torn_disk t sh = (shard_disk sh)\<lparr>r_root := Some \<lparr>d_state = sh_state_file sh,
     d_log = Some (journal_text (sh_journal sh) @ t), d_collection = Some (sh_collection sh)\<rparr>\<rparr>"

inductive node_step :: "'c collection_api \<Rightarrow> int \<Rightarrow> pyval \<Rightarrow> 'c node \<Rightarrow> 'c node \<Rightarrow> bool" for api dim config where
  start: "node_start n = (r, n') \<Longrightarrow> node_step api dim config n n'"
| rpc: "wf_val (PDict request) \<Longrightarrow> node_rpc api dim config request n = (x, n') \<Longrightarrow> node_step api dim config n n'"
| stop: "node_stop api dim config n = (r, n') \<Longrightarrow> node_step api dim config n n'"
| crash: "node_crash n = (r, n') \<Longrightarrow> node_step api dim config n n'"
| torn: "nd_server n = Some s \<Longrightarrow> map_of (sv_shards s) i = Some sh \<Longrightarrow> storable_payload p \<Longrightarrow>
    strict_prefix t (record_text p @ [LF]) \<Longrightarrow>
    n' = n\<lparr>nd_disks := (server_disks s)(i := torn_disk t sh), nd_server := None\<rparr> \<Longrightarrow> node_step api dim config n n'"

lemma torn_disk_readable:
  assumes "shard_inv sh" and "storable_payload p" and "strict_prefix t (record_text p @ [LF])"
  shows "disk_readable (torn_disk t sh)"
proof -
  let ?j = "(stored_journal (sh_journal sh))\<lparr>j_file := Some (journal_text (sh_journal sh))\<rparr>"
  have "journal_load (Some (journal_text (sh_journal sh) @ t)) = Inr ?j" "journal_inv ?j"
    using assms journal_inv_torn journal_inv_stored by (auto simp: shard_inv_def)
  moreover have "\<exists>x. read_state (sh_state_file sh) = Inr x" using assms(1) by (simp add: shard_inv_def)
  ultimately show ?thesis by (auto simp: disk_readable_def torn_disk_def)
qed

lemma node_exit_inv: "server_inv s \<Longrightarrow> node_inv (node_exit s n)"
  by (simp add: node_inv_def node_exit_def server_disks_readable)

lemma node_crash_inv: "node_inv n \<Longrightarrow> node_inv (snd (node_crash n))"
  by (auto simp: node_crash_def node_inv_def [of n] node_exit_inv split: option.splits)

lemma close_shards_map:
  "map_of (close_shards api l) i = Some sh' \<Longrightarrow>
     \<exists>sh. map_of l i = Some sh \<and> (sh' = sh \<or> sh' = snd (shard_close api sh))"
  by (induction l) (auto split: prod.splits sum.splits if_splits)

lemma close_shards_inv:
  assumes "server_inv s"
  shows "server_inv (s\<lparr>sv_shards := close_shards api (sv_shards s)\<rparr>)"
  unfolding server_inv_def
proof (intro conjI allI impI)
  fix i sh' assume "map_of (sv_shards (s\<lparr>sv_shards := close_shards api (sv_shards s)\<rparr>)) i = Some sh'"
  then obtain sh where sh: "map_of (sv_shards s) i = Some sh" "sh' = sh \<or> sh' = snd (shard_close api sh)"
    using close_shards_map [of api "sv_shards s" i sh'] by auto
  then have "shard_inv sh" "sh_shard_id sh = i" using assms by (auto simp: server_inv_def)
  then show "shard_inv sh'" "sh_shard_id sh' = i"
    using sh(2) inv_shard_reads(5) [of api] forward_reads(5) [of api]
    by (auto simp: inv_action_def shard_order.forward_def shard_before_def)
qed (use assms in \<open>simp add: server_inv_def\<close>)

lemma node_rpc_inv:
  assumes "node_inv n" and "wf_val (PDict request)" and "node_rpc api dim config request n = (x, n')"
  shows "node_inv n'"
proof (cases "nd_server n")
  case (Some s)
  obtain r s' where run: "handle_request api dim config request s = (r, s')" by force
  have "server_inv s'" using handle_request_inv [OF _ assms(2) run] assms(1) Some by (simp add: node_inv_def)
  then show ?thesis
    using assms(3) Some run node_exit_inv close_shards_inv [of s' api]
    by (auto simp: node_rpc_def node_inv_def [of "n\<lparr>nd_server := Some s'\<rparr>"])
qed (use assms in \<open>simp add: node_rpc_def\<close>)

lemma wf_shutdown: "wf_val (PDict [(''operation'', PStr ''shutdown'')])"
  by (simp add: utf8_ok_ascii)

lemma node_step_inv: "node_step api dim config n n' \<Longrightarrow> node_inv n \<Longrightarrow> node_inv n'"
proof (induction rule: node_step.induct)
  case (start n r n')
  then show ?case
    by (auto simp: node_start_def node_alive_def node_inv_def server_inv_start split: if_splits option.splits)
next
  case (rpc request n x n')
  then show ?case by (blast intro: node_rpc_inv)
next
  case (stop n r n')
  obtain x m where run: "node_rpc api dim config [(''operation'', PStr ''shutdown'')] n = (x, m)" by force
  have "node_inv m" using node_rpc_inv [OF stop.prems wf_shutdown run] .
  then show ?case
    using stop run node_crash_inv [of m] by (auto simp: node_stop_def split: if_splits)
next
  case (crash n r n')
  then show ?case using node_crash_inv [of n] by simp
next
  case (torn n s i sh p t n')
  then show ?case
    using torn_disk_readable [of sh p t] server_disks_readable [of s]
    by (auto simp: node_inv_def server_inv_def)
qed

lemma node_steps_inv: "(node_step api dim config)\<^sup>*\<^sup>* n n' \<Longrightarrow> node_inv n \<Longrightarrow> node_inv n'"
  by (induction rule: rtranclp_induct) (blast intro: node_step_inv)+

lemma new_node_inv: "node_inv new_node"
  by (simp add: node_inv_def new_node_def)

section \<open>Properties\<close>




text \<open>What a client can catch: nothing else comes out of a call.\<close>

lemma dict_set_same: "dict_set i x (dict_set i y d) = dict_set i x d"
  by (induction i y d rule: dict_set.induct) auto

lemma node_rpc_errors:
  "node_rpc api dim config request n = (Inl e, n') \<Longrightarrow> is_protocol_error e \<or> is_replica_unavailable e"
  by (auto simp: node_rpc_def reply_result_def split: option.splits prod.splits reply.splits if_splits)

lemma serve_commit:
  assumes "serve_operation api n config (PStr ''commit'') request s = (Inr r, s')" and "server_inv s"
    and "wf_val (PDict request)"
  obtains i sh sh' where "map_of (sv_shards s) i = Some sh" "shard_operation api (PStr ''commit'') request sh = (Inr r, sh')"
    "s' = s\<lparr>sv_shards := dict_set i sh' (sv_shards s)\<rparr>" "shard_inv sh" "int_item request ''shard_id'' = Inr i"
proof -
  obtain i where i: "int_item request ''shard_id'' = Inr i"
    and run: "on_shard i (shard_operation api (PStr ''commit'') request) s = (Inr r, s')"
    using assms(1) by (auto simp: serve_operation_def split: sum.splits)
  from run obtain sh sh' where sh: "map_of (sv_shards s) i = Some sh"
      "shard_operation api (PStr ''commit'') request sh = (Inr r, sh')"
      "s' = s\<lparr>sv_shards := dict_set i sh' (sv_shards s)\<rparr>"
    by (auto simp: on_shard_def split: option.splits prod.splits)
  have "shard_inv sh" using assms(2) sh(1) by (auto simp: server_inv_def)
  then show ?thesis using that sh i by blast
qed

lemma commit_operation_again:
  assumes "shard_operation api (PStr ''commit'') request sh = (Inr r, sh')" and "shard_inv sh"
    and "wf_val (PDict request)"
  shows "shard_operation api (PStr ''commit'') request sh' = (Inr r, sh')"
proof -
  obtain e where e: "rbind (dget request ''entry'') entry_from_dict = Inr e"
    and run: "shard_commit api e sh = (Inr r, sh')"
    using assms(1) by (auto simp: shard_operation_def simp del: rbind_eq_Inr split: sum.splits)
  show ?thesis
    using shard_commit_idem [OF assms(2) request_entry [OF assms(3) e] run] e
    by (simp add: shard_operation_def del: rbind_eq_Inr)
qed

text \<open>
  C26: When the response to a commit is lost, the commit has taken effect, and repeating the
  request is answered with success and changes nothing more on the replica.
\<close>

theorem lost_commit_response:
  assumes "handle_request api dim config request s = (Dropped, s')" and "server_inv s"
    and "wf_val (PDict request)" and "dget_default request ''operation'' PNone = PStr ''commit''"
    and "sv_drop_commit s = 1"
  shows "\<exists>r. handle_request api dim config request s' = (Answer r, s') \<and>
    serve_operation api dim config (PStr ''commit'') request s = (Inr r, s'\<lparr>sv_drop_commit := 1\<rparr>)"
proof -
  have p: "\<not> sv_partitioned s" using assms(1,4) by (auto simp: handle_request_def Let_def split: if_splits)
  then obtain r t where run: "serve_operation api dim config (PStr ''commit'') request s = (Inr r, t)"
    and s': "s' = t\<lparr>sv_drop_commit := sv_drop_commit t - 1\<rparr>"
    using assms(1,4) by (auto simp: handle_request_def Let_def split: if_splits sum.splits prod.splits)
  obtain i sh sh' where sh: "map_of (sv_shards s) i = Some sh"
      "shard_operation api (PStr ''commit'') request sh = (Inr r, sh')"
      "t = s\<lparr>sv_shards := dict_set i sh' (sv_shards s)\<rparr>" "shard_inv sh" "int_item request ''shard_id'' = Inr i"
    using run assms(2,3) by (rule serve_commit)
  have t: "t = s'\<lparr>sv_drop_commit := 1\<rparr>" "sv_drop_commit s' = 0" "\<not> sv_partitioned s'"
      "map_of (sv_shards s') i = Some sh'" "dict_set i sh' (sv_shards s') = sv_shards s'"
    using s' sh(3) assms(5) p by (simp_all add: dict_set_same)
  have "serve_operation api dim config (PStr ''commit'') request s' = (Inr r, s')"
    using commit_operation_again [OF sh(2,4) assms(3)] t(4,5) sh(5)
    by (simp add: serve_operation_def on_shard_def)
  then have "handle_request api dim config request s' = (Answer r, s')"
    using t(2,3) assms(4) by (simp add: handle_request_def)
  then show ?thesis using run t(1) by auto
qed

theorem lost_commit_response_witness:
  "\<exists>s s' r. sv_drop_commit s = 1 \<and>
     handle_request list_api 8 example_config [(''operation'', PStr ''commit''), (''shard_id'', PInt 0),
       (''entry'', entry_fields example_entry)] s = (Dropped, s') \<and>
     handle_request list_api 8 example_config [(''operation'', PStr ''commit''), (''shard_id'', PInt 0),
       (''entry'', entry_fields example_entry)] s' = (Answer r, s')"
proof -
  let ?q = "[(''operation'', PStr ''commit''), (''shard_id'', PInt 0), (''entry'', entry_fields example_entry)]"
  let ?s = "(start_server (\<lambda>_. empty_root))\<lparr>sv_shards := [(0, example_shard)], sv_drop_commit := 1\<rparr>"
  obtain r sh' where run: "shard_commit list_api example_entry example_shard = (Inr r, sh')" by (rule example_commit)
  have "serve_operation list_api 8 example_config (PStr ''commit'') ?q ?s = (Inr r, ?s\<lparr>sv_shards := [(0, sh')]\<rparr>)"
    using run entry_from_dict_raw [OF example_entry_ok(1)]
    by (simp add: serve_operation_def int_item_def dget_def on_shard_def shard_operation_def)
  then obtain s' where d: "handle_request list_api 8 example_config ?q ?s = (Dropped, s')"
    by (simp add: handle_request_def dget_default_def start_server_def)
  have inv: "server_inv ?s"
    using example_shard_inv(1) by (auto simp: server_inv_def start_server_def)
  have wf: "wf_val (PDict ?q)"
    using storable_records(1) [OF example_entry_ok(2)] by (simp add: storable_payload_def utf8_ok_ascii)
  have "\<exists>r. handle_request list_api 8 example_config ?q s' = (Answer r, s')"
    using lost_commit_response [OF d inv wf] by (auto simp: dget_default_def)
  then show ?thesis using d by (intro exI [of _ ?s] exI [of _ s']) simp
qed

end
