(* ===== verification/Cluster.thy ===== *)
theory Cluster
  imports Quorum ServerSafety "HOL-Library.Product_Lexorder"
begin

unbundle bit_operations_syntax

text \<open>
  The coordinator of the cluster (cluster.py, \<open>DistributedCluster\<close>): routing, replicated
  writes with prepare and commit quorums, leader election, catch-up, reads from caught-up
  replicas, fault injection, rebalancing and restart. The placement objects the code shares
  with its metadata are looked up in the metadata again wherever the code sees an update.
  The lock serialises the operations, so each is one action on the cluster's state; the
  addresses the operating system hands out and fresh UUIDs are arguments. Search is in the
  theory Search.
\<close>

section \<open>State\<close>

record commit_result =
  cr_shard_id :: int
  cr_term :: int
  cr_index :: int
  cr_request_id :: string

record 'c cluster =
  cl_metadata :: metadata
  cl_file :: "string option"
  cl_nodes :: "(string \<times> 'c node) list"
  cl_closed :: bool
  cl_last_search_stats :: "(string \<times> pyval) list"
  cl_dimension :: int
  cl_config :: "(string \<times> pyval) list"

type_synonym 'c op = "('c cluster, pyval) action"

text \<open>\<open>except (ReplicaUnavailable, StaleEpochError, ProtocolError)\<close>\<close>

definition rpc_error :: "err \<Rightarrow> bool" where
  "rpc_error e \<longleftrightarrow> is_replica_unavailable e \<or> is_protocol_error e"

definition ensure_open :: "('c cluster, unit) action" where
  "ensure_open = bind (gets cl_closed) (\<lambda>closed.
     check (\<not> closed) (ClusterClosedError ''distributed cluster is closed''))"

definition publish_cluster :: "('c cluster, unit) action" where
  "publish_cluster = (\<lambda>s.
     case rbind (metadata_validate (cl_metadata s)) (\<lambda>m. rbind (metadata_text m) (\<lambda>data. Inr (m, data))) of
       Inl e \<Rightarrow> (Inl e, s)
     | Inr (m, data) \<Rightarrow> (Inr (), s\<lparr>cl_metadata := m, cl_file := Some data\<rparr>))"

definition on_metadata :: "(metadata \<Rightarrow> metadata) \<Rightarrow> ('c cluster, unit) action" where
  "on_metadata f = modify (\<lambda>s. s\<lparr>cl_metadata := f (cl_metadata s)\<rparr>)"

definition bump_epoch :: "metadata \<Rightarrow> metadata" where
  "bump_epoch m = m\<lparr>epoch := epoch m + 1\<rparr>"

definition placement_at :: "int \<Rightarrow> ('c cluster, placement) action" where
  "placement_at shard_id = (\<lambda>s.
     case map_of (shards (cl_metadata s)) shard_id of
       None \<Rightarrow> (Inl (KeyError (show_int shard_id)), s) | Some p \<Rightarrow> (Inr p, s))"

definition set_placement :: "int \<Rightarrow> (placement \<Rightarrow> placement) \<Rightarrow> metadata \<Rightarrow> metadata" where
  "set_placement shard_id f m =
     (case map_of (shards m) shard_id of
        None \<Rightarrow> m | Some p \<Rightarrow> m\<lparr>shards := dict_set shard_id (f p) (shards m)\<rparr>)"

definition set_request :: "string \<Rightarrow> int \<Rightarrow> entry \<Rightarrow> int \<Rightarrow> string \<Rightarrow> metadata \<Rightarrow> metadata" where
  "set_request request_id shard_id e checksum status m =
     m\<lparr>request_table := dict_set request_id
        (PDict [(''shard_id'', PInt shard_id), (''term'', PInt (e_term e)), (''index'', PInt (e_index e)),
                (''checksum'', PInt checksum), (''status'', PStr status)]) (request_table m)\<rparr>"

section \<open>Calls\<close>

definition on_node :: "string \<Rightarrow> ('c node, 'a) action \<Rightarrow> ('c cluster, 'a) action" where
  "on_node node a = (\<lambda>s.
     case map_of (cl_nodes s) node of
       None \<Rightarrow> (Inl (KeyError node), s)
     | Some n \<Rightarrow> (case a n of (r, n') \<Rightarrow> (r, s\<lparr>cl_nodes := dict_set node n' (cl_nodes s)\<rparr>)))"

definition cluster_rpc :: "'c collection_api \<Rightarrow> string \<Rightarrow> request \<Rightarrow> 'c op" where
  "cluster_rpc api node request =
     bind (gets cl_dimension) (\<lambda>dimension.
     bind (gets cl_config) (\<lambda>config.
     on_node node (node_rpc api dimension (PDict config) request)))"

definition configure_request :: "int \<Rightarrow> int \<Rightarrow> int \<Rightarrow> request" where
  "configure_request shard_id term placement_epoch =
     [(''operation'', PStr ''configure''), (''shard_id'', PInt shard_id), (''term'', PInt term),
      (''placement_epoch'', PInt placement_epoch)]"

definition configure :: "'c collection_api \<Rightarrow> string \<Rightarrow> placement \<Rightarrow> 'c op" where
  "configure api node p =
     cluster_rpc api node (configure_request (p_shard_id p) (p_term p) (p_placement_epoch p))"

definition configure_all :: "'c collection_api \<Rightarrow> ('c cluster, unit) action" where
  "configure_all api =
     bind (gets (\<lambda>s. map snd (shards (cl_metadata s)))) (\<lambda>placements.
     each (\<lambda>p. each (\<lambda>node. bind (configure api node p) (\<lambda>_. ok ())) (p_replicas p)) placements)"

definition cluster_status :: "'c collection_api \<Rightarrow> string \<Rightarrow> int \<Rightarrow> 'c op" where
  "cluster_status api node shard_id =
     cluster_rpc api node [(''operation'', PStr ''status''), (''shard_id'', PInt shard_id)]"

text \<open>\<open>response[key]\<close> and \<open>int(response[key])\<close>\<close>

definition item :: "pyval \<Rightarrow> string \<Rightarrow> pyval result" where
  "item v k = rbind (as_dict_or v) (\<lambda>d. dget d k)"

definition item_int :: "pyval \<Rightarrow> string \<Rightarrow> int result" where
  "item_int v k = rbind (item v k) py_to_int"

definition entry_request :: "string \<Rightarrow> int \<Rightarrow> pyval \<Rightarrow> request" where
  "entry_request operation shard_id entry =
     [(''operation'', PStr operation), (''shard_id'', PInt shard_id), (''entry'', entry)]"

definition send_entry :: "'c collection_api \<Rightarrow> string \<Rightarrow> string \<Rightarrow> int \<Rightarrow> entry \<Rightarrow> 'c op" where
  "send_entry api operation node shard_id e =
     bind (pure (entry_to_dict e)) (\<lambda>d. cluster_rpc api node (entry_request operation shard_id d))"

section \<open>Routing\<close>

definition route_index :: "int \<Rightarrow> int \<Rightarrow> int" where
  "route_index shard_total point_id = (point_id AND 0xFFFFFFFFFFFFFFFF) mod shard_total"

definition route :: "int \<Rightarrow> ('c cluster, int) action" where
  "route point_id =
     bind ensure_open (\<lambda>_.
     gets (\<lambda>s. route_index (shard_count (cl_metadata s)) point_id))"

section \<open>Leaders\<close>

definition probe :: "'c collection_api \<Rightarrow> int \<Rightarrow> string \<Rightarrow> ('c cluster, (int \<times> string) option) action" where
  "probe api shard_id node =
     bind (cluster_status api node shard_id) (\<lambda>status.
     bind (pure (item_int status ''applied_index'')) (\<lambda>applied.
     ok (Some (applied, node))))"

definition elect_leader :: "'c collection_api \<Rightarrow> int \<Rightarrow> ('c cluster, string) action" where
  "elect_leader api shard_id =
     bind (placement_at shard_id) (\<lambda>p.
     bind (collect rpc_error (probe api (p_shard_id p)) (p_replicas p)) (\<lambda>candidates.
     bind (check (quorum p \<le> length candidates)
       (QuorumUnavailable ''cannot elect leader without replica quorum'')) (\<lambda>_.
     let ordered = sort_key (\<lambda>c. (- fst c, snd c)) candidates;
         leader = snd (hd ordered)
     in
     bind (on_metadata (\<lambda>m. bump_epoch (set_placement shard_id (\<lambda>p.
             p\<lparr>p_term := p_term p + 1, p_placement_epoch := p_placement_epoch p + 1, p_leader := leader\<rparr>) m))) (\<lambda>_.
     bind publish_cluster (\<lambda>_.
     bind (placement_at shard_id) (\<lambda>elected.
     bind (each (\<lambda>c. bind (configure api (snd c) elected) (\<lambda>_. ok ())) ordered) (\<lambda>_.
     ok leader)))))))"

definition ensure_leader :: "'c collection_api \<Rightarrow> int \<Rightarrow> ('c cluster, unit) action" where
  "ensure_leader api shard_id =
     bind (placement_at shard_id) (\<lambda>p.
     bind (catching rpc_error
             (bind (cluster_status api (p_leader p) (p_shard_id p)) (\<lambda>status.
              bind (pure (item status ''term'')) (\<lambda>term.
              ok (py_eq term (PInt (p_term p))))))
             (\<lambda>_. ok False)) (\<lambda>current.
     if current then ok () else bind (elect_leader api shard_id) (\<lambda>_. ok ())))"

section \<open>Writes\<close>

definition commit_on :: "'c collection_api \<Rightarrow> int \<Rightarrow> entry \<Rightarrow> string \<Rightarrow> ('c cluster, string option) action" where
  "commit_on api shard_id e node =
     bind (send_entry api ''commit'' node shard_id e) (\<lambda>_. ok (Some node))"

definition commit_prepared :: "'c collection_api \<Rightarrow> entry \<Rightarrow> int \<Rightarrow> ('c cluster, commit_result) action" where
  "commit_prepared api e checksum =
     bind (placement_at (e_shard_id e)) (\<lambda>p.
     bind (collect rpc_error (commit_on api (e_shard_id e) e) (p_replicas p)) (\<lambda>committed.
     bind (check (quorum p \<le> length committed)
       (QuorumUnavailable ''mutation did not reach commit quorum'')) (\<lambda>_.
     bind (on_metadata (\<lambda>m. bump_epoch (set_request (e_request_id e) (e_shard_id e) e checksum ''committed''
             (set_placement (e_shard_id e)
               (\<lambda>p. p\<lparr>p_committed_index := max (p_committed_index p) (e_index e)\<rparr>) m)))) (\<lambda>_.
     bind publish_cluster (\<lambda>_.
     ok \<lparr>cr_shard_id = e_shard_id e, cr_term = e_term e, cr_index = e_index e,
         cr_request_id = e_request_id e\<rparr>)))))"

definition prepare_nodes :: "'c collection_api \<Rightarrow> entry \<Rightarrow> string list \<Rightarrow> ('c cluster, string list) action" where
  "prepare_nodes api e = collect rpc_error (\<lambda>node.
     bind (send_entry api ''prepare'' node (e_shard_id e) e) (\<lambda>response.
     bind (pure (item_int response ''checksum'')) (\<lambda>checksum.
     ok (if checksum = e_mutation_checksum e then Some node else None))))"

text \<open>A request identifier that is already in the table.\<close>

definition write_duplicate ::
  "'c collection_api \<Rightarrow> pyval \<Rightarrow> string \<Rightarrow> int \<Rightarrow> int \<Rightarrow> pyval \<Rightarrow> ('c cluster, commit_result) action" where
  "write_duplicate api mutation request_id shard_id checksum duplicate =
     bind (pure (item_int duplicate ''checksum'')) (\<lambda>known.
     bind (check (known = checksum) (ProtocolError ''request ID reused with conflicting mutation'')) (\<lambda>_.
     bind (pure (as_dict_or duplicate)) (\<lambda>d.
     if map_of d ''status'' = Some (PStr ''committed'') then
       bind (pure (item_int duplicate ''term'')) (\<lambda>term.
       bind (pure (item_int duplicate ''index'')) (\<lambda>index.
       ok \<lparr>cr_shard_id = shard_id, cr_term = term, cr_index = index, cr_request_id = request_id\<rparr>))
     else
       bind (placement_at shard_id) (\<lambda>_.
       bind (ensure_leader api shard_id) (\<lambda>_.
       bind (placement_at shard_id) (\<lambda>p.
       bind (pure (item_int duplicate ''index'')) (\<lambda>index.
       commit_prepared api
         (entry_create shard_id (p_term p) (p_placement_epoch p) index request_id mutation) checksum)))))))"

text \<open>
  A new request. When the leader did not prepare, \<open>again\<close> is what the code does next: elect
  and retry, or give up after the second retry.
\<close>

definition write_fresh ::
  "'c collection_api \<Rightarrow> pyval \<Rightarrow> string \<Rightarrow> int \<Rightarrow> int \<Rightarrow> ('c cluster, commit_result) action \<Rightarrow>
     ('c cluster, commit_result) action" where
  "write_fresh api mutation request_id shard_id checksum again =
     bind (placement_at shard_id) (\<lambda>_.
     bind (ensure_leader api shard_id) (\<lambda>_.
     bind (placement_at shard_id) (\<lambda>_.
     bind (on_metadata (\<lambda>m. bump_epoch (set_placement shard_id
             (\<lambda>p. p\<lparr>p_last_log_index := p_last_log_index p + 1\<rparr>) m))) (\<lambda>_.
     bind (placement_at shard_id) (\<lambda>p.
     bind publish_cluster (\<lambda>_.
     let e = entry_create shard_id (p_term p) (p_placement_epoch p) (p_last_log_index p) request_id mutation in
     bind (prepare_nodes api e (p_replicas p)) (\<lambda>prepared.
     if p_leader p \<notin> set prepared then again
     else
       bind (check (quorum p \<le> length prepared)
         (QuorumUnavailable ''mutation did not reach prepare quorum'')) (\<lambda>_.
       bind (on_metadata (\<lambda>m. bump_epoch (set_request request_id shard_id e checksum ''prepared'' m))) (\<lambda>_.
       bind publish_cluster (\<lambda>_.
       commit_prepared api e checksum))))))))))"

definition write_step ::
  "'c collection_api \<Rightarrow> pyval \<Rightarrow> string \<Rightarrow> (int \<Rightarrow> ('c cluster, commit_result) action) \<Rightarrow>
     ('c cluster, commit_result) action" where
  "write_step api mutation request_id again =
     bind ensure_open (\<lambda>_.
     bind (pure (item_int mutation ''id'')) (\<lambda>point_id.
     bind (route point_id) (\<lambda>shard_id.
     let checksum = payload_checksum mutation in
     bind (gets (\<lambda>s. map_of (request_table (cl_metadata s)) request_id)) (\<lambda>duplicate.
     case duplicate of
       Some d \<Rightarrow> write_duplicate api mutation request_id shard_id checksum d
     | None \<Rightarrow> write_fresh api mutation request_id shard_id checksum (again shard_id)))))"

text \<open>\<open>attempts\<close> is \<open>2 - retry\<close>: the elections the write may still ask for.\<close>

primrec cluster_write ::
  "'c collection_api \<Rightarrow> pyval \<Rightarrow> string \<Rightarrow> nat \<Rightarrow> ('c cluster, commit_result) action" where
  "cluster_write api mutation request_id 0 =
     write_step api mutation request_id (\<lambda>_. raise (QuorumUnavailable ''leader failed during replication''))"
| "cluster_write api mutation request_id (Suc attempts) =
     write_step api mutation request_id (\<lambda>shard_id.
       bind (elect_leader api shard_id) (\<lambda>_. cluster_write api mutation request_id attempts))"

definition given_request_id :: "string option \<Rightarrow> string \<Rightarrow> string" where
  "given_request_id request_id uuid = (case request_id of Some r \<Rightarrow> (if r \<noteq> [] then r else uuid) | None \<Rightarrow> uuid)"

definition cluster_upsert ::
  "'c collection_api \<Rightarrow> int \<Rightarrow> pyval list \<Rightarrow> payload_field list \<Rightarrow> sparse_element list \<Rightarrow> string option \<Rightarrow>
     string \<Rightarrow> ('c cluster, commit_result) action" where
  "cluster_upsert api point_id vector flds sparse request_id uuid =
     bind (pure (rmap py_to_float vector)) (\<lambda>values.
     cluster_write api
       (PDict [(''operation'', PStr ''upsert''), (''id'', PInt point_id), (''vector'', PList (map PFloat values)),
               (''fields'', PList (map payload_field_to_kernel flds)),
               (''sparse'', PList (map sparse_element_to_kernel sparse))])
       (given_request_id request_id uuid) 2)"

definition cluster_delete ::
  "'c collection_api \<Rightarrow> int \<Rightarrow> string option \<Rightarrow> string \<Rightarrow> ('c cluster, commit_result) action" where
  "cluster_delete api point_id request_id uuid =
     cluster_write api (PDict [(''operation'', PStr ''delete''), (''id'', PInt point_id)])
       (given_request_id request_id uuid) 2"

section \<open>Reads and catch-up\<close>

definition read_order :: "placement \<Rightarrow> string list" where
  "read_order p = p_leader p # filter (\<lambda>node. node \<noteq> p_leader p) (p_replicas p)"

definition query_replica :: "'c collection_api \<Rightarrow> placement \<Rightarrow> int \<Rightarrow> ('c cluster, string) action" where
  "query_replica api p require_index =
     first_of rpc_error (\<lambda>node.
       bind (cluster_status api node (p_shard_id p)) (\<lambda>status.
       bind (pure (item_int status ''applied_index'')) (\<lambda>applied.
       ok (if require_index \<le> applied then Some node else None))))
       (QuorumUnavailable ''no caught-up replica is available for query'') (read_order p)"

text \<open>One committed entry of the source, replicated to \<open>node\<close> under the given term and epoch.\<close>

definition replicate_entry ::
  "'c collection_api \<Rightarrow> string \<Rightarrow> int \<Rightarrow> int \<Rightarrow> int \<Rightarrow> pyval \<Rightarrow> ('c cluster, int) action" where
  "replicate_entry api node shard_id term placement_epoch raw =
     bind (pure (entry_from_dict raw)) (\<lambda>old.
     let e = entry_create shard_id term placement_epoch (e_index old) (e_request_id old) (e_mutation old) in
     bind (send_entry api ''prepare'' node shard_id e) (\<lambda>_.
     bind (send_entry api ''commit'' node shard_id e) (\<lambda>_.
     ok (e_index e))))"

fun replicate_entries ::
  "'c collection_api \<Rightarrow> string \<Rightarrow> int \<Rightarrow> int \<Rightarrow> int \<Rightarrow> int \<Rightarrow> pyval list \<Rightarrow> ('c cluster, int) action" where
  "replicate_entries api node shard_id term placement_epoch applied [] = ok applied"
| "replicate_entries api node shard_id term placement_epoch applied (raw # rest) =
     bind (replicate_entry api node shard_id term placement_epoch raw) (\<lambda>index.
     replicate_entries api node shard_id term placement_epoch index rest)"

definition entries_request :: "int \<Rightarrow> int \<Rightarrow> request" where
  "entries_request shard_id after_index =
     [(''operation'', PStr ''entries''), (''shard_id'', PInt shard_id), (''after_index'', PInt after_index)]"

definition catch_up :: "'c collection_api \<Rightarrow> string \<Rightarrow> int \<Rightarrow> ('c cluster, int) action" where
  "catch_up api node shard_id =
     bind (placement_at shard_id) (\<lambda>p.
     bind (check (node \<in> set (p_replicas p)) (ProtocolError ''catch-up target is not a shard replica'')) (\<lambda>_.
     bind (configure api node p) (\<lambda>_.
     bind (cluster_status api node shard_id) (\<lambda>target.
     bind (query_replica api p (p_committed_index p)) (\<lambda>source.
     bind (pure (item_int target ''applied_index'')) (\<lambda>applied.
     bind (cluster_rpc api source (entries_request shard_id applied)) (\<lambda>raw.
     bind (pure (as_list_or raw)) (\<lambda>entries.
     replicate_entries api node shard_id (p_term p) (p_placement_epoch p) applied entries))))))))"

definition cluster_get :: "'c collection_api \<Rightarrow> int \<Rightarrow> 'c op" where
  "cluster_get api point_id =
     bind (route point_id) (\<lambda>shard_id.
     bind (placement_at shard_id) (\<lambda>p.
     bind (query_replica api p (p_committed_index p)) (\<lambda>node.
     cluster_rpc api node [(''operation'', PStr ''get''), (''shard_id'', PInt shard_id), (''id'', PInt point_id)])))"

section \<open>Nodes\<close>

definition stop_node :: "string \<Rightarrow> ('c cluster, unit) action" where
  "stop_node node = on_node node node_crash"

definition restart_node :: "'c collection_api \<Rightarrow> string \<Rightarrow> string \<times> int \<Rightarrow> ('c cluster, unit) action" where
  "restart_node api node address =
     bind (on_node node node_start) (\<lambda>_.
     bind (on_metadata (\<lambda>m. bump_epoch (m\<lparr>members := dict_set node address (members m)\<rparr>))) (\<lambda>_.
     bind publish_cluster (\<lambda>_.
     bind (gets (\<lambda>s. map fst (shards (cl_metadata s)))) (\<lambda>ids.
     each (\<lambda>shard_id.
       bind (placement_at shard_id) (\<lambda>p.
       if node \<in> set (p_replicas p) then
         bind (configure api node p) (\<lambda>_. bind (catch_up api node shard_id) (\<lambda>_. ok ()))
       else ok ())) ids))))"

definition partition_node :: "'c collection_api \<Rightarrow> string \<Rightarrow> bool \<Rightarrow> ('c cluster, unit) action" where
  "partition_node api node enabled =
     bind (cluster_rpc api node [(''operation'', PStr ''partition''), (''enabled'', PBool enabled)]) (\<lambda>_. ok ())"

definition inject_drop_commit_response :: "'c collection_api \<Rightarrow> string \<Rightarrow> int \<Rightarrow> ('c cluster, unit) action" where
  "inject_drop_commit_response api node n =
     bind (check (0 \<le> n) (ValueError ''fault count cannot be negative'')) (\<lambda>_.
     bind (cluster_rpc api node [(''operation'', PStr ''fault''), (''drop_commit_responses'', PInt n)])
       (\<lambda>_. ok ()))"

definition inject_drop_query_response :: "'c collection_api \<Rightarrow> string \<Rightarrow> int \<Rightarrow> ('c cluster, unit) action" where
  "inject_drop_query_response api node n =
     bind (check (0 \<le> n) (ValueError ''fault count cannot be negative'')) (\<lambda>_.
     bind (cluster_rpc api node [(''operation'', PStr ''fault''), (''drop_query_responses'', PInt n)])
       (\<lambda>_. ok ()))"

definition snapshot_request :: "int \<Rightarrow> pyval \<Rightarrow> pyval \<Rightarrow> int \<Rightarrow> int \<Rightarrow> int \<Rightarrow> pyval \<Rightarrow> request" where
  "snapshot_request shard_id rows config index term placement_epoch checksum =
     [(''operation'', PStr ''install_snapshot''), (''shard_id'', PInt shard_id), (''rows'', rows),
      (''collection_config'', config), (''index'', PInt index), (''term'', PInt term),
      (''placement_epoch'', PInt placement_epoch), (''snapshot_checksum'', checksum)]"

definition rebalance_add_replica :: "'c collection_api \<Rightarrow> int \<Rightarrow> string \<Rightarrow> ('c cluster, unit) action" where
  "rebalance_add_replica api shard_id node =
     bind (placement_at shard_id) (\<lambda>p.
     if node \<in> set (p_replicas p) then ok ()
     else
       bind (gets (\<lambda>s. map_of (cl_nodes s) node)) (\<lambda>target.
       bind (check (case target of None \<Rightarrow> False | Some n \<Rightarrow> node_alive n)
         (ReplicaUnavailable ''rebalancing target is unavailable'')) (\<lambda>_.
       bind (query_replica api p (p_committed_index p)) (\<lambda>source.
       bind (cluster_rpc api source [(''operation'', PStr ''export''), (''shard_id'', PInt shard_id)]) (\<lambda>exported.
       bind (pure (item_int exported ''applied_index'')) (\<lambda>index.
       let new_epoch = p_placement_epoch p + 1 in
       bind (cluster_rpc api node (configure_request shard_id (p_term p) new_epoch)) (\<lambda>_.
       bind (pure (item exported ''rows'')) (\<lambda>rows.
       bind (pure (item exported ''collection_config'')) (\<lambda>config.
       bind (pure (item exported ''snapshot_checksum'')) (\<lambda>checksum.
       bind (cluster_rpc api node (snapshot_request shard_id rows config index (p_term p) new_epoch checksum)) (\<lambda>_.
       bind (cluster_rpc api source (entries_request shard_id index)) (\<lambda>raw.
       bind (pure (as_list_or raw)) (\<lambda>tail.
       bind (replicate_entries api node shard_id (p_term p) new_epoch index tail) (\<lambda>_.
       bind (on_metadata (\<lambda>m. bump_epoch (set_placement shard_id (\<lambda>p.
               p\<lparr>p_replicas := p_replicas p @ [node], p_placement_epoch := new_epoch\<rparr>) m))) (\<lambda>_.
       bind publish_cluster (\<lambda>_.
       bind (placement_at shard_id) (\<lambda>added.
       each (\<lambda>replica. bind (configure api replica added) (\<lambda>_. ok ())) (p_replicas added))))))))))))))))))"

definition replica_status :: "'c collection_api \<Rightarrow> string \<Rightarrow> int \<Rightarrow> 'c op" where
  "replica_status api node shard_id = cluster_status api node shard_id"

section \<open>Closing and opening\<close>

definition close_node :: "'c collection_api \<Rightarrow> int \<Rightarrow> pyval \<Rightarrow> 'c node \<Rightarrow> 'c node" where
  "close_node api dim config n =
     (case node_stop api dim config n of (Inl e, n') \<Rightarrow> snd (node_crash n') | (Inr _, n') \<Rightarrow> n')"

definition cluster_close :: "'c collection_api \<Rightarrow> ('c cluster, unit) action" where
  "cluster_close api = modify (\<lambda>s.
     if cl_closed s then s
     else s\<lparr>cl_closed := True,
            cl_nodes := map (\<lambda>(node, n). (node, close_node api (cl_dimension s) (PDict (cl_config s)) n)) (cl_nodes s)\<rparr>)"

definition node_name :: "nat \<Rightarrow> string" where
  "node_name i = ''n'' @ show_int (int i)"

definition init_config ::
  "int \<Rightarrow> config_options \<Rightarrow> int \<Rightarrow> int \<Rightarrow> int \<Rightarrow> (string \<times> pyval) list result" where
  "init_config dim config shard_total factor node_total =
     require (0 < dim \<and> 0 < shard_total)
       (ValueError ''cluster dimension and shard count must be positive'')
    (require (0 < factor \<and> factor \<le> node_total)
       (ValueError ''node count must cover replication factor'')
    (rbind (config_from_options dim config) (\<lambda>requested.
     rbind (validate_collection_config (PInt dim) (PDict (config_to_kernel requested))) (\<lambda>canonical.
     rbind (config_from_kernel canonical) (\<lambda>_. Inr canonical)))))"

definition initial_placement :: "string list \<Rightarrow> nat \<Rightarrow> int \<Rightarrow> placement" where
  "initial_placement node_ids factor shard_id =
     (let replicas = map (\<lambda>offset. node_ids ! (nat (shard_id + int offset) mod length node_ids)) [0..<factor]
      in \<lparr>p_shard_id = shard_id, p_term = 1, p_placement_epoch = 1, p_leader = hd replicas, p_replicas = replicas,
          p_last_log_index = 0, p_committed_index = 0\<rparr>)"

definition initial_metadata ::
  "string \<Rightarrow> int \<Rightarrow> int \<Rightarrow> int \<Rightarrow> (string \<times> string \<times> int) list \<Rightarrow> (string \<times> pyval) list \<Rightarrow> metadata" where
  "initial_metadata identity dim shard_total factor addresses config =
     (let node_ids = sort (map fst addresses) in
      \<lparr>cluster_id = identity, dimension = dim, shard_count = shard_total,
       replication_factor = factor, epoch = 1, members = addresses,
       shards = map (\<lambda>i. (i, initial_placement node_ids (nat factor) i)) [0..shard_total - 1],
       collection_config = config, request_table = [], routing_version = ROUTING_VERSION\<rparr>)"

text \<open>
  The stored metadata must fit the arguments; \<open>Inl (True, e)\<close> is an exception raised after
  \<open>self.close()\<close>, \<open>Inl (False, e)\<close> one that leaves the started processes running.
\<close>

definition reopen_metadata ::
  "string \<Rightarrow> int \<Rightarrow> (string \<times> pyval) list \<Rightarrow> (string \<times> string \<times> int) list \<Rightarrow> (bool \<times> err) + metadata" where
  "reopen_metadata data dim config addresses =
     (case metadata_load (Some data) of
        Inl e \<Rightarrow> Inl (False, e)
      | Inr m \<Rightarrow>
          if dimension m \<noteq> dim then Inl (True, ProtocolError ''cluster reopen dimension mismatch'')
          else if \<not> py_eq (PDict (collection_config m)) (PDict config) then
            Inl (True, ProtocolError ''cluster reopen collection config mismatch'')
          else if dict_keys (members m) \<noteq> dict_keys addresses then
            Inl (True, ProtocolError ''cluster reopen member set mismatch'')
          else Inr (bump_epoch (m\<lparr>members := addresses\<rparr>)))"

definition bring_up :: "'c collection_api \<Rightarrow> ('c cluster, unit) action" where
  "bring_up api =
     bind publish_cluster (\<lambda>_.
     catching (\<lambda>_. True)
       (bind (configure_all api) (\<lambda>_.
        bind (gets (\<lambda>s. shards (cl_metadata s))) (\<lambda>placements.
        each (\<lambda>(shard_id, p). each (\<lambda>node. bind (catch_up api node shard_id) (\<lambda>_. ok ())) (p_replicas p)) placements)))
       (\<lambda>e. bind (cluster_close api) (\<lambda>_. raise e)))"

text \<open>
  The constructor, from the metadata file and the directories of the nodes; \<open>address\<close> is what
  the operating system answers to the start of a node.
\<close>

definition cluster_init ::
  "'c collection_api \<Rightarrow> (string \<Rightarrow> string \<times> int) \<Rightarrow> int \<Rightarrow> config_options \<Rightarrow> int \<Rightarrow> int \<Rightarrow> int \<Rightarrow> string \<Rightarrow>
     string option \<Rightarrow> (string \<Rightarrow> int \<Rightarrow> 'c shard_root) \<Rightarrow> unit result \<times> 'c cluster option" where
  "cluster_init api address dim config shard_total factor node_total identity file disks =
     (case init_config dim config shard_total factor node_total of
        Inl e \<Rightarrow> (Inl e, None)
      | Inr canonical \<Rightarrow>
          let ids = map node_name [0..<nat node_total];
              addresses = map (\<lambda>node. (node, address node)) ids;
              started = \<lparr>cl_metadata = initial_metadata identity dim shard_total factor addresses canonical,
                cl_file = file,
                cl_nodes = map (\<lambda>node. (node, \<lparr>nd_disks = disks node, nd_server = Some (start_server (disks node))\<rparr>)) ids,
                cl_closed = False, cl_last_search_stats = [], cl_dimension = dim, cl_config = canonical\<rparr>
          in
          (case file of
             None \<Rightarrow> (case bring_up api started of (r, s) \<Rightarrow> (r, Some s))
           | Some data \<Rightarrow>
               (case reopen_metadata data dim canonical addresses of
                  Inl (closes, e) \<Rightarrow>
                    (Inl e, Some (if closes then snd (cluster_close api started) else started))
                | Inr m \<Rightarrow> (case bring_up api (started\<lparr>cl_metadata := m\<rparr>) of (r, s) \<Rightarrow> (r, Some s)))))"

end
