(* ===== verification/ClusterSafety.thy ===== *)
theory ClusterSafety
  imports Cluster
begin

text \<open>
  What an acknowledgement of the cluster means, and what a minority cannot do.
\<close>

section \<open>Frames\<close>

text \<open>A call changes nothing of the coordinator but its view of the nodes.\<close>

definition nodes_only :: "('c cluster \<Rightarrow> bool) \<Rightarrow> bool" where
  "nodes_only I \<longleftrightarrow> (\<forall>s ns. I s \<longrightarrow> I (s\<lparr>cl_nodes := ns\<rparr>))"

lemma inv_rpc: "nodes_only I \<Longrightarrow> inv_action I (cluster_rpc api node q)"
  by (auto simp: inv_action_def cluster_rpc_def on_node_def nodes_only_def split: option.split prod.split)

lemma inv_placement_at [inv_intros]: "inv_action I (placement_at i)"
  by (auto simp: inv_action_def placement_at_def split: option.split)

lemma inv_ensure_open [inv_intros]: "inv_action I ensure_open"
  unfolding ensure_open_def by (intro inv_intros)

lemma inv_route [inv_intros]: "inv_action I (route i)"
  unfolding route_def by (intro inv_intros)

text \<open>A property that every call keeps is kept by everything built from calls.\<close>

locale call_invariant =
  fixes I :: "'c cluster \<Rightarrow> bool" and api :: "'c collection_api" and ordinary :: "request \<Rightarrow> bool"
  assumes call: "ordinary q \<Longrightarrow> inv_action I (cluster_rpc api node q)"
    and ordinary_requests: "ordinary (configure_request i t p)"
      "ordinary [(''operation'', PStr ''status''), (''shard_id'', PInt i)]"
      "operation \<in> {''prepare'', ''commit''} \<Longrightarrow> ordinary (entry_request operation i d)"
      "ordinary (entries_request i k)"
      "ordinary [(''operation'', PStr ''export''), (''shard_id'', PInt i)]"
      "ordinary (snapshot_request i rows config k t p checksum)"
begin

lemma configure_inv: "inv_action I (configure api node p)"
  unfolding configure_def by (intro call ordinary_requests)

lemma status_inv: "inv_action I (cluster_status api node i)"
  unfolding cluster_status_def by (intro call ordinary_requests)

lemma send_entry_inv: "operation \<in> {''prepare'', ''commit''} \<Longrightarrow> inv_action I (send_entry api operation node i e)"
  unfolding send_entry_def by (intro inv_intros call ordinary_requests)

lemma prepare_nodes_inv: "inv_action I (prepare_nodes api e nodes)"
  unfolding prepare_nodes_def by (intro inv_intros send_entry_inv) simp

lemma query_replica_inv: "inv_action I (query_replica api p k)"
  unfolding query_replica_def by (intro inv_intros status_inv)

lemma replicate_entry_inv: "inv_action I (replicate_entry api node i t p raw)"
  unfolding replicate_entry_def Let_def by (intro inv_intros send_entry_inv) simp_all

lemma replicate_entries_inv: "inv_action I (replicate_entries api node i t p k raws)"
  by (induction raws arbitrary: k) (auto intro!: inv_intros replicate_entry_inv)

lemma catch_up_inv: "inv_action I (catch_up api node i)"
  unfolding catch_up_def
  by (intro inv_intros configure_inv status_inv query_replica_inv call ordinary_requests replicate_entries_inv)

end

text \<open>A property that survives publishing, an election and the allocation of a log index too.\<close>

locale election_invariant = call_invariant +
  assumes publish_inv: "inv_action I publish_cluster"
    and elected: "I s \<Longrightarrow> I (s\<lparr>cl_metadata := bump_epoch (set_placement i (\<lambda>p. p\<lparr>p_term := p_term p + 1,
      p_placement_epoch := p_placement_epoch p + 1, p_leader := leader\<rparr>) (cl_metadata s))\<rparr>)"
    and allocated: "I s \<Longrightarrow> I (s\<lparr>cl_metadata := bump_epoch (set_placement i (\<lambda>p.
      p\<lparr>p_last_log_index := p_last_log_index p + 1\<rparr>) (cl_metadata s))\<rparr>)"
begin

lemma elect_leader_inv: "inv_action I (elect_leader api i)"
  unfolding elect_leader_def Let_def on_metadata_def probe_def
  by (intro inv_intros status_inv publish_inv configure_inv elected)

lemma allocate_inv: "inv_action I (on_metadata (\<lambda>m. bump_epoch (set_placement i (\<lambda>p.
    p\<lparr>p_last_log_index := p_last_log_index p + 1\<rparr>) m)))"
  unfolding on_metadata_def by (intro inv_modify allocated)

lemma ensure_leader_inv: "inv_action I (ensure_leader api i)"
  unfolding ensure_leader_def by (intro inv_intros status_inv elect_leader_inv)

end

text \<open>
  A property that also survives recording the progress of a request, for the requests
  \<open>own\<close> admits: then every write keeps it.
\<close>

locale coordinator_invariant = election_invariant +
  fixes own :: "string \<Rightarrow> bool"
  assumes recorded: "own r \<Longrightarrow> I s \<Longrightarrow>
      I (s\<lparr>cl_metadata := bump_epoch (set_request r i e c ''prepared'' (cl_metadata s))\<rparr>)"
    and completed: "own r \<Longrightarrow> I s \<Longrightarrow>
      I (s\<lparr>cl_metadata := bump_epoch (set_request r i e c ''committed'' (set_placement j (\<lambda>p.
        p\<lparr>p_committed_index := max (p_committed_index p) k\<rparr>) (cl_metadata s)))\<rparr>)"
begin

lemma commit_prepared_inv: "own (e_request_id e) \<Longrightarrow> inv_action I (commit_prepared api e c)"
  unfolding commit_prepared_def commit_on_def on_metadata_def
  by (intro inv_intros send_entry_inv publish_inv completed) simp_all

lemma created_own: "own r \<Longrightarrow> own (e_request_id (entry_create i t p k r m))"
  by (simp add: entry_create_def)

lemma write_duplicate_inv: "own r \<Longrightarrow> inv_action I (write_duplicate api m r i c d)"
  unfolding write_duplicate_def by (intro inv_intros ensure_leader_inv commit_prepared_inv created_own)

lemma recorded_inv: "own r \<Longrightarrow> inv_action I (on_metadata (\<lambda>x. bump_epoch (set_request r i e c ''prepared'' x)))"
  unfolding on_metadata_def by (intro inv_modify recorded)

lemma write_fresh_inv: "own r \<Longrightarrow> inv_action I again \<Longrightarrow> inv_action I (write_fresh api m r i c again)"
  unfolding write_fresh_def Let_def
  by (intro inv_intros ensure_leader_inv allocate_inv recorded_inv publish_inv prepare_nodes_inv
      commit_prepared_inv created_own)

lemma write_step_inv: "own r \<Longrightarrow> (\<And>i. inv_action I (again i)) \<Longrightarrow> inv_action I (write_step api m r again)"
  unfolding write_step_def Let_def by (intro inv_intros write_duplicate_inv write_fresh_inv)

lemma write_inv: "own r \<Longrightarrow> inv_action I (cluster_write api m r k)"
  by (induction k) (auto intro!: write_step_inv inv_intros elect_leader_inv)

end

text \<open>A property that survives every change of the metadata.\<close>

locale write_invariant = call_invariant +
  assumes metadata_step: "I s \<Longrightarrow> I (s\<lparr>cl_metadata := m, cl_file := f\<rparr>)"
    and metadata_only: "I s \<Longrightarrow> I (s\<lparr>cl_metadata := m\<rparr>)"

sublocale write_invariant \<subseteq> coordinator_invariant I api ordinary "\<lambda>_. True"
  by unfold_locales
    (auto simp: inv_action_def publish_cluster_def intro: metadata_step metadata_only split: sum.split)

section \<open>Silent nodes\<close>

definition answering :: "'c node \<Rightarrow> bool" where
  "answering n \<longleftrightarrow> (case nd_server n of None \<Rightarrow> False | Some s \<Rightarrow> \<not> sv_partitioned s)"

definition silent :: "'c cluster \<Rightarrow> string \<Rightarrow> bool" where
  "silent s node \<longleftrightarrow> (case map_of (cl_nodes s) node of None \<Rightarrow> True | Some n \<Rightarrow> \<not> answering n)"

definition ordinary_request :: "request \<Rightarrow> bool" where
  "ordinary_request q \<longleftrightarrow>
     (\<exists>op. dget_default q ''operation'' PNone = PStr op \<and> op \<notin> {''partition'', ''fault'', ''shutdown''})"

lemma node_rpc_silent:
  assumes "\<not> answering n" and "ordinary_request q"
  shows "\<exists>e n'. node_rpc api d c q n = (Inl e, n') \<and> \<not> answering n'"
proof (cases "nd_server n")
  case (Some s)
  obtain op where op: "dget_default q ''operation'' PNone = PStr op" "op \<notin> {''partition'', ''fault'', ''shutdown''}"
    using assms(2) by (auto simp: ordinary_request_def)
  have "sv_partitioned s" using assms(1) Some by (simp add: answering_def)
  then have "handle_request api d c q s = (Failure ''ReplicaUnavailable'' ''replica is network partitioned'', s)"
    using op by (simp add: handle_request_def)
  then show ?thesis
    using Some assms(1) by (cases "sv_running s") (auto simp: node_rpc_def reply_result_def node_exit_def answering_def)
qed (use assms in \<open>simp add: node_rpc_def\<close>)

lemma cluster_rpc_silent:
  assumes "silent s node" and "ordinary_request q"
  shows "\<exists>e s'. cluster_rpc api node q s = (Inl e, s') \<and> (\<forall>x. silent s x \<longrightarrow> silent s' x)"
proof (cases "map_of (cl_nodes s) node")
  case (Some n)
  then have "\<not> answering n" using assms(1) by (simp add: silent_def)
  then obtain e n' where "node_rpc api (cl_dimension s) (PDict (cl_config s)) q n = (Inl e, n')" "\<not> answering n'"
    using node_rpc_silent [OF _ assms(2)] by blast
  then show ?thesis using Some by (auto simp: cluster_rpc_def on_node_def silent_def)
qed (simp add: cluster_rpc_def on_node_def)

lemma inv_rpc_silent:
  assumes "ordinary_request q"
  shows "inv_action (\<lambda>s. \<forall>x\<in>U. silent s x) (cluster_rpc api node q)"
  unfolding inv_action_def
proof (intro allI impI)
  fix s :: "'a cluster" assume U: "\<forall>x\<in>U. silent s x"
  show "\<forall>x\<in>U. silent (snd (cluster_rpc api node q s)) x"
  proof (cases "silent s node")
    case True
    then show ?thesis using cluster_rpc_silent [OF _ assms] U by (metis snd_conv)
  next
    case False
    then have "node \<notin> U" using U by blast
    then show ?thesis
      using U by (auto simp: cluster_rpc_def on_node_def silent_def split: option.split prod.split)
  qed
qed

lemma ordinary_requests_all:
  "ordinary_request (configure_request i t p)"
  "ordinary_request [(''operation'', PStr ''status''), (''shard_id'', PInt i)]"
  "operation \<in> {''prepare'', ''commit''} \<Longrightarrow> ordinary_request (entry_request operation i d)"
  "ordinary_request (entries_request i k)"
  "ordinary_request [(''operation'', PStr ''export''), (''shard_id'', PInt i)]"
  "ordinary_request (snapshot_request i rows config k t p checksum)"
  by (auto simp: ordinary_request_def dget_default_def configure_request_def entry_request_def entries_request_def
      snapshot_request_def)

interpretation silence: write_invariant "\<lambda>s. \<forall>x\<in>U. silent s x" api ordinary_request for U api
  by unfold_locales (simp_all only: inv_rpc_silent ordinary_requests_all, simp_all add: silent_def)

section \<open>A minority cannot acknowledge\<close>

text \<open>
  The situation of a shard most of whose replicas are silent: it stays that way through
  elections and prepares, and the request stays uncommitted.
\<close>

definition committed_record :: "pyval \<Rightarrow> bool" where
  "committed_record v \<longleftrightarrow> (\<exists>d. as_dict v = Some d \<and> map_of d ''status'' = Some (PStr ''committed''))"

definition minority :: "string set \<Rightarrow> string list \<Rightarrow> int \<Rightarrow> int \<Rightarrow> string \<Rightarrow> 'c cluster \<Rightarrow> bool" where
  "minority U replicas n i request_id s \<longleftrightarrow>
     shard_count (cl_metadata s) = n \<and> (\<forall>x\<in>U. silent s x) \<and>
     (\<forall>p. map_of (shards (cl_metadata s)) i = Some p \<longrightarrow> p_replicas p = replicas) \<and>
     (\<forall>v. map_of (request_table (cl_metadata s)) request_id = Some v \<longrightarrow> \<not> committed_record v)"

lemma set_placement_simps [simp]:
  "map_of (shards (set_placement i f m)) j =
     (if j = i then map_option f (map_of (shards m) i) else map_of (shards m) j)"
  "request_table (set_placement i f m) = request_table m" "epoch (set_placement i f m) = epoch m"
  "shard_count (set_placement i f m) = shard_count m"
  by (simp_all add: set_placement_def split: option.split)

lemma bump_epoch_simps [simp]:
  "shards (bump_epoch m) = shards m" "request_table (bump_epoch m) = request_table m"
  "epoch (bump_epoch m) = epoch m + 1" "shard_count (bump_epoch m) = shard_count m"
  by (simp_all add: bump_epoch_def)

lemma set_request_simps [simp]:
  "shards (set_request r i e c st m) = shards m" "epoch (set_request r i e c st m) = epoch m"
  "shard_count (set_request r i e c st m) = shard_count m"
  "map_of (request_table (set_request r i e c st m)) x = (if x = r then
     Some (PDict [(''shard_id'', PInt i), (''term'', PInt (e_term e)), (''index'', PInt (e_index e)),
                (''checksum'', PInt c), (''status'', PStr st)]) else map_of (request_table m) x)"
  by (simp_all add: set_request_def)

lemma validated_tables:
  assumes "metadata_validate m = Inr m'"
  shows "shards m' = shards m" "request_table m' = request_table m" "epoch m' = epoch m"
    "shard_count m' = shard_count m" "members m' = members m"
  using assms by (auto simp: metadata_validate_ok)

lemma publish_run:
  assumes "publish_cluster s = (r, t)"
  shows "cl_nodes t = cl_nodes s" "shards (cl_metadata t) = shards (cl_metadata s)"
    "request_table (cl_metadata t) = request_table (cl_metadata s)" "epoch (cl_metadata t) = epoch (cl_metadata s)"
    "shard_count (cl_metadata t) = shard_count (cl_metadata s)" "cl_closed t = cl_closed s"
  using assms by (auto simp: publish_cluster_def validated_tables split: sum.splits)

lemma inv_conj: "inv_action I a \<Longrightarrow> inv_action J a \<Longrightarrow> inv_action (\<lambda>s. I s \<and> J s) a"
  by (simp add: inv_action_def)

lemma inv_rpc_minority: "ordinary_request q \<Longrightarrow> inv_action (minority U reps n i r) (cluster_rpc api node q)"
  unfolding minority_def by (intro inv_conj inv_rpc_silent inv_rpc) (simp_all add: nodes_only_def)

lemma inv_publish_minority: "inv_action (minority U reps n i r) publish_cluster"
  unfolding inv_action_def minority_def silent_def
  using publish_run(1,2,3,5) by (metis (no_types, lifting) surjective_pairing)

interpretation minority_calls: election_invariant "minority U reps n i r" api ordinary_request for U reps n i r api
  by unfold_locales
    (simp_all only: inv_rpc_minority inv_publish_minority ordinary_requests_all,
      auto simp: minority_def silent_def split: if_splits)

lemma placement_at_triple:
  "triple P (placement_at i) (\<lambda>p s. P s \<and> map_of (shards (cl_metadata s)) i = Some p)"
  by (auto simp: triple_def placement_at_def split: option.splits)

text \<open>Only nodes that are not silent contribute to a quorum.\<close>

lemma subseq_set: "subseq zs xs \<Longrightarrow> set zs \<subseteq> set xs"
  by (induction rule: list_emb.induct) auto

lemma collect_excluding:
  assumes "distinct xs" and "\<And>x. inv_action I (f x)"
    and "\<And>x y s t. I s \<Longrightarrow> f x s = (Inr (Some y), t) \<Longrightarrow> x \<notin> U"
  shows "triple I (collect P f xs) (\<lambda>ys _. length ys \<le> card (set xs - U))"
  unfolding triple_def
proof (intro allI impI)
  fix s ys t assume quiet: "I s" and run: "collect P f xs s = (Inr ys, t)"
  have "\<exists>zs. subseq zs xs \<and> list_all2 (\<lambda>x y. x \<notin> U) zs ys"
    by (rule collect_run [OF run assms(2) quiet]) (rule assms(3))
  then obtain zs where zs: "subseq zs xs" "list_all2 (\<lambda>x y. x \<notin> U) zs ys" by blast
  have "\<forall>x \<in> set zs. x \<notin> U" using zs(2) by (induction rule: list_all2_induct) simp_all
  then have "set zs \<subseteq> set xs - U" using subseq_set [OF zs(1)] by blast
  moreover have "distinct zs" using zs(1) assms(1) by (auto simp: subseq_conv_nths intro: distinct_nthsI)
  ultimately have "length zs \<le> card (set xs - U)" by (metis card_mono distinct_card finite_Diff finite_set)
  then show "length ys \<le> card (set xs - U)" using zs(2) list_all2_lengthD by fastforce
qed

lemma send_entry_silent:
  assumes "\<forall>y\<in>U. silent s y" and "send_entry api operation x i e s = (Inr v, t)" and "operation \<in> {''prepare'', ''commit''}"
  shows "x \<notin> U"
proof
  assume "x \<in> U"
  then have quiet: "silent s x" using assms(1) by blast
  obtain d where "cluster_rpc api x (entry_request operation i d) s = (Inr v, t)"
    using assms(2) by (auto simp: send_entry_def split: sum.splits)
  then show False using cluster_rpc_silent [OF quiet ordinary_requests_all(3) [OF assms(3)]] by (metis Inl_Inr_False prod.inject)
qed

lemma commit_prepared_minority:
  assumes "distinct reps" and "card (set reps - U) < length reps div 2 + 1" and "e_shard_id e = i"
  shows "triple (minority U reps n i r) (commit_prepared api e c) (\<lambda>_ _. False)"
proof -
  let ?f = "commit_on api (e_shard_id e) e"
  have "triple (\<lambda>s. \<forall>y\<in>U. silent s y) (collect rpc_error ?f reps) (\<lambda>ys _. length ys \<le> card (set reps - U))"
  proof (rule collect_excluding [OF assms(1)])
    show "inv_action (\<lambda>s. \<forall>y\<in>U. silent s y) (?f x)" for x
      unfolding commit_on_def by (intro inv_intros silence.send_entry_inv) simp
    show "x \<notin> U" if "\<forall>y\<in>U. silent s y" "?f x s = (Inr (Some y), t)" for x y s t
      using that send_entry_silent [of U s api "''commit''" x] by (auto simp: commit_on_def split: sum.splits prod.splits)
  qed
  then have few: "triple (minority U reps n i r) (collect rpc_error ?f reps) (\<lambda>ys _. length ys \<le> card (set reps - U))"
    by (rule triple_weaken) (simp_all add: minority_def)
  show ?thesis
    unfolding commit_prepared_def
  proof (rule triple_bind [OF placement_at_triple])
    fix p
    show "triple (\<lambda>s. minority U reps n i r s \<and> map_of (shards (cl_metadata s)) (e_shard_id e) = Some p)
      (bind (collect rpc_error ?f (p_replicas p)) (\<lambda>committed.
        bind (check (quorum p \<le> length committed) (QuorumUnavailable ''mutation did not reach commit quorum'')) (\<lambda>_.
        bind (on_metadata (\<lambda>m. bump_epoch (set_request (e_request_id e) (e_shard_id e) e c ''committed''
             (set_placement (e_shard_id e)
               (\<lambda>p. p\<lparr>p_committed_index := max (p_committed_index p) (e_index e)\<rparr>) m)))) (\<lambda>_.
        bind publish_cluster (\<lambda>_.
        ok \<lparr>cr_shard_id = e_shard_id e, cr_term = e_term e, cr_index = e_index e,
         cr_request_id = e_request_id e\<rparr>))))) (\<lambda>_ _. False)"
    proof (cases "p_replicas p = reps")
      case True
      have "triple (\<lambda>s. minority U reps n i r s \<and> map_of (shards (cl_metadata s)) (e_shard_id e) = Some p)
          (collect rpc_error ?f (p_replicas p)) (\<lambda>ys _. length ys < quorum p)"
        unfolding True by (rule triple_weaken [OF few]) (use assms(2) True in \<open>auto simp: quorum_def\<close>)
      then show ?thesis by (rule triple_bind) (rule triple_refused, simp)
    next
      case False
      then show ?thesis using assms(3) by (auto simp: triple_def minority_def)
    qed
  qed
qed


lemma write_duplicate_minority:
  assumes "distinct reps" and "card (set reps - U) < length reps div 2 + 1" and "\<not> committed_record d"
  shows "triple (minority U reps n i r) (write_duplicate api m r i c d) (\<lambda>_ _. False)"
proof -
  have status: "map_of x ''status'' \<noteq> Some (PStr ''committed'')" if "as_dict_or d = Inr x" for x
    using assms(3) that by (auto simp: committed_record_def as_dict_or_def split: option.splits)
  show ?thesis
    unfolding write_duplicate_def
    by (intro triple_pure triple_check triple_if triple_step [OF inv_placement_at]
        triple_step [OF minority_calls.ensure_leader_inv] commit_prepared_minority [OF assms(1,2)])
      (use status in \<open>simp_all add: entry_create_def\<close>)
qed

lemma write_fresh_minority:
  assumes "distinct reps" and "card (set reps - U) < length reps div 2 + 1"
    and "triple (minority U reps n i r) again (\<lambda>_ _. False)"
  shows "triple (minority U reps n i r) (write_fresh api m r i c again) (\<lambda>_ _. False)"
proof -
  have request: "inv_action (minority U reps n i r) (on_metadata (\<lambda>m. bump_epoch (set_request r i e c ''prepared'' m)))" for e
    unfolding on_metadata_def by (rule inv_modify) (auto simp: minority_def silent_def committed_record_def)
  show ?thesis
    unfolding write_fresh_def Let_def
    by (intro triple_step [OF inv_placement_at] triple_step [OF minority_calls.ensure_leader_inv]
        triple_step [OF minority_calls.allocate_inv] triple_step [OF inv_publish_minority]
        triple_step [OF minority_calls.prepare_nodes_inv] triple_if assms(3) triple_check
        triple_step [OF request] commit_prepared_minority [OF assms(1,2)])
      (simp_all add: entry_create_def)
qed


lemma write_step_minority:
  assumes "distinct reps" and "card (set reps - U) < length reps div 2 + 1"
    and "item_int m ''id'' = Inr point" and "route_index n point = i"
    and again: "triple (minority U reps n i r) (again i) (\<lambda>_ _. False)"
  shows "triple (minority U reps n i r) (write_step api m r again) (\<lambda>_ _. False)"
proof -
  have "write_duplicate api m r i (payload_checksum m) d s = (Inr x, t) \<Longrightarrow> False"
    if "minority U reps n i r s" "map_of (request_table (cl_metadata s)) r = Some d" for d s x t
    using write_duplicate_minority [OF assms(1,2), of d n i r api m "payload_checksum m"] that
    by (auto simp: triple_def minority_def)
  moreover have "write_fresh api m r i (payload_checksum m) (again i) s = (Inr x, t) \<Longrightarrow> False"
    if "minority U reps n i r s" for s x t
    using write_fresh_minority [OF assms(1,2) again, of api m "payload_checksum m"] that by (auto simp: triple_def)
  moreover have "route_index (shard_count (cl_metadata s)) point = i" if "minority U reps n i r s" for s :: "'a cluster"
    using that assms(4) by (simp add: minority_def)
  ultimately show ?thesis
    unfolding triple_def write_step_def Let_def assms(3) route_def ensure_open_def
    by (auto split: option.splits if_splits)
qed

lemma write_minority:
  assumes "distinct reps" and "card (set reps - U) < length reps div 2 + 1"
    and "item_int m ''id'' = Inr point" and "route_index n point = i"
  shows "triple (minority U reps n i r) (cluster_write api m r k) (\<lambda>_ _. False)"
proof (induction k)
  case 0
  then show ?case unfolding cluster_write.simps by (intro write_step_minority [OF assms] triple_raise)
next
  case (Suc k)
  then show ?case
    unfolding cluster_write.simps
    by (intro write_step_minority [OF assms] triple_step [OF minority_calls.elect_leader_inv])
qed

section \<open>What a commit leaves on the nodes\<close>

definition node_running :: "'c node \<Rightarrow> bool" where
  "node_running n \<longleftrightarrow> (\<forall>sv. nd_server n = Some sv \<longrightarrow> sv_running sv)"

definition nodes_running :: "'c cluster \<Rightarrow> bool" where
  "nodes_running s \<longleftrightarrow> (\<forall>node n. map_of (cl_nodes s) node = Some n \<longrightarrow> node_running n)"

lemma node_rpc_running: "node_rpc api d c q n = (r, n') \<Longrightarrow> node_running n'"
  by (auto simp: node_rpc_def node_running_def node_exit_def split: option.splits prod.splits if_splits)

lemma inv_rpc_running: "inv_action nodes_running (cluster_rpc api node q)"
  using node_rpc_running
  by (fastforce simp: inv_action_def cluster_rpc_def on_node_def nodes_running_def split: option.split prod.split)

text \<open>The entry is committed in the node's journal of shard \<open>i\<close>.\<close>

definition has_entry :: "int \<Rightarrow> int \<Rightarrow> int \<Rightarrow> 'c node \<Rightarrow> bool" where
  "has_entry i index checksum n \<longleftrightarrow>
     (\<exists>sv sh x. nd_server n = Some sv \<and> map_of (sv_shards sv) i = Some sh \<and> index \<in> committed (sh_journal sh) \<and>
        prepared (sh_journal sh) index = Some x \<and> e_mutation_checksum x = checksum)"

lemma shard_commit_entry:
  assumes "shard_commit api e sh = (Inr r, sh')"
  shows "e_index e \<in> committed (sh_journal sh') \<and>
    (\<exists>x. prepared (sh_journal sh') (e_index e) = Some x \<and> e_mutation_checksum x = e_mutation_checksum e)"
proof -
  obtain j x k where p: "journal_prepare e (sh_journal sh) = Inr j" "journal_commit (e_index e) j = Inr (x, k)"
    and step: "if sh_applied_index sh < e_index x then replay_entry api x (sh\<lparr>sh_journal := k\<rparr>) = (Inr (), sh')
     else sh' = sh\<lparr>sh_journal := k\<rparr>"
    using assms by (rule shard_commit_Inr)
  obtain y where y: "prepared j (e_index e) = Some y" "e_mutation_checksum y = e_mutation_checksum e"
    using p(1) by (rule journal_prepare_result)
  have "sh_journal sh' = k" using step by (auto simp: replay_entry_run split: if_splits prod.splits sum.splits)
  moreover have "prepared k = prepared j" "e_index e \<in> committed k"
    using p(2) y by (auto simp: journal_commit_def journal_append_def split: if_splits)
  ultimately show ?thesis using y by simp
qed

lemma node_commit_entry:
  assumes "node_rpc api d c (entry_request ''commit'' i (entry_fields e)) n = (Inr v, n')"
    and "node_running n" and "entry_validate e = Inr ()"
  shows "has_entry i (e_index e) (e_mutation_checksum e) n'"
proof -
  let ?q = "entry_request ''commit'' i (entry_fields e)"
  obtain sv where sv: "nd_server n = Some sv" using assms(1) by (auto simp: node_rpc_def split: option.splits)
  have op: "dget_default ?q ''operation'' PNone = PStr ''commit''" by (simp add: entry_request_def dget_default_def)
  obtain sv' where h: "handle_request api d c ?q sv = (Answer v, sv')"
    using assms(1) sv by (auto simp: node_rpc_def reply_result_def split: prod.splits reply.splits if_splits)
  then have serve: "serve_operation api d c (PStr ''commit'') ?q sv = (Inr v, sv')"
    using op by (auto simp: handle_request_def Let_def split: if_splits sum.splits prod.splits)
  then obtain sh sh' where sh: "shard_commit api e sh = (Inr v, sh')" "sv' = sv\<lparr>sv_shards := dict_set i sh' (sv_shards sv)\<rparr>"
    using entry_from_dict_raw [OF assms(3)]
    by (auto simp: serve_operation_def int_item_def dget_def entry_request_def on_shard_def shard_operation_def
        split: option.splits prod.splits)
  have "sv_running sv'" using assms(2) sv sh(2) by (simp add: node_running_def)
  then have "n' = n\<lparr>nd_server := Some sv'\<rparr>" using assms(1) sv h by (auto simp: node_rpc_def)
  then show ?thesis using shard_commit_entry [OF sh(1)] sh(2) by (auto simp: has_entry_def)
qed

definition cluster_has :: "'c cluster \<Rightarrow> int \<Rightarrow> int \<Rightarrow> int \<Rightarrow> string \<Rightarrow> bool" where
  "cluster_has s i index checksum node \<longleftrightarrow> (\<exists>n. map_of (cl_nodes s) node = Some n \<and> has_entry i index checksum n)"

lemma send_commit_has:
  assumes "send_entry api ''commit'' node i e s = (Inr v, t)" and "nodes_running s"
  shows "cluster_has t i (e_index e) (e_mutation_checksum e) node"
proof -
  have e: "entry_validate e = Inr ()" "cluster_rpc api node (entry_request ''commit'' i (entry_fields e)) s = (Inr v, t)"
    using assms(1) by (auto simp: send_entry_def entry_to_dict_def split: sum.splits)
  then obtain n n' where n: "map_of (cl_nodes s) node = Some n" "t = s\<lparr>cl_nodes := dict_set node n' (cl_nodes s)\<rparr>"
      "node_rpc api (cl_dimension s) (PDict (cl_config s)) (entry_request ''commit'' i (entry_fields e)) n = (Inr v, n')"
    by (auto simp: cluster_rpc_def on_node_def split: option.splits prod.splits)
  have "node_running n" using assms(2) n(1) by (auto simp: nodes_running_def)
  then show ?thesis using node_commit_entry [OF n(3) _ e(1)] n(2) by (simp add: cluster_has_def)
qed

lemma send_entry_frame:
  assumes "send_entry api operation node i e s = (r, t)"
  shows "x \<noteq> node \<Longrightarrow> map_of (cl_nodes t) x = map_of (cl_nodes s) x" "cl_metadata t = cl_metadata s"
    "cl_file t = cl_file s" "cl_closed t = cl_closed s"
  using assms by (auto simp: send_entry_def cluster_rpc_def on_node_def split: sum.splits option.splits prod.splits)

lemma commit_on_run:
  "commit_on api i e node s =
     (case send_entry api ''commit'' node i e s of (Inl x, t) \<Rightarrow> (Inl x, t) | (Inr v, t) \<Rightarrow> (Inr (Some node), t))"
  by (simp add: commit_on_def split: prod.split sum.split)

lemma collect_commits:
  assumes "collect rpc_error (commit_on api i e) xs s = (Inr ys, t)"
    and "nodes_running s" and "distinct xs"
  shows "subseq ys xs \<and> (\<forall>y \<in> set ys. cluster_has t i (e_index e) (e_mutation_checksum e) y) \<and>
    (\<forall>x. x \<notin> set xs \<longrightarrow> map_of (cl_nodes t) x = map_of (cl_nodes s) x) \<and> cl_metadata t = cl_metadata s \<and>
    cl_closed t = cl_closed s"
  using assms
proof (induction xs arbitrary: s ys)
  case (Cons x xs)
  obtain r u where run: "send_entry api ''commit'' x i e s = (r, u)" by force
  have frame: "map_of (cl_nodes u) y = map_of (cl_nodes s) y" if "y \<noteq> x" for y
    using send_entry_frame(1) [OF run that] .
  have "inv_action nodes_running (send_entry api ''commit'' x i e)"
    unfolding send_entry_def by (intro inv_intros inv_rpc_running)
  then have running: "nodes_running u" using Cons.prems(2) run by (rule inv_actionD)
  obtain ys' where rest: "collect rpc_error (commit_on api i e) xs u = (Inr ys', t)"
    and ys: "ys = (case r of Inl _ \<Rightarrow> ys' | Inr _ \<Rightarrow> x # ys')"
    using Cons.prems(1) run by (auto simp: commit_on_run [of api i e x s] split: sum.splits prod.splits if_splits)
  note IH = Cons.IH [OF rest running]
  have x: "x \<notin> set xs" using Cons.prems(3) by simp
  have "cluster_has t i (e_index e) (e_mutation_checksum e) x" if "r = Inr v" for v
    using send_commit_has [OF run [unfolded that] Cons.prems(2)] IH x Cons.prems(3) by (simp add: cluster_has_def)
  then show ?case
    using IH ys frame send_entry_frame(2,4) [OF run] Cons.prems(3)
    by (auto split: sum.splits intro: list_emb_Cons)
qed simp

section \<open>What an acknowledgement means\<close>

definition request_record :: "commit_result \<Rightarrow> int \<Rightarrow> pyval" where
  "request_record r checksum =
     PDict [(''shard_id'', PInt (cr_shard_id r)), (''term'', PInt (cr_term r)), (''index'', PInt (cr_index r)),
            (''checksum'', PInt checksum), (''status'', PStr ''committed'')]"

text \<open>
  A quorum of the shard's replicas has the entry committed in its journal, the metadata knows
  the request and its index as committed, and this metadata is what the file holds.
\<close>

definition acknowledged :: "commit_result \<Rightarrow> int \<Rightarrow> 'c cluster \<Rightarrow> bool" where
  "acknowledged r checksum s \<longleftrightarrow>
     (\<exists>p nodes. map_of (shards (cl_metadata s)) (cr_shard_id r) = Some p \<and> distinct nodes \<and>
        set nodes \<subseteq> set (p_replicas p) \<and> quorum p \<le> length nodes \<and> cr_index r \<le> p_committed_index p \<and>
        (\<forall>node \<in> set nodes. cluster_has s (cr_shard_id r) (cr_index r) checksum node)) \<and>
     map_of (request_table (cl_metadata s)) (cr_request_id r) = Some (request_record r checksum) \<and>
     (\<exists>data. metadata_text (cl_metadata s) = Inr data \<and> cl_file s = Some data)"

lemma published_file:
  assumes "publish_cluster s = (Inr (), t)"
  shows "metadata_validate (cl_metadata t) = Inr (cl_metadata t)"
    "\<exists>data. metadata_text (cl_metadata t) = Inr data \<and> cl_file t = Some data"
  using assms metadata_validate_idem by (auto simp: publish_cluster_def split: sum.splits)

lemma commit_prepared_acknowledged:
  "triple (\<lambda>s. nodes_running s \<and> shard_count (cl_metadata s) = n \<and> cl_closed s = b) (commit_prepared api e checksum)
     (\<lambda>r s. r = \<lparr>cr_shard_id = e_shard_id e, cr_term = e_term e, cr_index = e_index e, cr_request_id = e_request_id e\<rparr> \<and>
        shard_count (cl_metadata s) = n \<and> cl_closed s = b \<and>
        (e_mutation_checksum e = checksum \<longrightarrow> acknowledged r checksum s))"
  unfolding triple_def
proof (intro allI impI)
  fix s r t assume s: "nodes_running s \<and> shard_count (cl_metadata s) = n \<and> cl_closed s = b"
    and run: "commit_prepared api e checksum s = (Inr r, t)"
  let ?i = "e_shard_id e"
  let ?m = "\<lambda>m. bump_epoch (set_request (e_request_id e) ?i e checksum ''committed''
    (set_placement ?i (\<lambda>p. p\<lparr>p_committed_index := max (p_committed_index p) (e_index e)\<rparr>) m))"
  obtain p ys u where p: "map_of (shards (cl_metadata s)) ?i = Some p"
    and ys: "collect rpc_error (commit_on api ?i e) (p_replicas p) s = (Inr ys, u)"
    and quorum: "quorum p \<le> length ys"
    and pub: "publish_cluster (u\<lparr>cl_metadata := ?m (cl_metadata u)\<rparr>) = (Inr (), t)"
    and r: "r = \<lparr>cr_shard_id = ?i, cr_term = e_term e, cr_index = e_index e, cr_request_id = e_request_id e\<rparr>"
    using run unfolding commit_prepared_def placement_at_def on_metadata_def
    by (auto split: option.splits sum.splits prod.splits if_splits)
  note pubs = publish_run [OF pub] and stored = published_file [OF pub]
  have meta: "cl_metadata u = cl_metadata s" "cl_closed u = cl_closed s"
  proof -
    have "inv_action (\<lambda>x. cl_metadata x = cl_metadata s \<and> cl_closed x = cl_closed s)
        (collect rpc_error (commit_on api ?i e) (p_replicas p))"
      unfolding commit_on_def send_entry_def by (intro inv_intros inv_rpc) (simp add: nodes_only_def)
    from inv_actionD [OF this _ ys] show "cl_metadata u = cl_metadata s" "cl_closed u = cl_closed s" by simp_all
  qed
  let ?p = "p\<lparr>p_committed_index := max (p_committed_index p) (e_index e)\<rparr>"
  have p': "map_of (shards (cl_metadata t)) ?i = Some ?p" using pubs(2) p meta by simp
  have "placement_ok ?p" using metadata_placement_ok [OF stored(1) p'] by blast
  then have dist: "distinct (p_replicas p)" by (simp add: placement_ok_def)
  have c: "subseq ys (p_replicas p)" "\<forall>y \<in> set ys. cluster_has u ?i (e_index e) (e_mutation_checksum e) y"
    using collect_commits [OF ys _ dist] s by blast+
  have nodes: "cluster_has t ?i (e_index e) (e_mutation_checksum e) y" if "y \<in> set ys" for y
    using c(2) that pubs(1) by (simp add: cluster_has_def)
  have sub: "set ys \<subseteq> set (p_replicas p)" "distinct ys"
    using subseq_set [OF c(1)] c(1) dist by (auto simp: subseq_conv_nths intro: distinct_nthsI)
  have "acknowledged r checksum t" if "e_mutation_checksum e = checksum"
    unfolding acknowledged_def
  proof (intro conjI)
    show "\<exists>p nodes. map_of (shards (cl_metadata t)) (cr_shard_id r) = Some p \<and> distinct nodes \<and>
        set nodes \<subseteq> set (p_replicas p) \<and> quorum p \<le> length nodes \<and> cr_index r \<le> p_committed_index p \<and>
        (\<forall>node \<in> set nodes. cluster_has t (cr_shard_id r) (cr_index r) checksum node)"
      using p' sub quorum nodes that r by (intro exI [of _ ?p] exI [of _ ys]) (simp add: quorum_def)
    show "map_of (request_table (cl_metadata t)) (cr_request_id r) = Some (request_record r checksum)"
      using pubs(3) r by (simp add: request_record_def)
    show "\<exists>data. metadata_text (cl_metadata t) = Inr data \<and> cl_file t = Some data" using stored(2) .
  qed
  then show "r = \<lparr>cr_shard_id = ?i, cr_term = e_term e, cr_index = e_index e, cr_request_id = e_request_id e\<rparr> \<and>
      shard_count (cl_metadata t) = n \<and> cl_closed t = b \<and> (e_mutation_checksum e = checksum \<longrightarrow> acknowledged r checksum t)"
    using r pubs(5,6) meta s by simp
qed

section \<open>Writes\<close>

definition pending :: "int \<Rightarrow> bool \<Rightarrow> string \<Rightarrow> 'c cluster \<Rightarrow> bool" where
  "pending n b r s \<longleftrightarrow> nodes_running s \<and> shard_count (cl_metadata s) = n \<and> cl_closed s = b \<and>
     (\<forall>v. map_of (request_table (cl_metadata s)) r = Some v \<longrightarrow> \<not> committed_record v)"

lemma inv_rpc_pending: "inv_action (pending n b r) (cluster_rpc api node q)"
  unfolding pending_def by (intro inv_conj inv_rpc_running inv_rpc) (simp_all add: nodes_only_def)

lemma inv_publish_pending: "inv_action (pending n b r) publish_cluster"
  unfolding inv_action_def pending_def nodes_running_def
  using publish_run(1,3,5,6) by (metis (no_types, lifting) surjective_pairing)

interpretation pending_calls: election_invariant "pending n b r" api ordinary_request for n b r api
  by unfold_locales
    (simp_all only: inv_rpc_pending inv_publish_pending ordinary_requests_all,
      auto simp: pending_def nodes_running_def)

definition write_done :: "pyval \<Rightarrow> string \<Rightarrow> int \<Rightarrow> int \<Rightarrow> bool \<Rightarrow> commit_result \<Rightarrow> 'c cluster \<Rightarrow> bool" where
  "write_done m r i n b res s \<longleftrightarrow> acknowledged res (payload_checksum m) s \<and> cr_request_id res = r \<and>
     cr_shard_id res = i \<and> shard_count (cl_metadata s) = n \<and> cl_closed s = b"

lemma commit_created:
  "triple (pending n b r) (commit_prepared api (entry_create i t p k r m) (payload_checksum m)) (write_done m r i n b)"
  using commit_prepared_acknowledged [of n b api "entry_create i t p k r m" "payload_checksum m"]
  by (rule triple_weaken) (auto simp: pending_def write_done_def entry_create_def)

lemma write_duplicate_done:
  assumes "\<not> committed_record d"
  shows "triple (pending n b r) (write_duplicate api m r i (payload_checksum m) d) (write_done m r i n b)"
proof -
  have status: "map_of x ''status'' \<noteq> Some (PStr ''committed'')" if "as_dict_or d = Inr x" for x
    using assms that by (auto simp: committed_record_def as_dict_or_def split: option.splits)
  show ?thesis
    unfolding write_duplicate_def
    by (intro triple_pure triple_check triple_if triple_step [OF inv_placement_at]
        triple_step [OF pending_calls.ensure_leader_inv] commit_created)
      (use status in simp)
qed

lemma write_fresh_done:
  assumes "triple (pending n b r) again (write_done m r i n b)"
  shows "triple (pending n b r) (write_fresh api m r i (payload_checksum m) again) (write_done m r i n b)"
proof -
  have request: "inv_action (pending n b r) (on_metadata (\<lambda>x. bump_epoch (set_request r i e c ''prepared'' x)))" for e c
    unfolding on_metadata_def by (rule inv_modify) (auto simp: pending_def nodes_running_def committed_record_def)
  show ?thesis
    unfolding write_fresh_def Let_def
    by (intro triple_step [OF inv_placement_at] triple_step [OF pending_calls.ensure_leader_inv]
        triple_step [OF pending_calls.allocate_inv] triple_step [OF inv_publish_pending]
        triple_step [OF pending_calls.prepare_nodes_inv] triple_if assms triple_check
        triple_step [OF request] commit_created)
qed

lemma write_step_run:
  assumes "write_step api m r again s = (Inr x, t)"
  obtains point i where "\<not> cl_closed s" "item_int m ''id'' = Inr point"
    "i = route_index (shard_count (cl_metadata s)) point"
    "(case map_of (request_table (cl_metadata s)) r of
        Some d \<Rightarrow> write_duplicate api m r i (payload_checksum m) d
      | None \<Rightarrow> write_fresh api m r i (payload_checksum m) (again i)) s = (Inr x, t)"
proof -
  obtain point where point: "item_int m ''id'' = Inr point"
    using assms by (cases "item_int m ''id''") (auto simp: write_step_def ensure_open_def split: if_splits)
  then show ?thesis
    using assms that by (auto simp: write_step_def Let_def route_def ensure_open_def split: if_splits option.splits)
qed

lemma write_step_done:
  assumes "triple (pending n b r) (again i) (write_done m r i n b)"
    and "item_int m ''id'' = Inr point" and "i = route_index n point"
  shows "triple (pending n b r) (write_step api m r again) (\<lambda>x s. \<not> b \<and> write_done m r i n b x s)"
  unfolding triple_def
proof (intro allI impI)
  fix s x t assume s: "pending n b r s" and run: "write_step api m r again s = (Inr x, t)"
  obtain p j where open_s: "\<not> cl_closed s" and p: "item_int m ''id'' = Inr p"
    and j: "j = route_index (shard_count (cl_metadata s)) p"
    and step: "(case map_of (request_table (cl_metadata s)) r of
        Some d \<Rightarrow> write_duplicate api m r j (payload_checksum m) d
      | None \<Rightarrow> write_fresh api m r j (payload_checksum m) (again j)) s = (Inr x, t)"
    using run by (rule write_step_run)
  have "j = i" using p j assms(2,3) s by (simp add: pending_def)
  have "\<not> b" using s open_s by (simp add: pending_def)
  moreover note step [unfolded \<open>j = i\<close>]
  then have "write_done m r i n b x t"
    using s tripleD [OF write_fresh_done [OF assms(1)] s] tripleD [OF write_duplicate_done s]
    by (auto simp: pending_def split: option.splits)
  ultimately show "\<not> b \<and> write_done m r i n b x t" by simp
qed

lemma write_done_run:
  assumes "item_int m ''id'' = Inr point" and "i = route_index n point"
  shows "triple (pending n b r) (cluster_write api m r k) (\<lambda>x s. \<not> b \<and> write_done m r i n b x s)"
proof (induction k)
  case 0
  then show ?case unfolding cluster_write.simps by (intro write_step_done [OF _ assms] triple_raise)
next
  case (Suc k)
  have "triple (pending n b r) (bind (elect_leader api j) (\<lambda>_. cluster_write api m r k)) (write_done m r i n b)" for j
    by (intro triple_step [OF pending_calls.elect_leader_inv] triple_weaken [OF Suc]) auto
  then show ?case unfolding cluster_write.simps by (intro write_step_done [OF _ assms])
qed

lemma write_retry:
  assumes rec: "map_of (request_table (cl_metadata s)) r = Some (request_record res (payload_checksum m))"
    and "cr_request_id res = r" and "item_int m ''id'' = Inr point"
    and "cr_shard_id res = route_index (shard_count (cl_metadata s)) point" and "\<not> cl_closed s"
  shows "cluster_write api m r k s = (Inr res, s)"
proof -
  have "write_duplicate api m r (cr_shard_id res) (payload_checksum m) (request_record res (payload_checksum m)) s =
      (Inr res, s)"
    using assms(2) by (cases res) (simp add: write_duplicate_def request_record_def item_int_def item_def as_dict_or_def dget_def)
  then have "write_step api m r again s = (Inr res, s)" for again
    using assms by (simp add: write_step_def Let_def route_def ensure_open_def)
  then show ?thesis by (cases k) simp_all
qed

lemma write_conflict:
  assumes "map_of (request_table (cl_metadata s)) r = Some (request_record res c)" and "c \<noteq> payload_checksum m"
    and "item_int m ''id'' = Inr point" and "\<not> cl_closed s"
  shows "cluster_write api m r k s = (Inl (ProtocolError ''request ID reused with conflicting mutation''), s)"
proof -
  have "write_duplicate api m r i (payload_checksum m) (request_record res c) s =
      (Inl (ProtocolError ''request ID reused with conflicting mutation''), s)" for i
    using assms(2) by (simp add: write_duplicate_def request_record_def item_int_def item_def as_dict_or_def dget_def)
  then have "write_step api m r again s = (Inl (ProtocolError ''request ID reused with conflicting mutation''), s)" for again
    using assms by (simp add: write_step_def Let_def route_def ensure_open_def)
  then show ?thesis by (cases k) simp_all
qed

end
