(* ===== verification/ClusterViews.thy ===== *)
theory ClusterViews
  imports ClusterSafety
begin

text \<open>
  What the coordinator learns of the replicas and what its decisions rest on: elections,
  the choice of a replica to read from, and the order in which the metadata evolves.
\<close>

section \<open>Operations on the shards of the nodes\<close>

definition cluster_shard :: "'c cluster \<Rightarrow> string \<Rightarrow> int \<Rightarrow> 'c shard option" where
  "cluster_shard s node i =
     Option.bind (map_of (cl_nodes s) node) (\<lambda>n. Option.bind (nd_server n) (\<lambda>sv. map_of (sv_shards sv) i))"

definition shard_request :: "request \<Rightarrow> string \<Rightarrow> int \<Rightarrow> bool" where
  "shard_request q op i \<longleftrightarrow> dget_default q ''operation'' PNone = PStr op \<and> int_item q ''shard_id'' = Inr i \<and>
     op \<notin> {''partition'', ''fault'', ''shutdown'', ''crash'', ''configure''}"

lemma serve_shard_request:
  "shard_request q op i \<Longrightarrow>
     serve_operation api d c (PStr op) q sv = on_shard i (shard_operation api (PStr op) q) sv"
  by (auto simp: shard_request_def serve_operation_def)

lemma handle_shard_request:
  assumes "shard_request q op i" and "handle_request api d c q sv = (r, sv')"
  obtains (refused) "sv' = sv" "\<And>v. r \<noteq> Answer v"
  | (served) sh where "map_of (sv_shards sv) i = Some sh"
      "map_of (sv_shards sv') = (map_of (sv_shards sv))(i \<mapsto> snd (shard_operation api (PStr op) q sh))"
      "sv_running sv' = sv_running sv"
      "\<And>v. r = Answer v \<Longrightarrow> fst (shard_operation api (PStr op) q sh) = Inr v"
proof (cases "\<not> sv_partitioned sv \<and> map_of (sv_shards sv) i \<noteq> None")
  case False
  then have "sv' = sv" "\<And>v. r \<noteq> Answer v"
    using assms serve_shard_request [OF assms(1), of api d c sv]
    by (auto simp: handle_request_def Let_def shard_request_def on_shard_def split: if_splits option.splits)
  then show ?thesis by (rule refused)
next
  case True
  then obtain sh where sh: "map_of (sv_shards sv) i = Some sh" by blast
  obtain x sh' where op: "shard_operation api (PStr op) q sh = (x, sh')" by force
  have "serve_operation api d c (PStr op) q sv = (x, sv\<lparr>sv_shards := dict_set i sh' (sv_shards sv)\<rparr>)"
    unfolding serve_shard_request [OF assms(1)] using sh op by (simp add: on_shard_def)
  then have "map_of (sv_shards sv') = (map_of (sv_shards sv))(i \<mapsto> sh')" "sv_running sv' = sv_running sv"
    "\<And>v. r = Answer v \<Longrightarrow> x = Inr v"
    using assms True by (auto simp: handle_request_def Let_def shard_request_def split: sum.splits if_splits)
  then show ?thesis using served [OF sh] op by simp
qed

lemma shard_call:
  assumes "cluster_rpc api node q s = (r, t)" and "nodes_running s" and "shard_request q op i"
  obtains (refused) "cluster_shard t = cluster_shard s" "\<exists>e. r = Inl e"
  | (served) sh where "cluster_shard s node i = Some sh"
      "cluster_shard t = (cluster_shard s)(node := (cluster_shard s node)(i \<mapsto> snd (shard_operation api (PStr op) q sh)))"
      "\<And>v. r = Inr v \<Longrightarrow> fst (shard_operation api (PStr op) q sh) = Inr v"
proof (cases "Option.bind (map_of (cl_nodes s) node) nd_server")
  case None
  then have "cluster_shard t = cluster_shard s" "\<exists>e. r = Inl e"
    using assms(1)
    by (auto simp: cluster_rpc_def on_node_def node_rpc_def cluster_shard_def fun_eq_iff split: option.splits)
  then show ?thesis by (rule refused)
next
  case (Some sv)
  then obtain n where n: "map_of (cl_nodes s) node = Some n" "nd_server n = Some sv" by (auto simp: bind_eq_Some_conv)
  have running: "sv_running sv" using assms(2) n by (auto simp: nodes_running_def node_running_def)
  obtain y sv' where h: "handle_request api (cl_dimension s) (PDict (cl_config s)) q sv = (y, sv')" by force
  have "y \<noteq> Crashed"
    using h assms(3) by (auto simp: handle_request_def shard_request_def Let_def split: if_splits sum.splits prod.splits)
  have t: "cluster_shard t = (cluster_shard s)(node := map_of (sv_shards sv'))" "r = reply_result y"
    if "sv_running sv'"
    using assms(1) n h that \<open>y \<noteq> Crashed\<close>
    by (auto simp: cluster_rpc_def on_node_def node_rpc_def cluster_shard_def fun_eq_iff)
  have shards: "cluster_shard s node = map_of (sv_shards sv)" using n by (simp add: cluster_shard_def fun_eq_iff)
  from assms(3) h show ?thesis
  proof (cases rule: handle_shard_request)
    case refused
    then have "cluster_shard t = cluster_shard s" using t running shards by (simp add: fun_upd_idem)
    moreover have "\<exists>e. r = Inl e" using refused t running by (auto simp: reply_result_def split: reply.splits)
    ultimately show ?thesis by (rule that(1))
  next
    case (served sh)
    then show ?thesis
      using t running shards that(2) [of sh] by (auto simp: reply_result_def split: reply.splits if_splits)
  qed
qed

section \<open>The replicas as a status call shows them\<close>

definition shard_view :: "'c cluster \<Rightarrow> string \<Rightarrow> int \<Rightarrow> (int \<times> int \<times> int) option" where
  "shard_view s node i = map_option (\<lambda>sh. (sh_term sh, sh_placement_epoch sh, sh_applied_index sh)) (cluster_shard s node i)"

lemma status_is_request:
  "shard_request [(''operation'', PStr ''status''), (''shard_id'', PInt i)] ''status'' i"
  by (simp add: shard_request_def dget_default_def int_item_def dget_def)

lemma shard_operation_status: "shard_operation api (PStr ''status'') q = shard_status api"
  by (simp add: shard_operation_def)

lemma shard_status_run:
  "shard_status api sh = (r, sh') \<Longrightarrow>
     sh_term sh' = sh_term sh \<and> sh_placement_epoch sh' = sh_placement_epoch sh \<and> sh_applied_index sh' = sh_applied_index sh \<and>
     (\<forall>v. r = Inr v \<longrightarrow> item v ''term'' = Inr (PInt (sh_term sh)) \<and> item v ''applied_index'' = Inr (PInt (sh_applied_index sh)))"
  by (auto simp: shard_status_def on_collection_run item_def as_dict_or_def dget_def split: prod.splits sum.splits)

lemma status_view:
  assumes "cluster_status api node i s = (r, t)" and "nodes_running s"
  shows "shard_view t = shard_view s"
    "r = Inr v \<Longrightarrow> \<exists>term epoch applied. shard_view s node i = Some (term, epoch, applied) \<and>
       item v ''term'' = Inr (PInt term) \<and> item_int v ''applied_index'' = Inr applied"
proof -
  have run: "cluster_rpc api node [(''operation'', PStr ''status''), (''shard_id'', PInt i)] s = (r, t)"
    using assms(1) by (simp add: cluster_status_def)
  have "shard_view t = shard_view s \<and> (\<forall>v. r = Inr v \<longrightarrow> (\<exists>term epoch applied.
      shard_view s node i = Some (term, epoch, applied) \<and> item v ''term'' = Inr (PInt term) \<and>
      item_int v ''applied_index'' = Inr applied))"
    using run assms(2) status_is_request
  proof (cases rule: shard_call)
    case refused
    then show ?thesis by (auto simp: shard_view_def fun_eq_iff)
  next
    case (served sh)
    obtain x sh' where op: "shard_status api sh = (x, sh')" by force
    note st = shard_status_run [OF op]
    have "shard_view t = shard_view s"
      using served(1,2) st op by (auto simp: shard_view_def fun_eq_iff shard_operation_status)
    moreover have "x = Inr v" if "r = Inr v" for v using served(3) [OF that] op by (simp add: shard_operation_status)
    ultimately show ?thesis
      using served(1) st by (auto simp: shard_view_def item_int_def)
  qed
  then show "shard_view t = shard_view s"
    "r = Inr v \<Longrightarrow> \<exists>term epoch applied. shard_view s node i = Some (term, epoch, applied) \<and>
       item v ''term'' = Inr (PInt term) \<and> item_int v ''applied_index'' = Inr applied" by blast+
qed

definition seen :: "(string \<Rightarrow> int \<Rightarrow> (int \<times> int \<times> int) option) \<Rightarrow> 'c cluster \<Rightarrow> bool" where
  "seen V s \<longleftrightarrow> nodes_running s \<and> shard_view s = V"

lemma inv_status_seen: "inv_action (seen V) (cluster_status api node i)"
proof -
  have "inv_action nodes_running (cluster_status api node i)"
    unfolding cluster_status_def by (rule inv_rpc_running)
  moreover have "shard_view (snd (cluster_status api node i s)) = shard_view s" if "nodes_running s" for s
    using status_view(1) [OF _ that] by (metis surjective_pairing)
  ultimately show ?thesis by (simp add: inv_action_def seen_def)
qed

text \<open>The replica a read is sent to has applied everything that is committed.\<close>

lemma first_of_run:
  assumes "first_of P f e xs s = (Inr y, t)" and "\<And>x. inv_action I (f x)" and "I s"
  shows "\<exists>x u. x \<in> set xs \<and> I u \<and> f x u = (Inr (Some y), t)"
  using assms
proof (induction xs arbitrary: s)
  case (Cons x xs)
  obtain r u where run: "catching P (f x) (\<lambda>_. ok None) s = (r, u)" by force
  have "I u" using inv_actionD [OF inv_catching [OF Cons.prems(2) inv_basic(1)] Cons.prems(3) run] .
  with Cons.prems(1) run obtain r' where r: "r = Inr r'"
    and rest: "(case r' of Some y \<Rightarrow> ok y | None \<Rightarrow> first_of P f e xs) u = (Inr y, t)"
    by (auto simp del: catching_run split: sum.splits prod.splits)
  show ?case
  proof (cases r')
    case None
    then show ?thesis using Cons.IH [of u] rest \<open>I u\<close> Cons.prems(2) by auto
  next
    case (Some z)
    then have "f x s = (Inr (Some y), t)"
      using run r rest by (auto split: sum.splits prod.splits if_splits)
    then show ?thesis using Cons.prems(3) by auto
  qed
qed simp

lemma query_replica_view:
  assumes "query_replica api p k s = (Inr node, t)" and "nodes_running s"
  shows "seen (shard_view s) t \<and> node \<in> set (read_order p) \<and>
    (\<exists>term epoch applied. shard_view s node (p_shard_id p) = Some (term, epoch, applied) \<and> k \<le> applied)"
proof -
  let ?f = "\<lambda>node. bind (cluster_status api node (p_shard_id p)) (\<lambda>status.
       bind (pure (item_int status ''applied_index'')) (\<lambda>applied.
       ok (if k \<le> applied then Some node else None)))"
  have inv: "inv_action (seen (shard_view s)) (?f x)" for x by (intro inv_intros inv_status_seen)
  have "seen (shard_view s) s" using assms(2) by (simp add: seen_def)
  then obtain x u where x: "x \<in> set (read_order p)" "seen (shard_view s) u" "?f x u = (Inr (Some node), t)"
    using first_of_run [OF assms(1) [unfolded query_replica_def] inv] by blast
  have "seen (shard_view s) t" using inv_actionD [OF inv x(2,3)] .
  moreover obtain v w where v: "cluster_status api x (p_shard_id p) u = (Inr v, w)" "x = node"
      "\<exists>applied. item_int v ''applied_index'' = Inr applied \<and> k \<le> applied"
    using x(3) by (auto split: sum.splits prod.splits if_splits)
  have "\<exists>term epoch applied. shard_view s node (p_shard_id p) = Some (term, epoch, applied) \<and> k \<le> applied"
    using status_view(2) [OF v(1)] x(2) v(2,3) by (auto simp: seen_def)
  ultimately show ?thesis using x(1) v(2) by blast
qed

section \<open>Configuration\<close>

lemma configure_view:
  assumes "configure api node p s = (Inr v, t)" and "nodes_running s"
  shows "\<exists>a. shard_view t node (p_shard_id p) = Some (p_term p, p_placement_epoch p, a)"
    "\<And>x. x \<noteq> node \<Longrightarrow> shard_view t x = shard_view s x"
    "nodes_running t" "cl_metadata t = cl_metadata s" "cl_file t = cl_file s"
proof -
  let ?i = "p_shard_id p" and ?q = "configure_request (p_shard_id p) (p_term p) (p_placement_epoch p)"
  have run: "cluster_rpc api node ?q s = (Inr v, t)" using assms(1) by (simp add: configure_def)
  show "nodes_running t" using inv_actionD [OF inv_rpc_running assms(2) run] .
  obtain n n' where n: "map_of (cl_nodes s) node = Some n" "t = s\<lparr>cl_nodes := dict_set node n' (cl_nodes s)\<rparr>"
      "node_rpc api (cl_dimension s) (PDict (cl_config s)) ?q n = (Inr v, n')"
    using run by (auto simp: cluster_rpc_def on_node_def split: option.splits prod.splits)
  then show "\<And>x. x \<noteq> node \<Longrightarrow> shard_view t x = shard_view s x" "cl_metadata t = cl_metadata s" "cl_file t = cl_file s"
    by (simp_all add: shard_view_def cluster_shard_def fun_eq_iff)
  obtain sv where sv: "nd_server n = Some sv" using n(3) by (auto simp: node_rpc_def split: option.splits)
  have running: "sv_running sv" using assms(2) n(1) sv by (auto simp: nodes_running_def node_running_def)
  obtain sv' where h: "handle_request api (cl_dimension s) (PDict (cl_config s)) ?q sv = (Answer v, sv')"
    using n(3) sv by (auto simp: node_rpc_def reply_result_def split: prod.splits reply.splits if_splits)
  have "dget_default ?q ''operation'' PNone = PStr ''configure''" by (simp add: configure_request_def dget_default_def)
  then have "serve_operation api (cl_dimension s) (PDict (cl_config s)) (PStr ''configure'') ?q sv = (Inr v, sv')"
    using h by (auto simp: handle_request_def Let_def split: if_splits sum.splits prod.splits)
  then obtain u where o: "open_if_absent api (cl_dimension s) (PDict (cl_config s)) ?i sv = (Inr (), u)"
    and c: "on_shard ?i (shard_configure api (p_term p) (p_placement_epoch p)) u = (Inr v, sv')"
    by (auto simp: serve_operation_def configure_request_def int_item_def dget_def split: prod.splits sum.splits)
  obtain sh sh' where sh: "shard_configure api (p_term p) (p_placement_epoch p) sh = (Inr v, sh')"
      "sv' = u\<lparr>sv_shards := dict_set ?i sh' (sv_shards u)\<rparr>"
    using c by (auto simp: on_shard_def split: option.splits prod.splits)
  have "sv_running sv'" using o sh(2) running by (auto simp: open_if_absent_def split: option.splits prod.splits sum.splits)
  then have "nd_server n' = Some sv'" using n(3) sv h by (auto simp: node_rpc_def)
  then show "\<exists>a. shard_view t node ?i = Some (p_term p, p_placement_epoch p, a)"
    using n(2) sh shard_configure_Inr [OF sh(1)] by (simp add: shard_view_def cluster_shard_def)
qed

lemma each_configure_view:
  assumes "each (\<lambda>c. bind (configure api (snd c) p) (\<lambda>_. ok ())) cs s = (Inr (), t)" and "nodes_running s"
    and "distinct (map snd cs)"
  shows "(\<forall>c \<in> set cs. \<exists>a. shard_view t (snd c) (p_shard_id p) = Some (p_term p, p_placement_epoch p, a)) \<and>
    (\<forall>x. x \<notin> snd ` set cs \<longrightarrow> shard_view t x = shard_view s x) \<and> cl_metadata t = cl_metadata s \<and> cl_file t = cl_file s"
  using assms
proof (induction cs arbitrary: s)
  case (Cons c cs)
  obtain x u where head: "bind (configure api (snd c) p) (\<lambda>_. ok ()) s = (Inr x, u)"
    and rest: "each (\<lambda>c. bind (configure api (snd c) p) (\<lambda>_. ok ())) cs u = (Inr (), t)"
    using Cons.prems(1) unfolding each.simps bind_Inr by blast
  obtain v where run: "configure api (snd c) p s = (Inr v, u)" using head by (auto split: prod.splits sum.splits)
  note view = configure_view [OF run Cons.prems(2)]
  note IH = Cons.IH [OF rest view(3)]
  have "snd c \<notin> snd ` set cs" "distinct (map snd cs)" using Cons.prems(3) by auto
  then show ?case using IH view by auto
qed simp

section \<open>Elections\<close>

lemma placement_atE:
  "placement_at i s = (Inr p, t) \<Longrightarrow> (map_of (shards (cl_metadata s)) i = Some p \<Longrightarrow> t = s \<Longrightarrow> R) \<Longrightarrow> R"
  by (simp add: placement_at_def split: option.splits)

lemma sort_key_hd:
  assumes "xs \<noteq> []" and "x \<in> set xs"
  shows "f (hd (sort_key f xs)) \<le> f x" "hd (sort_key f xs) \<in> set xs"
proof -
  obtain y ys where ys: "sort_key f xs = y # ys" using assms(1) by (metis length_0_conv length_sort list.exhaust)
  have "sorted (map f (y # ys))" using sorted_sort_key [of f xs] ys by simp
  moreover have "x \<in> set (y # ys)" using assms(2) ys by (metis set_sort)
  ultimately show "f (hd (sort_key f xs)) \<le> f x" using ys by auto
  show "hd (sort_key f xs) \<in> set xs" using ys by (metis list.sel(1) list.set_intros(1) set_sort)
qed

lemma collect_probe:
  assumes "collect rpc_error (probe api i) reps s = (Inr cands, u)" and "nodes_running s" and "distinct reps"
  shows "seen (shard_view s) u \<and> cl_metadata u = cl_metadata s \<and> distinct (map snd cands) \<and>
    snd ` set cands \<subseteq> set reps \<and>
    (\<forall>(a, node) \<in> set cands. \<exists>term epoch. shard_view s node i = Some (term, epoch, a))"
proof -
  have inv: "inv_action (seen (shard_view s)) (probe api i x)" for x
    unfolding probe_def by (intro inv_intros inv_status_seen)
  have start: "seen (shard_view s) s" using assms(2) by (simp add: seen_def)
  let ?Q = "\<lambda>x c. snd c = x \<and> (\<exists>term epoch. shard_view s x i = Some (term, epoch, fst c))"
  have probed: "?Q x c" if "seen (shard_view s) w" and run: "probe api i x w = (Inr (Some c), w')" for x c w w'
  proof -
    obtain v w'' where v: "cluster_status api x i w = (Inr v, w'')" "item_int v ''applied_index'' = Inr (fst c)" "snd c = x"
      using run by (auto simp: probe_def split: prod.splits sum.splits)
    then show ?thesis using status_view(2) [OF v(1)] that(1) by (auto simp: seen_def)
  qed
  have "\<exists>zs. subseq zs reps \<and> list_all2 ?Q zs cands"
    by (rule collect_run [OF assms(1) inv start]) (rule probed)
  then obtain zs where zs: "subseq zs reps" "list_all2 ?Q zs cands" by blast
  have cands: "map snd cands = zs" and views: "\<forall>(a, node) \<in> set cands. \<exists>term epoch. shard_view s node i = Some (term, epoch, a)"
    using zs(2) by (induction rule: list_all2_induct) auto
  have "seen (shard_view s) u"
    using inv_actionD [OF inv_collect [OF inv] start assms(1)] .
  moreover have "inv_action (\<lambda>x. cl_metadata x = cl_metadata s) (collect rpc_error (probe api i) reps)"
    unfolding probe_def cluster_status_def by (intro inv_intros inv_rpc) (simp add: nodes_only_def)
  from inv_actionD [OF this refl assms(1)] have "cl_metadata u = cl_metadata s" .
  moreover have "distinct (map snd cands)"
    using zs(1) assms(3) cands by (auto simp: subseq_conv_nths intro: distinct_nthsI)
  moreover have "snd ` set cands \<subseteq> set reps" using subseq_set [OF zs(1)] cands by (metis set_map)
  ultimately show ?thesis using views by blast
qed

lemma elect_leader_steps:
  assumes "elect_leader api i s = (Inr leader, t)"
  obtains p cands u x v w y where "map_of (shards (cl_metadata s)) i = Some p"
    "collect rpc_error (probe api (p_shard_id p)) (p_replicas p) s = (Inr cands, u)" "quorum p \<le> length cands"
    "leader = snd (hd (sort_key (\<lambda>c. (- fst c, snd c)) cands))"
    "publish_cluster (u\<lparr>cl_metadata := bump_epoch (set_placement i (\<lambda>p. p\<lparr>p_term := p_term p + 1,
       p_placement_epoch := p_placement_epoch p + 1,
       p_leader := snd (hd (sort_key (\<lambda>c. (- fst c, snd c)) cands))\<rparr>) (cl_metadata u))\<rparr>) = (Inr x, v)"
    "map_of (shards (cl_metadata v)) i = Some w"
    "each (\<lambda>c. bind (configure api (snd c) w) (\<lambda>_. ok ())) (sort_key (\<lambda>c. (- fst c, snd c)) cands) v = (Inr y, t)"
  using assms unfolding elect_leader_def Let_def on_metadata_def
  by (elim runE placement_atE) (hypsubst, rule that, assumption+)

lemma elect_leader_run:
  assumes "elect_leader api i s = (Inr leader, t)" and "nodes_running s"
    and p: "map_of (shards (cl_metadata s)) i = Some p" and "placement_ok p" and "p_shard_id p = i"
  obtains cands where "quorum p \<le> length cands" "distinct (map snd cands)" "snd ` set cands \<subseteq> set (p_replicas p)"
    "\<forall>(a, node) \<in> set cands. \<exists>term epoch. shard_view s node i = Some (term, epoch, a)"
    "leader = snd (hd (sort_key (\<lambda>c. (- fst c, snd c)) cands))"
    "\<forall>node \<in> snd ` set cands. \<exists>a. shard_view t node i = Some (p_term p + 1, p_placement_epoch p + 1, a)"
    "map_of (shards (cl_metadata t)) i = Some (p\<lparr>p_term := p_term p + 1,
       p_placement_epoch := p_placement_epoch p + 1, p_leader := leader\<rparr>)"
    "\<exists>data. metadata_text (cl_metadata t) = Inr data \<and> cl_file t = Some data"
proof -
  let ?new = "\<lambda>p. p\<lparr>p_term := p_term p + 1, p_placement_epoch := p_placement_epoch p + 1, p_leader := leader\<rparr>"
  obtain p' cands u x v w y where p': "map_of (shards (cl_metadata s)) i = Some p'"
    and cands': "collect rpc_error (probe api (p_shard_id p')) (p_replicas p') s = (Inr cands, u)"
    and quorum': "quorum p' \<le> length cands" and leader: "leader = snd (hd (sort_key (\<lambda>c. (- fst c, snd c)) cands))"
    and pub': "publish_cluster (u\<lparr>cl_metadata := bump_epoch (set_placement i (\<lambda>p. p\<lparr>p_term := p_term p + 1,
       p_placement_epoch := p_placement_epoch p + 1,
       p_leader := snd (hd (sort_key (\<lambda>c. (- fst c, snd c)) cands))\<rparr>) (cl_metadata u))\<rparr>) = (Inr x, v)"
    and w: "map_of (shards (cl_metadata v)) i = Some w"
    and each': "each (\<lambda>c. bind (configure api (snd c) w) (\<lambda>_. ok ())) (sort_key (\<lambda>c. (- fst c, snd c)) cands) v = (Inr y, t)"
    using assms(1) by (rule elect_leader_steps)
  have "p' = p" using p' p by simp
  note cands = cands' [unfolded \<open>p' = p\<close> assms(5)] and quorum = quorum' [unfolded \<open>p' = p\<close>]
  have pub: "publish_cluster (u\<lparr>cl_metadata := bump_epoch (set_placement i ?new (cl_metadata u))\<rparr>) = (Inr (), v)"
    and each: "each (\<lambda>c. bind (configure api (snd c) w) (\<lambda>_. ok ())) (sort_key (\<lambda>c. (- fst c, snd c)) cands) v = (Inr (), t)"
    using pub' each' by (simp_all only: leader) simp_all
  note probed = collect_probe [OF cands assms(2)] and pubs = publish_run [OF pub] and stored = published_file [OF pub]
  have dist: "distinct (p_replicas p)" using assms(4) by (simp add: placement_ok_def)
  have w': "w = ?new p" using w pubs(2) probed [OF dist] p by simp
  have running: "nodes_running v" using probed [OF dist] pubs(1) by (simp add: seen_def nodes_running_def)
  have sorted: "distinct (map snd (sort_key (\<lambda>c. (- fst c, snd c)) cands))"
    using probed [OF dist] by (simp add: distinct_map)
  note conf = each_configure_view [OF each running sorted]
  show ?thesis
  proof (rule that)
    show "quorum p \<le> length cands" "leader = snd (hd (sort_key (\<lambda>c. (- fst c, snd c)) cands))" by fact+
    show "distinct (map snd cands)" "snd ` set cands \<subseteq> set (p_replicas p)"
      "\<forall>(a, node) \<in> set cands. \<exists>term epoch. shard_view s node i = Some (term, epoch, a)"
      using probed [OF dist] by blast+
    show "\<forall>node \<in> snd ` set cands. \<exists>a. shard_view t node i = Some (p_term p + 1, p_placement_epoch p + 1, a)"
      using conf w' assms(5) by auto
    show "map_of (shards (cl_metadata t)) i = Some (?new p)" using conf w w' by simp
    show "\<exists>data. metadata_text (cl_metadata t) = Inr data \<and> cl_file t = Some data" using conf stored(2) by simp
  qed
qed

end
