(* ===== verification/Search.thy ===== *)
theory Search
  imports Cluster
begin

text \<open>
  Distributed search (cluster.py, \<open>DistributedCluster.search\<close> and what it calls): the request
  goes to one caught-up replica of every shard, the answers are merged into a global top-k,
  and a hybrid search fuses a dense and a sparse ranking by reciprocal ranks. Python's sort
  is the stable sort by its key, which orders all scores but NaN.
\<close>

record search_result =
  res_id :: int
  res_score :: pyfloat

section \<open>Merging\<close>

text \<open>\<open>xs[:k]\<close>\<close>

definition py_take :: "int \<Rightarrow> 'a list \<Rightarrow> 'a list" where
  "py_take k xs = (if 0 \<le> k then take (nat k) xs else take (nat (int (length xs) + k)) xs)"

text \<open>\<open>{result.id: result for result in results}\<close>\<close>

definition unique_results :: "search_result list \<Rightarrow> (int \<times> search_result) list" where
  "unique_results results = foldl (\<lambda>d r. dict_set (res_id r) r d) [] results"

definition ascending :: "pyval \<Rightarrow> pyval \<Rightarrow> bool" where
  "ascending metric mode \<longleftrightarrow> metric = PStr ''l2'' \<and> mode \<notin> {PStr ''sparse'', PStr ''hybrid''}"

definition result_key :: "bool \<Rightarrow> search_result \<Rightarrow> int \<times> int" where
  "result_key up r = (if up then fkey (res_score r) else - fkey (res_score r), res_id r)"

definition global_topk :: "search_result list \<Rightarrow> int \<Rightarrow> pyval \<Rightarrow> pyval \<Rightarrow> search_result list" where
  "global_topk results k metric mode =
     py_take k (sort_key (result_key (ascending metric mode)) (map snd (unique_results results)))"

section \<open>Statistics\<close>

definition summed_stats :: "string list" where
  "summed_stats = [''upper_visited'', ''base_visited'', ''visited'', ''distance_evaluations'', ''retained_candidates'',
     ''reranked_candidates'', ''filtered_rejections'', ''inactive_rejections'', ''base_candidates'', ''delta_candidates'']"

definition maximum_stats :: "string list" where
  "maximum_stats = [''requested_ef'', ''effective_ef'', ''widening_rounds'']"

definition label_stats :: "string list" where
  "label_stats = [''planner_reason'', ''backend_name'', ''metric_name'', ''scalar_name'', ''storage_name'', ''fallback_reason'']"

text \<open>\<open>str(value)\<close>; the labels are strings, for which it is the string itself.\<close>

fun py_str :: "pyval \<Rightarrow> string" where
  "py_str (PStr s) = s"
| "py_str PNone = ''None''"
| "py_str (PBool b) = (if b then ''True'' else ''False'')"
| "py_str (PInt i) = show_int i"
| "py_str v = dumps v"

type_synonym stats = "(string \<times> pyval) list"

definition stat_ints :: "stats list \<Rightarrow> string \<Rightarrow> int list result" where
  "stat_ints values name = rmap (\<lambda>value. rbind (dget value name) py_to_int) values"

definition merge_sum :: "stats list \<Rightarrow> string \<Rightarrow> stats \<Rightarrow> stats result" where
  "merge_sum values name merged =
     rbind (stat_ints values name) (\<lambda>ns. Inr (dict_set name (PInt (sum_list ns)) merged))"

definition merge_max :: "stats list \<Rightarrow> string \<Rightarrow> stats \<Rightarrow> stats result" where
  "merge_max values name merged =
     rbind (stat_ints values name) (\<lambda>ns. Inr (dict_set name (PInt (Max (set ns))) merged))"

definition merge_label :: "stats list \<Rightarrow> string \<Rightarrow> stats \<Rightarrow> stats result" where
  "merge_label values name merged =
     rbind (rmap (\<lambda>value. rbind (dget value name) (\<lambda>v. Inr (py_str v))) values) (\<lambda>labels.
     Inr (dict_set name (PStr (case remdups labels of [label] \<Rightarrow> label | _ \<Rightarrow> ''mixed'')) merged))"

definition merge_search_stats :: "stats list \<Rightarrow> stats result" where
  "merge_search_stats values =
     (case values of
        [] \<Rightarrow> Inr []
      | first # _ \<Rightarrow>
          rbind (rfold (merge_sum values) summed_stats first) (\<lambda>merged.
          rbind (rfold (merge_max values) maximum_stats merged) (\<lambda>merged.
          rfold (merge_label values) label_stats merged)))"

section \<open>Fan-out\<close>

definition request_to_dict :: "search_request \<Rightarrow> pyval" where
  "request_to_dict request =
     PDict [(''metric'', sr_metric request), (''k'', PInt (sr_k request)), (''vector'', sr_vector request),
            (''sparse'', PList (map sparse_element_to_kernel (sr_sparse request))), (''mode'', sr_mode request),
            (''ef_search'', PInt (sr_ef_search request)), (''fetch_k'', PInt (sr_fetch_k request)),
            (''rank_constant'', PInt (sr_rank_constant request)), (''filter'', sr_filter request)]"

definition query_request :: "int \<Rightarrow> pyval \<Rightarrow> request" where
  "query_request shard_id wire =
     [(''operation'', PStr ''query''), (''shard_id'', PInt shard_id), (''request'', wire)]"

definition query_node :: "'c collection_api \<Rightarrow> placement \<Rightarrow> pyval \<Rightarrow> string \<Rightarrow> ('c cluster, pyval option) action" where
  "query_node api p wire node =
     bind (cluster_status api node (p_shard_id p)) (\<lambda>status.
     bind (pure (item_int status ''applied_index'')) (\<lambda>applied.
     if applied < p_committed_index p then ok None
     else bind (cluster_rpc api node (query_request (p_shard_id p) wire)) (\<lambda>raw. ok (Some raw))))"

definition query_shard :: "'c collection_api \<Rightarrow> placement \<Rightarrow> pyval \<Rightarrow> 'c op" where
  "query_shard api p wire =
     first_of rpc_error (query_node api p wire)
       (QuorumUnavailable ''distributed query has no caught-up replica'') (read_order p)"

definition parse_result :: "pyval \<Rightarrow> search_result result" where
  "parse_result v =
     rbind (item_int v ''id'') (\<lambda>i.
     rbind (rbind (item v ''score'') py_to_float) (\<lambda>score.
     Inr \<lparr>res_id = i, res_score = score\<rparr>))"

definition parse_answer :: "pyval \<Rightarrow> (search_result list \<times> stats) result" where
  "parse_answer raw =
     rbind (rbind (item raw ''items'') as_list_or) (\<lambda>items.
     rbind (rmap parse_result items) (\<lambda>results.
     rbind (rbind (item raw ''stats'') as_dict_or) (\<lambda>stats.
     Inr (results, stats))))"

fun query_shards ::
  "'c collection_api \<Rightarrow> pyval \<Rightarrow> int list \<Rightarrow> ('c cluster, (search_result list \<times> stats) list) action" where
  "query_shards api wire [] = ok []"
| "query_shards api wire (shard_id # rest) =
     bind (placement_at shard_id) (\<lambda>p.
     bind (query_shard api p wire) (\<lambda>raw.
     bind (pure (parse_answer raw)) (\<lambda>answer.
     bind (query_shards api wire rest) (\<lambda>answers.
     ok (answer # answers)))))"

definition fanout :: "'c collection_api \<Rightarrow> search_request \<Rightarrow> ('c cluster, search_result list) action" where
  "fanout api request =
     bind (gets (\<lambda>s. [0..shard_count (cl_metadata s) - 1])) (\<lambda>ids.
     bind (query_shards api (request_to_dict request) ids) (\<lambda>answers.
     bind (pure (merge_search_stats (map snd answers))) (\<lambda>merged.
     bind (modify (\<lambda>s. s\<lparr>cl_last_search_stats := merged\<rparr>)) (\<lambda>_.
     ok (concat (map fst answers))))))"

section \<open>Hybrid search\<close>

text \<open>\<open>scores.get(id, 0.0) + 1.0 / (rank_constant + rank)\<close> for every result of one ranking.\<close>

definition float_one :: pyfloat where
  "float_one = FFin False unit_one"

definition reciprocal_rank :: "int \<Rightarrow> nat \<Rightarrow> pyfloat result" where
  "reciprocal_rank rank_constant rank =
     rbind (float_of_int (rank_constant + int rank)) (\<lambda>d. fdiv float_one d)"

type_synonym scores = "(int \<times> pyfloat) list"

fun add_ranking :: "int \<Rightarrow> nat \<Rightarrow> search_result list \<Rightarrow> scores \<Rightarrow> scores result" where
  "add_ranking rank_constant rank [] scores = Inr scores"
| "add_ranking rank_constant rank (r # rs) scores =
     rbind (reciprocal_rank rank_constant rank) (\<lambda>x.
     add_ranking rank_constant (Suc rank) rs
       (dict_set (res_id r) (fadd (case map_of scores (res_id r) of None \<Rightarrow> FFin False 0 | Some y \<Rightarrow> y) x) scores))"

definition fuse_rankings :: "int \<Rightarrow> search_result list \<Rightarrow> search_result list \<Rightarrow> scores result" where
  "fuse_rankings rank_constant dense sparse =
     rbind (add_ranking rank_constant 1 dense []) (add_ranking rank_constant 1 sparse)"

definition order_scores :: "int \<Rightarrow> scores \<Rightarrow> search_result list" where
  "order_scores k scores =
     map (\<lambda>(i, x). \<lparr>res_id = i, res_score = x\<rparr>) (py_take k (sort_key (\<lambda>(i, x). (- fkey x, i)) scores))"

definition sub_request :: "search_request \<Rightarrow> pyval \<Rightarrow> sparse_element list \<Rightarrow> string \<Rightarrow> search_request" where
  "sub_request request vector sparse mode =
     \<lparr>sr_metric = sr_metric request, sr_k = sr_fetch_k request, sr_vector = vector, sr_sparse = sparse,
      sr_mode = PStr mode, sr_ef_search = 64, sr_fetch_k = 50, sr_rank_constant = 60, sr_filter = sr_filter request\<rparr>"

definition search_hybrid :: "'c collection_api \<Rightarrow> search_request \<Rightarrow> int \<Rightarrow> ('c cluster, search_result list) action" where
  "search_hybrid api request at_epoch =
     bind (check (sr_vector request \<noteq> PNone \<and> sr_sparse request \<noteq> [])
       (ValueError ''distributed hybrid search requires dense and sparse queries'')) (\<lambda>_.
     bind (fanout api (sub_request request (sr_vector request) [] ''exact'')) (\<lambda>raw_dense.
     bind (fanout api (sub_request request PNone (sr_sparse request) ''sparse'')) (\<lambda>raw_sparse.
     bind (gets (\<lambda>s. epoch (cl_metadata s))) (\<lambda>now.
     bind (check (now = at_epoch) (ProtocolError ''cluster metadata epoch changed during hybrid query'')) (\<lambda>_.
     bind (pure (fuse_rankings (sr_rank_constant request)
       (global_topk raw_dense (sr_fetch_k request) (sr_metric request) (PStr ''exact''))
       (global_topk raw_sparse (sr_fetch_k request) (sr_metric request) (PStr ''sparse'')))) (\<lambda>scores.
     ok (order_scores (sr_k request) scores)))))))"

definition cluster_search :: "'c collection_api \<Rightarrow> search_request \<Rightarrow> ('c cluster, search_result list) action" where
  "cluster_search api request =
     bind ensure_open (\<lambda>_.
     bind (gets (\<lambda>s. epoch (cl_metadata s))) (\<lambda>at_epoch.
     if sr_mode request = PStr ''hybrid'' then search_hybrid api request at_epoch
     else
       bind (fanout api request) (\<lambda>raw.
       bind (gets (\<lambda>s. epoch (cl_metadata s))) (\<lambda>now.
       bind (check (now = at_epoch) (ProtocolError ''cluster metadata epoch changed during query'')) (\<lambda>_.
       ok (global_topk raw (sr_k request) (sr_metric request) (sr_mode request)))))))"

text \<open>What the cluster reports: its configuration and the statistics of the last search.\<close>

definition cluster_collection_config :: "('c cluster, collection_config) action" where
  "cluster_collection_config =
     bind (gets (\<lambda>s. collection_config (cl_metadata s))) (\<lambda>config. pure (config_from_kernel config))"

definition last_search_stats :: "('c cluster, stats) action" where
  "last_search_stats = gets cl_last_search_stats"

definition debug_rpc :: "'c collection_api \<Rightarrow> string \<Rightarrow> request \<Rightarrow> 'c op" where
  "debug_rpc api node request = cluster_rpc api node request"

end
