(* ===== verification/ClusterLife.thy ===== *)
theory ClusterLife
  imports ClusterViews Search
begin

text \<open>
  The life of a cluster: the operations as a step relation, and what every sequence of them
  keeps: epochs, terms and indexes only grow, a committed request stays recorded, and every
  node's directories stay readable.
\<close>

section \<open>Metadata moves forward\<close>

definition placement_before :: "placement \<Rightarrow> placement \<Rightarrow> bool" where
  "placement_before p q \<longleftrightarrow> p_shard_id q = p_shard_id p \<and> p_term p \<le> p_term q \<and>
     p_placement_epoch p \<le> p_placement_epoch q \<and> p_last_log_index p \<le> p_last_log_index q \<and>
     p_committed_index p \<le> p_committed_index q \<and> set (p_replicas p) \<subseteq> set (p_replicas q)"

definition metadata_before :: "metadata \<Rightarrow> metadata \<Rightarrow> bool" where
  "metadata_before m m' \<longleftrightarrow> epoch m \<le> epoch m' \<and> shard_count m' = shard_count m \<and>
     (\<forall>i p. map_of (shards m) i = Some p \<longrightarrow> (\<exists>q. map_of (shards m') i = Some q \<and> placement_before p q))"

lemma placement_before_refl [simp]: "placement_before p p"
  by (simp add: placement_before_def)

lemma placement_before_trans: "placement_before p q \<Longrightarrow> placement_before q r \<Longrightarrow> placement_before p r"
  by (auto simp: placement_before_def)

lemma metadata_before_refl [simp]: "metadata_before m m"
  by (simp add: metadata_before_def)

lemma metadata_before_trans: "metadata_before m n \<Longrightarrow> metadata_before n k \<Longrightarrow> metadata_before m k"
  unfolding metadata_before_def using placement_before_trans by (metis order_trans)

interpretation cluster_order: state_order "\<lambda>s t. metadata_before (cl_metadata s) (cl_metadata t)"
  by unfold_locales (auto intro: metadata_before_trans)

lemma metadata_before_tables:
  "shards m' = shards m \<Longrightarrow> epoch m \<le> epoch m' \<Longrightarrow> shard_count m' = shard_count m \<Longrightarrow> metadata_before m m'"
  by (simp add: metadata_before_def)

lemma metadata_before_placement:
  assumes "\<And>p. map_of (shards m) i = Some p \<Longrightarrow> placement_before p (f p)"
  shows "metadata_before m (bump_epoch (set_placement i f m))"
  using assms by (auto simp: metadata_before_def)

text \<open>Since an earlier state the metadata moved forward: an invariant of every operation.\<close>

definition since :: "metadata \<Rightarrow> 'c cluster \<Rightarrow> bool" where
  "since m s \<longleftrightarrow> metadata_before m (cl_metadata s)"

lemma since_nodes: "nodes_only (since m)"
  by (simp add: nodes_only_def since_def)

lemma since_metadata: "metadata_before (cl_metadata s) m' \<Longrightarrow> since m s \<Longrightarrow> since m (s\<lparr>cl_metadata := m'\<rparr>)"
  by (auto simp: since_def intro: metadata_before_trans)

lemma since_publish: "inv_action (since m) publish_cluster"
  unfolding inv_action_def
proof (intro allI impI)
  fix s :: "'a cluster" assume s: "since m s"
  obtain r t where run: "publish_cluster s = (r, t)" by force
  have "metadata_before (cl_metadata s) (cl_metadata t)"
    using publish_run [OF run] by (intro metadata_before_tables) simp_all
  then show "since m (snd (publish_cluster s))" using s run by (auto simp: since_def intro: metadata_before_trans)
qed

lemma since_elected:
  "since m s \<Longrightarrow> since m (s\<lparr>cl_metadata := bump_epoch (set_placement i (\<lambda>p. p\<lparr>p_term := p_term p + 1,
      p_placement_epoch := p_placement_epoch p + 1, p_leader := leader\<rparr>) (cl_metadata s))\<rparr>)"
  by (rule since_metadata [OF metadata_before_placement]) (simp_all add: placement_before_def)

lemma since_allocated:
  "since m s \<Longrightarrow> since m (s\<lparr>cl_metadata := bump_epoch (set_placement i (\<lambda>p.
      p\<lparr>p_last_log_index := p_last_log_index p + 1\<rparr>) (cl_metadata s))\<rparr>)"
  by (rule since_metadata [OF metadata_before_placement]) (simp_all add: placement_before_def)

lemma since_recorded:
  "since m s \<Longrightarrow> since m (s\<lparr>cl_metadata := bump_epoch (set_request r i e c st (cl_metadata s))\<rparr>)"
  by (rule since_metadata) (simp_all add: metadata_before_def)

lemma since_completed:
  "since m s \<Longrightarrow> since m (s\<lparr>cl_metadata := bump_epoch (set_request r i e c st
     (set_placement j (\<lambda>p. p\<lparr>p_committed_index := max (p_committed_index p) k\<rparr>) (cl_metadata s)))\<rparr>)"
  by (rule since_metadata) (auto simp: metadata_before_def placement_before_def)

lemma since_members: "inv_action (since m) (on_metadata (\<lambda>x. bump_epoch (x\<lparr>members := f x\<rparr>)))"
  unfolding on_metadata_def
  by (rule inv_modify, rule since_metadata) (simp_all add: metadata_before_def)

interpretation since_calls: coordinator_invariant "since m" api ordinary_request "\<lambda>_. True" for m api
  by unfold_locales
    (simp_all only: inv_rpc [OF since_nodes] since_publish ordinary_requests_all since_elected since_allocated
      since_recorded since_completed)

section \<open>Committed requests stay recorded\<close>

definition recorded_as :: "string \<Rightarrow> pyval \<Rightarrow> 'c cluster \<Rightarrow> bool" where
  "recorded_as r v s \<longleftrightarrow> map_of (request_table (cl_metadata s)) r = Some v"

lemma recorded_publish: "inv_action (recorded_as r v) publish_cluster"
  unfolding inv_action_def recorded_as_def using publish_run(3) by (metis surjective_pairing)

interpretation recorded_calls: coordinator_invariant "recorded_as r v" api ordinary_request "\<lambda>x. x \<noteq> r" for r v api
  by unfold_locales
    (simp_all only: ordinary_requests_all recorded_publish, auto intro: inv_rpc simp: nodes_only_def recorded_as_def)

lemma write_committed_state:
  assumes "recorded_as r v s" and "committed_record v"
  shows "snd (cluster_write api m r k s) = s"
proof -
  obtain d where d: "v = PDict d" "map_of d ''status'' = Some (PStr ''committed'')"
    using assms(2) by (auto simp: committed_record_def)
  have "snd (write_duplicate api m r i c v s) = s" for i c
    using d by (auto simp: write_duplicate_def as_dict_or_def split: sum.splits if_splits)
  then have "snd (write_step api m r again s) = s" for again
    using assms(1) by (auto simp: write_step_def Let_def recorded_as_def route_def ensure_open_def split: sum.splits)
  then show ?thesis by (cases k) simp_all
qed

lemma recorded_write:
  assumes "committed_record v"
  shows "inv_action (recorded_as r v) (cluster_write api m x k)"
proof (cases "x = r")
  case True
  then show ?thesis using assms by (simp add: inv_action_def write_committed_state)
next
  case False
  then show ?thesis by (rule recorded_calls.write_inv)
qed

section \<open>Steps\<close>

inductive cluster_step :: "'c collection_api \<Rightarrow> 'c cluster \<Rightarrow> 'c cluster \<Rightarrow> bool" for api where
  mutate: "cluster_write api m r k s = (x, t) \<Longrightarrow> cluster_step api s t"
| point: "cluster_get api i s = (x, t) \<Longrightarrow> cluster_step api s t"
| catch_up: "Cluster.catch_up api node i s = (x, t) \<Longrightarrow> cluster_step api s t"
| stop: "stop_node node s = (x, t) \<Longrightarrow> cluster_step api s t"
| restart: "restart_node api node address s = (x, t) \<Longrightarrow> cluster_step api s t"
| fault: "cluster_rpc api node q s = (x, t) \<Longrightarrow> cluster_step api s t"
| rebalance: "rebalance_add_replica api i node s = (x, t) \<Longrightarrow> cluster_step api s t"
| search: "cluster_search api request s = (ys, t) \<Longrightarrow> cluster_step api s t"
| close: "cluster_close api s = (x, t) \<Longrightarrow> cluster_step api s t"

lemma inv_on_node: "nodes_only I \<Longrightarrow> inv_action I (on_node node a)"
  by (auto simp: inv_action_def on_node_def nodes_only_def split: option.split prod.split)

lemma inv_close:
  assumes "\<And>s b ns. I s \<Longrightarrow> I (s\<lparr>cl_closed := b, cl_nodes := ns\<rparr>)"
  shows "inv_action I (cluster_close api)"
  using assms by (auto simp: inv_action_def cluster_close_def)

lemma restart_since: "inv_action (since m) (restart_node api node address)"
  unfolding restart_node_def
  by (intro inv_intros inv_on_node since_nodes since_members since_publish since_calls.configure_inv
      since_calls.catch_up_inv)

lemma restart_recorded: "inv_action (recorded_as r v) (restart_node api node address)"
proof -
  have "inv_action (recorded_as r v) (on_metadata (\<lambda>x. bump_epoch (x\<lparr>members := f x\<rparr>)))" for f
    unfolding on_metadata_def by (rule inv_modify) (simp add: recorded_as_def)
  then show ?thesis
    unfolding restart_node_def
    by (intro inv_intros inv_on_node recorded_publish recorded_calls.configure_inv recorded_calls.catch_up_inv)
      (simp_all add: nodes_only_def recorded_as_def)
qed

lemma get_inv: "nodes_only I \<Longrightarrow> inv_action I (cluster_get api i)"
  unfolding cluster_get_def query_replica_def cluster_status_def by (intro inv_intros inv_rpc)

text \<open>A search changes the nodes' view and the statistics only.\<close>

definition searches_only :: "('c cluster \<Rightarrow> bool) \<Rightarrow> bool" where
  "searches_only I \<longleftrightarrow> nodes_only I \<and> (\<forall>s x. I s \<longrightarrow> I (s\<lparr>cl_last_search_stats := x\<rparr>))"

lemma query_shards_inv: "nodes_only I \<Longrightarrow> inv_action I (query_shards api wire ids)"
  by (induction ids)
    (auto simp: query_shard_def query_node_def cluster_status_def intro!: inv_intros inv_rpc)

lemma fanout_inv: "searches_only I \<Longrightarrow> inv_action I (fanout api request)"
  unfolding fanout_def searches_only_def by (intro inv_intros query_shards_inv) auto

lemma search_inv: "searches_only I \<Longrightarrow> inv_action I (cluster_search api request)"
  unfolding cluster_search_def search_hybrid_def by (intro inv_intros fanout_inv)

text \<open>The new placement of a rebalanced shard goes on from the one that was read.\<close>

lemma rebalance_since:
  fixes api :: "'c collection_api"
  shows "inv_action (since m) (rebalance_add_replica api i node)"
proof -
  let ?K = "\<lambda>p (s :: 'c cluster). since m s \<and> map_of (shards (cl_metadata s)) i = Some p"
  have rpc: "inv_action (?K p) (cluster_rpc api x q)" for p x q
    by (rule inv_rpc) (simp add: nodes_only_def since_def)
  have query: "inv_action (?K p) (query_replica api p' k)" for p p' k
    unfolding query_replica_def cluster_status_def by (intro inv_intros rpc)
  have entries: "inv_action (?K p) (replicate_entries api x j t e k raws)" for p x j t e k raws
    by (induction raws arbitrary: k)
      (auto simp: replicate_entry_def send_entry_def Let_def intro!: inv_intros rpc)
  let ?add = "\<lambda>p. on_metadata (\<lambda>m. bump_epoch (set_placement i (\<lambda>q.
      q\<lparr>p_replicas := p_replicas q @ [node], p_placement_epoch := p_placement_epoch p + 1\<rparr>) m)) :: ('c cluster, unit) action"
  have added: "since m (snd (?add p s))" if "?K p s" for p s
    using that unfolding on_metadata_def
    by (auto intro!: since_metadata metadata_before_placement simp: placement_before_def)
  have "ends (?K p) (?add p) (since m)" "triple (?K p) (?add p) (\<lambda>_. since m)" for p
    using added by (simp_all add: ends_def triple_def on_metadata_def)
  note add = ends_bind [OF this ends_inv]
  have placed: "ends (since m) (placement_at i) (since m)" "triple (since m) (placement_at i) (\<lambda>p. ?K p)"
    by (intro ends_inv inv_placement_at placement_at_triple; assumption)+
  show ?thesis
    unfolding inv_action_def ends_def [symmetric] rebalance_add_replica_def Let_def
    by (rule ends_bind [OF placed], intro ends_if ends_step [OF inv_basic(3)] ends_step [OF inv_basic(4)]
        ends_step [OF inv_basic(5)] ends_step [OF rpc] ends_step [OF query] ends_step [OF entries] add
        inv_intros since_publish since_calls.configure_inv ends_inv) auto
qed

lemma rebalance_recorded: "inv_action (recorded_as r v) (rebalance_add_replica api i node)"
proof -
  have "inv_action (recorded_as r v) (on_metadata (\<lambda>x. bump_epoch (set_placement i f x)))" for f
    unfolding on_metadata_def by (rule inv_modify) (simp add: recorded_as_def)
  then show ?thesis
    unfolding rebalance_add_replica_def Let_def
    by (intro inv_intros recorded_publish recorded_calls.configure_inv recorded_calls.query_replica_inv
        recorded_calls.replicate_entries_inv inv_rpc) (simp_all add: nodes_only_def recorded_as_def)
qed

lemma cluster_step_keeps:
  assumes "cluster_step api s t" and "committed_record v"
  shows "(since m s \<longrightarrow> since m t) \<and> (recorded_as r v s \<longrightarrow> recorded_as r v t)"
proof -
  have nodes: "nodes_only (recorded_as r v)" by (simp add: nodes_only_def recorded_as_def)
  have closed: "inv_action (since m) (cluster_close api)" "inv_action (recorded_as r v) (cluster_close api)"
    by (rule inv_close, simp add: since_def recorded_as_def)+
  from assms(1) show ?thesis
  proof cases
    case (mutate m' r' k x)
    then show ?thesis
      by (metis inv_actionD recorded_write [OF assms(2)] since_calls.write_inv [OF TrueI])
  next
    case (point i x)
    then show ?thesis by (metis inv_actionD get_inv [OF since_nodes] get_inv [OF nodes])
  next
    case (catch_up node i x)
    then show ?thesis by (metis inv_actionD since_calls.catch_up_inv recorded_calls.catch_up_inv)
  next
    case (stop node x)
    then show ?thesis
      unfolding stop_node_def by (metis inv_actionD inv_on_node [OF since_nodes] inv_on_node [OF nodes])
  next
    case (restart node address x)
    then show ?thesis by (metis inv_actionD restart_since restart_recorded)
  next
    case (fault node q x)
    then show ?thesis by (metis inv_actionD inv_rpc [OF since_nodes] inv_rpc [OF nodes])
  next
    case (rebalance i node x)
    then show ?thesis by (metis inv_actionD rebalance_since rebalance_recorded)
  next
    case (search request ys)
    have "searches_only (since m)" "searches_only (recorded_as r v)"
      using since_nodes nodes by (simp_all add: searches_only_def since_def recorded_as_def)
    then show ?thesis using search by (metis inv_actionD search_inv)
  next
    case (close x)
    then show ?thesis by (metis inv_actionD closed)
  qed
qed

lemma cluster_steps_keep:
  assumes "(cluster_step api)\<^sup>*\<^sup>* s t"
  shows "since (cl_metadata s) t" "committed_record v \<Longrightarrow> recorded_as r v s \<Longrightarrow> recorded_as r v t"
proof -
  have some: "committed_record (PDict [(''status'', PStr ''committed'')])" by (simp add: committed_record_def)
  from assms show "since (cl_metadata s) t"
  proof (induction rule: rtranclp_induct)
    case (step u w)
    then show ?case using cluster_step_keeps [OF step(2) some] by blast
  qed (simp add: since_def)
  show "recorded_as r v t" if v: "committed_record v" and start: "recorded_as r v s"
    using assms
  proof (induction rule: rtranclp_induct)
    case (step u w)
    then show ?case using cluster_step_keeps [OF step(2) v] by blast
  qed (rule start)
qed

end
