(* ===== verification/ClusterLiveness.thy ===== *)
theory ClusterLiveness
  imports ClusterLife
begin

text \<open>
  Availability: with the leader and a quorum of replicas able to take the entry, a write is
  acknowledged, whatever the other replicas do.
\<close>

section \<open>Calls to a serving replica\<close>

text \<open>The node answers, and its replica of shard \<open>i\<close> satisfies \<open>P\<close>.\<close>

definition serving :: "('c shard \<Rightarrow> bool) \<Rightarrow> int \<Rightarrow> 'c cluster \<Rightarrow> string \<Rightarrow> bool" where
  "serving P i s node \<longleftrightarrow>
     (\<exists>n sv sh. map_of (cl_nodes s) node = Some n \<and> nd_server n = Some sv \<and> sv_running sv \<and>
        \<not> sv_partitioned sv \<and> sv_drop_commit sv \<le> 0 \<and> map_of (sv_shards sv) i = Some sh \<and> P sh)"

text \<open>Only what \<open>node\<close> holds differs between the two states.\<close>

definition touched :: "string set \<Rightarrow> 'c cluster \<Rightarrow> 'c cluster \<Rightarrow> bool" where
  "touched X s t \<longleftrightarrow> (\<exists>ns. t = s\<lparr>cl_nodes := ns\<rparr> \<and> dict_keys ns = dict_keys (cl_nodes s) \<and>
     (\<forall>x. x \<notin> X \<longrightarrow> map_of ns x = map_of (cl_nodes s) x))"

lemma touched_refl [simp]: "touched X s s"
  unfolding touched_def by (rule exI [of _ "cl_nodes s"]) simp

lemma touched_trans: "touched X s t \<Longrightarrow> touched Y t u \<Longrightarrow> touched (X \<union> Y) s u"
  unfolding touched_def by auto

lemma touched_parts:
  assumes "touched X s t"
  shows "cl_metadata t = cl_metadata s" "cl_file t = cl_file s" "cl_closed t = cl_closed s"
    "dict_keys (cl_nodes t) = dict_keys (cl_nodes s)"
  using assms by (auto simp: touched_def)

lemma touched_serving: "touched X s t \<Longrightarrow> x \<notin> X \<Longrightarrow> serving P i t x = serving P i s x"
  by (auto simp: touched_def serving_def)

lemma rpc_touched:
  assumes "cluster_rpc api node q s = (r, t)"
  shows "touched {node} s t"
proof (cases "map_of (cl_nodes s) node")
  case None
  then have "t = s" using assms by (simp add: cluster_rpc_def on_node_def)
  then show ?thesis by simp
next
  case (Some n)
  obtain n' where "t = s\<lparr>cl_nodes := dict_set node n' (cl_nodes s)\<rparr>"
    using assms Some by (auto simp: cluster_rpc_def on_node_def split: prod.splits)
  moreover have "node \<in> dict_keys (cl_nodes s)"
    using map_of_SomeD [OF Some] by (force simp: dict_keys_def)
  ultimately show ?thesis
    unfolding touched_def by (intro exI [of _ "dict_set node n' (cl_nodes s)"]) (auto simp: dict_keys_def)
qed

lemma rpc_known_error:
  assumes "cluster_rpc api node q s = (Inl e, t)" and "node \<in> dict_keys (cl_nodes s)"
  shows "rpc_error e"
proof -
  obtain n where "map_of (cl_nodes s) node = Some n"
    using assms(2) by (cases "map_of (cl_nodes s) node") (simp_all add: map_of_eq_None_iff dict_keys_def)
  then obtain n' where "node_rpc api (cl_dimension s) (PDict (cl_config s)) q n = (Inl e, n')"
    using assms(1) by (auto simp: cluster_rpc_def on_node_def split: prod.splits)
  from node_rpc_errors [OF this] show ?thesis by (auto simp: rpc_error_def)
qed

lemma serving_call:
  assumes "serving P i s node" and "shard_request q op i" and "op \<noteq> ''query''"
    and "\<And>sh. P sh \<Longrightarrow> \<exists>v sh'. shard_operation api (PStr op) q sh = (Inr v, sh') \<and> R v \<and> Q sh'"
  shows "\<exists>v t. cluster_rpc api node q s = (Inr v, t) \<and> R v \<and> serving Q i t node"
proof -
  obtain n sv sh where n: "map_of (cl_nodes s) node = Some n" "nd_server n = Some sv" "sv_running sv"
      "\<not> sv_partitioned sv" "sv_drop_commit sv \<le> 0" "map_of (sv_shards sv) i = Some sh" "P sh"
    using assms(1) by (auto simp: serving_def)
  obtain v sh' where op: "shard_operation api (PStr op) q sh = (Inr v, sh')" "R v" "Q sh'" using assms(4) n(7) by blast
  let ?sv = "sv\<lparr>sv_shards := dict_set i sh' (sv_shards sv)\<rparr>"
  have "serve_operation api d c (PStr op) q sv = (Inr v, ?sv)" for d c
    unfolding serve_shard_request [OF assms(2)] using n(6) op(1) by (simp add: on_shard_def)
  then have "handle_request api d c q sv = (Answer v, ?sv)" for d c
    using assms(2,3) n(4,5) by (simp add: handle_request_def shard_request_def)
  then have "node_rpc api d c q n = (Inr v, n\<lparr>nd_server := Some ?sv\<rparr>)" for d c
    using n(2,3) by (simp add: node_rpc_def reply_result_def)
  then show ?thesis
    using n op(2,3) by (simp add: cluster_rpc_def on_node_def serving_def)
qed

text \<open>
  A loop over replicas that skips those that fail: every replica in \<open>G\<close> contributes and is
  left as its call leaves it.
\<close>

lemma collect_serving:
  assumes "distinct xs" and "set xs \<subseteq> dict_keys (cl_nodes s)" and "nodes_running s"
    and known: "\<And>x s r t. f x s = (r, t) \<Longrightarrow> x \<in> dict_keys (cl_nodes s) \<Longrightarrow> nodes_running s \<Longrightarrow>
      touched {x} s t \<and> nodes_running t \<and> (\<forall>e. r = Inl e \<longrightarrow> rpc_error e) \<and> (\<forall>y. r = Inr (Some y) \<longrightarrow> y = x)"
    and call: "\<And>x s. serving P i s x \<Longrightarrow> \<exists>t. f x s = (Inr (Some x), t) \<and> serving Q i t x"
    and "\<forall>x \<in> G. serving P i s x"
  shows "\<exists>ys t. collect rpc_error f xs s = (Inr ys, t) \<and> touched (set xs) s t \<and> nodes_running t \<and>
    set xs \<inter> G \<subseteq> set ys \<and> set ys \<subseteq> set xs \<and> (\<forall>x \<in> set xs \<inter> G. serving Q i t x)"
  using assms(1-3,6)
proof (induction xs arbitrary: s G)
  case (Cons x xs)
  obtain r u where run: "f x s = (r, u)" by force
  have x: "x \<in> dict_keys (cl_nodes s)" using Cons.prems(2) by simp
  note step = known [OF run x Cons.prems(3)]
  have u: "set xs \<subseteq> dict_keys (cl_nodes u)" using Cons.prems(2) touched_parts(4) step by (metis insert_subset list.simps(15))
  have rest: "\<forall>y \<in> G - {x}. serving P i u y" using Cons.prems(4) touched_serving step by (metis Diff_iff)
  obtain ys t where c: "collect rpc_error f xs u = (Inr ys, t)" and t: "touched (set xs) u t" "nodes_running t"
    and ys: "set xs \<inter> (G - {x}) \<subseteq> set ys" "set ys \<subseteq> set xs" "\<forall>y \<in> set xs \<inter> (G - {x}). serving Q i t y"
    using Cons.IH [of u "G - {x}"] Cons.prems(1) u step rest by auto
  have dist: "x \<notin> set xs" using Cons.prems(1) by simp
  have good: "r = Inr (Some x) \<and> serving Q i t x" if "x \<in> G"
    using call [of s x] Cons.prems(4) that run touched_serving [OF t(1) dist] by force
  let ?ys = "case r of Inl _ \<Rightarrow> ys | Inr None \<Rightarrow> ys | Inr (Some y) \<Rightarrow> y # ys"
  have "collect rpc_error f (x # xs) s = (Inr ?ys, t)"
    using run c step by (auto split: sum.split option.split)
  moreover have "touched (set (x # xs)) s t" using touched_trans [of "{x}" s u] step t(1) by simp
  moreover have "set (x # xs) \<inter> G \<subseteq> set ?ys" using good ys(1) dist by (auto split: sum.split option.split)
  moreover have "set ?ys \<subseteq> set (x # xs)" using step ys(2) by (auto split: sum.split option.split)
  moreover have "\<forall>y \<in> set (x # xs) \<inter> G. serving Q i t y" using good ys(3) dist by auto
  ultimately show ?case using t(2) by blast
qed simp


section \<open>Replicas that can take an entry\<close>

definition fitting :: "'c collection_api \<Rightarrow> entry \<Rightarrow> 'c shard \<Rightarrow> bool" where
  "fitting api e sh \<longleftrightarrow> e_shard_id e = sh_shard_id sh \<and> e_term e = sh_term sh \<and>
     e_placement_epoch e = sh_placement_epoch sh \<and> e_index e \<notin> committed (sh_journal sh) \<and>
     snapshot_index (sh_journal sh) < e_index e \<and> sh_applied_index sh < e_index e \<and>
     (\<exists>c. collection_apply api (sh_dimension sh) (e_mutation e) (sh_collection sh) = (Inr (), c))"

definition ready :: "'c collection_api \<Rightarrow> entry \<Rightarrow> 'c shard \<Rightarrow> bool" where
  "ready api e sh \<longleftrightarrow> fitting api e sh \<and> prepared (sh_journal sh) (e_index e) = None"

definition staged :: "'c collection_api \<Rightarrow> entry \<Rightarrow> 'c shard \<Rightarrow> bool" where
  "staged api e sh \<longleftrightarrow> fitting api e sh \<and> prepared (sh_journal sh) (e_index e) = Some e"

lemma mutation_ok_any: "mutation_ok (Some n) m \<Longrightarrow> mutation_ok None m"
  unfolding mutation_ok_def upsert_ok_def vector_ok_def by fastforce

lemma fitting_mutation:
  "fitting api e sh \<Longrightarrow> validate_replicated_mutation (e_mutation e) (Some (sh_dimension sh)) = Inr ()"
  using collection_apply_ok by (fastforce simp: fitting_def validate_replicated_mutation_ok)

lemma prepare_ready:
  assumes "ready api e sh" and "entry_validate e = Inr ()"
  shows "\<exists>sh'. shard_prepare e sh = (Inr (PDict [(''prepared_index'', PInt (e_index e)),
      (''checksum'', PInt (e_mutation_checksum e))]), sh') \<and> staged api e sh'"
proof -
  let ?j = "(journal_append (prepare_payload e) (sh_journal sh))\<lparr>prepared := (prepared (sh_journal sh))(e_index e \<mapsto> e)\<rparr>"
  have "journal_prepare e (sh_journal sh) = Inr ?j" using assms journal_prepare_fresh by (auto simp: ready_def)
  then show ?thesis
    using assms(1) fitting_mutation [of api e sh]
    by (simp add: shard_prepare_def validate_entry_epoch_def on_journal_def ready_def staged_def fitting_def
        journal_append_def)
qed

lemma commit_staged:
  assumes "staged api e sh" and "entry_validate e = Inr ()"
  shows "\<exists>v sh'. shard_commit api e sh = (Inr v, sh')"
proof -
  have prep: "journal_prepare e (sh_journal sh) = Inr (sh_journal sh)"
    using assms by (simp add: journal_prepare_duplicate staged_def)
  obtain k where "journal_commit (e_index e) (sh_journal sh) = Inr (e, k)"
    using assms(1) by (simp add: journal_commit_def staged_def)
  then show ?thesis
    using assms(1) prep fitting_mutation [of api e sh]
    by (auto simp: shard_commit_def validate_entry_epoch_def on_journal_def staged_def fitting_def
        journal_commit_action_def replay_entry_run)
qed

lemma entry_request_shard:
  assumes "operation \<in> {''prepare'', ''commit''}"
  shows "shard_request (entry_request operation i d) operation i"
  using assms by (auto simp: shard_request_def entry_request_def dget_default_def int_item_def dget_def)

lemma entry_operation:
  assumes "entry_validate e = Inr ()"
  shows "shard_operation api (PStr ''prepare'') (entry_request ''prepare'' i (entry_fields e)) sh = shard_prepare e sh"
    "shard_operation api (PStr ''commit'') (entry_request ''commit'' i (entry_fields e)) sh = shard_commit api e sh"
  using entry_from_dict_raw [OF assms] by (simp_all add: shard_operation_def entry_request_def dget_def)

text \<open>The two loops of a write.\<close>

lemma send_entry_run:
  "entry_validate e = Inr () \<Longrightarrow>
     send_entry api operation node i e s = cluster_rpc api node (entry_request operation i (entry_fields e)) s"
  by (simp add: send_entry_def entry_to_dict_def)

lemma commit_on_serving:
  assumes "serving (staged api e) i s x" and "entry_validate e = Inr ()"
  shows "\<exists>t. commit_on api i e x s = (Inr (Some x), t) \<and> serving (\<lambda>_. True) i t x"
proof -
  have "\<exists>v t. cluster_rpc api x (entry_request ''commit'' i (entry_fields e)) s = (Inr v, t) \<and> True \<and>
      serving (\<lambda>_. True) i t x"
    using assms(1) entry_request_shard [of "''commit''"]
    by (rule serving_call) (simp_all add: entry_operation(2) [OF assms(2)] commit_staged [OF _ assms(2)])
  then show ?thesis by (auto simp: commit_on_run send_entry_run [OF assms(2)])
qed

lemma commit_on_known:
  assumes "commit_on api i e x s = (r, t)" and "x \<in> dict_keys (cl_nodes s)" and "nodes_running s"
    and "entry_validate e = Inr ()"
  shows "touched {x} s t \<and> nodes_running t \<and> (\<forall>e. r = Inl e \<longrightarrow> rpc_error e) \<and> (\<forall>y. r = Inr (Some y) \<longrightarrow> y = x)"
proof -
  obtain r' where run: "cluster_rpc api x (entry_request ''commit'' i (entry_fields e)) s = (r', t)"
    and r: "r = (case r' of Inl y \<Rightarrow> Inl y | Inr _ \<Rightarrow> Inr (Some x))"
    using assms(1) by (auto simp: commit_on_run send_entry_run [OF assms(4)] split: prod.splits sum.splits)
  show ?thesis
    using rpc_touched [OF run] inv_actionD [OF inv_rpc_running assms(3) run] rpc_known_error assms(2) run r
    by (cases r') auto
qed

lemma prepare_answer:
  assumes "fst (shard_operation api (PStr ''prepare'') q sh) = Inr v"
  shows "\<exists>c. item_int v ''checksum'' = Inr c"
proof -
  obtain e sh' where "shard_prepare e sh = (Inr v, sh')"
    using assms by (auto simp: shard_operation_def prod_eq_iff split: sum.splits)
  then have "v = PDict [(''prepared_index'', PInt (e_index e)), (''checksum'', PInt (e_mutation_checksum e))]"
    unfolding shard_prepare_def by (elim runE)
  then show ?thesis by (simp add: item_int_def item_def as_dict_or_def dget_def)
qed

lemma prepare_on_serving:
  assumes "serving (ready api e) i s x" and "entry_validate e = Inr ()" and "e_shard_id e = i"
  shows "\<exists>t. bind (send_entry api ''prepare'' x (e_shard_id e) e) (\<lambda>response.
      bind (pure (item_int response ''checksum'')) (\<lambda>checksum.
      ok (if checksum = e_mutation_checksum e then Some x else None))) s = (Inr (Some x), t) \<and> serving (staged api e) i t x"
proof -
  have "\<exists>v t. cluster_rpc api x (entry_request ''prepare'' i (entry_fields e)) s = (Inr v, t) \<and>
      item_int v ''checksum'' = Inr (e_mutation_checksum e) \<and> serving (staged api e) i t x"
    using assms(1) entry_request_shard [of "''prepare''"]
  proof (rule serving_call)
    fix sh assume "ready api e sh"
    from prepare_ready [OF this assms(2)]
    show "\<exists>v sh'. shard_operation api (PStr ''prepare'') (entry_request ''prepare'' i (entry_fields e)) sh = (Inr v, sh') \<and>
        item_int v ''checksum'' = Inr (e_mutation_checksum e) \<and> staged api e sh'"
      unfolding entry_operation(1) [OF assms(2)] by (auto simp: item_int_def item_def as_dict_or_def dget_def)
  qed simp_all
  then show ?thesis by (auto simp: send_entry_run [OF assms(2)] assms(3))
qed

lemma prepare_on_known:
  assumes "bind (send_entry api ''prepare'' x (e_shard_id e) e) (\<lambda>response.
      bind (pure (item_int response ''checksum'')) (\<lambda>checksum.
      ok (if checksum = e_mutation_checksum e then Some x else None))) s = (r, t)"
    and "x \<in> dict_keys (cl_nodes s)" and "nodes_running s" and "entry_validate e = Inr ()"
  shows "touched {x} s t \<and> nodes_running t \<and> (\<forall>e. r = Inl e \<longrightarrow> rpc_error e) \<and> (\<forall>y. r = Inr (Some y) \<longrightarrow> y = x)"
proof -
  let ?q = "entry_request ''prepare'' (e_shard_id e) (entry_fields e)"
  obtain r' u where run: "cluster_rpc api x ?q s = (r', u)" by force
  have "\<exists>c. item_int v ''checksum'' = Inr c" if "r' = Inr v" for v
    using run assms(3) entry_request_shard [of "''prepare''"]
    by (cases rule: shard_call) (use that in \<open>auto dest: prepare_answer\<close>)
  then have t: "t = u" and r: "(\<exists>y. r' = Inl y \<and> r = Inl y) \<or> (\<exists>z. r = Inr z \<and> z \<in> {None, Some x})"
    using assms(1) run by (auto simp: send_entry_run [OF assms(4)] split: sum.splits prod.splits if_splits)
  show ?thesis
    using rpc_touched [OF run] inv_actionD [OF inv_rpc_running assms(3) run] rpc_known_error assms(2) run r t by auto
qed

lemma commit_loop:
  assumes "distinct xs" and "set xs \<subseteq> dict_keys (cl_nodes s)" and "nodes_running s"
    and "\<forall>x \<in> G. serving (staged api e) i s x" and "entry_validate e = Inr ()"
  shows "\<exists>ys t. collect rpc_error (commit_on api i e) xs s = (Inr ys, t) \<and> touched (set xs) s t \<and> nodes_running t \<and>
    set xs \<inter> G \<subseteq> set ys \<and> set ys \<subseteq> set xs \<and> (\<forall>x \<in> set xs \<inter> G. serving (\<lambda>_. True) i t x)"
  by (rule collect_serving [OF assms(1-3) _ _ assms(4)]) (erule commit_on_known commit_on_serving, (assumption | rule assms)+)+

lemma prepare_loop:
  assumes "distinct xs" and "set xs \<subseteq> dict_keys (cl_nodes s)" and "nodes_running s"
    and "\<forall>x \<in> G. serving (ready api e) i s x" and "entry_validate e = Inr ()" and "e_shard_id e = i"
  shows "\<exists>ys t. prepare_nodes api e xs s = (Inr ys, t) \<and> touched (set xs) s t \<and> nodes_running t \<and>
    set xs \<inter> G \<subseteq> set ys \<and> set ys \<subseteq> set xs \<and> (\<forall>x \<in> set xs \<inter> G. serving (staged api e) i t x)"
  unfolding prepare_nodes_def
  by (rule collect_serving [OF assms(1-3) _ _ assms(4)]) (erule prepare_on_known prepare_on_serving, (assumption | rule assms)+)+

section \<open>Publishing valid metadata\<close>

lemma same_config: "m = m\<lparr>collection_config := config\<rparr> \<longleftrightarrow> config = collection_config m"
  by (cases m) auto

lemma metadata_validate_fixed:
  "metadata_validate m = Inr m \<longleftrightarrow>
     cluster_id m \<noteq> [] \<and> 0 < dimension m \<and> 0 < shard_count m \<and> 0 < replication_factor m \<and>
     replication_factor m \<le> int (length (members m)) \<and> routing_version m = ROUTING_VERSION \<and>
     0 < epoch m \<and> rall validate_member (members m) = Inr () \<and>
     dict_keys (shards m) = {0..<shard_count m} \<and> rall (validate_placement m) (shards m) = Inr () \<and>
     rall validate_request (request_table m) = Inr () \<and>
     canonical_collection_config (PDict (collection_config m)) (dimension m) = Inr (collection_config m)"
  unfolding metadata_validate_ok same_config by blast

lemma valid_bump: "metadata_validate m = Inr m \<Longrightarrow> metadata_validate (bump_epoch m) = Inr (bump_epoch m)"
  unfolding metadata_validate_fixed bump_epoch_def
  using validate_placement_members [of "m\<lparr>epoch := epoch m + 1\<rparr>" m] by (simp del: rall_ok)

lemma valid_placement_update:
  assumes "metadata_validate m = Inr m" and "map_of (shards m) i = Some p"
    and "validate_placement m (i, f p) = Inr ()"
  shows "metadata_validate (set_placement i f m) = Inr (set_placement i f m)"
proof -
  have m: "set_placement i f m = m\<lparr>shards := dict_set i (f p) (shards m)\<rparr>"
    using assms(2) by (simp add: set_placement_def)
  have "validate_placement (set_placement i f m) = validate_placement m"
    by (rule validate_placement_members) (simp add: m)
  then have "rall (validate_placement (set_placement i f m)) (shards (set_placement i f m)) = Inr ()"
    using assms(1,3) set_dict_set [of i "f p" "shards m"] unfolding metadata_validate_ok rall_ok m by auto
  moreover have "i \<in> dict_keys (shards m)" using map_of_SomeD [OF assms(2)] by (force simp: dict_keys_def)
  then have "dict_keys (shards (set_placement i f m)) = dict_keys (shards m)" unfolding m by (auto simp: dict_keys_def)
  ultimately show ?thesis
    using assms(1) unfolding metadata_validate_fixed by (simp add: m del: rall_ok)
qed

lemma valid_request_update:
  assumes "metadata_validate m = Inr m" and "r \<noteq> []" and "status \<in> {''prepared'', ''committed''}"
  shows "metadata_validate (set_request r i e c status m) = Inr (set_request r i e c status m)"
proof -
  let ?m = "set_request r i e c status m"
  define d where "d = PDict [(''shard_id'', PInt i), (''term'', PInt (e_term e)), (''index'', PInt (e_index e)),
    (''checksum'', PInt c), (''status'', PStr status)]"
  have m: "?m = m\<lparr>request_table := dict_set r d (request_table m)\<rparr>"
    by (simp add: set_request_def d_def)
  have "validate_request (r, d) = Inr ()"
    using assms(2,3) by (auto simp: d_def validate_request_def has_fields_def dict_keys_def REQUEST_RECORD_FIELDS_def
        dget_int_def dget_def)
  then have "rall validate_request (request_table ?m) = Inr ()"
    using assms(1) set_dict_set [of r d "request_table m"] unfolding metadata_validate_ok rall_ok m by auto
  moreover have "validate_placement ?m = validate_placement m" by (rule validate_placement_members) (simp add: m)
  ultimately show ?thesis
    using assms(1) unfolding metadata_validate_fixed by (simp add: m del: rall_ok)
qed

text \<open>Progress of a placement.\<close>

lemma placement_progress:
  assumes "validate_placement m (i, p) = Inr ()"
  shows "validate_placement m (i, p\<lparr>p_last_log_index := p_last_log_index p + 1\<rparr>) = Inr ()"
    "k \<le> p_last_log_index p \<Longrightarrow>
       validate_placement m (i, p\<lparr>p_committed_index := max (p_committed_index p) k\<rparr>) = Inr ()"
  using assms unfolding validate_placement_def prod.case require_eq_Inr quorum_def by auto

lemma validated_placement:
  "metadata_validate m = Inr m' \<Longrightarrow> map_of (shards m) i = Some p \<Longrightarrow> validate_placement m (i, p) = Inr ()"
  unfolding metadata_validate_ok rall_ok by (metis map_of_SomeD)

lemma publish_valid:
  assumes "metadata_validate (cl_metadata s) = Inr (cl_metadata s)"
  shows "\<exists>data. publish_cluster s = (Inr (), s\<lparr>cl_file := Some data\<rparr>)"
  using assms by (intro exI, simp add: publish_cluster_def metadata_text_def to_payload_def)

text \<open>Status calls are answered and change nothing.\<close>

definition status_readable :: "'c collection_api \<Rightarrow> bool" where
  "status_readable api \<longleftrightarrow>
     (\<forall>c. (\<exists>n. c_last_sequence api c = (Inr n, c)) \<and> (\<exists>config. c_collection_config api c = (Inr config, c)))"

lemma shard_status_ok:
  assumes "status_readable api"
  shows "\<exists>v. shard_status api sh = (Inr v, sh) \<and> item v ''term'' = Inr (PInt (sh_term sh)) \<and>
    item_int v ''applied_index'' = Inr (sh_applied_index sh)"
proof -
  obtain n config where "c_last_sequence api (sh_collection sh) = (Inr n, sh_collection sh)"
      "c_collection_config api (sh_collection sh) = (Inr config, sh_collection sh)"
    using assms unfolding status_readable_def by blast
  then show ?thesis
    by (simp add: shard_status_def on_collection_run item_def item_int_def as_dict_or_def dget_def)
qed

lemma status_serving:
  assumes "status_readable api" and "serving P i s x" and "\<And>sh. P sh \<Longrightarrow> sh_term sh = n"
  shows "\<exists>v t. cluster_status api x i s = (Inr v, t) \<and> item v ''term'' = Inr (PInt n) \<and> serving P i t x"
  unfolding cluster_status_def
  using assms(2) status_is_request
proof (rule serving_call)
  fix sh assume "P sh"
  then show "\<exists>v sh'. shard_operation api (PStr ''status'') [(''operation'', PStr ''status''), (''shard_id'', PInt i)] sh =
      (Inr v, sh') \<and> item v ''term'' = Inr (PInt n) \<and> P sh'"
    unfolding shard_operation_status using shard_status_ok [OF assms(1), of sh] assms(3) by auto
qed simp

lemma ensure_leader_serving:
  assumes "map_of (shards (cl_metadata s)) i = Some p" and "p_shard_id p = i" and "status_readable api"
    and "serving P i s (p_leader p)" and "\<And>sh. P sh \<Longrightarrow> sh_term sh = p_term p" and "nodes_running s"
  shows "\<exists>t. ensure_leader api i s = (Inr (), t) \<and> touched {p_leader p} s t \<and> serving P i t (p_leader p) \<and> nodes_running t"
proof -
  obtain v t where run: "cluster_status api (p_leader p) i s = (Inr v, t)" and v: "item v ''term'' = Inr (PInt (p_term p))"
    and t: "serving P i t (p_leader p)"
    using status_serving [OF assms(3,4,5)] by blast
  have "ensure_leader api i s = (Inr (), t)"
    using run v assms(1,2) by (simp add: ensure_leader_def placement_at_def)
  moreover have "touched {p_leader p} s t" using run rpc_touched unfolding cluster_status_def by blast
  moreover have "nodes_running t"
    using inv_actionD [OF inv_rpc_running assms(6)] run unfolding cluster_status_def by blast
  ultimately show ?thesis using t by blast
qed

section \<open>The write\<close>

lemma quorum_of_subset:
  assumes "quorum p \<le> card G" and "G \<subseteq> set ys"
  shows "quorum p \<le> length ys"
  using assms card_mono [of "set ys" G] card_length [of ys] by simp

lemma commit_prepared_available:
  assumes "metadata_validate (cl_metadata s) = Inr (cl_metadata s)" and "nodes_running s"
    and "map_of (shards (cl_metadata s)) i = Some p" and "entry_validate e = Inr ()" and "e_shard_id e = i"
    and "e_index e \<le> p_last_log_index p" and "set (p_replicas p) \<subseteq> dict_keys (cl_nodes s)"
    and "G \<subseteq> set (p_replicas p)" and "quorum p \<le> card G" and "\<forall>x \<in> G. serving (staged api e) i s x"
  shows "\<exists>t. commit_prepared api e c s =
    (Inr \<lparr>cr_shard_id = i, cr_term = e_term e, cr_index = e_index e, cr_request_id = e_request_id e\<rparr>, t)"
proof -
  have dist: "distinct (p_replicas p)" using metadata_placement_ok [OF assms(1,3)] by (simp add: placement_ok_def)
  obtain ys t where run: "collect rpc_error (commit_on api i e) (p_replicas p) s = (Inr ys, t)"
    and t: "touched (set (p_replicas p)) s t" and ys: "set (p_replicas p) \<inter> G \<subseteq> set ys"
    using commit_loop [OF dist assms(7,2,10,4)] by blast
  have "quorum p \<le> length ys" using assms(9) by (rule quorum_of_subset) (use assms(8) ys in blast)
  moreover let ?m = "bump_epoch (set_request (e_request_id e) i e c ''committed'' (set_placement i
      (\<lambda>p. p\<lparr>p_committed_index := max (p_committed_index p) (e_index e)\<rparr>) (cl_metadata s)))"
  have "e_request_id e \<noteq> []" using assms(4) by (simp add: entry_validate_ok)
  then have "metadata_validate ?m = Inr ?m"
    using assms(1,3,6) placement_progress(2) [OF validated_placement [OF assms(1,3)]]
    by (intro valid_bump valid_request_update valid_placement_update) auto
  then obtain data where "publish_cluster (t\<lparr>cl_metadata := ?m\<rparr>) = (Inr (), t\<lparr>cl_metadata := ?m, cl_file := Some data\<rparr>)"
    using publish_valid [of "t\<lparr>cl_metadata := ?m\<rparr>"] by auto
  ultimately show ?thesis
    using run touched_parts(1) [OF t] assms(3,5)
    by (simp add: commit_prepared_def placement_at_def on_metadata_def)
qed

text \<open>
  The replicas in \<open>G\<close>, the leader among them, form a quorum of the shard and can take the
  next entry.
\<close>

definition available :: "'c collection_api \<Rightarrow> string set \<Rightarrow> int \<Rightarrow> placement \<Rightarrow> entry \<Rightarrow> 'c cluster \<Rightarrow> bool" where
  "available api G i p e s \<longleftrightarrow>
     metadata_validate (cl_metadata s) = Inr (cl_metadata s) \<and> nodes_running s \<and>
     map_of (shards (cl_metadata s)) i = Some p \<and> set (p_replicas p) \<subseteq> dict_keys (cl_nodes s) \<and>
     G \<subseteq> set (p_replicas p) \<and> p_leader p \<in> G \<and> quorum p \<le> card G \<and> (\<forall>x \<in> G. serving (ready api e) i s x)"

definition next_entry :: "int \<Rightarrow> placement \<Rightarrow> string \<Rightarrow> pyval \<Rightarrow> entry" where
  "next_entry i p r m = entry_create i (p_term p) (p_placement_epoch p) (p_last_log_index p + 1) r m"

lemma next_entry_valid:
  assumes "available api G i p (next_entry i p r m) s" and "0 \<le> p_last_log_index p" and "r \<noteq> []"
  shows "entry_validate (next_entry i p r m) = Inr ()"
proof -
  have m: "metadata_validate (cl_metadata s) = Inr (cl_metadata s)" "map_of (shards (cl_metadata s)) i = Some p"
    and "serving (ready api (next_entry i p r m)) i s (p_leader p)"
    using assms(1) by (auto simp: available_def)
  then obtain sh where "fitting api (next_entry i p r m) sh" by (auto simp: serving_def ready_def)
  then have "mutation_ok None m"
    using collection_apply_ok mutation_ok_any by (fastforce simp: fitting_def next_entry_def entry_create_def)
  moreover have "i \<in> dict_keys (shards (cl_metadata s))" using map_of_SomeD [OF m(2)] by (force simp: dict_keys_def)
  then have "0 \<le> i" using m(1) unfolding metadata_validate_fixed by simp
  moreover have "0 < p_term p" "0 < p_placement_epoch p"
    using validated_placement [OF m] unfolding validate_placement_def prod.case require_eq_Inr by blast+
  ultimately show ?thesis
    using assms(2,3) by (simp add: entry_validate_ok next_entry_def entry_create_def)
qed

lemma available_touched:
  assumes "available api G i p e s" and "touched X s t" and "nodes_running t"
    and "\<forall>x \<in> X \<inter> G. serving (ready api e) i t x"
  shows "available api G i p e t"
  using assms touched_parts [OF assms(2)] touched_serving [OF assms(2)] unfolding available_def by (metis IntI)

lemma leader_available:
  assumes "available api G i p e s" and "status_readable api" and "e_term e = p_term p"
  shows "\<exists>t. ensure_leader api i s = (Inr (), t) \<and> available api G i p e t \<and> cl_metadata t = cl_metadata s"
proof -
  have s: "map_of (shards (cl_metadata s)) i = Some p" "metadata_validate (cl_metadata s) = Inr (cl_metadata s)"
      "serving (ready api e) i s (p_leader p)" "nodes_running s"
    using assms(1) by (simp_all add: available_def)
  have "p_shard_id p = i" using metadata_placement_ok [OF s(2,1)] by simp
  moreover have "sh_term sh = p_term p" if "ready api e sh" for sh
    using that assms(3) by (simp add: ready_def fitting_def)
  ultimately obtain t where t: "ensure_leader api i s = (Inr (), t)" "touched {p_leader p} s t"
      "serving (ready api e) i t (p_leader p)" "nodes_running t"
    using ensure_leader_serving [OF s(1) _ assms(2) s(3) _ s(4)] by blast
  then have "available api G i p e t" using available_touched [OF assms(1) t(2,4)] by blast
  then show ?thesis using t touched_parts(1) by blast
qed

lemma publish_change:
  assumes "metadata_validate m = Inr m"
  obtains d where "publish_cluster (s\<lparr>cl_metadata := m\<rparr>) = (Inr (), s\<lparr>cl_metadata := m, cl_file := Some d\<rparr>)"
  using publish_valid [of "s\<lparr>cl_metadata := m\<rparr>"] assms by auto

lemma quorum_index: "quorum (p\<lparr>p_last_log_index := k\<rparr>) = quorum p"
  by (simp add: quorum_def)

text \<open>From the allocation of the index to the acknowledgement.\<close>

lemma write_fresh_available:
  assumes avail: "available api G i p (next_entry i p r m) s" and api: "status_readable api"
    and index: "0 \<le> p_last_log_index p" and r: "r \<noteq> []"
  shows "\<exists>t. write_fresh api m r i c again s =
    (Inr \<lparr>cr_shard_id = i, cr_term = p_term p, cr_index = p_last_log_index p + 1, cr_request_id = r\<rparr>, t)"
proof -
  define e where "e = next_entry i p r m"
  have e: "e_shard_id e = i" "e_term e = p_term p" "e_index e = p_last_log_index p + 1" "e_request_id e = r"
    "entry_create i (p_term p) (p_placement_epoch p) (p_last_log_index p + 1) r m = e"
    by (simp_all add: e_def next_entry_def entry_create_def)
  have valid: "entry_validate e = Inr ()" using next_entry_valid [OF avail index r] by (simp add: e_def)
  obtain a where lead: "ensure_leader api i s = (Inr (), a)" and a: "available api G i p e a"
    and am: "cl_metadata a = cl_metadata s"
    using leader_available [OF avail api] e(2) by (auto simp: e_def)
  have s: "metadata_validate (cl_metadata s) = Inr (cl_metadata s)" "map_of (shards (cl_metadata s)) i = Some p"
      "G \<subseteq> set (p_replicas p)" "p_leader p \<in> G" "quorum p \<le> card G"
    using avail by (simp_all add: available_def)
  have dist: "distinct (p_replicas p)" using metadata_placement_ok [OF s(1,2)] by (simp add: placement_ok_def)
  let ?m = "bump_epoch (set_placement i (\<lambda>p. p\<lparr>p_last_log_index := p_last_log_index p + 1\<rparr>) (cl_metadata s))"
  have v1: "metadata_validate ?m = Inr ?m"
    using s placement_progress(1) [OF validated_placement [OF s(1,2)]]
    by (intro valid_bump valid_placement_update) auto
  obtain d where pub: "publish_cluster (a\<lparr>cl_metadata := ?m\<rparr>) = (Inr (), a\<lparr>cl_metadata := ?m, cl_file := Some d\<rparr>)"
    using v1 by (rule publish_change)
  define b where "b = a\<lparr>cl_metadata := ?m, cl_file := Some d\<rparr>"
  have b: "set (p_replicas p) \<subseteq> dict_keys (cl_nodes b)" "nodes_running b" "\<forall>x \<in> G. serving (ready api e) i b x"
    using a by (simp_all add: b_def available_def nodes_running_def serving_def)
  obtain ys u where prep: "prepare_nodes api e (p_replicas p) b = (Inr ys, u)"
    and u: "touched (set (p_replicas p)) b u" "nodes_running u" and ys: "set (p_replicas p) \<inter> G \<subseteq> set ys"
      "\<forall>x \<in> set (p_replicas p) \<inter> G. serving (staged api e) i u x"
    using prepare_loop [OF dist b valid e(1)] by blast
  have q: "p_leader p \<in> set ys" "quorum p \<le> length ys" using s(3,4) ys(1) quorum_of_subset [OF s(5)] by blast+
  let ?m2 = "bump_epoch (set_request r i e c ''prepared'' ?m)"
  have um: "cl_metadata u = ?m" using touched_parts(1) [OF u(1)] by (simp add: b_def)
  have v2: "metadata_validate ?m2 = Inr ?m2" by (rule valid_bump [OF valid_request_update [OF v1 r]]) simp
  obtain d2 where pub2: "publish_cluster (u\<lparr>cl_metadata := ?m2\<rparr>) = (Inr (), u\<lparr>cl_metadata := ?m2, cl_file := Some d2\<rparr>)"
    using v2 by (rule publish_change)
  define w where "w = u\<lparr>cl_metadata := ?m2, cl_file := Some d2\<rparr>"
  have "\<exists>t. commit_prepared api e c w =
      (Inr \<lparr>cr_shard_id = i, cr_term = e_term e, cr_index = e_index e, cr_request_id = e_request_id e\<rparr>, t)"
    by (rule commit_prepared_available [where G = G and p = "p\<lparr>p_last_log_index := p_last_log_index p + 1\<rparr>"])
      (use v2 u(2) b(1) ys(2) s valid e touched_parts(4) [OF u(1)] in
        \<open>auto simp: w_def nodes_running_def serving_def quorum_def\<close>)
  then obtain t where "commit_prepared api e c w =
      (Inr \<lparr>cr_shard_id = i, cr_term = p_term p, cr_index = p_last_log_index p + 1, cr_request_id = r\<rparr>, t)"
    unfolding e by blast
  then have "write_fresh api m r i c again s =
    (Inr \<lparr>cr_shard_id = i, cr_term = p_term p, cr_index = p_last_log_index p + 1, cr_request_id = r\<rparr>, t)"
    using lead pub prep q pub2 s(2) am unfolding write_fresh_def Let_def
    by (simp add: placement_at_def on_metadata_def um e(5) b_def [symmetric] w_def [symmetric] quorum_index)
  then show ?thesis ..
qed

lemma write_available:
  assumes "available api G i p (next_entry i p r m) s" and "status_readable api" and "0 \<le> p_last_log_index p"
    and "r \<noteq> []" and "\<not> cl_closed s" and "map_of (request_table (cl_metadata s)) r = None"
    and "item_int m ''id'' = Inr point" and "i = route_index (shard_count (cl_metadata s)) point"
  shows "\<exists>t. cluster_write api m r k s =
      (Inr \<lparr>cr_shard_id = i, cr_term = p_term p, cr_index = p_last_log_index p + 1, cr_request_id = r\<rparr>, t) \<and>
    acknowledged \<lparr>cr_shard_id = i, cr_term = p_term p, cr_index = p_last_log_index p + 1, cr_request_id = r\<rparr>
      (payload_checksum m) t"
proof -
  let ?res = "\<lparr>cr_shard_id = i, cr_term = p_term p, cr_index = p_last_log_index p + 1, cr_request_id = r\<rparr>"
  have "\<exists>t. write_step api m r again s = (Inr ?res, t)" for again
    using write_fresh_available [OF assms(1-4), of "payload_checksum m" "again i"] assms(5-8)
    by (simp add: write_step_def Let_def route_def ensure_open_def)
  then obtain t where run: "cluster_write api m r k s = (Inr ?res, t)" by (cases k) (auto simp only: cluster_write.simps)
  have "pending (shard_count (cl_metadata s)) False r s"
    using assms(1,5,6) by (simp add: pending_def available_def)
  from tripleD [OF write_done_run [OF assms(7,8)] this run] show ?thesis
    using run by (auto simp: write_done_def)
qed

end
