(* ===== verification/ClusterElection.thy ===== *)
theory ClusterElection
  imports ClusterLiveness
begin

text \<open>
  Elections and retries: the replicas an election reaches refuse the entries of earlier
  terms, so nothing of an earlier term can be acknowledged any more; and an acknowledged
  request is answered the same for ever.
\<close>

section \<open>Entries of an earlier term\<close>

text \<open>The replicas in \<open>C\<close> are past the term of \<open>e\<close>.\<close>

definition passed :: "string set \<Rightarrow> entry \<Rightarrow> 'c cluster \<Rightarrow> bool" where
  "passed C e s \<longleftrightarrow> nodes_running s \<and>
     (\<forall>x \<in> C. \<exists>sh. cluster_shard s x (e_shard_id e) = Some sh \<and> sh_term sh \<noteq> e_term e)"

lemma stale_commit:
  assumes "sh_term sh \<noteq> e_term e"
  shows "\<exists>x. shard_commit api e sh = (Inl x, sh)"
  using assms by (simp add: shard_commit_def validate_entry_epoch_def)

lemma commit_on_passed:
  assumes "commit_on api (e_shard_id e) e x s = (r, t)" and "passed C e s" 
  shows "passed C e t \<and> (x \<in> C \<longrightarrow> (\<exists>y. r = Inl y))"
proof (cases "entry_validate e = Inr ()")
  case False
  then have "t = s \<and> (\<exists>y. r = Inl y)"
    using assms(1) by (cases "entry_validate e") (auto simp: commit_on_run send_entry_def entry_to_dict_def)
  then show ?thesis using assms(2) by blast
next
  case True
  let ?i = "e_shard_id e"
  obtain r' where run: "cluster_rpc api x (entry_request ''commit'' ?i (entry_fields e)) s = (r', t)"
    and r: "r = (case r' of Inl y \<Rightarrow> Inl y | Inr _ \<Rightarrow> Inr (Some x))"
    using assms(1) by (auto simp: commit_on_run send_entry_run [OF True] split: prod.splits sum.splits)
  have s: "nodes_running s" using assms(2) by (simp add: passed_def)
  have t: "nodes_running t" using inv_actionD [OF inv_rpc_running s run] .
  have "shard_request (entry_request ''commit'' ?i (entry_fields e)) ''commit'' ?i" by (rule entry_request_shard) simp
  with run s show ?thesis
  proof (cases rule: shard_call)
    case refused
    then show ?thesis using assms(2) t r by (auto simp: passed_def)
  next
    case (served sh)
    note op = served(2,3) [unfolded entry_operation(2) [OF True]]
    show ?thesis
    proof (cases "x \<in> C")
      case True
      then have "sh_term sh \<noteq> e_term e" using assms(2) served(1) by (auto simp: passed_def)
      then obtain y where y: "shard_commit api e sh = (Inl y, sh)" using stale_commit by blast
      then have "\<exists>z. r' = Inl z" using op(2) by (cases r') auto
      moreover have "cluster_shard t = cluster_shard s" using op(1) y served(1) by (simp add: fun_upd_idem)
      ultimately show ?thesis using assms(2) t r by (auto simp: passed_def)
    next
      case False
      then show ?thesis using assms(2) t op(1) by (auto simp: passed_def)
    qed
  qed
qed

lemma few_others:
  assumes "placement_ok p" and "C \<subseteq> set (p_replicas p)" and "quorum p \<le> card C"
  shows "card (set (p_replicas p) - C) < quorum p"
proof -
  have "card (set (p_replicas p)) = length (p_replicas p)" using assms(1) by (simp add: placement_ok_def distinct_card)
  moreover have "card (set (p_replicas p) - C) = card (set (p_replicas p)) - card C"
    using assms(2) by (meson card_Diff_subset finite_set finite_subset)
  ultimately show ?thesis using assms(3) by (simp add: quorum_def)
qed

lemma commit_passed:
  assumes "passed C e s" and p: "map_of (shards (cl_metadata s)) (e_shard_id e) = Some p" and "placement_ok p"
    and "C \<subseteq> set (p_replicas p)" and "quorum p \<le> card C"
  shows "commit_prepared api e c s \<noteq> (Inr res, t)"
proof
  assume "commit_prepared api e c s = (Inr res, t)"
  then obtain ys u where ys: "collect rpc_error (commit_on api (e_shard_id e) e) (p_replicas p) s = (Inr ys, u)"
    and quorum: "quorum p \<le> length ys"
    using p unfolding commit_prepared_def placement_at_def by (auto split: sum.splits prod.splits if_splits)
  have "triple (passed C e) (collect rpc_error (commit_on api (e_shard_id e) e) (p_replicas p))
      (\<lambda>ys _. length ys \<le> card (set (p_replicas p) - C))"
  proof (rule collect_excluding)
    show "distinct (p_replicas p)" using assms(3) by (simp add: placement_ok_def)
    show "inv_action (passed C e) (commit_on api (e_shard_id e) e x)" for x
      using commit_on_passed unfolding inv_action_def by (metis surjective_pairing)
    show "x \<notin> C" if "passed C e s" "commit_on api (e_shard_id e) e x s = (Inr (Some y), t)" for x y s t
      using commit_on_passed [OF that(2,1)] by auto
  qed
  from tripleD [OF this assms(1) ys] show False using few_others [OF assms(3-5)] quorum by simp
qed

section \<open>Elections\<close>

interpretation running_calls: write_invariant nodes_running api ordinary_request for api
  by unfold_locales (simp_all only: inv_rpc_running ordinary_requests_all, simp_all add: nodes_running_def)

lemma election_outcome:
  assumes "elect_leader api i s = (Inr leader, t)" and "nodes_running s"
    and "metadata_validate (cl_metadata s) = Inr m" and p: "map_of (shards (cl_metadata s)) i = Some p"
  obtains C where "C \<subseteq> set (p_replicas p)" "quorum p \<le> card C" "leader \<in> C"
    "\<forall>x \<in> C. \<exists>tx ex ax tl el al. shard_view s x i = Some (tx, ex, ax) \<and> shard_view s leader i = Some (tl, el, al) \<and>
       (ax < al \<or> ax = al \<and> leader \<le> x)"
    "\<forall>x \<in> C. \<exists>a. shard_view t x i = Some (p_term p + 1, p_placement_epoch p + 1, a)"
    "map_of (shards (cl_metadata t)) i = Some (p\<lparr>p_term := p_term p + 1,
       p_placement_epoch := p_placement_epoch p + 1, p_leader := leader\<rparr>)"
    "\<exists>data. metadata_text (cl_metadata t) = Inr data \<and> cl_file t = Some data"
proof -
  have ok: "placement_ok p" "p_shard_id p = i" using metadata_placement_ok [OF assms(3) p] by auto
  obtain cands where q: "quorum p \<le> length cands" and d: "distinct (map snd cands)" "snd ` set cands \<subseteq> set (p_replicas p)"
    and old: "\<forall>(a, node) \<in> set cands. \<exists>term epoch. shard_view s node i = Some (term, epoch, a)"
    and lead: "leader = snd (hd (sort_key (\<lambda>c. (- fst c, snd c)) cands))"
    and rest: "\<forall>node \<in> snd ` set cands. \<exists>a. shard_view t node i = Some (p_term p + 1, p_placement_epoch p + 1, a)"
      "map_of (shards (cl_metadata t)) i = Some (p\<lparr>p_term := p_term p + 1,
         p_placement_epoch := p_placement_epoch p + 1, p_leader := leader\<rparr>)"
      "\<exists>data. metadata_text (cl_metadata t) = Inr data \<and> cl_file t = Some data"
    using elect_leader_run [OF assms(1,2) p ok] by blast
  have "cands \<noteq> []" using q ok(1) by (auto simp: placement_ok_def quorum_def)
  note top = sort_key_hd [OF this, where f = "\<lambda>c. (- fst c, snd c)"]
  let ?h = "hd (sort_key (\<lambda>c. (- fst c, snd c)) cands)"
  have h: "?h \<in> set cands" using top(2) [of "hd cands"] \<open>cands \<noteq> []\<close> by simp
  have "card (snd ` set cands) = length cands" using distinct_card [OF d(1)] by simp
  moreover have "\<exists>tx ex ax tl el al. shard_view s x i = Some (tx, ex, ax) \<and> shard_view s leader i = Some (tl, el, al) \<and>
       (ax < al \<or> ax = al \<and> leader \<le> x)" if x: "x \<in> snd ` set cands" for x
  proof -
    obtain a where a: "(a, x) \<in> set cands" using x by force
    have "(- fst ?h, snd ?h) \<le> (- a, x)" using top(1) [OF a] by simp
    moreover obtain tx ex tl el where "shard_view s x i = Some (tx, ex, a)" "shard_view s leader i = Some (tl, el, fst ?h)"
      using bspec [OF old a] bspec [OF old h] lead by (cases ?h) auto
    ultimately show ?thesis using lead by auto
  qed
  ultimately show ?thesis using that [of "snd ` set cands"] q d(2) h lead rest by simp
qed

end
