(* ===== verification/ClusterProperties.thy ===== *)
theory ClusterProperties
  imports ClusterElection
begin

text \<open>
  The properties of the coordinator, with a one-node cluster on which they are instantiated.
\<close>

section \<open>An example cluster\<close>

definition small_placement :: "int \<Rightarrow> int \<Rightarrow> placement" where
  "small_placement l c =
     \<lparr>p_shard_id = 0, p_term = 1, p_placement_epoch = 1, p_leader = ''n0'', p_replicas = [''n0''],
      p_last_log_index = l, p_committed_index = c\<rparr>"

definition small_metadata :: "int \<Rightarrow> placement \<Rightarrow> (string \<times> pyval) list \<Rightarrow> metadata" where
  "small_metadata n p table =
     \<lparr>cluster_id = ''c'', dimension = 8, shard_count = 1, replication_factor = 1, epoch = n,
      members = [(''n0'', ''127.0.0.1'', 7000)], shards = [(0, p)],
      collection_config = kernel_config_to_python (kernel_defaults 8), request_table = table,
      routing_version = ROUTING_VERSION\<rparr>"

definition small_node :: "'c shard \<Rightarrow> 'c node" where
  "small_node sh = \<lparr>nd_disks = (\<lambda>_. empty_root),
     nd_server = Some ((start_server (\<lambda>_. empty_root))\<lparr>sv_shards := [(0, sh)]\<rparr>)\<rparr>"

definition small_cluster :: "metadata \<Rightarrow> string option \<Rightarrow> 'c shard \<Rightarrow> 'c cluster" where
  "small_cluster m f sh =
     \<lparr>cl_metadata = m, cl_file = f, cl_nodes = [(''n0'', small_node sh)], cl_closed = False,
      cl_last_search_stats = [], cl_dimension = 8, cl_config = kernel_config_to_python (kernel_defaults 8)\<rparr>"

lemma small_metadata_valid:
  assumes "0 < n" and "0 \<le> c" and "c \<le> l" and "rall validate_request table = Inr ()"
  shows "metadata_validate (small_metadata n (small_placement l c) table) = Inr (small_metadata n (small_placement l c) table)"
proof -
  let ?m = "small_metadata n (small_placement l c) table"
  have sel: "cluster_id ?m = ''c''" "dimension ?m = 8" "shard_count ?m = 1" "replication_factor ?m = 1" "epoch ?m = n"
    "members ?m = [(''n0'', ''127.0.0.1'', 7000)]" "shards ?m = [(0, small_placement l c)]"
    "collection_config ?m = kernel_config_to_python (kernel_defaults 8)" "request_table ?m = table"
    "routing_version ?m = ROUTING_VERSION" "?m\<lparr>collection_config := kernel_config_to_python (kernel_defaults 8)\<rparr> = ?m"
    by (simp_all add: small_metadata_def)
  have "validate_placement (small_metadata n (small_placement l c) table) (0, small_placement l c) = Inr ()"
    unfolding validate_placement_def prod.case require_eq_Inr
    using assms by (simp add: small_placement_def small_metadata_def dict_keys_def quorum_def)
  then have placements: "rall (validate_placement ?m) (shards ?m) = Inr ()" by (simp only: sel rall.simps rbind_Inr)
  have addresses: "rall validate_member (members ?m) = Inr ()"
    unfolding sel(6) rall_ok by (simp add: validate_member_def)
  have keys: "dict_keys (shards ?m) = {0..<shard_count ?m}" unfolding sel(3,7) by (auto simp: dict_keys_def)
  show ?thesis
    unfolding metadata_validate_ok
    using assms placements addresses keys example_config by (simp only: sel) (simp add: sel(11))
qed

lemma small_nodes:
  "nodes_running (small_cluster m f sh)" "dict_keys (cl_nodes (small_cluster m f sh)) = {''n0''}"
  "cl_metadata (small_cluster m f sh) = m" "\<not> cl_closed (small_cluster m f sh)"
  by (simp_all add: small_cluster_def small_node_def nodes_running_def node_running_def start_server_def dict_keys_def)

lemma small_serving: "P sh \<Longrightarrow> serving P 0 (small_cluster m f sh) ''n0''"
  by (simp add: serving_def small_cluster_def small_node_def start_server_def)

definition small_mutation :: pyval where
  "small_mutation = PDict [(''operation'', PStr ''delete''), (''id'', PInt 7)]"

definition small_start :: "(int \<times> pyfloat list) list cluster" where
  "small_start = small_cluster (small_metadata 1 (small_placement 0 0) []) None example_shard"

lemma list_status: "status_readable list_api"
  by (simp add: status_readable_def list_api_def)

lemma small_metadata_tables:
  "request_table (small_metadata n p ts) = ts" "map_of (shards (small_metadata n p ts)) 0 = Some p"
  "shard_count (small_metadata n p ts) = 1"
  by (simp_all add: small_metadata_def)

lemma small_entry: "next_entry 0 (small_placement 0 0) ''request-1'' small_mutation = example_entry"
  by (simp add: next_entry_def small_placement_def example_entry_def small_mutation_def)

lemma example_ready: "ready list_api example_entry example_shard"
  unfolding ready_def fitting_def using example_apply by simp

lemma small_available:
  "available list_api {''n0''} 0 (small_placement 0 0) (next_entry 0 (small_placement 0 0) ''request-1'' small_mutation) small_start"
proof -
  have "metadata_validate (small_metadata 1 (small_placement 0 0) []) = Inr (small_metadata 1 (small_placement 0 0) [])"
    by (rule small_metadata_valid) simp_all
  then show ?thesis
    unfolding available_def small_entry small_start_def small_nodes small_metadata_tables
    using small_serving [of "ready list_api example_entry" example_shard] example_ready
    by (simp add: small_placement_def quorum_def small_nodes)
qed

section \<open>Writes\<close>

text \<open>
  C2: A write is available to a quorum: when the leader and a quorum of the shard's replicas
  are reachable and can take the next entry, the write of a new request is acknowledged
  with the next log index in the current term, whatever the other replicas answer, and the
  acknowledgement is durable.
\<close>

theorem quorum_write_available:
  assumes "available api G i p (next_entry i p r m) s" and "status_readable api" and "0 \<le> p_last_log_index p"
    and "r \<noteq> []" and "\<not> cl_closed s" and "map_of (request_table (cl_metadata s)) r = None"
    and "item_int m ''id'' = Inr point" and "i = route_index (shard_count (cl_metadata s)) point"
  shows "\<exists>t. cluster_write api m r k s =
      (Inr \<lparr>cr_shard_id = i, cr_term = p_term p, cr_index = p_last_log_index p + 1, cr_request_id = r\<rparr>, t) \<and>
    acknowledged \<lparr>cr_shard_id = i, cr_term = p_term p, cr_index = p_last_log_index p + 1, cr_request_id = r\<rparr>
      (payload_checksum m) t"
  using write_available [OF assms] .

lemma small_facts:
  "0 \<le> p_last_log_index (small_placement 0 0)" "''request-1'' \<noteq> []" "\<not> cl_closed small_start"
  "map_of (request_table (cl_metadata small_start)) ''request-1'' = None"
  "item_int small_mutation ''id'' = Inr 7" "0 = route_index (shard_count (cl_metadata small_start)) 7"
  by (simp_all add: small_placement_def small_start_def small_nodes small_metadata_tables small_mutation_def
      item_int_def item_def as_dict_or_def dget_def route_index_def)

theorem quorum_write_available_witness:
  "\<exists>t. cluster_write list_api small_mutation ''request-1'' 2 small_start =
      (Inr \<lparr>cr_shard_id = 0, cr_term = 1, cr_index = 1, cr_request_id = ''request-1''\<rparr>, t)"
  using quorum_write_available [OF small_available list_status small_facts, of 2] by (auto simp: small_placement_def)

text \<open>The run of the example, for the other instances.\<close>

lemma small_write:
  obtains t where "cluster_write list_api small_mutation ''request-1'' 2 small_start =
      (Inr \<lparr>cr_shard_id = 0, cr_term = 1, cr_index = 1, cr_request_id = ''request-1''\<rparr>, t)"
  using write_available [OF small_available list_status small_facts, of 2] by (auto simp: small_placement_def)

text \<open>
  C1: What an acknowledgement means: a write that returns, also after elections and retries,
  has its entry committed in the journals of a quorum of the shard's replicas, and the
  metadata file records the request, its index and its mutation's checksum as committed.
\<close>

theorem write_acknowledged:
  assumes "cluster_write api m r k s = (Inr res, t)" and "nodes_running s"
    and "\<And>v. map_of (request_table (cl_metadata s)) r = Some v \<Longrightarrow> \<not> committed_record v"
  shows "acknowledged res (payload_checksum m) t \<and> cr_request_id res = r \<and>
    (\<exists>point. item_int m ''id'' = Inr point \<and> cr_shard_id res = route_index (shard_count (cl_metadata s)) point)"
proof -
  obtain again where "write_step api m r again s = (Inr res, t)"
    using assms(1) by (cases k) (simp_all only: cluster_write.simps)
  then obtain point where point: "item_int m ''id'' = Inr point" by (rule write_step_run)
  have "pending (shard_count (cl_metadata s)) (cl_closed s) r s" using assms(2,3) by (simp add: pending_def)
  from tripleD [OF write_done_run [OF point refl] this assms(1)] show ?thesis
    using point by (auto simp: write_done_def)
qed

theorem write_acknowledged_witness:
  "\<exists>res t. cluster_write list_api small_mutation ''request-1'' 2 small_start = (Inr res, t) \<and>
     acknowledged res (payload_checksum small_mutation) t"
proof -
  obtain res t where "cluster_write list_api small_mutation ''request-1'' 2 small_start = (Inr res, t)" by (rule small_write)
  moreover from this have "acknowledged res (payload_checksum small_mutation) t"
    using write_acknowledged small_nodes(1) small_facts(4) by (metis option.distinct(1) small_start_def)
  ultimately show ?thesis by blast
qed

text \<open>
  C5: Exactly once: after a write was acknowledged, whatever operations follow (other writes,
  elections, crashes and restarts of nodes, catch-up, rebalancing), sending the same request
  again returns the first answer and changes nothing, and reusing its identifier for a
  mutation with another checksum is refused.
\<close>

theorem write_exactly_once:
  assumes "cluster_write api m r k s = (Inr res, t)" and "nodes_running s"
    and "\<And>v. map_of (request_table (cl_metadata s)) r = Some v \<Longrightarrow> \<not> committed_record v"
    and "(cluster_step api)\<^sup>*\<^sup>* t u" and "\<not> cl_closed u"
  shows "cluster_write api m r k' u = (Inr res, u) \<and>
    (\<forall>m' point. payload_checksum m' \<noteq> payload_checksum m \<longrightarrow> item_int m' ''id'' = Inr point \<longrightarrow>
       cluster_write api m' r k' u = (Inl (ProtocolError ''request ID reused with conflicting mutation''), u))"
proof -
  obtain again where "write_step api m r again s = (Inr res, t)"
    using assms(1) by (cases k) (simp_all only: cluster_write.simps)
  then obtain point where point: "item_int m ''id'' = Inr point" by (rule write_step_run)
  have "pending (shard_count (cl_metadata s)) (cl_closed s) r s" using assms(2,3) by (simp add: pending_def)
  from tripleD [OF write_done_run [OF point refl] this assms(1)]
  have "acknowledged res (payload_checksum m) t" and res: "cr_request_id res = r"
    "cr_shard_id res = route_index (shard_count (cl_metadata t)) point"
    by (auto simp: write_done_def)
  then have "recorded_as r (request_record res (payload_checksum m)) t" by (auto simp: acknowledged_def recorded_as_def)
  moreover have "committed_record (request_record res c)" for c by (simp add: committed_record_def request_record_def)
  ultimately have rec: "map_of (request_table (cl_metadata u)) r = Some (request_record res (payload_checksum m))"
    using cluster_steps_keep(2) [OF assms(4)] by (simp add: recorded_as_def)
  have "shard_count (cl_metadata u) = shard_count (cl_metadata t)"
    using cluster_steps_keep(1) [OF assms(4)] by (simp add: since_def metadata_before_def)
  then have "cluster_write api m r k' u = (Inr res, u)"
    using res assms(5) by (intro write_retry [OF rec _ point]) simp_all
  then show ?thesis using write_conflict [OF rec _ _ assms(5)] by simp
qed

theorem write_exactly_once_witness:
  "\<exists>res t x u. cluster_write list_api small_mutation ''request-1'' 2 small_start = (Inr res, t) \<and>
     stop_node ''n0'' t = (x, u) \<and> cluster_write list_api small_mutation ''request-1'' 2 u = (Inr res, u)"
proof -
  obtain res t where run: "cluster_write list_api small_mutation ''request-1'' 2 small_start = (Inr res, t)" by (rule small_write)
  obtain x u where stop: "stop_node ''n0'' t = (x, u)" by force
  have "pending 1 False ''request-1'' small_start"
    by (simp add: pending_def small_start_def small_nodes small_metadata_tables)
  from tripleD [OF write_done_run [OF small_facts(5) refl] this run] have "\<not> cl_closed t" by (simp add: write_done_def)
  then have "\<not> cl_closed u"
    using stop by (auto simp: stop_node_def on_node_def split: option.splits prod.splits)
  moreover have "(cluster_step list_api)\<^sup>*\<^sup>* t u" using cluster_step.stop [OF stop] by blast
  ultimately have "cluster_write list_api small_mutation ''request-1'' 2 u = (Inr res, u)"
    using write_exactly_once [OF run] small_nodes(1) small_facts(4) unfolding small_start_def
    by (metis option.distinct(1))
  then show ?thesis using run stop by blast
qed

section \<open>Minorities\<close>

text \<open>
  C6: A minority cannot acknowledge: when too few replicas of the shard can be reached to form
  a quorum (the others stopped, partitioned or unknown), no write to it returns, whatever it
  tries, neither a new request nor one that was prepared before.
\<close>

theorem minority_cannot_acknowledge:
  assumes "metadata_validate (cl_metadata s) = Inr m0" and "map_of (shards (cl_metadata s)) i = Some p"
    and "card {x \<in> set (p_replicas p). \<not> silent s x} < quorum p"
    and "item_int m ''id'' = Inr point" and "route_index (shard_count (cl_metadata s)) point = i"
    and "\<And>v. map_of (request_table (cl_metadata s)) r = Some v \<Longrightarrow> \<not> committed_record v"
  shows "cluster_write api m r k s \<noteq> (Inr res, t)"
proof -
  define U where "U = {x. silent s x}"
  have "set (p_replicas p) - U = {x \<in> set (p_replicas p). \<not> silent s x}" by (auto simp: U_def)
  then have few: "card (set (p_replicas p) - U) < length (p_replicas p) div 2 + 1"
    using assms(3) by (simp add: quorum_def)
  have "distinct (p_replicas p)" using metadata_placement_ok [OF assms(1,2)] by (simp add: placement_ok_def)
  moreover have "minority U (p_replicas p) (shard_count (cl_metadata s)) i r s"
    using assms(2,6) by (simp add: minority_def U_def)
  ultimately show ?thesis using tripleD [OF write_minority [OF _ few assms(4,5)]] by blast
qed

definition small_stopped :: "(int \<times> pyfloat list) list cluster" where
  "small_stopped = snd (stop_node ''n0'' small_start)"

theorem minority_cannot_acknowledge_witness:
  "\<not> (\<exists>res t. cluster_write list_api small_mutation ''request-1'' 2 small_stopped = (Inr res, t))"
proof (intro notI, elim exE)
  fix res t assume run: "cluster_write list_api small_mutation ''request-1'' 2 small_stopped = (Inr res, t)"
  have parts: "cl_metadata small_stopped = small_metadata 1 (small_placement 0 0) []" "silent small_stopped ''n0''"
    by (simp_all add: small_stopped_def stop_node_def on_node_def node_crash_def node_exit_def small_start_def
        small_cluster_def small_node_def silent_def answering_def)
  have "metadata_validate (small_metadata 1 (small_placement 0 0) []) = Inr (small_metadata 1 (small_placement 0 0) [])"
    by (rule small_metadata_valid) simp_all
  then show False
    using minority_cannot_acknowledge [of small_stopped "cl_metadata small_stopped" 0 "small_placement 0 0" small_mutation 7
        "''request-1''" list_api 2 res t] run small_facts(5,6) parts(2)
    unfolding parts small_start_def small_nodes small_metadata_tables
    by (simp add: small_placement_def quorum_def)
qed

section \<open>Elections\<close>


text \<open>Calls to the node of the example.\<close>

lemma small_update:
  "(small_cluster m f sh)\<lparr>cl_metadata := m'\<rparr> = small_cluster m' f sh"
  "(small_cluster m f sh)\<lparr>cl_file := f'\<rparr> = small_cluster m f' sh"
  by (simp_all add: small_cluster_def)

lemma small_call:
  assumes "shard_request q op 0" and "shard_operation api (PStr op) q sh = (Inr v, sh')"
  shows "cluster_rpc api ''n0'' q (small_cluster m f sh) = (Inr v, small_cluster m f sh')"
  using assms serve_shard_request [OF assms(1), of api]
  by (simp add: cluster_rpc_def on_node_def small_cluster_def small_node_def node_rpc_def handle_request_def
      shard_request_def on_shard_def start_server_def reply_result_def)

lemma small_configure:
  assumes "p_shard_id p = 0" and "shard_configure api (p_term p) (p_placement_epoch p) sh = (Inr v, sh')"
  shows "configure api ''n0'' p (small_cluster m f sh) = (Inr v, small_cluster m f sh')"
  using assms
  by (simp add: configure_def cluster_rpc_def on_node_def small_cluster_def small_node_def node_rpc_def handle_request_def
      serve_operation_def configure_request_def dget_default_def int_item_def dget_def open_if_absent_def on_shard_def
      start_server_def reply_result_def)

lemma small_status:
  assumes "status_readable api"
  shows "\<exists>v. cluster_status api ''n0'' 0 (small_cluster m f sh) = (Inr v, small_cluster m f sh) \<and>
     item v ''term'' = Inr (PInt (sh_term sh)) \<and> item_int v ''applied_index'' = Inr (sh_applied_index sh)"
proof -
  obtain v where v: "shard_status api sh = (Inr v, sh)" "item v ''term'' = Inr (PInt (sh_term sh))"
      "item_int v ''applied_index'' = Inr (sh_applied_index sh)"
    using shard_status_ok [OF assms] by blast
  then show ?thesis
    unfolding cluster_status_def
    using small_call [OF status_is_request, of api sh v sh] by (auto simp: shard_operation_status)
qed

lemma small_publish:
  assumes "metadata_validate m = Inr m"
  obtains f' where "publish_cluster (small_cluster m f sh) = (Inr (), small_cluster m f' sh)"
  using publish_valid [of "small_cluster m f sh"] assms by (auto simp: small_nodes small_update)

lemma small_election: "\<exists>t. elect_leader list_api 0 small_start = (Inr ''n0'', t)"
proof -
  let ?p = "(small_placement 0 0)\<lparr>p_term := 2, p_placement_epoch := 2\<rparr>"
  obtain v where v: "cluster_status list_api ''n0'' 0 small_start = (Inr v, small_start)" "item_int v ''applied_index'' = Inr 0"
    unfolding small_start_def using small_status [OF list_status, of "small_metadata 1 (small_placement 0 0) []" None example_shard] by auto
  then have cands: "collect rpc_error (probe list_api 0) [''n0''] small_start = (Inr [(0, ''n0'')], small_start)"
    by (simp add: probe_def)
  define m where "m = bump_epoch (set_placement 0 (\<lambda>p. p\<lparr>p_term := p_term p + 1,
    p_placement_epoch := p_placement_epoch p + 1, p_leader := ''n0''\<rparr>) (cl_metadata small_start))"
  have start: "metadata_validate (cl_metadata small_start) = Inr (cl_metadata small_start)"
    "map_of (shards (cl_metadata small_start)) 0 = Some (small_placement 0 0)"
    using small_available by (simp_all add: available_def)
  have "validate_placement (cl_metadata small_start) (0, ?p) = Inr ()"
    using validated_placement [OF start] unfolding validate_placement_def prod.case require_eq_Inr
    by (simp add: small_placement_def quorum_def)
  then have "metadata_validate m = Inr m"
    unfolding m_def using start by (intro valid_bump valid_placement_update) (auto simp: small_placement_def)
  then obtain f where pub: "publish_cluster (small_cluster m None example_shard) = (Inr (), small_cluster m f example_shard)"
    by (rule small_publish)
  have m: "map_of (shards m) 0 = Some ?p" using start(2) by (simp add: m_def small_placement_def)
  obtain x sh where "shard_configure list_api 2 2 example_shard = (Inr x, sh)"
    by (auto simp: shard_configure_def publish_state_def shard_status_def on_collection_run list_api_def)
  then have conf: "configure list_api ''n0'' ?p (small_cluster m f example_shard) = (Inr x, small_cluster m f sh)"
    by (intro small_configure) (simp_all add: small_placement_def)
  have upd: "small_start\<lparr>cl_metadata := m\<rparr> = small_cluster m None example_shard" by (simp add: small_start_def small_update)
  have p: "p_shard_id (small_placement 0 0) = 0" "p_replicas (small_placement 0 0) = [''n0'']" "quorum (small_placement 0 0) = 1"
    by (simp_all add: small_placement_def quorum_def)
  show ?thesis
    using cands start(2) pub m conf p
    unfolding elect_leader_def Let_def
    by (simp add: placement_at_def on_metadata_def m_def [symmetric] upd small_nodes)
qed


section \<open>Reads\<close>

lemma get_is_request: "shard_request [(''operation'', PStr ''get''), (''shard_id'', PInt i), (''id'', PInt x)] ''get'' i"
  by (simp add: shard_request_def dget_default_def int_item_def dget_def)

lemma get_operation:
  "shard_operation api (PStr ''get'') [(''operation'', PStr ''get''), (''shard_id'', PInt i), (''id'', PInt x)] = shard_get api x"
  by (simp add: shard_operation_def int_item_def dget_def)

lemma cluster_get_steps:
  assumes "cluster_get api x s = (Inr v, t)"
  obtains i p node u where "\<not> cl_closed s" "i = route_index (shard_count (cl_metadata s)) x"
    "map_of (shards (cl_metadata s)) i = Some p" "query_replica api p (p_committed_index p) s = (Inr node, u)"
    "cluster_rpc api node [(''operation'', PStr ''get''), (''shard_id'', PInt i), (''id'', PInt x)] u = (Inr v, t)"
  using assms unfolding cluster_get_def route_def ensure_open_def
  by (elim runE placement_atE) (hypsubst, rule that, assumption?, simp_all)



section \<open>Routing\<close>

text \<open>
  C27: Routing is total on valid metadata and stays in range: a point goes to the shard that
  its identifier, as an unsigned 64-bit word, has modulo the shard count, so identifiers that
  agree as 64-bit words (a negative one and its two's complement) have the same shard, and
  that shard has a placement.
\<close>

theorem route_bounds:
  assumes "metadata_validate m = Inr m'"
  shows "0 \<le> route_index (shard_count m) x \<and> route_index (shard_count m) x < shard_count m \<and>
    route_index (shard_count m) x = uint (word_of_int x :: 64 word) mod shard_count m \<and>
    (\<exists>p. map_of (shards m) (route_index (shard_count m) x) = Some p \<and> p_shard_id p = route_index (shard_count m) x)"
proof -
  have m: "0 < shard_count m" "dict_keys (shards m) = {0..<shard_count m}" using assms unfolding metadata_validate_ok by simp_all
  have "x AND 0xFFFFFFFFFFFFFFFF = take_bit 64 x" by (simp add: take_bit_eq_mask mask_eq_exp_minus_1)
  then have word: "route_index (shard_count m) x = uint (word_of_int x :: 64 word) mod shard_count m"
    unfolding route_index_def by (simp add: uint_word_of_int take_bit_eq_mod)
  moreover have range: "0 \<le> route_index (shard_count m) x" "route_index (shard_count m) x < shard_count m"
    using m(1) by (simp_all add: route_index_def)
  moreover obtain p where "map_of (shards m) (route_index (shard_count m) x) = Some p"
    using m(2) range by (cases "map_of (shards m) (route_index (shard_count m) x)")
      (auto simp: map_of_eq_None_iff dict_keys_def)
  ultimately show ?thesis using metadata_placement_ok [OF assms] by blast
qed

theorem route_bounds_witness:
  "route_index (shard_count example_metadata) (- 1) = 18446744073709551615 mod shard_count example_metadata"
  using route_bounds [OF example_metadata_ok(1), of "- 1"] by (simp add: unsigned_minus_1_eq_mask mask_eq_exp_minus_1)

section \<open>The life of a cluster\<close>

text \<open>
  C10: Through every sequence of operations (writes, reads, catch-up, stops, restarts, fault
  injection, rebalancing, closing), whatever each of them raises, the metadata moves forward
  only: its epoch, and of every shard the term, the placement epoch, the log index and the
  committed index never decrease, no replica is dropped, and a request recorded as committed
  keeps its record.
\<close>

theorem cluster_progress:
  assumes "(cluster_step api)\<^sup>*\<^sup>* s t"
  shows "metadata_before (cl_metadata s) (cl_metadata t) \<and>
    (\<forall>r v. map_of (request_table (cl_metadata s)) r = Some v \<longrightarrow> committed_record v \<longrightarrow>
       map_of (request_table (cl_metadata t)) r = Some v)"
  using cluster_steps_keep [OF assms] by (simp add: since_def recorded_as_def)

theorem cluster_progress_witness:
  "\<exists>res t. cluster_write list_api small_mutation ''request-1'' 2 small_start = (Inr res, t) \<and>
     metadata_before (cl_metadata small_start) (cl_metadata t)"
proof -
  obtain res t where run: "cluster_write list_api small_mutation ''request-1'' 2 small_start = (Inr res, t)" by (rule small_write)
  from cluster_step.mutate [OF this] have "(cluster_step list_api)\<^sup>*\<^sup>* small_start t" by blast
  from cluster_progress [OF this] show ?thesis using run by blast
qed

section \<open>Invalid mutations\<close>

text \<open>
  A mutation the replicated protocol does not admit is not reported as such: the error of
  its encoding is swallowed by the prepare loop, so no replica is called, a log index is
  used up and published, and the write goes on as if the leader had failed.
\<close>

theorem invalid_mutation_swallowed:
  assumes "\<not> mutation_ok None m" and "metadata_validate (cl_metadata s) = Inr (cl_metadata s)"
    and p: "map_of (shards (cl_metadata s)) i = Some p" and leader: "ensure_leader api i s = (Inr (), s)"
  shows "\<exists>t q. write_fresh api m r i c again s = again t \<and> cl_nodes t = cl_nodes s \<and>
    map_of (shards (cl_metadata t)) i = Some q \<and> p_last_log_index q = p_last_log_index p + 1"
proof -
  let ?e = "entry_create i (p_term p) (p_placement_epoch p) (p_last_log_index p + 1) r m"
  have "entry_validate ?e \<noteq> Inr ()" using assms(1) by (simp add: entry_validate_ok entry_create_def)
  then obtain x where x: "entry_validate ?e = Inl x" by (cases "entry_validate ?e") auto
  have "rpc_error x" using entry_validate_protocol_only [of ?e] x by (simp add: protocol_only_def rpc_error_def)
  then have prep: "prepare_nodes api ?e nodes u = (Inr [], u)" for nodes u
    unfolding prepare_nodes_def by (induction nodes) (simp_all add: send_entry_def entry_to_dict_def x)
  let ?m = "bump_epoch (set_placement i (\<lambda>p. p\<lparr>p_last_log_index := p_last_log_index p + 1\<rparr>) (cl_metadata s))"
  have "metadata_validate ?m = Inr ?m"
    using assms(2,3) placement_progress(1) [OF validated_placement [OF assms(2) p]]
    by (intro valid_bump valid_placement_update) auto
  then obtain d where pub: "publish_cluster (s\<lparr>cl_metadata := ?m\<rparr>) = (Inr (), s\<lparr>cl_metadata := ?m, cl_file := Some d\<rparr>)"
    by (rule publish_change)
  have "write_fresh api m r i c again s = again (s\<lparr>cl_metadata := ?m, cl_file := Some d\<rparr>)"
    using leader pub p unfolding write_fresh_def Let_def
    by (simp add: placement_at_def on_metadata_def prep)
  then show ?thesis using p by (intro exI [of _ "s\<lparr>cl_metadata := ?m, cl_file := Some d\<rparr>"]) simp
qed

theorem invalid_mutation_swallowed_witness:
  "\<exists>t. write_fresh list_api (PDict [(''operation'', PStr ''touch''), (''id'', PInt 7)]) ''r'' 0 0
      (raise (QuorumUnavailable ''leader failed during replication'')) small_start =
    (Inl (QuorumUnavailable ''leader failed during replication''), t)"
proof -
  have m: "\<not> mutation_ok None (PDict [(''operation'', PStr ''touch''), (''id'', PInt 7)])"
    by (simp add: mutation_ok_def delete_ok_def upsert_ok_def)
  obtain v where v: "cluster_status list_api ''n0'' 0 small_start = (Inr v, small_start)" "item v ''term'' = Inr (PInt 1)"
    unfolding small_start_def using small_status [OF list_status, of "small_metadata 1 (small_placement 0 0) []" None example_shard] by auto
  have s: "metadata_validate (cl_metadata small_start) = Inr (cl_metadata small_start)"
    "map_of (shards (cl_metadata small_start)) 0 = Some (small_placement 0 0)"
    using small_available by (simp_all add: available_def)
  have "ensure_leader list_api 0 small_start = (Inr (), small_start)"
    using v s(2) by (simp add: ensure_leader_def placement_at_def small_placement_def)
  from invalid_mutation_swallowed [OF m s this] show ?thesis by (metis basic_run(2))
qed

section \<open>Gaps\<close>

text \<open>
  A replica accepts a commit that skips indexes: an entry of the current term that fits is
  committed and applied whatever its distance from the applied index, which jumps to it, and
  the indexes between stay uncommitted in its journal although the replica then counts as
  caught up.
\<close>

theorem gap_commit_accepted:
  assumes "ready api e sh" and "entry_validate e = Inr ()"
  shows "\<exists>v sh'. shard_commit api e sh = (Inr v, sh') \<and> sh_applied_index sh' = e_index e \<and>
    committed (sh_journal sh') = insert (e_index e) (committed (sh_journal sh))"
proof -
  let ?j = "(journal_append (prepare_payload e) (sh_journal sh))\<lparr>prepared := (prepared (sh_journal sh))(e_index e \<mapsto> e)\<rparr>"
  have "journal_prepare e (sh_journal sh) = Inr ?j" using assms journal_prepare_fresh by (auto simp: ready_def)
  moreover obtain k where "journal_commit (e_index e) ?j = Inr (e, k)" "committed k = insert (e_index e) (committed (sh_journal sh))"
    by (cases "e_index e \<in> committed (sh_journal sh)") (simp_all add: journal_commit_def journal_append_def insert_absorb)
  ultimately show ?thesis
    using assms(1) fitting_mutation [of api e sh]
    by (auto simp: shard_commit_def validate_entry_epoch_def on_journal_def ready_def fitting_def
        journal_commit_action_def replay_entry_run)
qed

definition late_entry :: entry where
  "late_entry = entry_create 0 1 1 3 ''request-3'' small_mutation"

theorem gap_commit_accepted_witness:
  "\<exists>v sh'. sh_applied_index example_shard = 0 \<and> shard_commit list_api late_entry example_shard = (Inr v, sh') \<and>
     sh_applied_index sh' = 3 \<and> committed (sh_journal sh') = {3}"
proof -
  have e: "e_shard_id late_entry = 0" "e_term late_entry = 1" "e_placement_epoch late_entry = 1" "e_index late_entry = 3"
    "e_mutation late_entry = e_mutation example_entry" "e_request_id late_entry = ''request-3''"
    "e_mutation_checksum late_entry = payload_checksum (e_mutation late_entry)"
    by (simp_all add: late_entry_def entry_create_def small_mutation_def)
  have "ready list_api late_entry example_shard"
    unfolding ready_def fitting_def e using example_apply by simp
  moreover have "entry_validate late_entry = Inr ()"
    using example_entry_ok(1) unfolding entry_validate_ok e by simp
  ultimately show ?thesis using gap_commit_accepted [of list_api late_entry example_shard] e by simp
qed

end
