(* ===== verification/SearchMerge.thy ===== *)
theory SearchMerge
  imports Search
begin

text \<open>
  The merge of the shards' answers is the answer over all points: the first \<open>k\<close> of the
  shards' first \<open>k\<close> are the first \<open>k\<close> of everything.
\<close>

section \<open>The first elements of a sorted list\<close>

lemma take_insort:
  assumes "sorted (map f xs)" and "k \<le> length (filter (\<lambda>y. f y < f w) xs)"
  shows "take k (insort_key f w xs) = take k xs"
  using assms
proof (induction xs arbitrary: k)
  case (Cons y ys)
  show ?case
  proof (cases "f w \<le> f y")
    case True
    then have "filter (\<lambda>z. f z < f w) (y # ys) = []" using Cons.prems(1) by (auto simp: filter_empty_conv)
    then show ?thesis using Cons.prems(2) by simp
  next
    case False
    then have less: "f y < f w" by simp
    then show ?thesis using Cons False by (cases k) simp_all
  qed
qed simp

text \<open>Elements that \<open>k\<close> others precede do not matter.\<close>

lemma take_sort_drop:
  assumes "length zs = k" and "\<And>z w. z \<in> set zs \<Longrightarrow> w \<in> set ws \<Longrightarrow> f z < f w"
  shows "take k (sort_key f (ws @ zs @ ys)) = take k (sort_key f (zs @ ys))"
  using assms(2)
proof (induction ws)
  case (Cons w ws)
  let ?l = "sort_key f (ws @ zs @ ys)"
  have "filter (\<lambda>y. f y < f w) zs = zs" using Cons.prems by (simp add: filter_id_conv)
  then have "k \<le> length (filter (\<lambda>y. f y < f w) (ws @ zs @ ys))" using assms(1) by simp
  also have "\<dots> = length (filter (\<lambda>y. f y < f w) ?l)"
    by (rule mset_eq_length) (simp add: mset_filter)
  finally have "take k (insort_key f w ?l) = take k ?l" by (intro take_insort) simp_all
  then show ?case using Cons by simp
qed simp

definition best :: "('a \<Rightarrow> 'b::linorder) \<Rightarrow> nat \<Rightarrow> 'a list \<Rightarrow> 'a list" where
  "best f k xs = take k (sort_key f xs)"

lemma best_perm:
  assumes "mset xs = mset ys" and "inj_on f (set xs)"
  shows "best f k xs = best f k ys"
  unfolding best_def using sort_key_perm [OF assms] by (rule arg_cong)

lemma set_best: "set (best f k xs) \<subseteq> set xs"
  unfolding best_def using set_take_subset by (metis set_sort)

lemma distinct_best: "distinct xs \<Longrightarrow> distinct (best f k xs)"
  by (simp add: best_def)

lemma sorted_parts:
  assumes "distinct xs" and "inj_on f (set xs)" and "z \<in> set (take k (sort_key f xs))" and "w \<in> set (drop k (sort_key f xs))"
  shows "f z < f w"
proof -
  obtain zs ws where parts: "sort_key f xs = zs @ ws" "zs = take k (sort_key f xs)" "ws = drop k (sort_key f xs)" by simp
  have "sorted (map f (zs @ ws))" "distinct (zs @ ws)" "set (zs @ ws) = set xs"
    unfolding parts(1) [symmetric] using assms(1) by simp_all
  then have "f z \<le> f w" "z \<noteq> w" "z \<in> set xs" "w \<in> set xs"
    using assms(3,4) unfolding parts(2,3) [symmetric] by (auto simp: sorted_append)
  then show ?thesis using assms(2) by (auto simp: inj_on_def le_less)
qed

lemma best_append:
  assumes "distinct (xs @ ys)" and "inj_on f (set (xs @ ys))"
  shows "best f k (best f k xs @ ys) = best f k (xs @ ys)"
proof (cases "length xs \<le> k")
  case True
  then have "best f k xs = sort_key f xs" by (simp add: best_def)
  moreover have "best f k (sort_key f xs @ ys) = best f k (xs @ ys)" by (rule best_perm) (use assms(2) in simp_all)
  ultimately show ?thesis by simp
next
  case False
  obtain zs ws where parts: "sort_key f xs = zs @ ws" "zs = take k (sort_key f xs)" "ws = drop k (sort_key f xs)" by simp
  have dist: "distinct xs" "inj_on f (set xs)" using assms by (auto intro: inj_on_subset)
  have len: "length zs = k" unfolding parts(2) using False by simp
  have less: "f z < f w" if "z \<in> set zs" "w \<in> set ws" for z w
    using sorted_parts [OF dist] that unfolding parts(2,3) .
  have "best f k (zs @ ys) = best f k (ws @ zs @ ys)"
    unfolding best_def using take_sort_drop [OF len less] by (rule sym)
  also have perm: "mset (ws @ zs @ ys) = mset (xs @ ys)"
    using arg_cong [OF parts(1), of mset] by (simp add: ac_simps)
  have "best f k (ws @ zs @ ys) = best f k (xs @ ys)"
    using perm assms(2) unfolding mset_eq_setD [OF perm, symmetric] by (rule best_perm)
  finally show ?thesis unfolding best_def parts(2) .
qed

lemma best_concat:
  assumes "distinct (concat xss @ ys)" and "inj_on f (set (concat xss @ ys))"
  shows "best f k (concat (map (best f k) xss) @ ys) = best f k (concat xss @ ys)"
  using assms
proof (induction xss arbitrary: ys)
  case (Cons xs xss)
  let ?b = "best f k xs"
  have sub: "set ?b \<subseteq> set xs" "distinct ?b" using set_best Cons.prems(1) by (simp_all add: distinct_best)
  have bests: "set (concat (map (best f k) xss)) \<subseteq> set (concat xss)" using set_best by fastforce
  have "best f k (?b @ concat (map (best f k) xss) @ ys) = best f k (concat (map (best f k) xss) @ ?b @ ys)"
    by (rule best_perm, simp, rule inj_on_subset [OF Cons.prems(2)]) (use sub(1) bests in auto)
  also have "\<dots> = best f k (concat xss @ ?b @ ys)"
    by (rule Cons.IH) (use Cons.prems sub in \<open>auto intro!: inj_on_subset [OF Cons.prems(2)]\<close>)
  also have "\<dots> = best f k (?b @ concat xss @ ys)"
    by (rule best_perm) (use sub(1) in \<open>auto intro!: inj_on_subset [OF Cons.prems(2)]\<close>)
  also have "\<dots> = best f k (xs @ concat xss @ ys)"
    by (rule best_append) (use Cons.prems in \<open>auto intro!: inj_on_subset [OF Cons.prems(2)]\<close>)
  finally show ?case by simp
qed simp

end
