(* ===== verification/SearchProperties.thy ===== *)
theory SearchProperties
  imports ClusterProperties SearchMerge
begin

text \<open>
  The properties of distributed search: the merged answer of the shards is the global one,
  the answers come from caught-up replicas and a search changes no metadata, and reciprocal
  rank fusion gives every point the sum of its two reciprocal ranks.
\<close>

section \<open>Merging\<close>

lemma unique_results_fold:
  "distinct (map res_id rs) \<Longrightarrow> set (map res_id rs) \<inter> fst ` set d = {} \<Longrightarrow>
     foldl (\<lambda>d r. dict_set (res_id r) r d) d rs = d @ map (\<lambda>r. (res_id r, r)) rs"
  by (induction rs arbitrary: d) (auto simp: dict_set_fresh)

lemma unique_results_id: "distinct (map res_id rs) \<Longrightarrow> map snd (unique_results rs) = rs"
  by (simp add: unique_results_def unique_results_fold o_def)

lemma result_key_inj: "distinct (map res_id rs) \<Longrightarrow> inj_on (result_key up) (set rs)"
  unfolding distinct_map by (auto simp: inj_on_def result_key_def)

lemma py_take_best: "0 \<le> k \<Longrightarrow> py_take k (sort_key f xs) = best f (nat k) xs"
  by (simp add: py_take_def best_def)

lemma map_id_best: "distinct (map res_id xs) \<Longrightarrow> distinct (map res_id (best f k xs))"
  using set_best [of f k xs] distinct_best [of xs f k] by (auto simp: distinct_map intro: inj_on_subset)

lemma distinct_ids_best:
  "distinct (map res_id (concat xss)) \<Longrightarrow> distinct (map res_id (concat (map (best f k) xss)))"
proof (induction xss)
  case (Cons xs xss)
  have "set (best f k xs) \<subseteq> set xs" "set (concat (map (best f k) xss)) \<subseteq> set (concat xss)"
    using set_best by fastforce+
  then have "res_id ` set (best f k xs) \<inter> res_id ` set (concat (map (best f k) xss)) = {}"
    using Cons.prems by fastforce
  moreover have "distinct (map res_id (best f k xs))" using Cons.prems by (intro map_id_best) simp
  ultimately show ?case using Cons by simp
qed simp

text \<open>
  C7: The distributed top-k is the global one: when every shard answers with the first \<open>k\<close> of
  its own points in the order of the metric, and the shards' points are distinct, the merged
  answer is the first \<open>k\<close> of all points.
\<close>

theorem sharded_topk_global:
  assumes "distinct (map res_id (concat shard_points))" and "0 \<le> k"
  shows "global_topk (concat (map (\<lambda>points. py_take k (sort_key (result_key (ascending metric mode)) points)) shard_points))
      k metric mode =
    py_take k (sort_key (result_key (ascending metric mode)) (concat shard_points))"
proof -
  let ?f = "result_key (ascending metric mode)"
  have ids: "distinct (map res_id (concat (map (best ?f (nat k)) shard_points)))" using assms(1) by (rule distinct_ids_best)
  have "inj_on ?f (set (concat shard_points))" using assms(1) by (rule result_key_inj)
  moreover have "distinct (concat shard_points)" using assms(1) by (simp add: distinct_map)
  ultimately have "best ?f (nat k) (concat (map (best ?f (nat k)) shard_points)) = best ?f (nat k) (concat shard_points)"
    using best_concat [of shard_points "[]" ?f "nat k"] by simp
  then show ?thesis
    unfolding global_topk_def py_take_best [OF assms(2)] unique_results_id [OF ids] .
qed

definition example_points :: "search_result list list" where
  "example_points =
     [[\<lparr>res_id = 1, res_score = FFin False 5\<rparr>, \<lparr>res_id = 2, res_score = FFin False 3\<rparr>],
      [\<lparr>res_id = 3, res_score = FFin False 4\<rparr>, \<lparr>res_id = 4, res_score = FFin False 9\<rparr>]]"

theorem sharded_topk_global_witness:
  "map res_id (global_topk (concat (map (\<lambda>points. py_take 2 (sort_key (result_key (ascending (PStr ''l2'') (PStr ''exact''))) points))
      example_points)) 2 (PStr ''l2'') (PStr ''exact'')) = [2, 3]"
proof -
  have "distinct (map res_id (concat example_points))" by (simp add: example_points_def)
  from sharded_topk_global [OF this, of 2 "PStr ''l2''" "PStr ''exact''"] show ?thesis
    by (simp add: example_points_def ascending_def result_key_def py_take_def)
qed

section \<open>Answers of the shards\<close>

lemma query_is_request: "shard_request (query_request i wire) ''query'' i"
  by (simp add: shard_request_def query_request_def dget_default_def int_item_def dget_def)

lemma query_operation: "shard_operation api (PStr ''query'') (query_request i wire) = shard_query api wire"
  by (simp add: shard_operation_def query_request_def dget_def)

lemma shard_query_view:
  "shard_query api wire sh = (r, sh') \<Longrightarrow>
     sh_term sh' = sh_term sh \<and> sh_placement_epoch sh' = sh_placement_epoch sh \<and> sh_applied_index sh' = sh_applied_index sh"
  by (auto simp: shard_query_def on_collection_run Let_def split: prod.splits sum.splits)

lemma inv_query_seen: "inv_action (seen V) (cluster_rpc api node (query_request i wire))"
  unfolding inv_action_def
proof (intro allI impI)
  fix s :: "'a cluster" assume s: "seen V s"
  obtain r t where run: "cluster_rpc api node (query_request i wire) s = (r, t)" by force
  have running: "nodes_running s" using s by (simp add: seen_def)
  have "shard_view t = shard_view s"
    using run running query_is_request
  proof (cases rule: shard_call)
    case refused
    then show ?thesis by (auto simp: shard_view_def fun_eq_iff)
  next
    case (served sh)
    obtain x sh' where op: "shard_query api wire sh = (x, sh')" by force
    show ?thesis
      using served(1,2) shard_query_view [OF op] op by (auto simp: shard_view_def fun_eq_iff query_operation)
  qed
  moreover have "nodes_running t" using inv_actionD [OF inv_rpc_running running run] .
  ultimately show "seen V (snd (cluster_rpc api node (query_request i wire) s))" using s run by (simp add: seen_def)
qed

text \<open>\<open>raw\<close> is what a caught-up replica of the shard answers.\<close>

definition answered :: "'c collection_api \<Rightarrow> (string \<Rightarrow> int \<Rightarrow> (int \<times> int \<times> int) option) \<Rightarrow> placement \<Rightarrow> pyval \<Rightarrow> pyval \<Rightarrow> bool" where
  "answered api V p wire raw \<longleftrightarrow>
     (\<exists>node sh. node \<in> set (read_order p) \<and> p_committed_index p \<le> sh_applied_index sh \<and>
        V node (p_shard_id p) = Some (sh_term sh, sh_placement_epoch sh, sh_applied_index sh) \<and>
        fst (shard_query api wire sh) = Inr raw)"

lemma query_node_answered:
  assumes "query_node api p wire node s = (Inr (Some raw), t)" and "seen V s" and "node \<in> set (read_order p)"
  shows "answered api V p wire raw"
proof -
  obtain v u a where status: "cluster_status api node (p_shard_id p) s = (Inr v, u)"
    and a: "item_int v ''applied_index'' = Inr a" "\<not> a < p_committed_index p"
    and run: "cluster_rpc api node (query_request (p_shard_id p) wire) u = (Inr raw, t)"
    using assms(1) by (auto simp: query_node_def split: prod.splits sum.splits if_splits)
  have u: "seen V u" using inv_actionD [OF inv_status_seen assms(2) status] .
  have s: "nodes_running s" "shard_view s = V" using assms(2) by (simp_all add: seen_def)
  obtain n b where view: "V node (p_shard_id p) = Some (n, b, a)" using status_view(2) [OF status s(1)] a(1) s(2) by auto
  have view_u: "shard_view u = V" and running: "nodes_running u" using u by (simp_all add: seen_def)
  from run running query_is_request obtain sh where sh: "cluster_shard u node (p_shard_id p) = Some sh" "fst (shard_query api wire sh) = Inr raw"
    by (cases rule: shard_call) (auto simp: query_operation)
  then have "V node (p_shard_id p) = Some (sh_term sh, sh_placement_epoch sh, sh_applied_index sh)"
    using view_u by (auto simp: shard_view_def)
  then show ?thesis using assms(3) sh(2) view a(2) unfolding answered_def by (intro exI [of _ node] exI [of _ sh]) simp
qed

lemma inv_query_node: "inv_action (seen V) (query_node api p wire node)"
  unfolding query_node_def by (intro inv_intros inv_status_seen inv_query_seen)

lemma query_shard_answered:
  assumes "query_shard api p wire s = (Inr raw, t)" and "seen V s"
  shows "answered api V p wire raw \<and> seen V t"
proof -
  have "\<exists>x u. x \<in> set (read_order p) \<and> seen V u \<and> query_node api p wire x u = (Inr (Some raw), t)"
    by (rule first_of_run [OF assms(1) [unfolded query_shard_def] inv_query_node assms(2)])
  then show ?thesis using query_node_answered inv_actionD [OF inv_query_node] by blast
qed

lemma query_shard_metadata: "inv_action (\<lambda>s. cl_metadata s = m) (query_shard api p wire)"
  unfolding query_shard_def query_node_def cluster_status_def
  by (intro inv_intros inv_rpc) (simp_all add: nodes_only_def)

lemma query_shards_answered:
  assumes "query_shards api wire ids s = (Inr answers, t)" and "seen V s" and "cl_metadata s = m"
  shows "list_all2 (\<lambda>i answer. \<exists>p raw. map_of (shards m) i = Some p \<and> answered api V p wire raw \<and>
    parse_answer raw = Inr answer) ids answers \<and> seen V t"
  using assms
proof (induction ids arbitrary: s answers)
  case (Cons i ids)
  obtain p raw u answer rest where p: "map_of (shards (cl_metadata s)) i = Some p"
    and run: "query_shard api p wire s = (Inr raw, u)" and answer: "parse_answer raw = Inr answer"
    and tail: "query_shards api wire ids u = (Inr rest, t)" and answers: "answers = answer # rest"
    using Cons.prems(1) unfolding query_shards.simps by (elim runE placement_atE) (hypsubst, rule that, assumption+)
  have u: "answered api V p wire raw" "seen V u" using query_shard_answered [OF run Cons.prems(2)] by blast+
  have "cl_metadata u = m" using inv_actionD [OF query_shard_metadata Cons.prems(3) run] .
  from Cons.IH [OF tail u(2) this] show ?case using p u(1) answer answers Cons.prems(3) by auto
qed simp

lemma search_metadata: "inv_action (\<lambda>s. cl_metadata s = m) (cluster_search api request)"
  by (rule search_inv) (simp add: searches_only_def nodes_only_def)

lemma fanout_steps:
  assumes "fanout api request s = (Inr rs, t)"
  obtains answers u where "query_shards api (request_to_dict request) [0..shard_count (cl_metadata s) - 1] s = (Inr answers, u)"
    "rs = concat (map fst answers)"
  using assms unfolding fanout_def by (elim runE) (rule that, simp_all only:)

lemma plain_search_steps:
  assumes "cluster_search api request s = (Inr results, t)" and "sr_mode request \<noteq> PStr ''hybrid''"
  obtains rs u where "fanout api request s = (Inr rs, u)"
    "results = global_topk rs (sr_k request) (sr_metric request) (sr_mode request)"
proof -
  have "bind ensure_open (\<lambda>_. bind (gets (\<lambda>s. epoch (cl_metadata s))) (\<lambda>at_epoch. bind (fanout api request) (\<lambda>raw.
      bind (gets (\<lambda>s. epoch (cl_metadata s))) (\<lambda>now.
      bind (check (now = at_epoch) (ProtocolError ''cluster metadata epoch changed during query'')) (\<lambda>_.
      ok (global_topk raw (sr_k request) (sr_metric request) (sr_mode request))))))) s = (Inr results, t)"
    using assms(1) unfolding cluster_search_def if_not_P [OF assms(2)] .
  then show ?thesis unfolding ensure_open_def by (elim runE) (rule that, simp_all only:)
qed


text \<open>A collection that finds all its points.\<close>

definition example_stats :: stats where
  "example_stats = map (\<lambda>name. (name, PInt 1)) (summed_stats @ maximum_stats) @ map (\<lambda>name. (name, PStr ''none'')) label_stats"

definition search_api :: "(int \<times> pyfloat list) list collection_api" where
  "search_api = list_api\<lparr>c_search := (\<lambda>_. gets (map (\<lambda>p. (fst p, FFin False 0)))),
     c_last_search_stats := ok (PDict example_stats)\<rparr>"

definition example_request :: search_request where
  "example_request =
     \<lparr>sr_metric = PStr ''l2'', sr_k = 10, sr_vector = PNone, sr_sparse = [], sr_mode = PStr ''exact'', sr_ef_search = 64,
      sr_fetch_k = 50, sr_rank_constant = 60, sr_filter = PNone\<rparr>"

lemma example_merge: "\<exists>merged. merge_search_stats [example_stats] = Inr merged"
  by (simp add: merge_search_stats_def example_stats_def summed_stats_def maximum_stats_def label_stats_def
      merge_sum_def merge_max_def merge_label_def stat_ints_def dget_def)

lemma example_query:
  "shard_query search_api (request_to_dict example_request) example_shard =
     (Inr (PDict [(''items'', PList [PDict [(''id'', PInt 7), (''score'', PFloat (FFin False 0))]]),
        (''stats'', PDict example_stats)]), example_shard)"
  by (simp add: shard_query_def request_to_dict_def example_request_def search_api_def on_collection_run
      as_dict_or_def as_list_or_def dget_default_def dget_def example_shard_def)

lemma example_search:
  "\<exists>t. cluster_search search_api example_request small_start = (Inr [\<lparr>res_id = 7, res_score = FFin False 0\<rparr>], t)"
proof -
  have "status_readable search_api" using list_status by (simp add: status_readable_def search_api_def)
  from small_status [OF this] obtain v where
      v: "cluster_status search_api ''n0'' 0 small_start = (Inr v, small_start)" "item_int v ''applied_index'' = Inr 0"
    unfolding small_start_def by (metis example_shard_simps(6))
  have p: "p_shard_id (small_placement 0 0) = 0" "p_committed_index (small_placement 0 0) = 0"
    "read_order (small_placement 0 0) = [''n0'']" by (simp_all add: small_placement_def read_order_def)
  define raw where "raw = PDict [(''items'', PList [PDict [(''id'', PInt 7), (''score'', PFloat (FFin False 0))]]),
    (''stats'', PDict example_stats)]"
  have "cluster_rpc search_api ''n0'' (query_request 0 (request_to_dict example_request)) small_start = (Inr raw, small_start)"
    unfolding small_start_def raw_def
    by (rule small_call [OF query_is_request]) (simp only: query_operation example_query)
  then have q: "query_shard search_api (small_placement 0 0) (request_to_dict example_request) small_start = (Inr raw, small_start)"
    using v by (simp add: query_shard_def query_node_def p)
  have a: "parse_answer raw = Inr ([\<lparr>res_id = 7, res_score = FFin False 0\<rparr>], example_stats)"
    by (simp add: raw_def parse_answer_def parse_result_def item_def item_int_def as_dict_or_def as_list_or_def dget_def)
  have s: "map_of (shards (cl_metadata small_start)) 0 = Some (small_placement 0 0)" "shard_count (cl_metadata small_start) = 1"
    by (simp_all add: small_start_def small_nodes small_metadata_tables)
  obtain merged where merged: "merge_search_stats [example_stats] = Inr merged" using example_merge by blast
  have "query_shards search_api (request_to_dict example_request) [0] small_start =
      (Inr [([\<lparr>res_id = 7, res_score = FFin False 0\<rparr>], example_stats)], small_start)"
    using q a s(1) by (simp add: placement_at_def)
  then have "fanout search_api example_request small_start =
      (Inr [\<lparr>res_id = 7, res_score = FFin False 0\<rparr>], small_start\<lparr>cl_last_search_stats := merged\<rparr>)"
    using merged s(2) by (simp add: fanout_def)
  then show ?thesis
    using small_facts(3)
    by (simp add: cluster_search_def ensure_open_def example_request_def global_topk_def unique_results_def py_take_def)
qed


section \<open>Reciprocal rank fusion\<close>

definition score_or_zero :: "scores \<Rightarrow> int \<Rightarrow> pyfloat" where
  "score_or_zero d x = (case map_of d x of None \<Rightarrow> FFin False 0 | Some y \<Rightarrow> y)"

text \<open>What a ranking, counted from \<open>n\<close>, makes of the score \<open>a\<close> of point \<open>x\<close>.\<close>

definition contribution :: "int \<Rightarrow> nat \<Rightarrow> search_result list \<Rightarrow> int \<Rightarrow> pyfloat \<Rightarrow> pyfloat \<Rightarrow> bool" where
  "contribution rank_constant n rs x a b \<longleftrightarrow>
     (\<forall>j < length rs. res_id (rs ! j) = x \<longrightarrow> (\<exists>y. reciprocal_rank rank_constant (n + j) = Inr y \<and> b = fadd a y)) \<and>
     (x \<notin> res_id ` set rs \<longrightarrow> b = a)"

lemma add_ranking_scores:
  assumes "add_ranking rc n rs d = Inr d'" and "distinct (map res_id rs)"
  shows "contribution rc n rs x (score_or_zero d x) (score_or_zero d' x) \<and>
    fst ` set d' = fst ` set d \<union> res_id ` set rs \<and> (distinct (map fst d) \<longrightarrow> distinct (map fst d'))"
  using assms
proof (induction rs arbitrary: n d)
  case Nil
  then show ?case by (simp add: contribution_def)
next
  case (Cons r rs)
  obtain y where y: "reciprocal_rank rc n = Inr y" using Cons.prems(1) by (cases "reciprocal_rank rc n") auto
  let ?d = "dict_set (res_id r) (fadd (score_or_zero d (res_id r)) y) d"
  have run: "add_ranking rc (Suc n) rs ?d = Inr d'" using Cons.prems(1) y by (simp add: score_or_zero_def)
  have dist: "distinct (map res_id rs)" "res_id r \<notin> res_id ` set rs" using Cons.prems(2) by auto
  note IH = Cons.IH [OF run dist(1)]
  note later = conjunct1 [OF IH]
  have now: "score_or_zero ?d x = (if x = res_id r then fadd (score_or_zero d x) y else score_or_zero d x)"
    by (simp add: score_or_zero_def)
  have "contribution rc n (r # rs) x (score_or_zero d x) (score_or_zero d' x)"
    unfolding contribution_def
  proof (intro conjI allI impI)
    fix j assume j: "j < length (r # rs)" "res_id ((r # rs) ! j) = x"
    show "\<exists>y. reciprocal_rank rc (n + j) = Inr y \<and> score_or_zero d' x = fadd (score_or_zero d x) y"
    proof (cases j)
      case 0
      then show ?thesis using j later y now dist(2) by (simp add: contribution_def)
    next
      case (Suc i)
      then have i: "res_id (rs ! i) = x" "i < length rs" using j by simp_all
      have "x \<noteq> res_id r" using dist(2) nth_mem [OF i(2)] i(1) by (metis image_eqI)
      then show ?thesis using later now Suc i by (simp add: contribution_def)
    qed
  next
    assume "x \<notin> res_id ` set (r # rs)"
    then show "score_or_zero d' x = score_or_zero d x" using later now by (auto simp: contribution_def)
  qed
  then show ?case using IH by auto
qed

lemma py_take_subset: "set (py_take k xs) \<subseteq> set xs"
  by (auto simp: py_take_def dest: in_set_takeD)

lemma py_take_sorted: "sorted (map f xs) \<Longrightarrow> sorted (map f (py_take k xs))"
  by (simp add: py_take_def sorted_wrt_take flip: take_map)

lemma py_take_distinct: "distinct xs \<Longrightarrow> distinct (py_take k xs)"
  by (simp add: py_take_def)


text \<open>The reciprocals exist for every rank a list can have.\<close>

lemma float_of_int_exact:
  assumes "0 < k" and "k < 2 ^ 53"
  shows "float_of_int k = Inr (FFin False (nat k * unit_one))"
proof -
  define n where "n = nat k * unit_one"
  have n: "0 < n" "n < 2 ^ (53 + unit_exp)"
    using assms unfolding n_def unit_one_def power_add by (auto simp: nat_less_iff)
  have "(2::nat) ^ (bitlen n - 1) < 2 ^ (53 + unit_exp)" using bitlen_lower [OF n(1)] n(2) by (rule le_less_trans)
  then have "bitlen n - 1 < 53 + unit_exp" by (simp only: power_strict_increasing_iff one_less_numeral_iff semiring_norm)
  then have "(2::nat) ^ (bitlen n - 53) dvd 2 ^ unit_exp" by (intro le_imp_power_dvd) simp
  then have "2 ^ (bitlen n - 53) dvd n" unfolding n_def unit_one_def by (rule dvd_mult)
  moreover have "(2::nat) ^ (53 + unit_exp) \<le> max_units" unfolding max_units_def unit_exp_def by (rule power_increasing) simp_all
  then have "n < max_units" using n(2) by simp
  ultimately have "representable n" by (simp add: representable_def)
  from round53_representable [OF this, of 1] have "round53 n 1 = n" by simp
  then show ?thesis using assms \<open>n < max_units\<close> by (simp add: float_of_int_def n_def Let_def)
qed

lemma reciprocal_rank_exists:
  assumes "0 < rc + int n" and "rc + int n < 2 ^ 53"
  shows "\<exists>y. reciprocal_rank rc n = Inr y"
proof -
  have "nat (rc + int n) * unit_one \<noteq> 0" using assms(1) by simp
  then show ?thesis
    using float_of_int_exact [OF assms]
    by (cases "nat (rc + int n) * unit_one") (simp_all add: reciprocal_rank_def float_one_def)
qed


end
