(* ===== verification/Vectors.thy ===== *)
theory Vectors
  imports Search
begin

text \<open>
  Field schemas and the requests that carry vectors (vectors.py): \<open>VectorField\<close>, \<open>IvfOptions\<close>,
  \<open>FieldQuery\<close> and \<open>PointMutation\<close> with their validation and what they hand to the kernel.
  Constructor arguments are raw Python values where the class checks their types. What
  goes to the kernel is a \<open>karg\<close>: a plain value, bytes, or a list or dictionary of these.
\<close>

section \<open>Values\<close>

datatype karg =
    KVal pyval
  | KBytes string
  | KElements "sparse_element list"
  | KList "karg list"
  | KDict "(string \<times> karg) list"

text \<open>A vector as the caller gives it: plain (dense, matrix or \<open>None\<close>), sparse elements or packed bytes.\<close>

datatype vector_arg = VPlain pyval | VSparse "sparse_element list" | VPacked string

definition raw_value :: "vector_arg \<Rightarrow> karg" where
  "raw_value v =
     (case v of
        VPlain x \<Rightarrow> KVal x
      | VSparse es \<Rightarrow> (if es = [] then KVal (PList []) else KElements es)
      | VPacked b \<Rightarrow> KBytes b)"

definition vector_value :: "vector_arg \<Rightarrow> karg" where
  "vector_value v =
     (case v of
        VSparse es \<Rightarrow> (if es = [] then raw_value v else KVal (PList (map sparse_element_to_kernel es)))
      | _ \<Rightarrow> raw_value v)"

text \<open>\<open>value in {...}\<close> for a set of strings\<close>

definition in_choices :: "pyval \<Rightarrow> string list \<Rightarrow> bool result" where
  "in_choices v choices =
     (if hashable v then Inr (v \<in> PStr ` set choices) else Inl (TypeError ''unhashable type''))"

section \<open>Fields\<close>

record vector_field =
  vf_dimension :: int
  vf_dtype :: string
  vf_kind :: string
  vf_metric :: string
  vf_hnsw :: "collection_config option"

definition VECTOR_DTYPES :: "string list" where
  "VECTOR_DTYPES = [''f32'', ''bf16'', ''f16'', ''i8'', ''u8'', ''binary'']"

definition check_hnsw :: "int \<Rightarrow> string \<Rightarrow> string \<Rightarrow> string \<Rightarrow> collection_config option \<Rightarrow> vector_field result" where
  "check_hnsw dim dtype kind metric hnsw =
     require (case hnsw of None \<Rightarrow> True
                | Some c \<Rightarrow> kind = ''dense'' \<and> cc_dimension c = dim \<and> cc_ann_metric c = metric)
       (ValueError ''HNSW configuration must match its dense field'')
       (Inr \<lparr>vf_dimension = dim, vf_dtype = dtype, vf_kind = kind, vf_metric = metric, vf_hnsw = hnsw\<rparr>)"

definition vector_field_init ::
  "pyval \<Rightarrow> pyval \<Rightarrow> pyval \<Rightarrow> pyval \<Rightarrow> collection_config option \<Rightarrow> vector_field result" where
  "vector_field_init raw_dimension raw_dtype raw_kind raw_metric hnsw =
     rbind (check_int raw_dimension ''vector dimension must fit UInt32'') (\<lambda>dim.
     require (0 \<le> dim \<and> dim \<le> 0xFFFFFFFF) (ValueError ''vector dimension must fit UInt32'')
    (rbind (check_choice raw_dtype VECTOR_DTYPES ''unknown vector dtype'') (\<lambda>dtype.
     rbind (in_choices raw_kind [''dense'', ''multivector'']) (\<lambda>numeric.
     if numeric then
       require (dim \<noteq> 0 \<and> dtype \<noteq> ''binary'') (ValueError ''invalid numeric vector schema'')
      (rbind (in_choices raw_metric [''dot'', ''l2'', ''cosine'']) (\<lambda>known.
       require known (ValueError ''invalid numeric vector schema'')
         (check_hnsw dim dtype (py_str raw_kind) (py_str raw_metric) hnsw)))
     else if raw_kind = PStr ''sparse'' then
       require (dim = 0 \<and> dtype = ''f32'' \<and> raw_metric = PStr ''dot'')
         (ValueError ''sparse fields require dimension 0, f32 and dot'')
         (check_hnsw dim dtype ''sparse'' ''dot'' hnsw)
     else if raw_kind = PStr ''binary'' then
       require (dim \<noteq> 0 \<and> dtype = ''binary'') (ValueError ''invalid packed binary schema'')
      (rbind (in_choices raw_metric [''hamming'', ''jaccard'']) (\<lambda>known.
       require known (ValueError ''invalid packed binary schema'')
         (check_hnsw dim dtype ''binary'' (py_str raw_metric) hnsw)))
     else Inl (ValueError ''unknown vector kind'')))))"

definition field_name_ok :: "string \<Rightarrow> bool" where
  "field_name_ok name \<longleftrightarrow> name \<noteq> [] \<and> CHR 0x00 \<notin> set name"

definition vector_field_to_kernel :: "string \<Rightarrow> int \<Rightarrow> vector_field \<Rightarrow> pyval result" where
  "vector_field_to_kernel name field_id f =
     require (field_name_ok name) (ValueError ''named vector fields require a nonempty name without NUL'')
       (Inr (PDict [(''id'', PInt field_id), (''name'', PStr name), (''dimension'', PInt (vf_dimension f)),
          (''dtype'', PStr (vf_dtype f)), (''kind'', PStr (vf_kind f)), (''metric'', PStr (vf_metric f)),
          (''hnsw'', (case vf_hnsw f of None \<Rightarrow> PNone | Some c \<Rightarrow> PDict (config_to_kernel c)))]))"

definition vector_field_from_kernel :: "pyval \<Rightarrow> vector_field result" where
  "vector_field_from_kernel v =
     rbind (item v ''hnsw'') (\<lambda>hnsw.
     rbind (item v ''dimension'') (\<lambda>dim.
     rbind (item v ''dtype'') (\<lambda>dtype.
     rbind (item v ''kind'') (\<lambda>kind.
     rbind (item v ''metric'') (\<lambda>metric.
     rbind (if hnsw = PNone then Inr None
            else rbind (as_dict_or hnsw) (\<lambda>d. rbind (config_from_kernel d) (\<lambda>c. Inr (Some c)))) (\<lambda>config.
     vector_field_init dim dtype kind metric config))))))"

section \<open>Queries\<close>

record ivf_options =
  iv_nlist :: int
  iv_nprobe :: int
  iv_iterations :: int

definition ivf_options_init :: "pyval \<Rightarrow> pyval \<Rightarrow> pyval \<Rightarrow> ivf_options result" where
  "ivf_options_init raw_nlist raw_nprobe raw_iterations =
     rbind (check_int raw_nlist ''IVF parameters must be integers'') (\<lambda>nlist.
     rbind (check_int raw_nprobe ''IVF parameters must be integers'') (\<lambda>nprobe.
     rbind (check_int raw_iterations ''IVF parameters must be integers'') (\<lambda>iterations.
     require (1 \<le> nlist \<and> nlist \<le> 256 \<and> 1 \<le> nprobe \<and> nprobe \<le> nlist \<and> 0 < iterations)
       (ValueError ''IVF requires 1..256 lists, 1..nlist probes and positive iterations'')
       (Inr \<lparr>iv_nlist = nlist, iv_nprobe = nprobe, iv_iterations = iterations\<rparr>))))"

definition ivf_options_to_kernel :: "ivf_options \<Rightarrow> pyval" where
  "ivf_options_to_kernel x =
     PDict [(''nlist'', PInt (iv_nlist x)), (''nprobe'', PInt (iv_nprobe x)), (''iterations'', PInt (iv_iterations x))]"

definition ivf_defaults :: ivf_options where
  "ivf_defaults = \<lparr>iv_nlist = 32, iv_nprobe = 4, iv_iterations = 8\<rparr>"

definition ivf_argument :: "string \<Rightarrow> ivf_options option \<Rightarrow> pyval" where
  "ivf_argument mode ivf =
     (if mode = ''ivf'' then ivf_options_to_kernel (case ivf of None \<Rightarrow> ivf_defaults | Some x \<Rightarrow> x) else PNone)"

record field_query =
  fq_name :: string
  fq_vector :: vector_arg
  fq_mode :: string
  fq_ef_search :: "int option"
  fq_rerank_k :: int
  fq_ivf :: "ivf_options option"

text \<open>An integer or \<open>None\<close>.\<close>

definition check_optional :: "pyval \<Rightarrow> string \<Rightarrow> int option result" where
  "check_optional v message =
     (if v = PNone then Inr None
      else rbind (check_int v message) (\<lambda>i. require (0 < i) (ValueError message) (Inr (Some i))))"

definition field_query_init ::
  "pyval \<Rightarrow> vector_arg \<Rightarrow> pyval \<Rightarrow> pyval \<Rightarrow> pyval \<Rightarrow> ivf_options option \<Rightarrow> field_query result" where
  "field_query_init raw_name vector raw_mode raw_ef raw_rerank ivf =
     (case as_str raw_name of
        None \<Rightarrow> Inl (ValueError ''field query requires a nonempty name without NUL'')
      | Some name \<Rightarrow>
          require (field_name_ok name) (ValueError ''field query requires a nonempty name without NUL'')
         (require (raw_mode \<in> {PStr ''exact'', PStr ''approx'', PStr ''ivf''})
            (ValueError ''field query mode must be exact, approx or ivf'')
         (rbind (check_optional raw_ef ''ef_search must be a positive integer'') (\<lambda>ef.
          rbind (check_int raw_rerank ''rerank_k must be a nonnegative integer'') (\<lambda>rerank.
          require (0 \<le> rerank) (ValueError ''rerank_k must be a nonnegative integer'')
         (require (raw_mode = PStr ''approx'' \<or> (ef = None \<and> rerank = 0))
            (ValueError ''ef_search and rerank_k require approximate field search'')
         (require (ivf = None \<or> raw_mode = PStr ''ivf'') (ValueError ''IvfOptions require ivf mode'')
           (Inr \<lparr>fq_name = name, fq_vector = vector, fq_mode = py_str raw_mode, fq_ef_search = ef,
                 fq_rerank_k = rerank, fq_ivf = ivf\<rparr>))))))))"

definition ef_argument :: "int option \<Rightarrow> pyval" where
  "ef_argument ef = PInt (case ef of None \<Rightarrow> -1 | Some i \<Rightarrow> i)"

definition field_query_to_kernel :: "field_query \<Rightarrow> karg" where
  "field_query_to_kernel q =
     KDict [(''name'', KVal (PStr (fq_name q))), (''vector'', vector_value (fq_vector q)),
            (''mode'', KVal (PStr (fq_mode q))), (''ef_search'', KVal (ef_argument (fq_ef_search q))),
            (''rerank_k'', KVal (PInt (fq_rerank_k q))), (''ivf'', KVal (ivf_argument (fq_mode q) (fq_ivf q)))]"

section \<open>Mutations of points\<close>

text \<open>A payload field as the caller builds it: \<open>PayloadField\<close> checks none of its values.\<close>

record raw_field =
  rf_name :: pyval
  rf_type :: pyval
  rf_value :: pyval

definition raw_field_to_kernel :: "raw_field \<Rightarrow> pyval" where
  "raw_field_to_kernel f = PDict [(''name'', rf_name f), (''type'', rf_type f), (''value'', rf_value f)]"

text \<open>An omitted vector (\<open>_UNSET\<close>) is \<open>None\<close>.\<close>

record point_mutation =
  pm_operation :: string
  pm_id :: int
  pm_vectors :: "(string \<times> vector_arg) list"
  pm_vector :: "vector_arg option"
  pm_sparse :: "vector_arg option"
  pm_fields :: "raw_field list option"

definition point_upsert ::
  "int \<Rightarrow> (string \<times> vector_arg) list option \<Rightarrow> vector_arg option \<Rightarrow> vector_arg option \<Rightarrow> raw_field list option \<Rightarrow>
     point_mutation" where
  "point_upsert i vectors vector sparse flds =
     \<lparr>pm_operation = ''upsert'', pm_id = i, pm_vectors = (case vectors of None \<Rightarrow> [] | Some d \<Rightarrow> d),
      pm_vector = vector, pm_sparse = sparse, pm_fields = flds\<rparr>"

definition point_update ::
  "int \<Rightarrow> (string \<times> vector_arg) list option \<Rightarrow> vector_arg option \<Rightarrow> vector_arg option \<Rightarrow> raw_field list option \<Rightarrow>
     point_mutation" where
  "point_update i vectors vector sparse flds =
     (point_upsert i vectors vector sparse flds)\<lparr>pm_operation := ''update''\<rparr>"

definition point_delete :: "int \<Rightarrow> point_mutation" where
  "point_delete i =
     \<lparr>pm_operation = ''delete'', pm_id = i, pm_vectors = [], pm_vector = None, pm_sparse = None, pm_fields = None\<rparr>"

definition point_updates :: "point_mutation \<Rightarrow> karg list" where
  "point_updates p =
     (case pm_vector p of None \<Rightarrow> [] | Some v \<Rightarrow> [KDict [(''id'', KVal (PInt 0)), (''value'', raw_value v)]]) @
     (case pm_sparse p of None \<Rightarrow> [] | Some v \<Rightarrow> [KDict [(''id'', KVal (PInt 1)), (''value'', vector_value v)]]) @
     map (\<lambda>(name, v). KDict [(''name'', KVal (PStr name)), (''value'', vector_value v)]) (pm_vectors p)"

definition point_mutation_to_kernel :: "point_mutation \<Rightarrow> karg" where
  "point_mutation_to_kernel p =
     KDict [(''operation'', KVal (PStr (pm_operation p))), (''id'', KVal (PInt (pm_id p))),
            (''updates'', KList (point_updates p)),
            (''fields'', KVal (case pm_fields p of None \<Rightarrow> PNone | Some fs \<Rightarrow> PList (map raw_field_to_kernel fs)))]"

section \<open>Points\<close>

text \<open>
  \<open>C(**item)\<close> for a dataclass: exactly its fields, as they are. The kernel's answers have the
  annotated types; a value of another type, which the classes would carry along, raises here.
\<close>

definition keyword_args :: "pyval \<Rightarrow> string list \<Rightarrow> (string \<times> pyval) list result" where
  "keyword_args v names =
     rbind (as_dict_or v) (\<lambda>d. require (has_fields d names) (TypeError ''unexpected keyword argument'') (Inr d))"

definition check_type :: "'a option \<Rightarrow> 'a result" where
  "check_type x = (case x of None \<Rightarrow> Inl (TypeError ''value has another type'') | Some y \<Rightarrow> Inr y)"

definition as_int_or :: "pyval \<Rightarrow> int result" where
  "as_int_or v = check_type (as_int v)"

definition as_float_or :: "pyval \<Rightarrow> pyfloat result" where
  "as_float_or v = check_type (case v of PFloat f \<Rightarrow> Some f | _ \<Rightarrow> None)"

text \<open>\<open>PayloadField(**item)\<close>\<close>

definition raw_field_init :: "pyval \<Rightarrow> raw_field result" where
  "raw_field_init v =
     rbind (keyword_args v [''name'', ''type'', ''value'']) (\<lambda>d.
     rbind (dget d ''name'') (\<lambda>name. rbind (dget d ''type'') (\<lambda>kind. rbind (dget d ''value'') (\<lambda>value.
     Inr \<lparr>rf_name = name, rf_type = kind, rf_value = value\<rparr>))))"

definition payload_from_kernel :: "pyval \<Rightarrow> payload_field result" where
  "payload_from_kernel v =
     rbind (keyword_args v [''name'', ''type'', ''value'']) (\<lambda>d.
     rbind (rbind (dget d ''name'') as_str_or) (\<lambda>name.
     rbind (rbind (dget d ''type'') as_str_or) (\<lambda>kind.
     rbind (dget d ''value'') (\<lambda>value.
     Inr \<lparr>pf_name = name, pf_type = kind, pf_value = value\<rparr>))))"

definition sparse_from_kernel :: "pyval \<Rightarrow> sparse_element result" where
  "sparse_from_kernel v =
     rbind (keyword_args v [''term_id'', ''weight'']) (\<lambda>d.
     rbind (rbind (dget d ''term_id'') as_int_or) (\<lambda>t.
     rbind (rbind (dget d ''weight'') as_float_or) (\<lambda>w.
     Inr \<lparr>se_term_id = t, se_weight = w\<rparr>)))"

text \<open>Dictionaries and lists that may hold bytes.\<close>

fun kdict :: "karg \<Rightarrow> (string \<times> karg) list result" where
  "kdict (KDict d) = Inr d"
| "kdict (KVal (PDict d)) = Inr (map (\<lambda>(k, v). (k, KVal v)) d)"
| "kdict v = Inl (TypeError ''value is not a dictionary'')"

fun klist :: "karg \<Rightarrow> karg list result" where
  "klist (KList xs) = Inr xs"
| "klist (KVal (PList xs)) = Inr (map KVal xs)"
| "klist v = Inl (TypeError ''value is not iterable'')"

fun kval :: "karg \<Rightarrow> pyval result" where
  "kval (KVal v) = Inr v"
| "kval v = Inl (TypeError ''value is not plain'')"

definition kget :: "(string \<times> karg) list \<Rightarrow> string \<Rightarrow> karg result" where
  "kget d k = (case map_of d k of None \<Rightarrow> Inl (KeyError k) | Some v \<Rightarrow> Inr v)"

definition kget_val :: "(string \<times> karg) list \<Rightarrow> string \<Rightarrow> pyval result" where
  "kget_val d k = rbind (kget d k) kval"

record point =
  pt_id :: pyval
  pt_sequence :: pyval
  pt_document_sequence :: pyval
  pt_vector :: pyval
  pt_sparse :: "sparse_element list option"
  pt_vectors :: "(string \<times> karg) list"
  pt_fields :: "raw_field list"

definition point_vector :: "karg \<Rightarrow> karg result" where
  "point_vector data =
     (case data of
        KVal (PList (PDict d # rest)) \<Rightarrow> rbind (rmap sparse_from_kernel (PDict d # rest)) (\<lambda>es. Inr (KElements es))
      | _ \<Rightarrow> Inr data)"

definition point_from_kernel :: "karg \<Rightarrow> point result" where
  "point_from_kernel value =
     rbind (kdict value) (\<lambda>d.
     rbind (rbind (kget d ''vectors'') kdict) (\<lambda>raw.
     rbind (rmap (\<lambda>(name, data). rbind (point_vector data) (\<lambda>v. Inr (name, v))) raw) (\<lambda>vectors.
     rbind (kget_val d ''id'') (\<lambda>i.
     rbind (kget_val d ''sequence'') (\<lambda>sequence.
     rbind (kget_val d ''document_sequence'') (\<lambda>document_sequence.
     rbind (kget_val d ''vector'') (\<lambda>vector.
     rbind (kget_val d ''sparse'') (\<lambda>raw_sparse.
     rbind (if raw_sparse = PNone then Inr None
            else rbind (rbind (as_list_or raw_sparse) (rmap sparse_from_kernel)) (\<lambda>es. Inr (Some es))) (\<lambda>sparse.
     rbind (rbind (rbind (kget_val d ''fields'') as_list_or) (rmap raw_field_init)) (\<lambda>flds.
     Inr \<lparr>pt_id = i, pt_sequence = sequence, pt_document_sequence = document_sequence, pt_vector = vector,
          pt_sparse = sparse, pt_vectors = vectors, pt_fields = flds\<rparr>))))))))))"

end
