(* ===== verification/Collection.thy ===== *)
theory Collection
  imports Vectors
begin

text \<open>
  The Python facade of a collection (database.py, \<open>Collection\<close>) and the registry of open
  collections (\<open>LocalDatabase\<close>). The compiled kernel is a parameter: a function from method
  names and arguments to actions on the kernel's state. Clocks are arguments: \<open>duration\<close> is
  what the timer measures around a kernel call, \<open>now\<close> the monotonic clock. Every kernel call
  goes through \<open>kernel_call\<close>, which counts and traces it and maps its exception.
\<close>

type_synonym 'k kernel = "string \<Rightarrow> karg list \<Rightarrow> ('k, karg) action"

section \<open>Errors of the kernel\<close>

text \<open>\<open>a in b\<close> for strings\<close>

fun contains :: "string \<Rightarrow> string \<Rightarrow> bool" where
  "contains part [] = (part = [])"
| "contains part (c # cs) = (prefix part (c # cs) \<or> contains part cs)"

definition map_kernel_error :: "err \<Rightarrow> err" where
  "map_kernel_error e =
     (let message = error_text e in
      if contains ''already open'' message then CollectionAlreadyOpenError message
      else if contains ''closed'' message then CollectionClosedError message
      else ValidationError message)"

section \<open>State\<close>

record resource_limits =
  max_batch_rows :: int
  max_query_batch :: int
  max_k :: int
  max_candidates :: int

definition resource_limits_init :: "int \<Rightarrow> int \<Rightarrow> int \<Rightarrow> int \<Rightarrow> resource_limits result" where
  "resource_limits_init rows batch k candidates =
     require (0 < min (min rows batch) (min k candidates)) (ValueError ''resource limits must be positive'')
       (Inr \<lparr>max_batch_rows = rows, max_query_batch = batch, max_k = k, max_candidates = candidates\<rparr>)"

definition default_limits :: resource_limits where
  "default_limits =
     \<lparr>max_batch_rows = 65536, max_query_batch = 1024, max_k = 10000, max_candidates = 10000000\<rparr>"

record trace_record =
  tr_operation :: string
  tr_duration_ns :: int
  tr_status :: string
  tr_sequence :: "int option"

record metrics_snapshot =
  ms_operations :: int
  ms_writes :: int
  ms_queries :: int
  ms_failures :: int
  ms_cancellations :: int
  ms_total_duration_ns :: int

record 'k coll =
  co_kernel :: 'k
  co_path :: string
  co_dimension :: int
  co_config :: collection_config
  co_limits :: resource_limits
  co_metrics :: metrics_snapshot
  co_traces :: "trace_record list"

section \<open>Calls\<close>

definition starts_with :: "string list \<Rightarrow> string \<Rightarrow> bool" where
  "starts_with starts method \<longleftrightarrow> list_ex (\<lambda>start. prefix start method) starts"

definition is_query :: "string \<Rightarrow> bool" where
  "is_query method \<longleftrightarrow> starts_with [''search'', ''get''] method"

definition is_write :: "string \<Rightarrow> bool" where
  "is_write method \<longleftrightarrow> starts_with [''upsert'', ''delete'', ''apply''] method"

text \<open>\<open>"cancel" in error.lower()\<close>; only ASCII letters can fold to the letters of the word.\<close>

definition lower_char :: "char \<Rightarrow> char" where
  "lower_char c = (let n = (of_char c :: nat) in if 65 \<le> n \<and> n \<le> 90 then char_of (n + 32) else c)"

definition is_cancellation :: "string \<Rightarrow> bool" where
  "is_cancellation message \<longleftrightarrow> contains ''cancel'' (map lower_char message)"

definition count_operation :: "string \<Rightarrow> int \<Rightarrow> string option \<Rightarrow> metrics_snapshot \<Rightarrow> metrics_snapshot" where
  "count_operation method duration failure m =
     m\<lparr>ms_operations := ms_operations m + 1,
       ms_total_duration_ns := ms_total_duration_ns m + duration,
       ms_queries := ms_queries m + (if is_query method then 1 else 0),
       ms_writes := ms_writes m + (if failure = None \<and> is_write method then 1 else 0),
       ms_failures := ms_failures m + (if failure \<noteq> None then 1 else 0),
       ms_cancellations := ms_cancellations m + (case failure of None \<Rightarrow> 0 | Some e \<Rightarrow> if is_cancellation e then 1 else 0)\<rparr>"

definition append_trace :: "trace_record \<Rightarrow> trace_record list \<Rightarrow> trace_record list" where
  "append_trace t ts = (let ts' = ts @ [t] in if 256 < length ts' then tl ts' else ts')"

text \<open>\<open>failure\<close> is the exception's text, \<open>None\<close> for status \<open>ok\<close>.\<close>

definition write_sequence :: "'k kernel \<Rightarrow> string \<Rightarrow> string option \<Rightarrow> 'k \<Rightarrow> int option \<times> 'k" where
  "write_sequence mojo method failure k =
     (if failure = None \<and> is_write method then
        (case mojo ''last_sequence'' [] k of (r, k') \<Rightarrow>
          ((case rbind (rbind r kval) py_to_int of Inl _ \<Rightarrow> None | Inr i \<Rightarrow> Some i), k'))
      else (None, k))"

definition record_operation :: "'k kernel \<Rightarrow> string \<Rightarrow> int \<Rightarrow> string option \<Rightarrow> 'k coll \<Rightarrow> 'k coll" where
  "record_operation mojo method duration failure s =
     (let (sequence, k) = write_sequence mojo method failure (co_kernel s)
      in s\<lparr>co_kernel := k,
           co_metrics := count_operation method duration failure (co_metrics s),
           co_traces := append_trace \<lparr>tr_operation = method, tr_duration_ns = duration,
             tr_status = (if failure = None then ''ok'' else ''error''), tr_sequence = sequence\<rparr> (co_traces s)\<rparr>)"

definition raw_call :: "'k kernel \<Rightarrow> int \<Rightarrow> string \<Rightarrow> karg list \<Rightarrow> ('k coll, karg) action" where
  "raw_call mojo duration method args = (\<lambda>s.
     case mojo method args (co_kernel s) of
       (Inl e, k) \<Rightarrow>
         (Inl (map_kernel_error e), record_operation mojo method duration (Some (error_text e)) (s\<lparr>co_kernel := k\<rparr>))
     | (Inr v, k) \<Rightarrow> (Inr v, record_operation mojo method duration None (s\<lparr>co_kernel := k\<rparr>)))"

definition kernel_call :: "'k kernel \<Rightarrow> int \<Rightarrow> string \<Rightarrow> karg list \<Rightarrow> ('k coll, pyval) action" where
  "kernel_call mojo duration method args = bind (raw_call mojo duration method args) (\<lambda>v. pure (kval v))"

section \<open>Opening\<close>

text \<open>
  The constructor of the kernel's collection: path, dimension, configuration and schema. The
  four-argument call passes the configuration or \<open>None\<close>, the others leave the schema out.
\<close>

type_synonym 'k kernel_open = "string \<Rightarrow> int \<Rightarrow> pyval option \<Rightarrow> pyval option \<Rightarrow> 'k result"

definition field_schema :: "(string \<times> vector_field) list \<Rightarrow> pyval result" where
  "field_schema vectors =
     rbind (rmap (\<lambda>(index, name, f). vector_field_to_kernel name (int index + 2) f)
       (enumerate 0 (sort_items vectors))) (\<lambda>schema. Inr (PList schema))"

text \<open>\<open>except (TypeError, ValueError): raise ValidationError(str(error))\<close>\<close>

fun as_validation :: "err \<Rightarrow> err" where
  "as_validation (TypeError m) = ValidationError m"
| "as_validation (ValueError m) = ValidationError m"
| "as_validation (UnicodeDecodeError m) = ValidationError m"
| "as_validation (JSONDecodeError m) = ValidationError m"
| "as_validation e = e"

definition map_error :: "(err \<Rightarrow> err) \<Rightarrow> 'a result \<Rightarrow> 'a result" where
  "map_error f r = (case r of Inl e \<Rightarrow> Inl (f e) | Inr x \<Rightarrow> Inr x)"

definition collection_open ::
  "'k kernel \<Rightarrow> 'k kernel_open \<Rightarrow> string \<Rightarrow> int \<Rightarrow> config_options \<Rightarrow> (string \<times> vector_field) list option \<Rightarrow>
     resource_limits option \<Rightarrow> 'k coll result" where
  "collection_open mojo opener path dim config vectors limits =
     rbind (map_error as_validation
       (rbind (if config = NoOptions then Inr None else rbind (config_from_options dim config) (\<lambda>c. Inr (Some c))) (\<lambda>requested.
        rbind (case vectors of None \<Rightarrow> Inr None | Some vs \<Rightarrow> rbind (field_schema vs) (\<lambda>schema. Inr (Some schema))) (\<lambda>schema.
        Inr (requested, schema))))) (\<lambda>(requested, schema).
     rbind (map_error map_kernel_error
       (opener path dim (map_option (\<lambda>c. PDict (config_to_kernel c)) requested) schema)) (\<lambda>k.
     case mojo ''collection_config'' [] k of (r, k') \<Rightarrow>
       rbind (rbind (rbind (rbind r kval) as_dict_or) config_from_kernel) (\<lambda>stored.
       Inr \<lparr>co_kernel = k', co_path = path, co_dimension = dim, co_config = stored,
            co_limits = (case limits of None \<Rightarrow> default_limits | Some l \<Rightarrow> l),
            co_metrics = \<lparr>ms_operations = 0, ms_writes = 0, ms_queries = 0, ms_failures = 0, ms_cancellations = 0,
              ms_total_duration_ns = 0\<rparr>,
            co_traces = []\<rparr>)))"

definition coll_metrics :: "('k coll, metrics_snapshot) action" where
  "coll_metrics = gets co_metrics"

definition coll_traces :: "('k coll, trace_record list) action" where
  "coll_traces = gets co_traces"

section \<open>Operations\<close>

definition coll_close :: "'k kernel \<Rightarrow> int \<Rightarrow> ('k coll, unit) action" where
  "coll_close mojo duration = bind (raw_call mojo duration ''close'' []) (\<lambda>_. ok ())"

definition coll_last_sequence :: "'k kernel \<Rightarrow> int \<Rightarrow> ('k coll, int) action" where
  "coll_last_sequence mojo duration =
     bind (kernel_call mojo duration ''last_sequence'' []) (\<lambda>v. pure (py_to_int v))"

definition coll_config :: "'k kernel \<Rightarrow> int \<Rightarrow> ('k coll, collection_config) action" where
  "coll_config mojo duration =
     bind (kernel_call mojo duration ''collection_config'' []) (\<lambda>v. pure (rbind (as_dict_or v) config_from_kernel))"

text \<open>\<open>SearchStats.from_kernel\<close>: the declared fields of the answer, all of them required.\<close>

definition SEARCH_STATS_FIELDS :: "string list" where
  "SEARCH_STATS_FIELDS =
     label_stats @ maximum_stats @ summed_stats @ [''ivf_partitions'', ''ivf_probed_partitions'']"

definition search_stats_from_kernel :: "(string \<times> pyval) list \<Rightarrow> stats result" where
  "search_stats_from_kernel value =
     rmap (\<lambda>name. rbind (dget value name) (\<lambda>v. Inr (name, v))) SEARCH_STATS_FIELDS"

definition coll_last_search_stats :: "'k kernel \<Rightarrow> int \<Rightarrow> ('k coll, stats) action" where
  "coll_last_search_stats mojo duration =
     bind (kernel_call mojo duration ''last_search_stats'' []) (\<lambda>v.
     pure (rbind (as_dict_or v) search_stats_from_kernel))"

definition coll_upsert ::
  "'k kernel \<Rightarrow> int \<Rightarrow> int \<Rightarrow> pyfloat list \<Rightarrow> payload_field list option \<Rightarrow> ('k coll, unit) action" where
  "coll_upsert mojo duration i vector flds =
     bind (case flds of
             None \<Rightarrow> raw_call mojo duration ''upsert'' [KVal (PInt i), KVal (PList (map PFloat vector))]
           | Some fs \<Rightarrow> raw_call mojo duration ''upsert_document''
               [KVal (PInt i), KVal (PList (map PFloat vector)), KVal (PList (map payload_field_to_kernel fs))])
       (\<lambda>_. ok ())"

definition coll_upsert_sparse :: "'k kernel \<Rightarrow> int \<Rightarrow> int \<Rightarrow> sparse_element list \<Rightarrow> ('k coll, unit) action" where
  "coll_upsert_sparse mojo duration i elements =
     bind (raw_call mojo duration ''upsert_sparse''
       [KVal (PInt i), KVal (PList (map sparse_element_to_kernel elements))]) (\<lambda>_. ok ())"

definition coll_delete :: "'k kernel \<Rightarrow> int \<Rightarrow> int \<Rightarrow> ('k coll, unit) action" where
  "coll_delete mojo duration i = bind (raw_call mojo duration ''delete'' [KVal (PInt i)]) (\<lambda>_. ok ())"

definition coll_flush :: "'k kernel \<Rightarrow> int \<Rightarrow> ('k coll, unit) action" where
  "coll_flush mojo duration = bind (raw_call mojo duration ''flush'' []) (\<lambda>_. ok ())"

record batch_write_result =
  bw_first_sequence :: int
  bw_last_sequence :: int
  bw_count :: int

definition batch_result :: "pyval \<Rightarrow> batch_write_result result" where
  "batch_result raw =
     rbind (item_int raw ''first_sequence'') (\<lambda>a.
     rbind (item_int raw ''last_sequence'') (\<lambda>b.
     rbind (item_int raw ''count'') (\<lambda>n.
     Inr \<lparr>bw_first_sequence = a, bw_last_sequence = b, bw_count = n\<rparr>)))"

definition batch_mutation_to_kernel :: "batch_mutation \<Rightarrow> pyval" where
  "batch_mutation_to_kernel b =
     (case b of
        BatchUpsert i v fs \<Rightarrow> PDict [(''operation'', PStr ''upsert''), (''id'', PInt i),
          (''vector'', PList (map PFloat v)), (''fields'', PList (map payload_field_to_kernel fs))]
      | BatchDelete i \<Rightarrow> PDict [(''operation'', PStr ''delete''), (''id'', PInt i), (''vector'', PList []),
          (''fields'', PList [])])"

definition coll_apply_batch :: "'k kernel \<Rightarrow> int \<Rightarrow> batch_mutation list \<Rightarrow> ('k coll, batch_write_result) action" where
  "coll_apply_batch mojo duration mutations =
     bind (gets co_limits) (\<lambda>limits.
     bind (check (int (length mutations) \<le> max_batch_rows limits)
       (ValidationError ''mutation batch resource limit exceeded'')) (\<lambda>_.
     bind (kernel_call mojo duration ''apply_batch'' [KVal (PList (map batch_mutation_to_kernel mutations))]) (\<lambda>raw.
     pure (batch_result raw))))"

text \<open>\<open>BatchWriteResult(**raw)\<close>\<close>

definition point_batch_result :: "pyval \<Rightarrow> batch_write_result result" where
  "point_batch_result raw =
     rbind (keyword_args raw [''first_sequence'', ''last_sequence'', ''count'']) (\<lambda>d.
     rbind (rbind (dget d ''first_sequence'') as_int_or) (\<lambda>a.
     rbind (rbind (dget d ''last_sequence'') as_int_or) (\<lambda>b.
     rbind (rbind (dget d ''count'') as_int_or) (\<lambda>n.
     Inr \<lparr>bw_first_sequence = a, bw_last_sequence = b, bw_count = n\<rparr>))))"

definition coll_apply_point_batch :: "'k kernel \<Rightarrow> int \<Rightarrow> point_mutation list \<Rightarrow> ('k coll, batch_write_result) action" where
  "coll_apply_point_batch mojo duration mutations =
     bind (gets co_limits) (\<lambda>limits.
     bind (check (int (length mutations) \<le> max_batch_rows limits)
       (ValidationError ''mutation batch resource limit exceeded'')) (\<lambda>_.
     bind (kernel_call mojo duration ''apply_point_batch'' [KList (map point_mutation_to_kernel mutations)]) (\<lambda>raw.
     pure (point_batch_result raw))))"

definition coll_get_point :: "'k kernel \<Rightarrow> int \<Rightarrow> int \<Rightarrow> ('k coll, point option) action" where
  "coll_get_point mojo duration i =
     bind (raw_call mojo duration ''get_point'' [KVal (PInt i)]) (\<lambda>raw.
     if raw = KVal PNone then ok None
     else bind (pure (point_from_kernel raw)) (\<lambda>p. ok (Some p)))"

definition fields_from_kernel :: "pyval \<Rightarrow> (string \<times> vector_field) list result" where
  "fields_from_kernel raw =
     rbind (as_list_or raw) (\<lambda>items.
     rfold (\<lambda>v d.
       rbind (rbind (item v ''id'') as_int_or) (\<lambda>i.
       if i < 2 then Inr d
       else rbind (rbind (item v ''name'') as_str_or) (\<lambda>name.
            rbind (vector_field_from_kernel v) (\<lambda>f.
            Inr (dict_set name f d))))) items [])"

definition coll_vector_fields :: "'k kernel \<Rightarrow> int \<Rightarrow> ('k coll, (string \<times> vector_field) list) action" where
  "coll_vector_fields mojo duration =
     bind (kernel_call mojo duration ''vector_fields'' []) (\<lambda>raw. pure (fields_from_kernel raw))"

record projection =
  pj_include_vector :: bool
  pj_fields :: "string list option"

definition projection_to_kernel :: "projection \<Rightarrow> pyval result" where
  "projection_to_kernel p =
     (case pj_fields p of
        None \<Rightarrow> Inr (PDict [(''include_vector'', PBool (pj_include_vector p)), (''all_fields'', PBool True), (''fields'', PList [])])
      | Some names \<Rightarrow>
          require ([] \<notin> set names) (ValueError ''projection field name cannot be empty'')
         (require (card (set names) = length names) (ValueError ''projection field names must be unique'')
           (Inr (PDict [(''include_vector'', PBool (pj_include_vector p)), (''all_fields'', PBool False),
                        (''fields'', PList (map PStr names))]))))"

definition document_from_kernel :: "pyval \<Rightarrow> document option result" where
  "document_from_kernel raw =
     (if raw = PNone then Inr None
      else
        rbind (item_int raw ''id'') (\<lambda>i.
        rbind (item_int raw ''sequence'') (\<lambda>sequence.
        rbind (rbind (rbind (item raw ''vector'') as_list_or) (rmap py_to_float)) (\<lambda>vector.
        rbind (rbind (rbind (item raw ''fields'') as_list_or) (rmap payload_from_kernel)) (\<lambda>flds.
        Inr (Some \<lparr>doc_id = i, doc_sequence = sequence, doc_vector = vector, doc_fields = flds\<rparr>))))))"

definition coll_get :: "'k kernel \<Rightarrow> int \<Rightarrow> int \<Rightarrow> projection option \<Rightarrow> ('k coll, document option) action" where
  "coll_get mojo duration i p =
     bind (case p of
             None \<Rightarrow> kernel_call mojo duration ''get'' [KVal (PInt i)]
           | Some q \<Rightarrow> bind (pure (projection_to_kernel q)) (\<lambda>d.
               kernel_call mojo duration ''get_projected'' [KVal (PInt i), KVal d]))
       (\<lambda>raw. pure (document_from_kernel raw))"

definition coll_export_records :: "'k kernel \<Rightarrow> int \<Rightarrow> ('k coll, pyval) action" where
  "coll_export_records mojo duration =
     bind (kernel_call mojo duration ''export_records'' []) (\<lambda>v. pure (rbind (as_list_or v) (\<lambda>rows. Inr (PList rows))))"

definition coll_export_points :: "'k kernel \<Rightarrow> int \<Rightarrow> ('k coll, (string \<times> karg) list option) action" where
  "coll_export_points mojo duration =
     bind (raw_call mojo duration ''export_points'' []) (\<lambda>raw.
     if raw = KVal PNone then ok None
     else bind (pure (kdict raw)) (\<lambda>d. ok (Some d)))"

definition coll_is_point_collection :: "'k kernel \<Rightarrow> int \<Rightarrow> ('k coll, bool) action" where
  "coll_is_point_collection mojo duration =
     bind (kernel_call mojo duration ''is_point_collection'' []) (\<lambda>v. ok (py_truth v))"

definition coll_backup :: "'k kernel \<Rightarrow> int \<Rightarrow> string \<Rightarrow> ('k coll, pyval) action" where
  "coll_backup mojo duration target =
     bind (kernel_call mojo duration ''backup_to'' [KVal (PStr target)]) (\<lambda>v.
     pure (rbind (as_dict_or v) (\<lambda>d. Inr (PDict d))))"

section \<open>Search\<close>

definition require_vector :: "pyval \<Rightarrow> string \<Rightarrow> ('s, unit) action" where
  "require_vector vector message = check (vector \<noteq> PNone) (ValidationError message)"

text \<open>\<open>{"dot": ..., "l2": ..., "cosine": ...}[metric]\<close>\<close>

definition exact_method :: "pyval \<Rightarrow> string result" where
  "exact_method metric =
     (if metric = PStr ''dot'' then Inr ''search_dot''
      else if metric = PStr ''l2'' then Inr ''search_l2''
      else if metric = PStr ''cosine'' then Inr ''search_cosine''
      else if hashable metric then Inl (KeyError (py_str metric))
      else Inl (TypeError ''unhashable type''))"

definition search_raw :: "'k kernel \<Rightarrow> int \<Rightarrow> bool \<Rightarrow> search_request \<Rightarrow> ('k coll, pyval) action" where
  "search_raw mojo duration columns r =
     (let suffix = (if columns then ''_columns'' else '''');
          vector = sr_vector r;
          sparse = PList (map sparse_element_to_kernel (sr_sparse r));
          k = PInt (sr_k r);
          ranks = [(''k'', k), (''fetch_k'', PInt (sr_fetch_k r)), (''rank_constant'', PInt (sr_rank_constant r))]
      in
      bind (gets co_limits) (\<lambda>limits.
      bind (check (sr_k r \<le> max_k limits) (ValidationError ''query k resource limit exceeded'')) (\<lambda>_.
      if sr_filter r \<noteq> PNone \<and> sr_mode r = PStr ''sparse'' then
        kernel_call mojo duration (''search_sparse_where'' @ suffix)
          [KVal sparse, KVal (PDict [(''k'', k), (''filter'', sr_filter r)])]
      else if sr_filter r \<noteq> PNone \<and> sr_mode r = PStr ''hybrid'' then
        bind (require_vector vector ''hybrid search requires a dense vector'') (\<lambda>_.
        kernel_call mojo duration (''search_hybrid_where'' @ suffix)
          [KVal (sr_metric r), KVal vector, KVal sparse, KVal (PDict (ranks @ [(''filter'', sr_filter r)]))])
      else if sr_filter r \<noteq> PNone then
        bind (require_vector vector ''dense search requires a vector'') (\<lambda>_.
        kernel_call mojo duration (''search_dense_where'' @ suffix)
          [KVal (sr_metric r), KVal vector, KVal (PDict [(''k'', k), (''approximate'', PBool (sr_mode r = PStr ''approx'')),
             (''ef_search'', PInt (sr_ef_search r)), (''filter'', sr_filter r)])])
      else if sr_mode r = PStr ''sparse'' then
        kernel_call mojo duration (''search_sparse'' @ suffix) [KVal sparse, KVal k]
      else if sr_mode r = PStr ''hybrid'' then
        bind (require_vector vector ''hybrid search requires a dense vector'') (\<lambda>_.
        kernel_call mojo duration (''search_hybrid'' @ suffix)
          [KVal (sr_metric r), KVal vector, KVal sparse, KVal (PDict ranks)])
      else if sr_mode r = PStr ''approx'' then
        bind (require_vector vector ''approximate search requires a dense vector'') (\<lambda>_.
        kernel_call mojo duration (''search_approx'' @ suffix)
          [KVal (sr_metric r), KVal vector, KVal k, KVal (PInt (sr_ef_search r))])
      else
        bind (require_vector vector ''exact search requires a dense vector'') (\<lambda>_.
        bind (pure (exact_method (sr_metric r))) (\<lambda>method.
        kernel_call mojo duration (method @ suffix) [KVal vector, KVal k])))))"

definition parse_results :: "pyval \<Rightarrow> search_result list result" where
  "parse_results raw = rbind (as_list_or raw) (rmap parse_result)"

definition coll_search :: "'k kernel \<Rightarrow> int \<Rightarrow> search_request \<Rightarrow> ('k coll, search_result list) action" where
  "coll_search mojo duration request =
     bind (search_raw mojo duration False request) (\<lambda>raw. pure (parse_results raw))"

definition coll_search_batch ::
  "'k kernel \<Rightarrow> int \<Rightarrow> pyval \<Rightarrow> pyval list \<Rightarrow> int \<Rightarrow> int \<Rightarrow> pyval option \<Rightarrow> ('k coll, search_result list list) action" where
  "coll_search_batch mojo duration metric vectors k num_workers filters =
     bind (gets co_limits) (\<lambda>limits.
     bind (check (int (length vectors) \<le> max_query_batch limits)
       (ValidationError ''query batch resource limit exceeded'')) (\<lambda>_.
     bind (check (k \<le> max_k limits) (ValidationError ''query k resource limit exceeded'')) (\<lambda>_.
     bind (case filters of
             None \<Rightarrow> kernel_call mojo duration ''search_batch''
               [KVal metric, KVal (PList vectors), KVal (PInt k), KVal (PInt num_workers)]
           | Some fs \<Rightarrow> kernel_call mojo duration ''search_batch_where''
               [KVal metric, KVal (PList vectors), KVal fs, KVal (PInt k), KVal (PInt num_workers)]) (\<lambda>raw.
     pure (rbind (as_list_or raw) (rmap parse_results))))))"

text \<open>\<open>0 if timeout_ns is None else monotonic_ns() + timeout_ns\<close>\<close>

definition deadline :: "int \<Rightarrow> int option \<Rightarrow> int" where
  "deadline now timeout = (case timeout of None \<Rightarrow> 0 | Some t \<Rightarrow> now + t)"

definition control_options :: "bool \<Rightarrow> int \<Rightarrow> int option \<Rightarrow> resource_limits \<Rightarrow> (string \<times> pyval) list" where
  "control_options cancelled now timeout limits =
     [(''cancelled'', PBool cancelled), (''deadline_ns'', PInt (deadline now timeout)),
      (''max_candidates'', PInt (max_candidates limits))]"

definition coll_search_controlled ::
  "'k kernel \<Rightarrow> int \<Rightarrow> int \<Rightarrow> pyval \<Rightarrow> pyval \<Rightarrow> int \<Rightarrow> bool \<Rightarrow> int option \<Rightarrow> ('k coll, search_result list) action" where
  "coll_search_controlled mojo duration now metric vector k cancelled timeout =
     bind (gets co_limits) (\<lambda>limits.
     bind (check (k \<le> max_k limits) (ValidationError ''query k resource limit exceeded'')) (\<lambda>_.
     bind (check (case timeout of None \<Rightarrow> True | Some t \<Rightarrow> 0 < t)
       (ValidationError ''query timeout must be positive'')) (\<lambda>_.
     bind (kernel_call mojo duration ''search_controlled''
       [KVal metric, KVal vector, KVal (PInt k), KVal (PDict (control_options cancelled now timeout limits))]) (\<lambda>raw.
     pure (parse_results raw)))))"

text \<open>The arguments of named searches are raw values whose types the method checks.\<close>

definition valid :: "bool \<Rightarrow> string \<Rightarrow> ('s, unit) action" where
  "valid c message = check c (ValidationError message)"

definition within :: "pyval \<Rightarrow> int \<Rightarrow> int \<Rightarrow> bool" where
  "within v low high \<longleftrightarrow> (case as_int v of None \<Rightarrow> False | Some i \<Rightarrow> low \<le> i \<and> i \<le> high)"

definition positive :: "pyval \<Rightarrow> bool" where
  "positive v \<longleftrightarrow> (case as_int v of None \<Rightarrow> False | Some i \<Rightarrow> 0 < i)"

definition int_or :: "int \<Rightarrow> pyval \<Rightarrow> int" where
  "int_or d v = (case as_int v of None \<Rightarrow> d | Some i \<Rightarrow> i)"

definition search_field_raw ::
  "'k kernel \<Rightarrow> int \<Rightarrow> int \<Rightarrow> bool \<Rightarrow> string \<Rightarrow> vector_arg \<Rightarrow> pyval \<Rightarrow> pyval \<Rightarrow> pyval \<Rightarrow> pyval \<Rightarrow> pyval \<Rightarrow>
     ivf_options option \<Rightarrow> bool \<Rightarrow> pyval \<Rightarrow> ('k coll, pyval) action" where
  "search_field_raw mojo duration now columns name vector k where_filter mode ef_search rerank_k ivf cancelled timeout =
     bind (gets co_limits) (\<lambda>limits.
     bind (valid (within k 1 (max_k limits)) ''named search k exceeds resource limit'') (\<lambda>_.
     bind (valid (mode \<in> {PStr ''exact'', PStr ''approx'', PStr ''ivf''})
       ''named search mode must be exact, approx or ivf'') (\<lambda>_.
     bind (valid (ef_search = PNone \<or> positive ef_search) ''ef_search must be a positive integer'') (\<lambda>_.
     bind (valid (case as_int rerank_k of None \<Rightarrow> False | Some i \<Rightarrow> i = 0 \<or> (0 < i \<and> int_or 0 k \<le> i))
       ''rerank_k must be zero or at least k'') (\<lambda>_.
     bind (valid (mode = PStr ''approx'' \<or> (ef_search = PNone \<and> rerank_k = PInt 0))
       ''ef_search and rerank_k require approximate field search'') (\<lambda>_.
     bind (valid (ivf = None \<or> mode = PStr ''ivf'') ''IvfOptions require ivf mode'') (\<lambda>_.
     bind (valid (timeout = PNone \<or> positive timeout) ''query timeout must be a positive integer'') (\<lambda>_.
     kernel_call mojo duration (if columns then ''search_field_columns'' else ''search_field'')
       [KVal (PStr name), vector_value vector, KVal k,
        KVal (PDict ([(''filter'', where_filter), (''mode'', mode), (''ef_search'', PInt (int_or (-1) ef_search)),
          (''rerank_k'', rerank_k), (''ivf'', ivf_argument (py_str mode) ivf)] @
          control_options cancelled now (as_int timeout) limits))]))))))))"

definition search_fields_raw ::
  "'k kernel \<Rightarrow> int \<Rightarrow> int \<Rightarrow> bool \<Rightarrow> field_query list \<Rightarrow> pyval \<Rightarrow> pyval \<Rightarrow> pyval \<Rightarrow> pyval \<Rightarrow> field_query option \<Rightarrow> bool \<Rightarrow>
     pyval \<Rightarrow> ('k coll, pyval) action" where
  "search_fields_raw mojo duration now columns queries k fetch_k rank_constant where_filter rerank cancelled timeout =
     bind (gets co_limits) (\<lambda>limits.
     bind (valid (within k 1 (max_k limits)) ''named fusion k exceeds resource limit'') (\<lambda>_.
     bind (valid (within fetch_k (int_or 0 k) (max_k limits)) ''fetch_k must be at least k and fit the resource limit'') (\<lambda>_.
     bind (valid (positive rank_constant) ''RRF rank constant must be a positive integer'') (\<lambda>_.
     bind (valid (0 < length queries \<and> int (length queries) \<le> max_query_batch limits)
       ''field fusion branch count exceeds resource limit'') (\<lambda>_.
     bind (valid (case rerank of None \<Rightarrow> True | Some q \<Rightarrow> fq_mode q = ''exact'')
       ''final field reranking requires an exact FieldQuery'') (\<lambda>_.
     bind (valid (timeout = PNone \<or> positive timeout) ''query timeout must be a positive integer'') (\<lambda>_.
     kernel_call mojo duration (if columns then ''search_fields_columns'' else ''search_fields'')
       [KList (map field_query_to_kernel queries),
        KDict ([(''k'', KVal k), (''fetch_k'', KVal fetch_k), (''rank_constant'', KVal rank_constant),
          (''rerank'', (case rerank of None \<Rightarrow> KVal PNone | Some q \<Rightarrow> field_query_to_kernel q)), (''filter'', KVal where_filter)] @
          map (\<lambda>(name, v). (name, KVal v)) (control_options cancelled now (as_int timeout) limits))])))))))"

text \<open>\<open>[SearchResult(**item) for item in raw]\<close>\<close>

definition result_from_kernel :: "pyval \<Rightarrow> search_result result" where
  "result_from_kernel v =
     rbind (keyword_args v [''id'', ''score'']) (\<lambda>d.
     rbind (rbind (dget d ''id'') as_int_or) (\<lambda>i.
     rbind (rbind (dget d ''score'') as_float_or) (\<lambda>score.
     Inr \<lparr>res_id = i, res_score = score\<rparr>)))"

definition coll_search_field ::
  "'k kernel \<Rightarrow> int \<Rightarrow> int \<Rightarrow> string \<Rightarrow> vector_arg \<Rightarrow> pyval \<Rightarrow> pyval \<Rightarrow> pyval \<Rightarrow> pyval \<Rightarrow> pyval \<Rightarrow> ivf_options option \<Rightarrow>
     bool \<Rightarrow> pyval \<Rightarrow> ('k coll, search_result list) action" where
  "coll_search_field mojo duration now name vector k where_filter mode ef_search rerank_k ivf cancelled timeout =
     bind (search_field_raw mojo duration now False name vector k where_filter mode ef_search rerank_k ivf cancelled timeout)
       (\<lambda>raw. pure (rbind (as_list_or raw) (rmap result_from_kernel)))"

definition coll_search_fields ::
  "'k kernel \<Rightarrow> int \<Rightarrow> int \<Rightarrow> field_query list \<Rightarrow> pyval \<Rightarrow> pyval \<Rightarrow> pyval \<Rightarrow> pyval \<Rightarrow> field_query option \<Rightarrow> bool \<Rightarrow> pyval \<Rightarrow>
     ('k coll, search_result list) action" where
  "coll_search_fields mojo duration now queries k fetch_k rank_constant where_filter rerank cancelled timeout =
     bind (search_fields_raw mojo duration now False queries k fetch_k rank_constant where_filter rerank cancelled timeout)
       (\<lambda>raw. pure (rbind (as_list_or raw) (rmap result_from_kernel)))"

section \<open>Cancellation\<close>

text \<open>\<open>CancellationToken\<close>: an event that stays set. A search without a token is not cancelled.\<close>

record cancellation_token =
  ct_event :: bool

definition token_init :: cancellation_token where
  "token_init = \<lparr>ct_event = False\<rparr>"

definition token_cancel :: "(cancellation_token, unit) action" where
  "token_cancel = modify (\<lambda>t. t\<lparr>ct_event := True\<rparr>)"

definition token_cancelled :: "(cancellation_token, bool) action" where
  "token_cancelled = gets ct_event"

definition cancelled_argument :: "cancellation_token option \<Rightarrow> bool" where
  "cancelled_argument token = (case token of None \<Rightarrow> False | Some t \<Rightarrow> ct_event t)"

end
