(* ===== verification/Database.thy ===== *)
theory Database
  imports Collection
begin

text \<open>
  The registry of open collections (database.py, \<open>LocalDatabase\<close>). A handle that \<open>open\<close> or
  \<open>collection\<close> returns is the object in the registry, so an operation on it is an action on
  the entry of that name.
\<close>

section \<open>Comparison of configurations and schemas\<close>

text \<open>Dataclass equality; the fingerprint is declared with \<open>compare=False\<close>.\<close>

definition config_eq :: "collection_config \<Rightarrow> collection_config \<Rightarrow> bool" where
  "config_eq c c' \<longleftrightarrow> c\<lparr>cc_fingerprint := None\<rparr> = c'\<lparr>cc_fingerprint := None\<rparr>"

definition field_eq :: "vector_field \<Rightarrow> vector_field \<Rightarrow> bool" where
  "field_eq f g \<longleftrightarrow>
     f\<lparr>vf_hnsw := None\<rparr> = g\<lparr>vf_hnsw := None\<rparr> \<and>
     (case (vf_hnsw f, vf_hnsw g) of (None, None) \<Rightarrow> True | (Some c, Some c') \<Rightarrow> config_eq c c' | _ \<Rightarrow> False)"

definition schema_eq :: "(string \<times> vector_field) list \<Rightarrow> (string \<times> vector_field) list \<Rightarrow> bool" where
  "schema_eq a b \<longleftrightarrow>
     length a = length b \<and>
     list_all (\<lambda>(name, f). case map_of b name of None \<Rightarrow> False | Some g \<Rightarrow> field_eq f g) a"

section \<open>The registry\<close>

record 'k database =
  db_root :: string
  db_collections :: "(string \<times> 'k coll) list"

definition safe_name :: "string \<Rightarrow> bool" where
  "safe_name name \<longleftrightarrow>
     name \<noteq> [] \<and> CHR ''/'' \<notin> set name \<and> CHR 0x5C \<notin> set name \<and> name \<noteq> ''.'' \<and> name \<noteq> ''..''"

text \<open>\<open>str(root / name)\<close> for a root in the form that \<open>str(Path(root))\<close> has.\<close>

definition child_path :: "string \<Rightarrow> string \<Rightarrow> string" where
  "child_path root name =
     (if root = ''.'' then name else if root = ''/'' then root @ name else root @ ''/'' @ name)"

definition database_init :: "string \<Rightarrow> 'k database" where
  "database_init root = \<lparr>db_root = root, db_collections = []\<rparr>"

definition db_collection :: "string \<Rightarrow> ('k database, 'k coll) action" where
  "db_collection name = (\<lambda>s.
     case map_of (db_collections s) name of
       None \<Rightarrow> (Inl (CollectionNotFoundError (''collection is not open: '' @ name)), s)
     | Some c \<Rightarrow> (Inr c, s))"

definition on_handle :: "string \<Rightarrow> ('k coll, 'a) action \<Rightarrow> ('k database, 'a) action" where
  "on_handle name act =
     bind (db_collection name) (\<lambda>c s.
     case act c of (r, c') \<Rightarrow> (r, s\<lparr>db_collections := dict_set name c' (db_collections s)\<rparr>))"

definition open_existing ::
  "'k kernel \<Rightarrow> int \<Rightarrow> int \<Rightarrow> int \<Rightarrow> config_options \<Rightarrow> (string \<times> vector_field) list option \<Rightarrow> ('k coll, unit) action" where
  "open_existing mojo d1 d2 dim config vectors =
     bind (gets co_dimension) (\<lambda>dimension.
     bind (check (dimension = dim) (ValidationError ''open collection dimension mismatch'')) (\<lambda>_.
     bind (pure (map_error as_validation (config_from_options dim config))) (\<lambda>requested.
     bind (coll_config mojo d1) (\<lambda>stored.
     bind (check (config_eq stored requested) (ValidationError ''open collection configuration mismatch'')) (\<lambda>_.
     case vectors of
       None \<Rightarrow> ok ()
     | Some vs \<Rightarrow>
         bind (coll_vector_fields mojo d2) (\<lambda>schema.
         check (schema_eq schema vs) (ValidationError ''open collection vector schema mismatch'')))))))"

definition open_new ::
  "'k kernel \<Rightarrow> 'k kernel_open \<Rightarrow> string \<Rightarrow> int \<Rightarrow> config_options \<Rightarrow> (string \<times> vector_field) list option \<Rightarrow>
     ('k database, unit) action" where
  "open_new mojo opener name dim config vectors =
     bind (gets db_root) (\<lambda>root.
     bind (pure (collection_open mojo opener (child_path root name) dim config vectors None)) (\<lambda>c.
     modify (\<lambda>s. s\<lparr>db_collections := dict_set name c (db_collections s)\<rparr>)))"

definition db_open ::
  "'k kernel \<Rightarrow> 'k kernel_open \<Rightarrow> int \<Rightarrow> int \<Rightarrow> string \<Rightarrow> int \<Rightarrow> config_options \<Rightarrow> (string \<times> vector_field) list option \<Rightarrow>
     ('k database, unit) action" where
  "db_open mojo opener d1 d2 name dim config vectors =
     bind (check (safe_name name) (ValidationError ''collection name must be one safe path component'')) (\<lambda>_.
     bind (gets db_collections) (\<lambda>collections.
     if map_of collections name \<noteq> None then on_handle name (open_existing mojo d1 d2 dim config vectors)
     else open_new mojo opener name dim config vectors))"

text \<open>\<open>del d[k]\<close>\<close>

definition dict_del :: "'a \<Rightarrow> ('a \<times> 'b) list \<Rightarrow> ('a \<times> 'b) list" where
  "dict_del k d = filter (\<lambda>(k', _). k' \<noteq> k) d"

definition db_close :: "'k kernel \<Rightarrow> int \<Rightarrow> string \<Rightarrow> ('k database, unit) action" where
  "db_close mojo duration name =
     bind (on_handle name (coll_close mojo duration)) (\<lambda>_.
     modify (\<lambda>s. s\<lparr>db_collections := dict_del name (db_collections s)\<rparr>))"

text \<open>The durations of the closing calls are given by name.\<close>

definition db_close_all :: "'k kernel \<Rightarrow> (string \<Rightarrow> int) \<Rightarrow> ('k database, unit) action" where
  "db_close_all mojo duration =
     bind (gets (\<lambda>s. map fst (db_collections s))) (\<lambda>names. each (\<lambda>name. db_close mojo (duration name) name) names)"

definition snapshot_dict :: "metrics_snapshot \<Rightarrow> pyval" where
  "snapshot_dict m =
     PDict [(''operations'', PInt (ms_operations m)), (''writes'', PInt (ms_writes m)), (''queries'', PInt (ms_queries m)),
            (''failures'', PInt (ms_failures m)), (''cancellations'', PInt (ms_cancellations m)),
            (''total_duration_ns'', PInt (ms_total_duration_ns m))]"

definition db_metrics :: "('k database, pyval) action" where
  "db_metrics =
     gets (\<lambda>s. PDict [(''open_collections'', PInt (int (length (db_collections s)))),
       (''collections'', PDict (map (\<lambda>(name, c). (name, snapshot_dict (co_metrics c))) (db_collections s)))])"

end
