(* ===== verification/JsonLines.thy ===== *)
theory JsonLines
  imports JsonDecode
begin

text \<open>
  The JSON of exported files (operations.py, logical_points.py): \<open>dumps_plain\<close> writes keys in
  insertion order and refuses NaN and infinities (\<open>allow_nan=False\<close>), \<open>json_loads_strict\<close>
  refuses repeated names and the constants \<open>NaN\<close> and \<open>Infinity\<close>, which is what \<open>json.loads\<close>
  does with the hooks \<open>_unique_object\<close> and \<open>_reject_constant\<close>.
\<close>

section \<open>Writing\<close>

fun finite_val :: "pyval \<Rightarrow> bool" where
  "finite_val (PFloat f) = (case f of FFin _ _ \<Rightarrow> True | _ \<Rightarrow> False)"
| "finite_val (PList xs) = list_all finite_val xs"
| "finite_val (PDict d) = list_all (\<lambda>(k, v). finite_val v) d"
| "finite_val v = True"

fun dumps_plain :: "pyval \<Rightarrow> string" where
  "dumps_plain (PList xs) = ''['' @ join '','' (map dumps_plain xs) @ '']''"
| "dumps_plain (PDict d) = ''{'' @ join '','' (map (\<lambda>(k, v). quote k @ '':'' @ dumps_plain v) d) @ ''}''"
| "dumps_plain v = dumps v"

lemma dumps_plain_PDict: "dumps_plain (PDict d) = ''{'' @ join '','' (map (member_text dumps_plain) d) @ ''}''"
  by (simp add: member_text_def)

declare dumps_plain.simps(2) [simp del]

definition dump_row :: "pyval \<Rightarrow> string result" where
  "dump_row v =
     require (finite_val v) (ValueError ''Out of range float values are not JSON compliant'') (Inr (dumps_plain v))"

section \<open>Reading\<close>

definition json_loads_strict :: "string \<Rightarrow> pyval result" where
  "json_loads_strict t =
     (case pval True (2 * length t + 2) (skip_ws t) of
        None \<Rightarrow> Inl (JSONDecodeError ''invalid document'')
      | Some (v, r) \<Rightarrow> if skip_ws r = [] then Inr v else Inl (JSONDecodeError ''Extra data''))"

section \<open>Round trip\<close>

lemma starts_value_plain: "wf_val v \<Longrightarrow> starts_value (dumps_plain v)"
  using starts_value_dumps [of v] by (cases v) (auto simp: starts_value_def dumps_plain_PDict is_ws_def)

lemma pval_plain:
  "wf_val v \<Longrightarrow> finite_val v \<Longrightarrow> stops r \<Longrightarrow> 2 * length (dumps_plain v) < f \<Longrightarrow> pval st f (dumps_plain v @ r) = Some (v, r)"
proof (induction v arbitrary: r f rule: canon_induct)
  case (1 xs)
  then have "reads_back st dumps_plain id x" if "x \<in> set xs" for x
    using that by (auto simp: reads_back_def list_all_iff intro: starts_value_plain)
  from pval_list [OF this, where f = f] "1.prems" show ?case by simp
next
  case (2 d)
  then have "reads_back st dumps_plain id v" if "(k, v) \<in> set d" for k v
    using that by (fastforce simp: reads_back_def list_all_iff intro: starts_value_plain)
  from pval_object [of d, OF this, where f = f and r = r] "2.prems" show ?case
    by (simp add: dumps_plain_PDict)
next
  case (float_number x)
  then obtain f' where f: "f = Suc f'" by (cases f) auto
  show ?case
    using float_number f pval_number [OF parse_float_text] by (cases x) auto
qed (use pval_atom in \<open>simp_all del: pval.simps\<close>)

lemma strict_roundtrip:
  assumes "wf_val v" "finite_val v" "stops r" "skip_ws r = []"
  shows "json_loads_strict (dumps_plain v @ r) = Inr v"
  using assms pval_plain [OF assms(1-3)] starts_value_skip [OF starts_value_plain [OF assms(1)]]
  by (simp add: json_loads_strict_def del: pval.simps)

end
