(* ===== verification/LogicalPoints.thy ===== *)
theory LogicalPoints
  imports Database JsonLines
begin

text \<open>
  The versioned line format of complete point states (logical_points.py): the header with the
  configuration and the schema, one object per point, and their strict decoding into the
  mutations that restore the points.
\<close>

section \<open>Format\<close>

definition FORMAT :: string where
  "FORMAT = ''akashadb.points''"

definition VERSION :: int where
  "VERSION = 1"

definition CONFIG_KEYS :: "string list" where
  "CONFIG_KEYS =
     [''dimension'', ''ann_metric'', ''scalar_kind'', ''m'', ''m0'', ''ef_construction'', ''default_ef_search'',
      ''max_ef_search'', ''max_level'', ''rebuild_inactive_percent'', ''delta_max_points'', ''level_seed'']"

definition FIELD_KEYS :: "string list" where
  "FIELD_KEYS = [''dimension'', ''dtype'', ''kind'', ''metric'', ''hnsw'']"

definition HEADER_KEYS :: "string list" where
  "HEADER_KEYS = [''format'', ''version'', ''config'', ''vectors'', ''count'', ''source_sequence'']"

definition POINT_KEYS :: "string list" where
  "POINT_KEYS = [''id'', ''sequence'', ''document_sequence'', ''vector'', ''sparse'', ''vectors'', ''fields'']"

section \<open>Encoding\<close>

text \<open>\<open>{key: getattr(config, key) for key in sorted(_CONFIG_KEYS)}\<close>\<close>

definition config_json :: "collection_config \<Rightarrow> pyval" where
  "config_json c = PDict (sort_items (filter (\<lambda>(k, _). k \<in> set CONFIG_KEYS) (config_fields c)))"

definition field_json :: "vector_field \<Rightarrow> pyval" where
  "field_json f =
     PDict [(''dimension'', PInt (vf_dimension f)), (''dtype'', PStr (vf_dtype f)), (''kind'', PStr (vf_kind f)),
            (''metric'', PStr (vf_metric f)), (''hnsw'', (case vf_hnsw f of None \<Rightarrow> PNone | Some c \<Rightarrow> config_json c))]"

text \<open>\<open>bytes.hex()\<close>\<close>

definition hex_text :: "string \<Rightarrow> string" where
  "hex_text b = concat (map (\<lambda>c. [hex_digit (of_char c div 16), hex_digit (of_char c mod 16)]) b)"

definition encode_vector :: "(string \<times> vector_field) list \<Rightarrow> string \<times> karg \<Rightarrow> (string \<times> pyval) result" where
  "encode_vector schema = (\<lambda>(name, value).
     case map_of schema name of
       None \<Rightarrow> Inl (KeyError name)
     | Some spec \<Rightarrow>
         if vf_kind spec = ''binary'' then
           (case value of
              KBytes b \<Rightarrow> Inr (name, PDict [(''encoding'', PStr ''hex''), (''data'', PStr (hex_text b))])
            | _ \<Rightarrow> Inl (TypeError ''value has no hexadecimal form''))
         else rbind (kval value) (\<lambda>v. Inr (name, v)))"

definition encode_row :: "(string \<times> vector_field) list \<Rightarrow> karg \<Rightarrow> pyval result" where
  "encode_row schema row =
     rbind (kdict row) (\<lambda>d.
     rbind (rbind (kget d ''vectors'') kdict) (\<lambda>raw.
     rbind (rmap (encode_vector schema) raw) (\<lambda>vectors.
     rbind (rmap (\<lambda>(k, v). rbind (kval v) (\<lambda>x. Inr (k, x))) (dict_set ''vectors'' (KVal (PDict vectors)) d)) (\<lambda>items.
     Inr (PDict items)))))"

definition encode_export :: "(string \<times> karg) list \<Rightarrow> (pyval \<times> pyval list) result" where
  "encode_export captured =
     rbind (rbind (kget_val captured ''schema'') fields_from_kernel) (\<lambda>schema.
     rbind (rbind (kget captured ''points'') klist) (\<lambda>points.
     rbind (rmap (encode_row schema) points) (\<lambda>rows.
     rbind (rbind (rbind (kget_val captured ''config'') as_dict_or) config_from_kernel) (\<lambda>config.
     rbind (kget_val captured ''source_sequence'') (\<lambda>source_sequence.
     Inr (PDict [(''format'', PStr FORMAT), (''version'', PInt VERSION), (''config'', config_json config),
                 (''vectors'', PDict (map (\<lambda>(name, f). (name, field_json f)) schema)),
                 (''count'', PInt (int (length rows))), (''source_sequence'', source_sequence)], rows))))))"

section \<open>Decoding\<close>

definition object_fields :: "pyval \<Rightarrow> string list \<Rightarrow> string \<Rightarrow> (string \<times> pyval) list result" where
  "object_fields v keys label =
     (case as_dict v of
        None \<Rightarrow> Inl (ValueError (''invalid '' @ label @ '' fields''))
      | Some d \<Rightarrow> require (has_fields d keys) (ValueError (''invalid '' @ label @ '' fields'')) (Inr d))"

definition integer_field :: "pyval \<Rightarrow> int \<Rightarrow> int \<Rightarrow> string \<Rightarrow> int result" where
  "integer_field v low high label =
     (case as_int v of
        None \<Rightarrow> Inl (ValueError (''invalid '' @ label))
      | Some i \<Rightarrow> require (low \<le> i \<and> i \<le> high) (ValueError (''invalid '' @ label)) (Inr i))"

text \<open>\<open>CollectionConfig(**value)\<close> for an object with exactly the keys of the format\<close>

definition config_object :: "pyval \<Rightarrow> string \<Rightarrow> collection_config result" where
  "config_object v label =
     rbind (object_fields v CONFIG_KEYS label) (\<lambda>d. collection_config_init (d @ [(''fingerprint'', PNone)]))"

definition decode_field :: "string \<times> pyval \<Rightarrow> (string \<times> vector_field) result" where
  "decode_field = (\<lambda>(name, raw).
     require (field_name_ok name) (ValueError ''invalid named vector field name'')
    (rbind (object_fields raw FIELD_KEYS ''vector schema'') (\<lambda>d.
     rbind (dget d ''hnsw'') (\<lambda>hnsw.
     rbind (if hnsw = PNone then Inr None
            else rbind (config_object hnsw ''field HNSW config'') (\<lambda>c. Inr (Some c))) (\<lambda>config.
     rbind (dget d ''dimension'') (\<lambda>dim.
     rbind (dget d ''dtype'') (\<lambda>dtype.
     rbind (dget d ''kind'') (\<lambda>kind.
     rbind (dget d ''metric'') (\<lambda>metric.
     rbind (vector_field_init dim dtype kind metric config) (\<lambda>f.
     Inr (name, f)))))))))))"

definition decode_header :: "(string \<times> pyval) list \<Rightarrow> (collection_config \<times> (string \<times> vector_field) list) result" where
  "decode_header header =
     rbind (object_fields (PDict header) HEADER_KEYS ''point export header'') (\<lambda>_.
     rbind (dget header ''format'') (\<lambda>format.
     rbind (dget header ''version'') (\<lambda>version.
     require (format = PStr FORMAT \<and> version = PInt VERSION) (ValueError ''unsupported logical point export version'')
    (rbind (rbind (dget header ''count'') (\<lambda>v. integer_field v 0 (2 ^ 63 - 1) ''point count'')) (\<lambda>_.
     rbind (rbind (dget header ''source_sequence'') (\<lambda>v. integer_field v 0 (2 ^ 64 - 1) ''source sequence'')) (\<lambda>_.
     rbind (rbind (dget header ''config'') (\<lambda>v. config_object v ''collection config'')) (\<lambda>config.
     rbind (dget header ''vectors'') (\<lambda>vectors.
     case as_dict vectors of
       None \<Rightarrow> Inl (ValueError ''point export vectors must be a schema object'')
     | Some d \<Rightarrow> rbind (rmap decode_field d) (\<lambda>schema. Inr (config, schema))))))))))"

definition is_point_header :: "(string \<times> pyval) list \<Rightarrow> bool" where
  "is_point_header d \<longleftrightarrow> ''format'' \<in> dict_keys d \<or> ''version'' \<in> dict_keys d"

text \<open>Every failure of the decoder is a \<open>ValueError\<close>.\<close>

definition decode_line :: "string \<Rightarrow> nat \<Rightarrow> (string \<times> pyval) list result" where
  "decode_line line line_number =
     (case json_loads_strict line of
        Inl e \<Rightarrow> Inl (ValueError (''invalid NDJSON at line '' @ show_nat line_number @ '': '' @ error_text e))
      | Inr v \<Rightarrow>
          (case as_dict v of
             None \<Rightarrow> Inl (ValueError (''NDJSON line '' @ show_nat line_number @ '' must be an object''))
           | Some d \<Rightarrow> Inr d))"

definition sparse_json :: "pyval \<Rightarrow> pyval result" where
  "sparse_json v =
     (if v = PNone then Inr PNone
      else case as_list v of
        None \<Rightarrow> Inl (ValueError ''sparse values must be a list'')
      | Some xs \<Rightarrow>
          rbind (rall (\<lambda>x. rbind (object_fields x [''term_id'', ''weight''] ''sparse element'') (\<lambda>_. Inr ())) xs) (\<lambda>_. Inr v))"

text \<open>\<open>bytes.fromhex\<close> of an even number of hexadecimal digits\<close>

fun unhex :: "string \<Rightarrow> string" where
  "unhex (a # b # r) = char_of (16 * (case hex_val a of None \<Rightarrow> 0 | Some x \<Rightarrow> x) + (case hex_val b of None \<Rightarrow> 0 | Some y \<Rightarrow> y)) # unhex r"
| "unhex s = []"

definition vector_json :: "pyval \<Rightarrow> vector_field \<Rightarrow> vector_arg result" where
  "vector_json v spec =
     (if v = PNone then Inl (ValueError ''absent named vectors must be omitted'')
      else if vf_kind spec = ''binary'' then
        rbind (object_fields v [''encoding'', ''data''] ''binary vector'') (\<lambda>d.
        rbind (dget d ''data'') (\<lambda>data.
        rbind (dget d ''encoding'') (\<lambda>encoding.
        case as_str data of
          None \<Rightarrow> Inl (ValueError ''invalid binary hexadecimal data'')
        | Some t \<Rightarrow>
            require (encoding = PStr ''hex'' \<and> int (length t) = 2 * ((vf_dimension spec + 7) div 8) \<and>
                     list_all (\<lambda>c. hex_val c \<noteq> None) t) (ValueError ''invalid binary hexadecimal data'')
              (Inr (VPacked (unhex t))))))
      else if vf_kind spec = ''sparse'' then rbind (sparse_json v) (\<lambda>x. Inr (VPlain x))
      else require (as_list v \<noteq> None) (ValueError ''numeric vectors must be lists'') (Inr (VPlain v)))"

definition decode_vectors :: "(string \<times> pyval) list \<Rightarrow> (string \<times> vector_field) list \<Rightarrow> (string \<times> vector_arg) list result" where
  "decode_vectors vectors schema =
     rmap (\<lambda>(name, spec).
       case map_of vectors name of
         None \<Rightarrow> Inr (name, VPlain PNone)
       | Some v \<Rightarrow> rbind (vector_json v spec) (\<lambda>x. Inr (name, x))) schema"

definition decode_payload :: "pyval \<Rightarrow> raw_field result" where
  "decode_payload v =
     rbind (object_fields v [''name'', ''type'', ''value''] ''payload'') (\<lambda>d. raw_field_init (PDict d))"

definition decode_point ::
  "int \<Rightarrow> (string \<times> vector_field) list \<Rightarrow> (string \<times> pyval) list \<Rightarrow> point_mutation list \<Rightarrow> point_mutation list result" where
  "decode_point source_sequence schema row result =
     rbind (object_fields (PDict row) POINT_KEYS ''point record'') (\<lambda>_.
     rbind (rbind (dget row ''id'') (\<lambda>v. integer_field v (- (2 ^ 63)) (2 ^ 63 - 1) ''point ID'')) (\<lambda>point_id.
     require (point_id \<notin> set (map pm_id result)) (ValueError ''duplicate point ID in logical import'')
    (rbind (rbind (dget row ''sequence'') (\<lambda>v. integer_field v 1 source_sequence ''point sequence'')) (\<lambda>sequence.
     rbind (rbind (dget row ''document_sequence'') (\<lambda>v. integer_field v 0 sequence ''document sequence'')) (\<lambda>_.
     rbind (dget row ''vectors'') (\<lambda>raw.
     case as_dict raw of
       None \<Rightarrow> Inl (ValueError ''unknown or invalid named vectors'')
     | Some vectors \<Rightarrow>
         require (list_all (\<lambda>name. name \<in> set (map fst schema)) (map fst vectors))
           (ValueError ''unknown or invalid named vectors'')
        (rbind (decode_vectors vectors schema) (\<lambda>updates.
         rbind (dget row ''vector'') (\<lambda>vector.
         require (vector = PNone \<or> as_list vector \<noteq> None) (ValueError ''default vector must be a list or null'')
        (rbind (dget row ''fields'') (\<lambda>flds.
         case as_list flds of
           None \<Rightarrow> Inl (ValueError ''payload fields must be a list'')
         | Some xs \<Rightarrow>
             rbind (rmap decode_payload xs) (\<lambda>payload.
             rbind (rbind (dget row ''sparse'') sparse_json) (\<lambda>sparse.
             Inr (result @ [point_upsert point_id (Some updates) (Some (VPlain vector)) (Some (VPlain sparse)) (Some payload)]))))))))))))))"

definition decode_points ::
  "(string \<times> pyval) list \<Rightarrow> (string \<times> pyval) list list \<Rightarrow> (string \<times> vector_field) list \<Rightarrow> point_mutation list result" where
  "decode_points header rows schema =
     rbind (dget header ''count'') (\<lambda>count.
     require (py_eq (PInt (int (length rows))) count) (ValueError ''point export row count mismatch'')
    (rbind (rbind (dget header ''source_sequence'') as_int_or) (\<lambda>source_sequence.
     rfold (decode_point source_sequence schema) rows [])))"

end
