(* ===== verification/Operations.thy ===== *)
theory Operations
  imports LogicalPoints LineLog
begin

text \<open>
  Operational tooling (operations.py): storage reports, the export of a collection to a line
  file and its import, and the quarantine of unreferenced storage files. The functions of the
  kernel module that inspect and restore a directory are parameters. \<open>d n\<close> is the duration
  measured around the \<open>n\<close>-th kernel call of an operation.
\<close>

section \<open>Reports\<close>

record storage_report =
  rep_dimension :: int
  rep_format_version :: int
  rep_generation :: int
  rep_last_sequence :: int
  rep_segment_count :: int
  rep_live_points :: int
  rep_valid :: bool
  rep_config_fingerprint :: int
  rep_segment_names :: "string list"
  rep_sparse_names :: "string list"

definition item_names :: "pyval \<Rightarrow> string \<Rightarrow> string list result" where
  "item_names v k = rbind (rbind (item v k) as_list_or) (\<lambda>xs. Inr (map py_str xs))"

definition report_from_kernel :: "pyval \<Rightarrow> storage_report result" where
  "report_from_kernel v =
     rbind (item_int v ''dimension'') (\<lambda>dim.
     rbind (item_int v ''format_version'') (\<lambda>format_version.
     rbind (item_int v ''generation'') (\<lambda>generation.
     rbind (item_int v ''last_sequence'') (\<lambda>last_sequence.
     rbind (item_int v ''segment_count'') (\<lambda>segment_count.
     rbind (item_int v ''live_points'') (\<lambda>live_points.
     rbind (item v ''valid'') (\<lambda>valid.
     rbind (item_int v ''config_fingerprint'') (\<lambda>fingerprint.
     rbind (item_names v ''segment_names'') (\<lambda>segments.
     rbind (item_names v ''sparse_names'') (\<lambda>sparse.
     Inr \<lparr>rep_dimension = dim, rep_format_version = format_version, rep_generation = generation,
          rep_last_sequence = last_sequence, rep_segment_count = segment_count, rep_live_points = live_points,
          rep_valid = py_truth valid, rep_config_fingerprint = fingerprint, rep_segment_names = segments,
          rep_sparse_names = sparse\<rparr>))))))))))"

definition inspect_storage :: "(string \<Rightarrow> int \<Rightarrow> pyval result) \<Rightarrow> string \<Rightarrow> int \<Rightarrow> storage_report result" where
  "inspect_storage inspect path dim = rbind (inspect path dim) report_from_kernel"

definition restore_storage ::
  "(string \<Rightarrow> string \<Rightarrow> int \<Rightarrow> pyval result) \<Rightarrow> string \<Rightarrow> string \<Rightarrow> int \<Rightarrow> storage_report result" where
  "restore_storage restore backup target dim = rbind (restore backup target dim) report_from_kernel"

definition backup_collection :: "'k kernel \<Rightarrow> int \<Rightarrow> string \<Rightarrow> ('k coll, storage_report) action" where
  "backup_collection mojo duration target =
     bind (coll_backup mojo duration target) (\<lambda>v. pure (report_from_kernel v))"

section \<open>Export\<close>

text \<open>Text that a UTF-8 file can hold: no encoded surrogate.\<close>

fun no_surrogate :: "string \<Rightarrow> bool" where
  "no_surrogate (c # e # r) \<longleftrightarrow> \<not> (of_char c = (237 :: nat) \<and> 160 \<le> (of_char e :: nat)) \<and> no_surrogate (e # r)"
| "no_surrogate s \<longleftrightarrow> True"

definition row_line :: "pyval \<Rightarrow> string result" where
  "row_line v =
     rbind (dump_row v) (\<lambda>t. require (no_surrogate t) (ValueError ''surrogates not allowed'') (Inr (t @ [LF])))"

text \<open>The rows of a collection, with a header when it has named vectors.\<close>

definition export_rows :: "'k kernel \<Rightarrow> (nat \<Rightarrow> int) \<Rightarrow> ('k coll, pyval option \<times> pyval list) action" where
  "export_rows mojo d =
     bind (coll_export_points mojo (d 0)) (\<lambda>captured.
     case captured of
       None \<Rightarrow>
         bind (coll_export_records mojo (d 1)) (\<lambda>raw.
         bind (pure (as_list_or raw)) (\<lambda>rows. ok (None, rows)))
     | Some c \<Rightarrow> bind (pure (encode_export c)) (\<lambda>(header, rows). ok (Some header, rows)))"

definition export_text :: "pyval option \<times> pyval list \<Rightarrow> string result" where
  "export_text = (\<lambda>(header, rows).
     rbind (rmap row_line ((case header of None \<Rightarrow> [] | Some h \<Rightarrow> [h]) @ rows)) (\<lambda>lines. Inr (concat lines)))"

text \<open>
  The lines go to a temporary sibling with a fresh name, which is renamed over the target; the
  temporary file is removed whatever happens. The files are what the directory holds.
\<close>

type_synonym named_files = "string \<rightharpoonup> string"

definition export_ndjson ::
  "'k kernel \<Rightarrow> (nat \<Rightarrow> int) \<Rightarrow> string \<Rightarrow> string \<Rightarrow> ('k coll \<times> named_files, int) action" where
  "export_ndjson mojo d temporary destination =
     bind (zoom fst (\<lambda>c (_, fs). (c, fs)) (export_rows mojo d)) (\<lambda>rows (c, fs).
     case export_text rows of
       Inl e \<Rightarrow> (Inl e, (c, fs(temporary := None)))
     | Inr t \<Rightarrow> (Inr (int (length (snd rows))), (c, (fs(destination \<mapsto> t))(temporary := None))))"

section \<open>Import\<close>

text \<open>
  Python's conversions of text to numbers and of containers to text, which the rows of the
  older format go through.
\<close>

record conversions =
  int_of_text :: "string \<Rightarrow> int result"
  float_of_text :: "string \<Rightarrow> pyfloat result"
  str_of_value :: "pyval \<Rightarrow> string"

definition to_int :: "conversions \<Rightarrow> pyval \<Rightarrow> int result" where
  "to_int cv v = (case as_str v of None \<Rightarrow> py_to_int v | Some s \<Rightarrow> int_of_text cv s)"

definition to_float :: "conversions \<Rightarrow> pyval \<Rightarrow> pyfloat result" where
  "to_float cv v = (case as_str v of None \<Rightarrow> py_to_float v | Some s \<Rightarrow> float_of_text cv s)"

definition to_str :: "conversions \<Rightarrow> pyval \<Rightarrow> string" where
  "to_str cv v = (case as_str v of None \<Rightarrow> str_of_value cv v | Some s \<Rightarrow> s)"

text \<open>Iteration over a value: the elements of a list, the keys of an object, the characters of a string.\<close>

function code_points :: "string \<Rightarrow> string list" where
  "code_points s =
     (case utf8_step s of None \<Rightarrow> [] | Some r \<Rightarrow> take (length s - length r) s # code_points r)"
  by pat_completeness auto
termination
  by (relation "measure length") (auto dest: utf8_step_less)

fun iterate :: "pyval \<Rightarrow> pyval list result" where
  "iterate (PList xs) = Inr xs"
| "iterate (PDict d) = Inr (map (\<lambda>(k, _). PStr k) d)"
| "iterate (PStr s) = Inr (map PStr (code_points s))"
| "iterate v = Inl (TypeError ''object is not iterable'')"

definition validate_sparse :: "sparse_element list \<Rightarrow> int result" where
  "validate_sparse elements =
     rfold (\<lambda>e previous.
       require (0 \<le> se_term_id e \<and> previous < se_term_id e)
         (ValueError ''sparse term IDs must be non-negative and ascending'')
      (require (finite_val (PFloat (se_weight e)) \<and> fkey (se_weight e) \<noteq> 0)
         (ValueError ''sparse weights must be finite and non-zero'')
        (Inr (se_term_id e)))) elements (-1)"

definition legacy_field :: "conversions \<Rightarrow> pyval \<Rightarrow> payload_field result" where
  "legacy_field cv v =
     rbind (item v ''name'') (\<lambda>name.
     rbind (item v ''type'') (\<lambda>kind.
     rbind (item v ''value'') (\<lambda>value.
     Inr \<lparr>pf_name = to_str cv name, pf_type = to_str cv kind, pf_value = value\<rparr>)))"

definition legacy_element :: "conversions \<Rightarrow> pyval \<Rightarrow> sparse_element result" where
  "legacy_element cv v =
     rbind (rbind (item v ''term_id'') (to_int cv)) (\<lambda>t.
     rbind (rbind (item v ''weight'') (to_float cv)) (\<lambda>w.
     Inr \<lparr>se_term_id = t, se_weight = w\<rparr>))"

definition legacy_row ::
  "conversions \<Rightarrow> (string \<times> pyval) list \<Rightarrow> (batch_mutation \<times> int \<times> sparse_element list) result" where
  "legacy_row cv row =
     rbind (rbind (dget row ''id'') (to_int cv)) (\<lambda>point_id.
     rbind (rbind (rbind (dget row ''vector'') iterate) (rmap (to_float cv))) (\<lambda>vector.
     rbind (rbind (iterate (dget_default row ''fields'' (PList []))) (rmap (legacy_field cv))) (\<lambda>flds.
     rbind (rbind (iterate (dget_default row ''sparse'' (PList []))) (rmap (legacy_element cv))) (\<lambda>elements.
     rbind (validate_sparse elements) (\<lambda>_.
     Inr (BatchUpsert point_id vector flds, point_id, elements))))))"

text \<open>
  Reading the rows: at most \<open>max_batch_rows\<close> besides the header. The file is decoded as a
  whole before its lines are.
\<close>

definition header_rows :: "(string \<times> pyval) list list \<Rightarrow> int" where
  "header_rows rows = (case rows of [] \<Rightarrow> 0 | first # _ \<Rightarrow> if is_point_header first then 1 else 0)"

definition read_line :: "resource_limits \<Rightarrow> nat \<times> string \<Rightarrow> (string \<times> pyval) list list \<Rightarrow> (string \<times> pyval) list list result" where
  "read_line limits = (\<lambda>(line_number, line) rows.
     rbind (decode_line line line_number) (\<lambda>row.
     let rows = rows @ [row] in
     require (int (length rows) - header_rows rows \<le> max_batch_rows limits)
       (ValueError ''logical import resource limit exceeded'') (Inr rows)))"

definition read_text :: "string option \<Rightarrow> string result" where
  "read_text f =
     (case f of
        None \<Rightarrow> Inl (FileNotFoundError ''logical import'')
      | Some data \<Rightarrow> require (utf8_ok data \<and> no_surrogate data) (UnicodeDecodeError ''invalid utf-8'') (Inr data))"

definition read_rows :: "resource_limits \<Rightarrow> string option \<Rightarrow> (string \<times> pyval) list list result" where
  "read_rows limits f =
     rbind (read_text f) (\<lambda>data. rfold (read_line limits) (enumerate 1 (splitlines data)) [])"

definition import_schema :: "string option \<Rightarrow> (collection_config \<times> (string \<times> vector_field) list) option result" where
  "import_schema f =
     rbind (read_text f) (\<lambda>data.
     case splitlines data of
       [] \<Rightarrow> Inr None
     | line # _ \<Rightarrow>
         rbind (decode_line line 1) (\<lambda>header.
         if is_point_header header then rbind (decode_header header) (\<lambda>x. Inr (Some x)) else Inr None))"

definition import_points ::
  "'k kernel \<Rightarrow> (nat \<Rightarrow> int) \<Rightarrow> (string \<times> pyval) list \<Rightarrow> (string \<times> pyval) list list \<Rightarrow> ('k coll, int) action" where
  "import_points mojo d header rows =
     bind (pure (decode_header header)) (\<lambda>(config, schema).
     bind (coll_is_point_collection mojo (d 0)) (\<lambda>aware.
     bind (check aware (ValueError ''logical point import requires a field-aware target'')) (\<lambda>_.
     bind (coll_config mojo (d 1)) (\<lambda>stored.
     bind (check (config_eq config stored) (ValueError ''logical point import schema does not match target'')) (\<lambda>_.
     bind (coll_vector_fields mojo (d 2)) (\<lambda>fields.
     bind (check (schema_eq schema fields) (ValueError ''logical point import schema does not match target'')) (\<lambda>_.
     bind (pure (decode_points header rows schema)) (\<lambda>mutations.
     bind (if mutations = [] then ok () else bind (coll_apply_point_batch mojo (d 3) mutations) (\<lambda>_. ok ())) (\<lambda>_.
     ok (int (length mutations)))))))))))"

definition import_sparse ::
  "'k kernel \<Rightarrow> (nat \<Rightarrow> int) \<Rightarrow> (nat \<times> int \<times> sparse_element list) list \<Rightarrow> ('k coll, unit) action" where
  "import_sparse mojo d =
     each (\<lambda>(n, point_id, elements). if elements = [] then ok () else coll_upsert_sparse mojo (d n) point_id elements)"

definition import_legacy ::
  "conversions \<Rightarrow> 'k kernel \<Rightarrow> (nat \<Rightarrow> int) \<Rightarrow> (string \<times> pyval) list list \<Rightarrow> ('k coll, int) action" where
  "import_legacy cv mojo d rows =
     bind (gets co_limits) (\<lambda>limits.
     bind (check (int (length rows) \<le> max_batch_rows limits) (ValueError ''logical import resource limit exceeded'')) (\<lambda>_.
     bind (pure (rmap (legacy_row cv) rows)) (\<lambda>parsed.
     bind (coll_apply_batch mojo (d 0) (map fst parsed)) (\<lambda>_.
     bind (import_sparse mojo d (enumerate 1 (map snd parsed))) (\<lambda>_.
     ok (int (length rows)))))))"

definition import_ndjson :: "conversions \<Rightarrow> 'k kernel \<Rightarrow> (nat \<Rightarrow> int) \<Rightarrow> string option \<Rightarrow> ('k coll, int) action" where
  "import_ndjson cv mojo d f =
     bind (gets co_limits) (\<lambda>limits.
     bind (pure (read_rows limits f)) (\<lambda>rows.
     case rows of
       [] \<Rightarrow> raise (ValueError ''logical import cannot be empty'')
     | first # rest \<Rightarrow>
         if is_point_header first then import_points mojo d first rest else import_legacy cv mojo d rows))"

section \<open>Quarantine\<close>

text \<open>
  The pattern of the files that a crash can leave behind; the digits are ASCII, as in the
  names the storage writes.
\<close>

definition strip_prefix :: "string \<Rightarrow> string \<Rightarrow> string option" where
  "strip_prefix p s = (if prefix p s then Some (drop (length p) s) else None)"

definition numbered :: "string \<Rightarrow> bool" where
  "numbered s \<longleftrightarrow>
     (let digits = takeWhile is_digit s; rest = dropWhile is_digit s
      in digits \<noteq> [] \<and> rest \<in> {''.bin'', ''.bin.tmp''})"

definition artifact :: "string \<Rightarrow> string \<Rightarrow> bool" where
  "artifact kind name \<longleftrightarrow>
     (case strip_prefix kind name of
        None \<Rightarrow> False
      | Some s \<Rightarrow> list_ex (\<lambda>p. case strip_prefix p s of None \<Rightarrow> False | Some r \<Rightarrow> numbered r) [''base-'', ''delta-'', ''''])"

definition orphan_pattern :: "string \<Rightarrow> bool" where
  "orphan_pattern name \<longleftrightarrow> artifact ''segment-'' name \<or> artifact ''sparse-'' name \<or> name = ''manifest.bin.tmp''"

text \<open>A storage directory and the quarantine: the files of each by name.\<close>

record storage_dirs =
  sd_files :: "(string \<times> string) list"
  sd_quarantine :: "(string \<times> string) list"

definition quarantine_file ::
  "string list \<Rightarrow> string \<times> string \<Rightarrow> storage_dirs \<times> string list \<Rightarrow> (err \<times> storage_dirs) + storage_dirs \<times> string list" where
  "quarantine_file referenced = (\<lambda>(name, data) (s, moved).
     if name \<in> set referenced \<or> \<not> orphan_pattern name then Inr (s, moved)
     else if map_of (sd_quarantine s) name \<noteq> None then Inl (FileExistsError (''quarantine target exists: '' @ name), s)
     else Inr (\<lparr>sd_files = dict_del name (sd_files s), sd_quarantine = dict_set name data (sd_quarantine s)\<rparr>, moved @ [name]))"

fun quarantine_loop ::
  "string list \<Rightarrow> (string \<times> string) list \<Rightarrow> storage_dirs \<times> string list \<Rightarrow> string list result \<times> storage_dirs" where
  "quarantine_loop referenced [] (s, moved) = (Inr moved, s)"
| "quarantine_loop referenced (x # xs) t =
     (case quarantine_file referenced x t of
        Inl (e, s) \<Rightarrow> (Inl e, s)
      | Inr t' \<Rightarrow> quarantine_loop referenced xs t')"

definition quarantine_orphans ::
  "(string \<Rightarrow> int \<Rightarrow> pyval result) \<Rightarrow> string \<Rightarrow> int \<Rightarrow> (storage_dirs, string list) action" where
  "quarantine_orphans inspect path dim =
     bind (pure (inspect_storage inspect path dim)) (\<lambda>report s.
     quarantine_loop (''manifest.bin'' # rep_segment_names report @ rep_sparse_names report)
       (sort_items (sd_files s)) (s, []))"

end
