(* ===== verification/FieldSchema.thy ===== *)
theory FieldSchema
  imports Vectors
begin

text \<open>
  The vector fields that \<open>VectorField.__post_init__\<close> accepts (vectors.py), described by a
  table of kinds: the constructor accepts exactly the fields of the table.
\<close>

definition valid_shape :: "int \<Rightarrow> string \<Rightarrow> string \<Rightarrow> string \<Rightarrow> bool" where
  "valid_shape dim dtype kind metric \<longleftrightarrow>
     0 \<le> dim \<and> dim \<le> 0xFFFFFFFF \<and>
     (if kind \<in> {''dense'', ''multivector''} then
        dim \<noteq> 0 \<and> dtype \<in> {''f32'', ''bf16'', ''f16'', ''i8'', ''u8''} \<and> metric \<in> {''dot'', ''l2'', ''cosine''}
      else if kind = ''sparse'' then dim = 0 \<and> dtype = ''f32'' \<and> metric = ''dot''
      else kind = ''binary'' \<and> dim \<noteq> 0 \<and> dtype = ''binary'' \<and> metric \<in> {''hamming'', ''jaccard''})"

definition valid_field :: "vector_field \<Rightarrow> bool" where
  "valid_field f \<longleftrightarrow>
     valid_shape (vf_dimension f) (vf_dtype f) (vf_kind f) (vf_metric f) \<and>
     (case vf_hnsw f of
        None \<Rightarrow> True
      | Some c \<Rightarrow> vf_kind f = ''dense'' \<and> cc_dimension c = vf_dimension f \<and> cc_ann_metric c = vf_metric f)"

definition field_args :: "vector_field \<Rightarrow> pyval \<times> pyval \<times> pyval \<times> pyval" where
  "field_args f = (PInt (vf_dimension f), PStr (vf_dtype f), PStr (vf_kind f), PStr (vf_metric f))"

lemma check_choice_Inr: "check_choice v choices e = Inr x \<longleftrightarrow> v = PStr x \<and> x \<in> set choices"
  by (cases v) (auto simp: check_choice_def)

lemma check_int_Inr: "check_int v e = Inr i \<longleftrightarrow> v = PInt i"
  by (cases v) (auto simp: check_int_def)

lemma in_choices_Inr: "in_choices v choices = Inr b \<longleftrightarrow> hashable v \<and> b = (v \<in> PStr ` set choices)"
  by (auto simp: in_choices_def)

lemma check_hnsw_Inr:
  "check_hnsw dim dtype kind metric hnsw = Inr f \<longleftrightarrow>
     f = \<lparr>vf_dimension = dim, vf_dtype = dtype, vf_kind = kind, vf_metric = metric, vf_hnsw = hnsw\<rparr> \<and>
     (case hnsw of None \<Rightarrow> True | Some c \<Rightarrow> kind = ''dense'' \<and> cc_dimension c = dim \<and> cc_ann_metric c = metric)"
  by (auto simp: check_hnsw_def)

lemmas field_Inr = check_choice_Inr check_int_Inr in_choices_Inr check_hnsw_Inr

lemma init_accepts:
  assumes "vector_field_init d t k m h = Inr f"
  shows "(d, t, k, m) = field_args f \<and> h = vf_hnsw f \<and> valid_field f"
proof -
  obtain dim dtype where dt: "d = PInt dim" "t = PStr dtype" "0 \<le> dim" "dim \<le> 0xFFFFFFFF" "dtype \<in> set VECTOR_DTYPES"
    using assms by (auto simp: vector_field_init_def check_choice_Inr check_int_Inr)
  consider (numeric) "k \<in> {PStr ''dense'', PStr ''multivector''}" | (sparse) "k = PStr ''sparse''"
    | (binary) "k = PStr ''binary''"
    using assms by (auto simp: vector_field_init_def in_choices_def split: if_splits)
  then show ?thesis
  proof cases
    case numeric
    have num: "in_choices k [''dense'', ''multivector''] = Inr True" using numeric by (auto simp: in_choices_def)
    have "rbind (in_choices m [''dot'', ''l2'', ''cosine'']) (\<lambda>known. require known (ValueError ''invalid numeric vector schema'')
        (check_hnsw dim dtype (py_str k) (py_str m) h)) = Inr f" and nz: "dim \<noteq> 0" "dtype \<noteq> ''binary''"
      using assms dt by (simp_all add: vector_field_init_def check_int_def check_choice_def num)
    then obtain metric where "m = PStr metric" "metric \<in> {''dot'', ''l2'', ''cosine''}" 
      "check_hnsw dim dtype (py_str k) metric h = Inr f"
      by (auto simp: in_choices_def split: if_splits)
    moreover have "k = PStr (py_str k)" "py_str k \<in> {''dense'', ''multivector''}" using numeric by auto
    moreover have "dtype \<in> {''f32'', ''bf16'', ''f16'', ''i8'', ''u8''}" using dt(5) nz(2) by (simp add: VECTOR_DTYPES_def)
    ultimately show ?thesis using dt nz(1)
      by (simp only: check_hnsw_Inr field_args_def valid_field_def valid_shape_def vector_field.simps prod.inject if_True) blast
  next
    case sparse
    with assms dt have "m = PStr ''dot''" "dim = 0" "dtype = ''f32''" "check_hnsw dim dtype ''sparse'' ''dot'' h = Inr f"
      by (auto simp: vector_field_init_def check_int_def check_choice_def in_choices_def)
    with sparse dt show ?thesis by (auto simp: check_hnsw_Inr field_args_def valid_field_def valid_shape_def split: option.splits)
  next
    case binary
    with assms dt obtain metric where "m = PStr metric" "metric \<in> {''hamming'', ''jaccard''}" "dim \<noteq> 0" "dtype = ''binary''"
      "check_hnsw dim dtype ''binary'' metric h = Inr f"
      by (auto simp: vector_field_init_def check_int_def check_choice_def in_choices_def split: if_splits)
    with binary dt show ?thesis by (auto simp: check_hnsw_Inr field_args_def valid_field_def valid_shape_def split: option.splits)
  qed
qed

lemma init_complete:
  assumes "valid_field f"
  shows "vector_field_init (PInt (vf_dimension f)) (PStr (vf_dtype f)) (PStr (vf_kind f)) (PStr (vf_metric f)) (vf_hnsw f) = Inr f"
  using assms unfolding vector_field_init_def
  by (auto simp: field_Inr valid_field_def valid_shape_def VECTOR_DTYPES_def check_int_def check_choice_def in_choices_def split: if_splits option.splits)

text \<open>
  C32: a vector field is constructed from four raw values and a graph configuration exactly
  when these are the parts of a field whose dimension, element type, metric and graph fit its
  kind; no other schema ever reaches the kernel.
\<close>

theorem vector_field_admission:
  "vector_field_init d t k m h = Inr f \<longleftrightarrow> (d, t, k, m) = field_args f \<and> h = vf_hnsw f \<and> valid_field f"
  using init_accepts init_complete by (auto simp: field_args_def)

end
