(* ===== verification/ExportCodec.thy ===== *)
theory ExportCodec
  imports Operations FieldSchema
begin

text \<open>
  The point export as a codec: what \<open>encode_export\<close> writes for a capture of the kernel,
  \<open>decode_header\<close> and \<open>decode_points\<close> read back as the configuration, the schema and the
  mutations that restore the captured points.
\<close>

section \<open>Configurations\<close>

definition valid_config :: "collection_config \<Rightarrow> bool" where
  "valid_config c \<longleftrightarrow>
     0 < cc_dimension c \<and> cc_ann_metric c \<in> set [''dot'', ''l2'', ''cosine''] \<and>
     cc_scalar_kind c \<in> set [''f32'', ''bf16'', ''f16'', ''i8''] \<and> 0 \<le> cc_level_seed c \<and> cc_level_seed c \<le> 0xFFFFFFFFFFFFFFFF"

lemma config_init_valid:
  assumes "collection_config_init d = Inr c"
  shows "valid_config c"
  using assms unfolding collection_config_init_def Let_def
  by (elim rbind_eq_Inr [THEN iffD1, elim_format] exE conjE require_eq_Inr [THEN iffD1, elim_format])
    (simp add: valid_config_def check_choice_Inr, clarsimp)

lemma config_init_fields:
  assumes "valid_config c" and "\<And>k. k \<in> set COLLECTION_CONFIG_FIELDS \<Longrightarrow> map_of d k = map_of (config_fields c) k"
  shows "collection_config_init d = Inr c"
proof -
  have get: "dget d k = dget (config_fields c) k" if "k \<in> set COLLECTION_CONFIG_FIELDS" for k
    using assms(2) [OF that] by (simp add: dget_def)
  have "collection_config_init d = collection_config_init (config_fields c)"
    unfolding collection_config_init_def Let_def by (simp only: get COLLECTION_CONFIG_FIELDS_def list.set insert_iff simp_thms)
  also have "\<dots> = Inr c"
    using assms(1) unfolding collection_config_init_def Let_def
    by (simp add: valid_config_def config_fields_def dget_def check_int_def check_choice_def split: option.splits)
  finally show ?thesis .
qed

lemma config_keys_plain: "map fst (filter (\<lambda>(k, _). k \<in> set CONFIG_KEYS) (config_fields c)) = CONFIG_KEYS"
  by (simp add: config_fields_def CONFIG_KEYS_def)

lemma config_json_items: "config_json c = PDict (sort_items (filter (\<lambda>(k, _). k \<in> set CONFIG_KEYS) (config_fields c)))"
  by (simp add: config_json_def)

lemma config_object_json:
  assumes "valid_config c"
  shows "config_object (config_json c) label = Inr (c\<lparr>cc_fingerprint := None\<rparr>)"
proof -
  let ?d = "filter (\<lambda>(k, _). k \<in> set CONFIG_KEYS) (config_fields c)"
  have dist: "distinct (map fst ?d)" unfolding config_keys_plain by (simp add: CONFIG_KEYS_def)
  have "set (map fst (sort_items ?d)) = set (map fst ?d)" by (simp only: set_map set_sort_items)
  then have "set (map fst (sort_items ?d)) = set CONFIG_KEYS" by (simp only: config_keys_plain)
  then have "has_fields (sort_items ?d) CONFIG_KEYS" by (simp only: has_fields_def dict_keys_def)
  moreover have "collection_config_init (sort_items ?d @ [(''fingerprint'', PNone)]) = Inr (c\<lparr>cc_fingerprint := None\<rparr>)"
  proof (rule config_init_fields)
    show "valid_config (c\<lparr>cc_fingerprint := None\<rparr>)" using assms by (simp add: valid_config_def)
    fix k assume "k \<in> set COLLECTION_CONFIG_FIELDS"
    moreover have "map_of (sort_items ?d @ [(''fingerprint'', PNone)]) k =
        (case map_of ?d k of None \<Rightarrow> if k = ''fingerprint'' then Some PNone else None | Some v \<Rightarrow> Some v)"
      unfolding map_of_append map_add_def map_of_sort_items [OF dist] by (simp cong: option.case_cong)
    ultimately show "map_of (sort_items ?d @ [(''fingerprint'', PNone)]) k = map_of (config_fields (c\<lparr>cc_fingerprint := None\<rparr>)) k"
      by (auto simp: COLLECTION_CONFIG_FIELDS_def config_fields_def CONFIG_KEYS_def)
  qed
  ultimately show ?thesis by (simp add: config_object_def object_fields_def config_json_def)
qed

section \<open>Schemas\<close>

definition plain_field :: "vector_field \<Rightarrow> vector_field" where
  "plain_field f = f\<lparr>vf_hnsw := map_option (\<lambda>c. c\<lparr>cc_fingerprint := None\<rparr>) (vf_hnsw f)\<rparr>"

definition field_ok :: "string \<times> vector_field \<Rightarrow> bool" where
  "field_ok = (\<lambda>(name, f). field_name_ok name \<and> valid_field f \<and> (case vf_hnsw f of None \<Rightarrow> True | Some c \<Rightarrow> valid_config c))"

lemma decode_field_json:
  assumes "field_ok (name, f)"
  shows "decode_field (name, field_json f) = Inr (name, plain_field f)"
proof -
  have "valid_field (plain_field f)"
    using assms by (cases "vf_hnsw f") (auto simp: field_ok_def plain_field_def valid_field_def)
  from init_complete [OF this] assms config_object_json show ?thesis
    by (cases "vf_hnsw f")
      (simp_all add: decode_field_def field_json_def object_fields_def has_fields_def dict_keys_def FIELD_KEYS_def dget_def
        field_ok_def plain_field_def config_json_items)
qed

section \<open>Bytes\<close>

lemma unhex_text [simp]: "unhex (hex_text b) = b"
proof (induction b)
  case (Cons c b)
  have "(of_char c :: nat) < 256" by (rule nat_of_char_less_256)
  then have "(of_char c :: nat) div 16 < 16" by (simp add: less_mult_imp_div_less)
  with Cons show ?case by (simp add: hex_text_def)
qed (simp add: hex_text_def)

lemma length_hex_text [simp]: "length (hex_text b) = 2 * length b"
  by (induction b) (simp_all add: hex_text_def)

lemma hex_text_digits: "list_all (\<lambda>c. hex_val c \<noteq> None) (hex_text b)"
proof (induction b)
  case (Cons c b)
  have "(of_char c :: nat) < 256" by (rule nat_of_char_less_256)
  then have "(of_char c :: nat) div 16 < 16" by (simp add: less_mult_imp_div_less)
  with Cons show ?case by (simp add: hex_text_def)
qed (simp add: hex_text_def)

section \<open>Points\<close>

text \<open>A point as the kernel captures it for an export, and the dictionary it arrives in.\<close>

record captured_point =
  cp_id :: int
  cp_sequence :: int
  cp_document_sequence :: int
  cp_vector :: pyval
  cp_sparse :: pyval
  cp_vectors :: "(string \<times> karg) list"
  cp_fields :: "raw_field list"

definition captured_row :: "captured_point \<Rightarrow> karg" where
  "captured_row p =
     KDict [(''id'', KVal (PInt (cp_id p))), (''sequence'', KVal (PInt (cp_sequence p))),
            (''document_sequence'', KVal (PInt (cp_document_sequence p))), (''vector'', KVal (cp_vector p)),
            (''sparse'', KVal (cp_sparse p)), (''vectors'', KDict (cp_vectors p)),
            (''fields'', KVal (PList (map raw_field_to_kernel (cp_fields p))))]"

definition sparse_list :: "pyval \<Rightarrow> bool" where
  "sparse_list v \<longleftrightarrow> (\<exists>xs. v = PList xs \<and> list_all (\<lambda>x. \<exists>d. x = PDict d \<and> has_fields d [''term_id'', ''weight'']) xs)"

definition vector_ok :: "vector_field \<Rightarrow> karg \<Rightarrow> bool" where
  "vector_ok spec v \<longleftrightarrow>
     (if vf_kind spec = ''binary'' then \<exists>b. v = KBytes b \<and> int (length b) = (vf_dimension spec + 7) div 8
      else if vf_kind spec = ''sparse'' then \<exists>x. v = KVal x \<and> sparse_list x
      else \<exists>xs. v = KVal (PList xs))"

definition captured_ok :: "(string \<times> vector_field) list \<Rightarrow> int \<Rightarrow> captured_point \<Rightarrow> bool" where
  "captured_ok schema source p \<longleftrightarrow>
     - (2 ^ 63) \<le> cp_id p \<and> cp_id p \<le> 2 ^ 63 - 1 \<and> 1 \<le> cp_sequence p \<and> cp_sequence p \<le> source \<and>
     0 \<le> cp_document_sequence p \<and> cp_document_sequence p \<le> cp_sequence p \<and>
     (cp_vector p = PNone \<or> as_list (cp_vector p) \<noteq> None) \<and> (cp_sparse p = PNone \<or> sparse_list (cp_sparse p)) \<and>
     list_all (\<lambda>(name, v). case map_of schema name of None \<Rightarrow> False | Some spec \<Rightarrow> vector_ok spec v) (cp_vectors p)"

text \<open>The point in the file, and the mutation that restores it.\<close>

definition vector_text :: "karg \<Rightarrow> pyval" where
  "vector_text v =
     (case v of KBytes b \<Rightarrow> PDict [(''encoding'', PStr ''hex''), (''data'', PStr (hex_text b))] | KVal x \<Rightarrow> x | _ \<Rightarrow> PNone)"

definition point_items :: "captured_point \<Rightarrow> (string \<times> pyval) list" where
  "point_items p =
     [(''id'', PInt (cp_id p)), (''sequence'', PInt (cp_sequence p)), (''document_sequence'', PInt (cp_document_sequence p)),
      (''vector'', cp_vector p), (''sparse'', cp_sparse p),
      (''vectors'', PDict (map (\<lambda>(name, v). (name, vector_text v)) (cp_vectors p))),
      (''fields'', PList (map raw_field_to_kernel (cp_fields p)))]"

definition restored_vector :: "karg \<Rightarrow> vector_arg" where
  "restored_vector v = (case v of KBytes b \<Rightarrow> VPacked b | KVal x \<Rightarrow> VPlain x | _ \<Rightarrow> VPlain PNone)"

definition restore_point :: "(string \<times> vector_field) list \<Rightarrow> captured_point \<Rightarrow> point_mutation" where
  "restore_point schema p =
     point_upsert (cp_id p)
       (Some (map (\<lambda>(name, _). (name, case map_of (cp_vectors p) name of None \<Rightarrow> VPlain PNone | Some v \<Rightarrow> restored_vector v)) schema))
       (Some (VPlain (cp_vector p))) (Some (VPlain (cp_sparse p))) (Some (cp_fields p))"

lemma rmap_Inr: "(\<And>x. x \<in> set xs \<Longrightarrow> f x = Inr (g x)) \<Longrightarrow> rmap f xs = Inr (map g xs)"
  by (induction xs) simp_all

lemma rmap_inverse: "(\<And>x. f (g x) = Inr x) \<Longrightarrow> rmap f (map g xs) = Inr xs"
  by (induction xs) simp_all

lemma encode_vector_ok:
  assumes "map_of schema name = Some spec" "vector_ok spec v"
  shows "encode_vector schema (name, v) = Inr (name, vector_text v)"
  using assms by (auto simp: encode_vector_def vector_ok_def vector_text_def sparse_list_def split: if_splits)

lemma encode_row_ok:
  assumes "captured_ok schema source p"
  shows "encode_row schema (captured_row p) = Inr (PDict (point_items p))"
proof -
  have "rmap (encode_vector schema) (cp_vectors p) = Inr (map (\<lambda>(name, v). (name, vector_text v)) (cp_vectors p))"
    using assms encode_vector_ok [of schema]
    by (intro rmap_Inr) (force simp: captured_ok_def list_all_iff split: option.splits)
  then show ?thesis by (simp add: encode_row_def captured_row_def kget_def point_items_def)
qed

lemma sparse_json_ok: "v = PNone \<or> sparse_list v \<Longrightarrow> sparse_json v = Inr v"
proof (elim disjE)
  assume "sparse_list v"
  then obtain xs where "v = PList xs" "list_all (\<lambda>x. \<exists>d. x = PDict d \<and> has_fields d [''term_id'', ''weight'']) xs"
    by (auto simp: sparse_list_def)
  moreover from this(2) have "rall (\<lambda>x. rbind (object_fields x [''term_id'', ''weight''] ''sparse element'') (\<lambda>_. Inr ())) xs = Inr ()"
    by (induction xs) (auto simp: object_fields_def)
  ultimately show ?thesis by (simp add: sparse_json_def)
qed (simp add: sparse_json_def)

lemma vector_json_ok:
  assumes "vector_ok spec v"
  shows "vector_json (vector_text v) spec = Inr (restored_vector v)"
  using assms sparse_json_ok hex_text_digits
  by (auto simp: vector_ok_def vector_json_def vector_text_def restored_vector_def object_fields_def has_fields_def dict_keys_def
      dget_def sparse_list_def split: if_splits)

lemma decode_vectors_ok:
  assumes "captured_ok schema source p" "distinct (map fst schema)"
  shows "decode_vectors (map (\<lambda>(name, v). (name, vector_text v)) (cp_vectors p)) schema =
    Inr (map (\<lambda>(name, _). (name, case map_of (cp_vectors p) name of None \<Rightarrow> VPlain PNone | Some v \<Rightarrow> restored_vector v)) schema)"
  unfolding decode_vectors_def
proof (rule rmap_Inr)
  fix x assume x: "x \<in> set schema"
  obtain name spec where ns: "x = (name, spec)" by (cases x)
  with x assms(2) have spec: "map_of schema name = Some spec" by simp
  have "vector_ok spec v" if "map_of (cp_vectors p) name = Some v" for v
    using assms(1) spec map_of_SomeD [OF that] by (auto simp: captured_ok_def list_all_iff)
  then show "(case x of (name, spec) \<Rightarrow> case map_of (map (\<lambda>(name, v). (name, vector_text v)) (cp_vectors p)) name of
        None \<Rightarrow> Inr (name, VPlain PNone) | Some v \<Rightarrow> rbind (vector_json v spec) (\<lambda>x. Inr (name, x))) =
      Inr (case x of (name, _) \<Rightarrow> (name, case map_of (cp_vectors p) name of None \<Rightarrow> VPlain PNone | Some v \<Rightarrow> restored_vector v))"
    using vector_json_ok by (simp add: ns map_of_map_snd split: option.splits)
qed

lemma decode_payload_ok: "decode_payload (raw_field_to_kernel f) = Inr f"
  by (simp add: decode_payload_def raw_field_to_kernel_def object_fields_def has_fields_def dict_keys_def raw_field_init_def
      keyword_args_def as_dict_or_def dget_def)

lemma decode_point_ok:
  assumes ok: "captured_ok schema source p" and "distinct (map fst schema)" and "cp_id p \<notin> set (map pm_id acc)"
  shows "decode_point source schema (point_items p) acc = Inr (acc @ [restore_point schema p])"
proof -
  have get: "dget (point_items p) ''id'' = Inr (PInt (cp_id p))" "dget (point_items p) ''sequence'' = Inr (PInt (cp_sequence p))"
    "dget (point_items p) ''document_sequence'' = Inr (PInt (cp_document_sequence p))"
    "dget (point_items p) ''vector'' = Inr (cp_vector p)" "dget (point_items p) ''sparse'' = Inr (cp_sparse p)"
    "dget (point_items p) ''vectors'' = Inr (PDict (map (\<lambda>(name, v). (name, vector_text v)) (cp_vectors p)))"
    "dget (point_items p) ''fields'' = Inr (PList (map raw_field_to_kernel (cp_fields p)))"
    by (simp_all add: point_items_def dget_def)
  have keys: "object_fields (PDict (point_items p)) POINT_KEYS l = Inr (point_items p)" for l
    by (simp add: object_fields_def has_fields_def dict_keys_def POINT_KEYS_def point_items_def)
  have ints: "integer_field (PInt (cp_id p)) (- (2 ^ 63)) (2 ^ 63 - 1) l = Inr (cp_id p)"
    "integer_field (PInt (cp_sequence p)) 1 source l = Inr (cp_sequence p)"
    "integer_field (PInt (cp_document_sequence p)) 0 (cp_sequence p) l = Inr (cp_document_sequence p)" for l
    using ok by (simp_all add: captured_ok_def integer_field_def)
  have known: "list_all (\<lambda>name. name \<in> set (map fst schema)) (map fst (map (\<lambda>(name, v). (name, vector_text v)) (cp_vectors p)))"
    using ok by (force simp: captured_ok_def list_all_iff split: option.splits dest: map_of_SomeD)
  have payload: "rmap decode_payload (map raw_field_to_kernel (cp_fields p)) = Inr (cp_fields p)"
    by (rule rmap_inverse) (rule decode_payload_ok)
  have sparse: "sparse_json (cp_sparse p) = Inr (cp_sparse p)" using ok by (intro sparse_json_ok) (simp add: captured_ok_def)
  have vec: "cp_vector p = PNone \<or> as_list (cp_vector p) \<noteq> None" using ok by (simp add: captured_ok_def)
  show ?thesis
    unfolding decode_point_def restore_point_def
    by (simp only: keys get ints rbind_Inr assms(3) require_True simp_thms as_dict.simps option.case known
        decode_vectors_ok [OF ok assms(2)] vec as_list.simps payload sparse)
qed

lemma decode_rows_ok:
  assumes "distinct (map fst schema)" "list_all (captured_ok schema source) ps" "distinct (map pm_id acc @ map cp_id ps)"
  shows "rfold (decode_point source schema) (map point_items ps) acc = Inr (acc @ map (restore_point schema) ps)"
  using assms(2,3)
proof (induction ps arbitrary: acc)
  case (Cons p ps)
  have id: "pm_id (restore_point schema p) = cp_id p" by (simp add: restore_point_def point_upsert_def)
  have "decode_point source schema (point_items p) acc = Inr (acc @ [restore_point schema p])"
    using Cons.prems by (intro decode_point_ok assms(1)) auto
  moreover have "rfold (decode_point source schema) (map point_items ps) (acc @ [restore_point schema p]) =
      Inr ((acc @ [restore_point schema p]) @ map (restore_point schema) ps)"
    using Cons.prems id by (intro Cons.IH) auto
  ultimately show ?case by simp
qed simp

section \<open>Captures\<close>

definition captured_export :: "(string \<times> pyval) list \<Rightarrow> pyval \<Rightarrow> int \<Rightarrow> captured_point list \<Rightarrow> (string \<times> karg) list" where
  "captured_export config_dict schema_rows source ps =
     [(''config'', KVal (PDict config_dict)), (''schema'', KVal schema_rows), (''points'', KList (map captured_row ps)),
      (''source_sequence'', KVal (PInt source))]"

text \<open>What the kernel documents of a capture.\<close>

definition capture_ok ::
  "(string \<times> pyval) list \<Rightarrow> pyval \<Rightarrow> int \<Rightarrow> captured_point list \<Rightarrow> collection_config \<Rightarrow> (string \<times> vector_field) list \<Rightarrow> bool" where
  "capture_ok config_dict schema_rows source ps config schema \<longleftrightarrow>
     config_from_kernel config_dict = Inr config \<and> fields_from_kernel schema_rows = Inr schema \<and>
     list_all (\<lambda>(name, _). field_name_ok name) schema \<and> 0 \<le> source \<and> source \<le> 2 ^ 64 - 1 \<and>
     list_all (captured_ok schema source) ps \<and> distinct (map cp_id ps) \<and> int (length ps) \<le> 2 ^ 63 - 1"

definition header_items ::
  "collection_config \<Rightarrow> (string \<times> vector_field) list \<Rightarrow> int \<Rightarrow> nat \<Rightarrow> (string \<times> pyval) list" where
  "header_items config schema source n =
     [(''format'', PStr FORMAT), (''version'', PInt VERSION), (''config'', config_json config),
      (''vectors'', PDict (map (\<lambda>(name, f). (name, field_json f)) schema)), (''count'', PInt (int n)),
      (''source_sequence'', PInt source)]"

definition plain_schema :: "(string \<times> vector_field) list \<Rightarrow> (string \<times> vector_field) list" where
  "plain_schema schema = map (\<lambda>(name, f). (name, plain_field f)) schema"

lemma encode_export_ok:
  assumes "capture_ok config_dict schema_rows source ps config schema"
  shows "encode_export (captured_export config_dict schema_rows source ps) =
    Inr (PDict (header_items config schema source (length ps)), map (\<lambda>p. PDict (point_items p)) ps)"
proof -
  have "rmap (encode_row schema) (map captured_row ps) = Inr (map (\<lambda>p. PDict (point_items p)) ps)"
    using assms encode_row_ok [of schema source] by (induction ps) (auto simp: capture_ok_def)
  then show ?thesis using assms
    by (simp add: encode_export_def captured_export_def kget_val_def kget_def capture_ok_def as_dict_or_def header_items_def)
qed

section \<open>The header\<close>

definition schema_inv :: "(string \<times> vector_field) list \<Rightarrow> bool" where
  "schema_inv schema \<longleftrightarrow>
     distinct (map fst schema) \<and> list_all (\<lambda>(name, f). valid_field f \<and> (case vf_hnsw f of None \<Rightarrow> True | Some c \<Rightarrow> valid_config c)) schema"

lemma config_from_kernel_valid: "config_from_kernel d = Inr c \<Longrightarrow> valid_config c"
  using config_init_valid by (auto simp: config_from_kernel_def)

lemma vector_field_from_kernel_valid:
  assumes "vector_field_from_kernel v = Inr f"
  shows "valid_field f \<and> (case vf_hnsw f of None \<Rightarrow> True | Some c \<Rightarrow> valid_config c)"
proof -
  obtain d t k m h where f: "vector_field_init d t k m h = Inr f" and h: "case h of None \<Rightarrow> True | Some c \<Rightarrow> valid_config c"
    using assms config_from_kernel_valid by (auto simp: vector_field_from_kernel_def split: if_splits)
  from init_accepts [OF f] h show ?thesis by simp
qed

lemma schema_inv_set:
  assumes "schema_inv d" "valid_field f" "case vf_hnsw f of None \<Rightarrow> True | Some c \<Rightarrow> valid_config c"
  shows "schema_inv (dict_set name f d)"
proof -
  have "set (dict_set name f d) \<subseteq> insert (name, f) (set d)" by (rule set_dict_set)
  with assms show ?thesis by (auto simp: schema_inv_def list_all_iff)
qed

lemma fields_from_kernel_inv: "fields_from_kernel raw = Inr schema \<Longrightarrow> schema_inv schema"
proof -
  assume run: "fields_from_kernel raw = Inr schema"
  let ?f = "\<lambda>v d. rbind (rbind (item v ''id'') as_int_or) (\<lambda>i. if i < 2 then Inr d
       else rbind (rbind (item v ''name'') as_str_or) (\<lambda>name. rbind (vector_field_from_kernel v) (\<lambda>f. Inr (dict_set name f d))))"
  have "yields schema_inv (?f v d)" if "schema_inv d" for v d
    using that vector_field_from_kernel_valid schema_inv_set [OF that]
    by (auto simp: yields_def rbind_def split: sum.splits if_splits)
  then have "yields schema_inv (rfold ?f xs [])" for xs
    by (rule yields_rfold) (simp_all add: schema_inv_def)
  with run show ?thesis by (auto simp: fields_from_kernel_def yields_def)
qed

lemma decode_header_ok:
  assumes "capture_ok config_dict schema_rows source ps config schema"
  shows "decode_header (header_items config schema source (length ps)) = Inr (config\<lparr>cc_fingerprint := None\<rparr>, plain_schema schema)"
proof -
  let ?h = "header_items config schema source (length ps)"
  have inv: "schema_inv schema" using assms fields_from_kernel_inv by (auto simp: capture_ok_def)
  have fields: "rmap decode_field (map (\<lambda>(name, f). (name, field_json f)) schema) = Inr (plain_schema schema)"
  proof -
    have "decode_field (name, field_json f) = Inr (name, plain_field f)" if "(name, f) \<in> set schema" for name f
      using that inv assms by (intro decode_field_json) (auto simp: schema_inv_def capture_ok_def field_ok_def list_all_iff)
    then show ?thesis unfolding plain_schema_def by (induction schema) auto
  qed
  have get: "dget ?h ''format'' = Inr (PStr FORMAT)" "dget ?h ''version'' = Inr (PInt VERSION)"
    "dget ?h ''config'' = Inr (config_json config)"
    "dget ?h ''vectors'' = Inr (PDict (map (\<lambda>(name, f). (name, field_json f)) schema))"
    "dget ?h ''count'' = Inr (PInt (int (length ps)))" "dget ?h ''source_sequence'' = Inr (PInt source)"
    by (simp_all add: header_items_def dget_def)
  have keys: "object_fields (PDict ?h) HEADER_KEYS l = Inr ?h" for l
    by (simp add: object_fields_def has_fields_def dict_keys_def HEADER_KEYS_def header_items_def)
  have ints: "integer_field (PInt (int (length ps))) 0 (2 ^ 63 - 1) l = Inr (int (length ps))"
    "integer_field (PInt source) 0 (2 ^ 64 - 1) l = Inr source" for l
    using assms by (simp_all add: capture_ok_def integer_field_def)
  have config: "config_object (config_json config) l = Inr (config\<lparr>cc_fingerprint := None\<rparr>)" for l
    using assms config_from_kernel_valid by (intro config_object_json) (auto simp: capture_ok_def)
  show ?thesis unfolding decode_header_def
    by (simp only: keys get ints config fields rbind_Inr require_True simp_thms as_dict.simps option.case)
qed

lemma plain_field_simps [simp]: "vf_kind (plain_field f) = vf_kind f" "vf_dimension (plain_field f) = vf_dimension f"
  by (simp_all add: plain_field_def)

lemma map_of_plain_schema: "map_of (plain_schema schema) name = map_option plain_field (map_of schema name)"
  by (simp add: plain_schema_def map_of_map_snd)

lemma captured_ok_plain [simp]: "captured_ok (plain_schema schema) source = captured_ok schema source"
  by (intro ext) (auto simp: captured_ok_def map_of_plain_schema vector_ok_def split: option.splits)

lemma restore_point_plain [simp]: "restore_point (plain_schema schema) = restore_point schema"
  by (intro ext) (simp add: restore_point_def plain_schema_def comp_def case_prod_unfold)

lemma decode_points_ok:
  assumes "capture_ok config_dict schema_rows source ps config schema"
  shows "decode_points (header_items config schema source (length ps)) (map point_items ps) (plain_schema schema) =
    Inr (map (restore_point schema) ps)"
proof -
  have "distinct (map fst (plain_schema schema))"
    using assms fields_from_kernel_inv by (auto simp: capture_ok_def schema_inv_def plain_schema_def)
  then have "rfold (decode_point source (plain_schema schema)) (map point_items ps) [] = Inr (map (restore_point schema) ps)"
    using assms decode_rows_ok [of "plain_schema schema" source ps "[]"] by (simp add: capture_ok_def)
  then show ?thesis by (simp add: decode_points_def header_items_def dget_def as_int_or_def check_type_def)
qed

end
