(* ===== verification/ExportFile.thy ===== *)
theory ExportFile
  imports ExportCodec
begin

text \<open>
  The export as a file of lines: every row that \<open>export_text\<close> writes is one line, and
  \<open>read_rows\<close> reads the rows back.
\<close>

section \<open>Lines\<close>

lemma utf8_ok_dumps_plain: "wf_val v \<Longrightarrow> utf8_ok (dumps_plain v)"
proof (induction v rule: canon_induct)
  case (1 xs)
  then show ?case by (auto simp: list_all_iff intro!: utf8_ok_join utf8_ok_appendI)
next
  case (2 d)
  then show ?case
    by (fastforce simp: dumps_plain_PDict list_all_iff member_text_def
        intro!: utf8_ok_join utf8_ok_appendI utf8_ok_quote)
next
  case (number i)
  then show ?case using utf8_ok_dumps [of "PInt i"] by simp
next
  case (float_number x)
  then show ?case using utf8_ok_dumps [of "PFloat x"] by simp
qed (auto simp: utf8_ok_quote)

lemma one_line_dumps_plain: "wf_val v \<Longrightarrow> one_line (dumps_plain v)"
proof (induction v rule: canon_induct)
  case (1 xs)
  then show ?case by (auto simp: list_all_iff one_line_Cons intro!: one_line_join)
next
  case (2 d)
  then show ?case
    by (fastforce simp: dumps_plain_PDict list_all_iff member_text_def one_line_Cons intro!: one_line_join)
next
  case (number i)
  then show ?case using one_line_dumps [of "PInt i"] by simp
next
  case (float_number x)
  then show ?case using one_line_dumps [of "PFloat x"] by simp
qed (auto simp: one_line_Cons)

lemma row_line_Inr: "row_line v = Inr t \<longleftrightarrow> finite_val v \<and> no_surrogate (dumps_plain v) \<and> t = dumps_plain v @ [LF]"
  by (auto simp: row_line_def dump_row_def)

lemma no_surrogate_line: "no_surrogate s \<Longrightarrow> no_surrogate t \<Longrightarrow> no_surrogate (s @ LF # t)"
  by (induction s rule: no_surrogate.induct; cases t) simp_all

text \<open>A file of rows: what \<open>read_rows\<close> makes of the text that \<open>export_text\<close> wrote.\<close>

lemma rows_text:
  assumes "rmap row_line vs = Inr lines" "list_all wf_val vs"
  shows "splitlines (concat lines) = map dumps_plain vs \<and> utf8_ok (concat lines) \<and> no_surrogate (concat lines) \<and> list_all finite_val vs"
  using assms
proof (induction vs arbitrary: lines)
  case (Cons v vs)
  then obtain rest where lines: "lines = (dumps_plain v @ [LF]) # rest" and rest: "rmap row_line vs = Inr rest"
    and v: "finite_val v" "no_surrogate (dumps_plain v)" "wf_val v" by (auto simp: row_line_Inr)
  with Cons.IH [OF rest] Cons.prems(2) splitlines_line [OF one_line_dumps_plain [OF v(3)]] show ?case
    by (simp add: no_surrogate_line utf8_ok_append utf8_ok_dumps_plain)
qed simp

lemma decode_line_ok: "wf_val (PDict d) \<Longrightarrow> finite_val (PDict d) \<Longrightarrow> decode_line (dumps_plain (PDict d)) n = Inr d"
  using strict_roundtrip [of "PDict d" "[]"] by (simp add: decode_line_def del: wf_val.simps finite_val.simps)

lemma read_lines_ok:
  assumes "list_all (\<lambda>d. wf_val (PDict d) \<and> finite_val (PDict d)) ds"
    and "int (length (rows @ ds)) - header_rows (rows @ ds) \<le> max_batch_rows limits"
  shows "rfold (read_line limits) (enumerate n (map (\<lambda>d. dumps_plain (PDict d)) ds)) rows = Inr (rows @ ds)"
  using assms
proof (induction ds arbitrary: n rows)
  case (Cons d ds)
  have line: "decode_line (dumps_plain (PDict d)) n = Inr d" using Cons.prems(1) by (intro decode_line_ok) auto
  have "header_rows (rows @ [d]) = header_rows (rows @ d # ds)"
    by (cases rows) (simp_all add: header_rows_def)
  with Cons.prems(2) have "int (length (rows @ [d])) - header_rows (rows @ [d]) \<le> max_batch_rows limits" by simp
  with line have "read_line limits (n, dumps_plain (PDict d)) rows = Inr (rows @ [d])"
    by (simp add: read_line_def Let_def)
  moreover have "rfold (read_line limits) (enumerate (Suc n) (map (\<lambda>d. dumps_plain (PDict d)) ds)) (rows @ [d]) = Inr ((rows @ [d]) @ ds)"
    using Cons.prems by (intro Cons.IH) auto
  ultimately show ?case by simp
qed simp

lemma read_rows_export:
  assumes "export_text (header, map PDict ds) = Inr t" "list_all (\<lambda>d. wf_val (PDict d)) ds"
    and "case header of None \<Rightarrow> hs = [] | Some h \<Rightarrow> h = PDict hd' \<and> wf_val h \<and> hs = [hd']"
    and "int (length (hs @ ds)) - header_rows (hs @ ds) \<le> max_batch_rows limits"
  shows "read_rows limits (Some t) = Inr (hs @ ds)"
proof -
  have vs: "(case header of None \<Rightarrow> [] | Some h \<Rightarrow> [h]) @ map PDict ds = map PDict (hs @ ds)"
    using assms(3) by (auto split: option.splits)
  with assms(1) obtain lines where lines: "rmap row_line (map PDict (hs @ ds)) = Inr lines" and t: "t = concat lines"
    by (auto simp: export_text_def simp del: map_append)
  have wf: "list_all wf_val (map PDict (hs @ ds))"
    using assms(2,3) by (auto simp: list_all_iff split: option.splits)
  from rows_text [OF lines wf] t have lns: "splitlines t = map (\<lambda>d. dumps_plain (PDict d)) (hs @ ds)" "utf8_ok t" "no_surrogate t"
    and fin: "list_all finite_val (map PDict (hs @ ds))" by (simp_all add: comp_def)
  have "list_all (\<lambda>d. wf_val (PDict d) \<and> finite_val (PDict d)) (hs @ ds)"
    using wf fin by (auto simp: list_all_iff simp del: wf_val.simps finite_val.simps)
  from read_lines_ok [OF this, of "[]" limits 1] assms(4) lns show ?thesis
    by (simp add: read_rows_def read_text_def)
qed

end
