(* ===== verification/Facade.thy ===== *)
theory Facade
  imports Database
begin

text \<open>
  What every operation of the facade has in common: it makes at most one recorded call of the
  kernel, with arguments inside the collection's resource limits, and changes nothing else.
  From this discipline follow the invariants of a collection over any sequence of operations.
\<close>

section \<open>Operations as values\<close>

datatype facade_op =
    Close
  | Last_sequence
  | Collection_config
  | Last_search_stats
  | Upsert int "pyfloat list" "payload_field list option"
  | Upsert_sparse int "sparse_element list"
  | Delete int
  | Flush
  | Apply_batch "batch_mutation list"
  | Apply_point_batch "point_mutation list"
  | Vector_fields
  | Get int "projection option"
  | Get_point int
  | Export_records
  | Export_points
  | Is_point_collection
  | Backup string
  | Search search_request
  | Search_batch pyval "pyval list" int int "pyval option"
  | Search_controlled pyval pyval int bool "int option"
  | Search_field string vector_arg pyval pyval pyval pyval pyval "ivf_options option" bool pyval
  | Search_fields "field_query list" pyval pyval pyval pyval "field_query option" bool pyval

definition finish :: "('s, 'a) action \<Rightarrow> ('s, unit) action" where
  "finish a = bind a (\<lambda>_. ok ())"

fun facade_step :: "'k kernel \<Rightarrow> int \<Rightarrow> int \<Rightarrow> facade_op \<Rightarrow> ('k coll, unit) action" where
  "facade_step mojo d now Close = finish (coll_close mojo d)"
| "facade_step mojo d now Last_sequence = finish (coll_last_sequence mojo d)"
| "facade_step mojo d now Collection_config = finish (coll_config mojo d)"
| "facade_step mojo d now Last_search_stats = finish (coll_last_search_stats mojo d)"
| "facade_step mojo d now (Upsert i v fs) = finish (coll_upsert mojo d i v fs)"
| "facade_step mojo d now (Upsert_sparse i es) = finish (coll_upsert_sparse mojo d i es)"
| "facade_step mojo d now (Delete i) = finish (coll_delete mojo d i)"
| "facade_step mojo d now Flush = finish (coll_flush mojo d)"
| "facade_step mojo d now (Apply_batch ms) = finish (coll_apply_batch mojo d ms)"
| "facade_step mojo d now (Apply_point_batch ms) = finish (coll_apply_point_batch mojo d ms)"
| "facade_step mojo d now Vector_fields = finish (coll_vector_fields mojo d)"
| "facade_step mojo d now (Get i p) = finish (coll_get mojo d i p)"
| "facade_step mojo d now (Get_point i) = finish (coll_get_point mojo d i)"
| "facade_step mojo d now Export_records = finish (coll_export_records mojo d)"
| "facade_step mojo d now Export_points = finish (coll_export_points mojo d)"
| "facade_step mojo d now Is_point_collection = finish (coll_is_point_collection mojo d)"
| "facade_step mojo d now (Backup target) = finish (coll_backup mojo d target)"
| "facade_step mojo d now (Search request) = finish (coll_search mojo d request)"
| "facade_step mojo d now (Search_batch metric vs k workers filters) =
     finish (coll_search_batch mojo d metric vs k workers filters)"
| "facade_step mojo d now (Search_controlled metric v k cancelled timeout) =
     finish (coll_search_controlled mojo d now metric v k cancelled timeout)"
| "facade_step mojo d now (Search_field name v k wh mode ef rerank ivf cancelled timeout) =
     finish (coll_search_field mojo d now name v k wh mode ef rerank ivf cancelled timeout)"
| "facade_step mojo d now (Search_fields qs k fetch_k rank wh rerank cancelled timeout) =
     finish (coll_search_fields mojo d now qs k fetch_k rank wh rerank cancelled timeout)"

text \<open>A client's calls, each with the duration and the clock it meets; exceptions end no sequence.\<close>

fun facade_run :: "'k kernel \<Rightarrow> (int \<times> int \<times> facade_op) list \<Rightarrow> 'k coll \<Rightarrow> 'k coll" where
  "facade_run mojo [] s = s"
| "facade_run mojo ((d, now, c) # cs) s = facade_run mojo cs (snd (facade_step mojo d now c s))"

section \<open>At most one call\<close>

definition quiet :: "('s, 'a) action \<Rightarrow> bool" where
  "quiet a \<longleftrightarrow> (\<forall>s. snd (a s) = s)"

definition one_call :: "'k kernel \<Rightarrow> int \<Rightarrow> ('k coll, 'a) action \<Rightarrow> 'k coll \<Rightarrow> bool" where
  "one_call mojo d a s \<longleftrightarrow> snd (a s) = s \<or> (\<exists>m args. snd (a s) = snd (raw_call mojo d m args s))"

named_theorems call_intros

lemma quiet_basic [call_intros]: "quiet (ok x)" "quiet (pure r)" "quiet (check c e)" "quiet (gets f)"
  by (simp_all add: quiet_def)

lemma quiet_bind [call_intros]: "quiet a \<Longrightarrow> (\<And>x. quiet (f x)) \<Longrightarrow> quiet (bind a f)"
  by (auto simp: quiet_def split: prod.splits sum.splits) (metis snd_conv)+

lemma quiet_if [call_intros]: "(c \<Longrightarrow> quiet a) \<Longrightarrow> (\<not> c \<Longrightarrow> quiet b) \<Longrightarrow> quiet (if c then a else b)"
  by simp

lemma one_call_quiet: "quiet a \<Longrightarrow> one_call mojo d a s"
  by (simp add: one_call_def quiet_def)

lemma one_call_raw [call_intros]: "one_call mojo d (raw_call mojo d m args) s"
  by (auto simp: one_call_def)

lemma one_call_then: "one_call mojo d a s \<Longrightarrow> (\<And>x. quiet (f x)) \<Longrightarrow> one_call mojo d (bind a f) s"
  by (cases "a s"; cases "fst (a s)") (auto simp: one_call_def quiet_def)

lemma one_call_kernel [call_intros]: "one_call mojo d (kernel_call mojo d m args) s"
  unfolding kernel_call_def by (intro one_call_then call_intros)

lemma one_call_after:
  assumes "quiet a" "\<And>x. one_call mojo d (f x) s"
  shows "one_call mojo d (bind a f) s"
proof (cases "a s")
  case (Pair r t)
  with assms(1) have "t = s" unfolding quiet_def by (metis snd_conv)
  with Pair assms(2) show ?thesis by (cases r) (auto simp: one_call_def)
qed

lemma one_call_bind [call_intros]:
  "(\<And>x. one_call mojo d (f x) s) \<Longrightarrow> one_call mojo d (bind (gets g) f) s"
  "(\<And>x. one_call mojo d (f x) s) \<Longrightarrow> one_call mojo d (bind (pure r) f) s"
  "(\<And>x. one_call mojo d (h x) s) \<Longrightarrow> one_call mojo d (bind (check c e) h) s"
  "(\<And>x. quiet (k x)) \<Longrightarrow> one_call mojo d (bind (kernel_call mojo d m args) k) s"
  "(\<And>x. quiet (l x)) \<Longrightarrow> one_call mojo d (bind (raw_call mojo d m args) l) s"
  by (intro one_call_after one_call_then call_intros, assumption)+

lemma one_call_branch [call_intros]:
  "(c \<Longrightarrow> one_call mojo d a s) \<Longrightarrow> (\<not> c \<Longrightarrow> one_call mojo d b s) \<Longrightarrow> one_call mojo d (if c then a else b) s"
  "(x = None \<Longrightarrow> one_call mojo d a' s) \<Longrightarrow> (\<And>y. x = Some y \<Longrightarrow> one_call mojo d (f y) s) \<Longrightarrow>
     one_call mojo d (case x of None \<Rightarrow> a' | Some y \<Rightarrow> f y) s"
  by (simp_all split: option.splits)

lemma one_call_bind_case [call_intros]:
  assumes "\<And>x. quiet (g x)" "one_call mojo d (case x of None \<Rightarrow> a | Some y \<Rightarrow> f y) s"
  shows "one_call mojo d (bind (case x of None \<Rightarrow> a | Some y \<Rightarrow> f y) g) s"
  using assms(2,1) by (rule one_call_then)

lemma one_call_finish: "one_call mojo d a s \<Longrightarrow> one_call mojo d (finish a) s"
  unfolding finish_def by (intro one_call_then call_intros)

lemmas facade_defs = finish_def coll_close_def coll_last_sequence_def coll_config_def coll_last_search_stats_def
  coll_upsert_def coll_upsert_sparse_def coll_delete_def coll_flush_def coll_apply_batch_def coll_apply_point_batch_def
  coll_vector_fields_def coll_get_def coll_get_point_def coll_export_records_def coll_export_points_def
  coll_is_point_collection_def coll_backup_def coll_search_def coll_search_batch_def coll_search_controlled_def
  coll_search_field_def coll_search_fields_def

lemma one_call_search [call_intros]: "one_call mojo d (search_raw mojo d columns r) s"
  unfolding search_raw_def Let_def require_vector_def by (intro call_intros)

lemma one_call_named [call_intros]:
  "one_call mojo d (search_field_raw mojo d now columns name v k wh mode ef rerank ivf cancelled timeout) s"
  "one_call mojo d (search_fields_raw mojo d now columns qs k fetch_k rank wh final cancelled timeout) s"
  unfolding search_field_raw_def search_fields_raw_def valid_def by (intro call_intros)+

lemma one_call_write [call_intros]:
  "one_call mojo d (coll_close mojo d) s" "one_call mojo d (coll_flush mojo d) s"
  "one_call mojo d (coll_upsert mojo d i v fs) s" "one_call mojo d (coll_upsert_sparse mojo d i es) s"
  "one_call mojo d (coll_delete mojo d i) s" "one_call mojo d (coll_apply_batch mojo d bs) s"
  "one_call mojo d (coll_apply_point_batch mojo d ps) s"
  unfolding facade_defs by (intro call_intros)+

lemma one_call_read [call_intros]:
  "one_call mojo d (coll_last_sequence mojo d) s" "one_call mojo d (coll_config mojo d) s"
  "one_call mojo d (coll_last_search_stats mojo d) s" "one_call mojo d (coll_vector_fields mojo d) s"
  "one_call mojo d (coll_get mojo d i p) s" "one_call mojo d (coll_get_point mojo d i) s"
  "one_call mojo d (coll_export_records mojo d) s" "one_call mojo d (coll_export_points mojo d) s"
  "one_call mojo d (coll_is_point_collection mojo d) s" "one_call mojo d (coll_backup mojo d target) s"
  unfolding facade_defs by (intro call_intros)+

lemma one_call_query [call_intros]:
  "one_call mojo d (coll_search mojo d request) s" "one_call mojo d (coll_search_batch mojo d metric vs k workers filters) s"
  "one_call mojo d (coll_search_controlled mojo d now metric v k cancelled timeout) s"
  unfolding coll_search_def coll_search_batch_def coll_search_controlled_def
  by (rule one_call_then, rule one_call_search, rule call_intros) (intro call_intros)+

lemma one_call_field [call_intros]:
  "one_call mojo d (coll_search_field mojo d now name v kk wh mode ef rerank ivf cancelled to) s"
  "one_call mojo d (coll_search_fields mojo d now qs kk fetch_k rank wh final cancelled to) s"
  unfolding coll_search_field_def coll_search_fields_def by (rule one_call_then; intro call_intros)+

lemma facade_one_call: "one_call mojo d (facade_step mojo d now c) s"
  by (cases c) (simp_all only: facade_step.simps, (rule one_call_finish, rule call_intros)+)

section \<open>Invariants of a collection\<close>

text \<open>
  A statement about a collection that every recorded call carries on, counted by the calls so
  far, holds after any sequence of operations.
\<close>

locale carried =
  fixes mojo :: "'k kernel" and holds :: "nat \<Rightarrow> 'k coll \<Rightarrow> bool"
  assumes raw_call: "holds n s \<Longrightarrow> holds (Suc n) (snd (raw_call mojo d m args s))"
    and weaken: "holds n s \<Longrightarrow> holds (Suc n) s"
begin

lemma one_call: "one_call mojo d a s \<Longrightarrow> holds n s \<Longrightarrow> holds (Suc n) (snd (a s))"
  using raw_call weaken by (auto simp: one_call_def)

lemma facade_run: "holds n s \<Longrightarrow> holds (n + length cs) (facade_run mojo cs s)"
proof (induction cs arbitrary: n s)
  case (Cons c cs)
  obtain d now e where "c = (d, now, e)" by (cases c)
  with Cons.IH [OF one_call [OF facade_one_call Cons.prems]] show ?case by simp
qed simp

end

text \<open>What no call changes.\<close>

definition identity :: "'k coll \<Rightarrow> string \<times> int \<times> collection_config \<times> resource_limits" where
  "identity s = (co_path s, co_dimension s, co_config s, co_limits s)"

lemma record_operation_identity [simp]:
  "co_path (record_operation mojo m d f s) = co_path s" "co_dimension (record_operation mojo m d f s) = co_dimension s"
  "co_config (record_operation mojo m d f s) = co_config s" "co_limits (record_operation mojo m d f s) = co_limits s"
  by (simp_all add: record_operation_def split: prod.splits)

lemma raw_call_identity: "identity (snd (raw_call mojo d m args s)) = identity s"
  by (simp add: raw_call_def identity_def split: prod.splits sum.splits)

interpretation same: carried mojo "\<lambda>_ s. identity s = i" for mojo i
  by unfold_locales (simp_all add: raw_call_identity)

text \<open>The calls so far, each with the text of its exception, and what they add up to.\<close>

type_synonym call_log = "(trace_record \<times> string option) list"

definition failed_with :: "(string \<Rightarrow> bool) \<Rightarrow> trace_record \<times> string option \<Rightarrow> bool" where
  "failed_with P c \<longleftrightarrow> (case snd c of None \<Rightarrow> False | Some e \<Rightarrow> P e)"

definition counted :: "call_log \<Rightarrow> (trace_record \<times> string option \<Rightarrow> bool) \<Rightarrow> int" where
  "counted h P = int (length (filter P h))"

definition metrics_of :: "call_log \<Rightarrow> metrics_snapshot" where
  "metrics_of h =
     \<lparr>ms_operations = int (length h),
      ms_writes = counted h (\<lambda>c. snd c = None \<and> is_write (tr_operation (fst c))),
      ms_queries = counted h (\<lambda>c. is_query (tr_operation (fst c))),
      ms_failures = counted h (failed_with (\<lambda>_. True)),
      ms_cancellations = counted h (failed_with is_cancellation),
      ms_total_duration_ns = sum_list (map (\<lambda>c. tr_duration_ns (fst c)) h)\<rparr>"

definition logged :: "trace_record \<times> string option \<Rightarrow> bool" where
  "logged c \<longleftrightarrow>
     tr_status (fst c) = (if snd c = None then ''ok'' else ''error'') \<and>
     (tr_sequence (fst c) \<noteq> None \<longrightarrow> snd c = None \<and> is_write (tr_operation (fst c)))"

definition history :: "'k coll \<Rightarrow> call_log \<Rightarrow> bool" where
  "history s h \<longleftrightarrow>
     co_metrics s = metrics_of h \<and> co_traces s = drop (length h - 256) (map fst h) \<and> list_all logged h"

lemma append_trace_drop:
  "append_trace t (drop (length h - 256) h) = drop (length (h @ [t]) - 256) (h @ [t])"
proof (cases "256 \<le> length h")
  case True
  then have "tl (drop (length h - 256) h @ [t]) = drop (Suc (length h - 256)) h @ [t]"
    by (simp add: drop_Suc tl_drop)
  moreover have "length (h @ [t]) - 256 = Suc (length h - 256)" using True by simp
  ultimately show ?thesis using True by (simp add: append_trace_def)
next
  case False
  then have "length h - 256 = 0" "length (h @ [t]) - 256 = 0" by simp_all
  with False show ?thesis by (simp only: drop_0) (simp add: append_trace_def)
qed

lemma metrics_of_append:
  "count_operation (tr_operation t) (tr_duration_ns t) f (metrics_of h) = metrics_of (h @ [(t, f)])"
  by (cases f) (simp_all add: count_operation_def metrics_of_def counted_def failed_with_def)

lemma record_operation_shape:
  obtains t where "co_traces (record_operation mojo m d f s) = append_trace t (co_traces s)"
    "co_metrics (record_operation mojo m d f s) = count_operation m d f (co_metrics s)"
    "tr_operation t = m" "tr_duration_ns t = d" "logged (t, f)"
proof -
  obtain q k where q: "write_sequence mojo m f (co_kernel s) = (q, k)" by fastforce
  show ?thesis
    by (rule that [of "\<lparr>tr_operation = m, tr_duration_ns = d, tr_status = if f = None then ''ok'' else ''error'', tr_sequence = q\<rparr>"])
      (use q in \<open>auto simp: record_operation_def logged_def write_sequence_def split: if_splits prod.splits\<close>)
qed

lemma history_record:
  assumes "history s h"
  shows "\<exists>c. history (record_operation mojo m d f s) (h @ [c]) \<and> tr_operation (fst c) = m \<and> snd c = f"
proof -
  obtain t where t: "co_traces (record_operation mojo m d f s) = append_trace t (co_traces s)"
    "co_metrics (record_operation mojo m d f s) = count_operation m d f (co_metrics s)"
    "tr_operation t = m" "tr_duration_ns t = d" "logged (t, f)" by (rule record_operation_shape)
  have "history (record_operation mojo m d f s) (h @ [(t, f)])"
    using assms t append_trace_drop [of t "map fst h"] metrics_of_append [of t f h] by (simp add: history_def)
  with t(3) show ?thesis by force
qed

definition logged_calls :: "nat \<Rightarrow> 'k coll \<Rightarrow> bool" where
  "logged_calls n s \<longleftrightarrow> (\<exists>h. history s h \<and> length h \<le> n)"

lemma history_co_kernel [simp]: "history (s\<lparr>co_kernel := k\<rparr>) h = history s h"
  by (simp add: history_def)

lemma raw_call_history:
  assumes "history s h"
  shows "\<exists>c. history (snd (raw_call mojo d m args s)) (h @ [c])"
proof (cases "mojo m args (co_kernel s)")
  case (Pair r k)
  have "history (s\<lparr>co_kernel := k\<rparr>) h" using assms by simp
  from history_record [OF this, of mojo m d] have "\<exists>c. history (record_operation mojo m d f (s\<lparr>co_kernel := k\<rparr>)) (h @ [c])" for f
    by blast
  then show ?thesis by (cases r) (simp_all add: raw_call_def Pair)
qed

interpretation log: carried mojo logged_calls for mojo
proof unfold_locales
  fix n d m args and s :: "'a coll" assume "logged_calls n s"
  then obtain h where "history s h" "length h \<le> n" by (auto simp: logged_calls_def)
  with raw_call_history [of s h mojo d m args] show "logged_calls (Suc n) (snd (raw_call mojo d m args s))"
    unfolding logged_calls_def by (metis Suc_le_mono length_append_singleton)
next
  fix n s assume "logged_calls n s"
  then show "logged_calls (Suc n) s" by (auto simp: logged_calls_def intro: le_SucI)
qed

end
