(* ===== verification/FacadeLimits.thy ===== *)
theory FacadeLimits
  imports Facade
begin

text \<open>
  The resource limits of a collection as a contract on the calls the kernel sees: \<open>guarded\<close>
  is a kernel that refuses every call beyond the limits, and no operation of the facade can
  tell it from the kernel itself.
\<close>

section \<open>What a call asks for\<close>

fun karg_int :: "karg \<Rightarrow> int option" where
  "karg_int (KVal (PInt i)) = Some i"
| "karg_int v = None"

fun option_int :: "string \<Rightarrow> karg \<Rightarrow> int option" where
  "option_int name (KVal (PDict d)) = (case map_of d name of Some (PInt i) \<Rightarrow> Some i | _ \<Rightarrow> None)"
| "option_int name (KDict d) = (case map_of d name of Some (KVal (PInt i)) \<Rightarrow> Some i | _ \<Rightarrow> None)"
| "option_int name v = None"

fun karg_length :: "karg \<Rightarrow> nat" where
  "karg_length (KVal (PList xs)) = length xs"
| "karg_length (KList xs) = length xs"
| "karg_length v = 0"

definition argument :: "nat \<Rightarrow> karg list \<Rightarrow> karg" where
  "argument i args = (if i < length args then args ! i else KVal PNone)"

text \<open>Where the search methods take their result count.\<close>

definition call_k :: "string \<Rightarrow> karg list \<Rightarrow> int option" where
  "call_k m args =
     (if starts_with [''search_batch_where''] m then karg_int (argument 3 args)
      else if starts_with [''search_fields'', ''search_sparse_where''] m then option_int ''k'' (argument 1 args)
      else if starts_with [''search_dense_where''] m then option_int ''k'' (argument 2 args)
      else if starts_with [''search_hybrid''] m then option_int ''k'' (argument 3 args)
      else if starts_with [''search_batch'', ''search_controlled'', ''search_field'', ''search_approx''] m
        then karg_int (argument 2 args)
      else karg_int (argument 1 args))"

definition within_limits :: "resource_limits \<Rightarrow> string \<Rightarrow> karg list \<Rightarrow> bool" where
  "within_limits l m args \<longleftrightarrow>
     (if starts_with [''apply''] m then int (karg_length (argument 0 args)) \<le> max_batch_rows l
      else if starts_with [''search''] m then
        (case call_k m args of None \<Rightarrow> False | Some k \<Rightarrow> k \<le> max_k l) \<and>
        (if starts_with [''search_batch''] m then int (karg_length (argument 1 args)) \<le> max_query_batch l else True) \<and>
        (if starts_with [''search_fields''] m then
           int (karg_length (argument 0 args)) \<le> max_query_batch l \<and>
           option_int ''max_candidates'' (argument 1 args) = Some (max_candidates l)
         else if starts_with [''search_field'', ''search_controlled''] m then
           option_int ''max_candidates'' (argument 3 args) = Some (max_candidates l)
         else True)
      else True)"

definition guarded :: "resource_limits \<Rightarrow> 'k kernel \<Rightarrow> 'k kernel" where
  "guarded l mojo m args = (if within_limits l m args then mojo m args else raise (RuntimeError ''resource limit''))"

section \<open>Guarded calls\<close>

lemma guarded_within [simp]: "within_limits l m args \<Longrightarrow> guarded l mojo m args = mojo m args"
  by (simp add: guarded_def)

lemma starts_with_simps [simp]: "starts_with [] m = False" "starts_with (p # ps) m = (prefix p m \<or> starts_with ps m)"
  by (simp_all add: starts_with_def)

lemma write_sequence_guarded [simp]: "write_sequence (guarded l mojo) m f k = write_sequence mojo m f k"
  by (simp add: write_sequence_def within_limits_def)

lemma record_operation_guarded [simp]: "record_operation (guarded l mojo) m d f s = record_operation mojo m d f s"
  by (simp add: record_operation_def)

lemma raw_call_guarded: "within_limits l m args \<Longrightarrow> raw_call (guarded l mojo) d m args = raw_call mojo d m args"
  by (simp add: raw_call_def fun_eq_iff split: prod.splits sum.splits)

lemma kernel_call_guarded: "within_limits l m args \<Longrightarrow> kernel_call (guarded l mojo) d m args = kernel_call mojo d m args"
  by (simp add: kernel_call_def raw_call_guarded)

named_theorems guard_intros

lemma same_bind [guard_intros]:
  "f (h s) s = g (h s) s \<Longrightarrow> bind (gets h) f s = bind (gets h) g s"
  "(c \<Longrightarrow> f' () s = g' () s) \<Longrightarrow> bind (check c e) f' s = bind (check c e) g' s"
  "(\<And>x. r = Inr x \<Longrightarrow> f'' x s = g'' x s) \<Longrightarrow> bind (pure r) f'' s = bind (pure r) g'' s"
  "within_limits l m args \<Longrightarrow> bind (kernel_call (guarded l mojo) d m args) k s = bind (kernel_call mojo d m args) k s"
  "within_limits l m args \<Longrightarrow> bind (raw_call (guarded l mojo) d m args) k' s = bind (raw_call mojo d m args) k' s"
  "within_limits l m args \<Longrightarrow> kernel_call (guarded l mojo) d m args s = kernel_call mojo d m args s"
  "within_limits l m args \<Longrightarrow> raw_call (guarded l mojo) d m args s = raw_call mojo d m args s"
  by (simp_all add: kernel_call_guarded raw_call_guarded split: sum.splits)

lemma same_branch [guard_intros]:
  "(c \<Longrightarrow> a s = a' s) \<Longrightarrow> (\<not> c \<Longrightarrow> b s = b' s) \<Longrightarrow> (if c then a else b) s = (if c then a' else b') s"
  "(x = None \<Longrightarrow> p s = p' s) \<Longrightarrow> (\<And>y. x = Some y \<Longrightarrow> f y s = f' y s) \<Longrightarrow>
     (case x of None \<Rightarrow> p | Some y \<Rightarrow> f y) s = (case x of None \<Rightarrow> p' | Some y \<Rightarrow> f' y) s"
  by (simp_all split: option.splits)

lemma same_bind_case [guard_intros]:
  "(case x of None \<Rightarrow> p | Some y \<Rightarrow> f y) s = (case x of None \<Rightarrow> p' | Some y \<Rightarrow> f' y) s \<Longrightarrow>
     bind (case x of None \<Rightarrow> p | Some y \<Rightarrow> f y) k s = bind (case x of None \<Rightarrow> p' | Some y \<Rightarrow> f' y) k s"
  by simp

lemma limits_simps [simp]:
  "argument 0 (x # xs) = x" "argument (Suc n) (x # xs) = argument n xs" "argument (numeral w) (x # xs) = argument (pred_numeral w) xs"
  by (simp_all add: argument_def numeral_eq_Suc)

lemma exact_methodE:
  assumes "exact_method metric = Inr m"
  obtains "m = ''search_dot''" | "m = ''search_l2''" | "m = ''search_cosine''"
  using assms by (auto simp: exact_method_def split: if_splits)

lemma search_raw_guarded: "co_limits s = l \<Longrightarrow> search_raw (guarded l mojo) d columns r s = search_raw mojo d columns r s"
  unfolding search_raw_def Let_def require_vector_def
  by (intro guard_intros; (erule exact_methodE)?; simp add: within_limits_def call_k_def)

lemma named_raw_guarded:
  assumes "co_limits s = l"
  shows "search_field_raw (guarded l mojo) d now columns name v k wh mode ef rerank ivf cancelled timeout s =
      search_field_raw mojo d now columns name v k wh mode ef rerank ivf cancelled timeout s"
    "search_fields_raw (guarded l mojo) d now columns qs k fetch_k rank wh final cancelled timeout s =
      search_fields_raw mojo d now columns qs k fetch_k rank wh final cancelled timeout s"
  using assms unfolding search_field_raw_def search_fields_raw_def valid_def
  by (intro guard_intros; auto simp: within_limits_def call_k_def control_options_def within_def split: option.splits)+

lemma finish_same: "a s = b s \<Longrightarrow> finish a s = finish b s"
  by (simp add: finish_def)

lemma write_guarded:
  assumes "co_limits s = l"
  shows "coll_close (guarded l mojo) d s = coll_close mojo d s" "coll_flush (guarded l mojo) d s = coll_flush mojo d s"
    "coll_upsert (guarded l mojo) d i v fs s = coll_upsert mojo d i v fs s"
    "coll_upsert_sparse (guarded l mojo) d i es s = coll_upsert_sparse mojo d i es s"
    "coll_delete (guarded l mojo) d i s = coll_delete mojo d i s"
    "coll_apply_batch (guarded l mojo) d bs s = coll_apply_batch mojo d bs s"
    "coll_apply_point_batch (guarded l mojo) d ps s = coll_apply_point_batch mojo d ps s"
  using assms unfolding coll_close_def coll_flush_def coll_upsert_def coll_upsert_sparse_def coll_delete_def
    coll_apply_batch_def coll_apply_point_batch_def
  by (intro guard_intros; simp add: within_limits_def)+

lemma read_guarded:
  "coll_last_sequence (guarded l mojo) d s = coll_last_sequence mojo d s" "coll_config (guarded l mojo) d s = coll_config mojo d s"
  "coll_last_search_stats (guarded l mojo) d s = coll_last_search_stats mojo d s"
  "coll_vector_fields (guarded l mojo) d s = coll_vector_fields mojo d s"
  "coll_get (guarded l mojo) d i p s = coll_get mojo d i p s" "coll_get_point (guarded l mojo) d i s = coll_get_point mojo d i s"
  "coll_export_records (guarded l mojo) d s = coll_export_records mojo d s"
  "coll_export_points (guarded l mojo) d s = coll_export_points mojo d s"
  "coll_is_point_collection (guarded l mojo) d s = coll_is_point_collection mojo d s"
  "coll_backup (guarded l mojo) d target s = coll_backup mojo d target s"
  unfolding coll_last_sequence_def coll_config_def coll_last_search_stats_def coll_vector_fields_def coll_get_def
    coll_get_point_def coll_export_records_def coll_export_points_def coll_is_point_collection_def coll_backup_def
  by (intro guard_intros; simp add: within_limits_def)+

lemma query_guarded:
  assumes "co_limits s = l"
  shows "coll_search (guarded l mojo) d r s = coll_search mojo d r s"
    "coll_search_batch (guarded l mojo) d metric vs k workers filters s = coll_search_batch mojo d metric vs k workers filters s"
    "coll_search_controlled (guarded l mojo) d now metric v k cancelled timeout s =
      coll_search_controlled mojo d now metric v k cancelled timeout s"
    "coll_search_field (guarded l mojo) d now name v' k' wh mode ef rerank ivf cancelled to s =
      coll_search_field mojo d now name v' k' wh mode ef rerank ivf cancelled to s"
    "coll_search_fields (guarded l mojo) d now qs k' fetch_k rank wh final cancelled to s =
      coll_search_fields mojo d now qs k' fetch_k rank wh final cancelled to s"
proof -
  show "coll_search_batch (guarded l mojo) d metric vs k workers filters s = coll_search_batch mojo d metric vs k workers filters s"
    using assms unfolding coll_search_batch_def
    by (cases filters) (simp_all add: kernel_call_guarded within_limits_def call_k_def)
  show "coll_search_controlled (guarded l mojo) d now metric v k cancelled timeout s =
      coll_search_controlled mojo d now metric v k cancelled timeout s"
    using assms unfolding coll_search_controlled_def
    by (intro guard_intros) (simp add: within_limits_def call_k_def control_options_def)
qed (simp_all add: coll_search_def coll_search_field_def coll_search_fields_def search_raw_guarded named_raw_guarded assms)

lemma facade_step_guarded: "co_limits s = l \<Longrightarrow> facade_step (guarded l mojo) d now c s = facade_step mojo d now c s"
  by (cases c) (simp_all only: facade_step.simps,
    (rule finish_same, (erule write_guarded query_guarded | rule read_guarded))+)

lemma co_limits_step [simp]: "co_limits (snd (facade_step mojo d now c s)) = co_limits s"
  using same.facade_run [where s = s and cs = "[(d, now, c)]" and mojo = mojo, OF refl] by (simp add: identity_def)

lemma facade_run_guarded: "co_limits s = l \<Longrightarrow> facade_run (guarded l mojo) cs s = facade_run mojo cs s"
proof (induction cs arbitrary: s)
  case (Cons c cs)
  obtain d now e where c: "c = (d, now, e)" by (cases c)
  from Cons.prems have "co_limits (snd (facade_step mojo d now e s)) = l" by simp
  with Cons.IH [OF this] facade_step_guarded [OF Cons.prems] c show ?case by simp
qed simp

end
