(* ===== verification/DatabaseSafety.thy ===== *)
theory DatabaseSafety
  imports FacadeLimits
begin

text \<open>
  The registry of open collections over any sequence of \<open>open\<close>, \<open>close\<close> and \<open>close_all\<close> and
  of operations on the handles: every entry is the collection of one directory below the
  root, and its metrics and traces are those of its calls.
\<close>

section \<open>Steps\<close>

inductive db_step :: "'k kernel \<Rightarrow> 'k kernel_open \<Rightarrow> 'k database \<Rightarrow> 'k database \<Rightarrow> bool" for mojo opener where
  open_collection: "db_step mojo opener s (snd (db_open mojo opener d1 d2 name dim config vectors s))"
| close_collection: "db_step mojo opener s (snd (db_close mojo d name s))"
| close_every: "db_step mojo opener s (snd (db_close_all mojo duration s))"
| operate: "db_step mojo opener s (snd (on_handle name (facade_step mojo d now c) s))"

inductive db_reachable :: "'k kernel \<Rightarrow> 'k kernel_open \<Rightarrow> string \<Rightarrow> 'k database \<Rightarrow> bool" for mojo opener root where
  start: "db_reachable mojo opener root (database_init root)"
| step: "db_reachable mojo opener root s \<Longrightarrow> db_step mojo opener s t \<Longrightarrow> db_reachable mojo opener root t"

section \<open>The invariant\<close>

definition entry_ok :: "string \<Rightarrow> string \<times> 'k coll \<Rightarrow> bool" where
  "entry_ok root e \<longleftrightarrow>
     safe_name (fst e) \<and> co_path (snd e) = child_path root (fst e) \<and> co_limits (snd e) = default_limits \<and>
     (\<exists>h. history (snd e) h)"

definition registry_ok :: "string \<Rightarrow> 'k database \<Rightarrow> bool" where
  "registry_ok root s \<longleftrightarrow>
     db_root s = root \<and> distinct (map fst (db_collections s)) \<and> list_all (entry_ok root) (db_collections s)"

interpretation entry: carried mojo "\<lambda>_ c. entry_ok root (name, c)" for mojo root name
proof unfold_locales
  fix n d m args and s :: "'a coll" assume "entry_ok root (name, s)"
  moreover from this obtain h where "history s h" by (auto simp: entry_ok_def)
  with raw_call_history have "\<exists>h. history (snd (raw_call mojo d m args s)) h" by blast
  ultimately show "entry_ok root (name, snd (raw_call mojo d m args s))"
    using raw_call_identity [of mojo d m args s] by (simp add: entry_ok_def identity_def)
qed

lemma collection_open_ok:
  assumes "collection_open mojo opener path dim config vectors limits = Inr c"
  shows "co_path c = path \<and> co_limits c = (case limits of None \<Rightarrow> default_limits | Some l \<Rightarrow> l) \<and> history c []"
  using assms by (auto simp: collection_open_def history_def metrics_of_def counted_def case_prod_unfold)

lemma registry_set:
  assumes "registry_ok root s" "entry_ok root (name, c)"
  shows "registry_ok root (s\<lparr>db_collections := dict_set name c (db_collections s)\<rparr>)"
  using assms set_dict_set [of name c "db_collections s"] by (auto simp: registry_ok_def list_all_iff)

lemma registry_lookup: "registry_ok root s \<Longrightarrow> map_of (db_collections s) name = Some c \<Longrightarrow> entry_ok root (name, c)"
  by (auto simp: registry_ok_def list_all_iff dest!: map_of_SomeD)

lemma inv_on_handle [inv_intros]:
  fixes act :: "('k coll, 'a) action"
  assumes "inv_action (\<lambda>c. entry_ok root (name, c)) act"
  shows "inv_action (registry_ok root) (on_handle name act)"
  unfolding inv_action_def
proof (intro allI impI)
  fix s :: "'k database" assume ok: "registry_ok root s"
  show "registry_ok root (snd (on_handle name act s))"
  proof (cases "map_of (db_collections s) name")
    case (Some c)
    obtain r c' where run: "act c = (r, c')" by fastforce
    with assms registry_lookup [OF ok Some] have "entry_ok root (name, c')" by (rule inv_actionD)
    with registry_set [OF ok this] Some run show ?thesis by (simp add: on_handle_def db_collection_def)
  qed (use ok in \<open>simp add: on_handle_def db_collection_def\<close>)
qed

lemma inv_one_call: "(\<And>c. one_call mojo d act c) \<Longrightarrow> inv_action (\<lambda>c. entry_ok root (name, c)) act"
  unfolding inv_action_def using entry.one_call by blast

lemma registry_del: "registry_ok root s \<Longrightarrow> registry_ok root (s\<lparr>db_collections := dict_del name (db_collections s)\<rparr>)"
  by (auto simp: registry_ok_def dict_del_def list_all_iff intro: distinct_map_filter)

lemma inv_db_close [inv_intros]: "inv_action (registry_ok root) (db_close mojo d name)"
  unfolding db_close_def by (intro inv_intros registry_del inv_one_call [where d = d and mojo = mojo] call_intros)

lemma inv_open_existing [inv_intros]:
  "inv_action (\<lambda>c. entry_ok root (name, c)) (open_existing mojo d1 d2 dim config vectors)"
  unfolding open_existing_def
  by (intro inv_intros inv_one_call [where d = d1 and mojo = mojo] inv_one_call [where d = d2 and mojo = mojo] one_call_read)

lemma inv_open_new:
  fixes mojo :: "'k kernel"
  assumes "safe_name name" shows "inv_action (registry_ok root) (open_new mojo opener name dim config vectors)"
  unfolding inv_action_def
proof (intro allI impI)
  fix s :: "'k database" assume ok: "registry_ok root s"
  then have "db_root s = root" by (simp add: registry_ok_def)
  then show "registry_ok root (snd (open_new mojo opener name dim config vectors s))"
  proof (cases "collection_open mojo opener (child_path root name) dim config vectors None")
    case (Inr c)
    from collection_open_ok [OF this] assms have "entry_ok root (name, c)" by (auto simp: entry_ok_def)
    from registry_set [OF ok this] \<open>db_root s = root\<close> Inr show ?thesis by (simp add: open_new_def)
  qed (use ok \<open>db_root s = root\<close> in \<open>simp add: open_new_def\<close>)
qed

lemma inv_open: "inv_action (registry_ok root) (db_open mojo opener d1 d2 name dim config vectors)"
  unfolding db_open_def by (intro inv_bind_check inv_intros inv_open_new)

lemma registry_invariant: "db_reachable mojo opener root s \<Longrightarrow> registry_ok root s"
proof (induction rule: db_reachable.induct)
  case (step s t)
  have close_all: "inv_action (registry_ok root) (db_close_all mojo duration)" for duration
    unfolding db_close_all_def by (intro inv_intros)
  have operate: "inv_action (registry_ok root) (on_handle name (facade_step mojo d now c))" for name d now c
    by (intro inv_intros inv_one_call [OF facade_one_call])
  from step.hyps(2) show ?case
    by cases (use close_all operate inv_open [of root mojo opener] inv_db_close [of root mojo] step.IH in \<open>auto simp: inv_action_def\<close>)
qed (simp add: registry_ok_def database_init_def)

section \<open>Paths\<close>

lemma child_path_inject: "child_path root a = child_path root b \<longleftrightarrow> a = b"
  by (simp add: child_path_def)

end
