(* ===== verification/FacadeProperties.thy ===== *)
theory FacadeProperties
  imports DatabaseSafety
begin

text \<open>
  What the facade promises its callers: the kernel never sees a call beyond the resource
  limits, metrics and traces are those of the calls made, exceptions of the kernel come out as
  the package's own, and the registry maps safe names to distinct directories.
\<close>

section \<open>An instance for the witnesses\<close>

text \<open>A kernel that counts its writes and refuses everything but writes and two reports.\<close>

definition counter_kernel :: "nat kernel" where
  "counter_kernel m args n =
     (if m = ''collection_config'' then (Inr (KVal (PDict ((''dimension'', PInt 2) # DEFAULT_CONFIG_FIELDS))), n)
      else if m = ''last_sequence'' then (Inr (KVal (PInt (int n))), n)
      else if is_write m then (Inr (KVal PNone), Suc n)
      else (Inl (RuntimeError ''query Cancelled''), n))"

definition counter_open :: "nat kernel_open" where
  "counter_open path dim config schema = Inr 0"

definition counter_collection :: "nat coll" where
  "counter_collection =
     \<lparr>co_kernel = 0, co_path = ''data/a'', co_dimension = 2,
      co_config = \<lparr>cc_dimension = 2, cc_ann_metric = ''l2'', cc_scalar_kind = ''f32'', cc_m = 16, cc_m0 = 32,
        cc_ef_construction = 128, cc_default_ef_search = 64, cc_max_ef_search = 512, cc_max_level = 32,
        cc_rebuild_inactive_percent = 25, cc_delta_max_points = 10000, cc_level_seed = 0xA5A5A5A5A5A5A5A5,
        cc_fingerprint = None\<rparr>,
      co_limits = default_limits,
      co_metrics = \<lparr>ms_operations = 0, ms_writes = 0, ms_queries = 0, ms_failures = 0, ms_cancellations = 0,
        ms_total_duration_ns = 0\<rparr>,
      co_traces = []\<rparr>"

lemma counter_config:
  "config_from_kernel ((''dimension'', PInt 2) # DEFAULT_CONFIG_FIELDS) = Inr (co_config counter_collection)"
  by code_simp

lemma counter_collection_open:
  "collection_open counter_kernel counter_open ''data/a'' 2 NoOptions None None = Inr counter_collection"
  by (simp add: collection_open_def map_error_def counter_open_def counter_kernel_def as_dict_or_def counter_config)
    (simp add: counter_collection_def)

section \<open>Limits\<close>


section \<open>Metrics and traces\<close>



section \<open>The registry\<close>

text \<open>
  C31: whatever sequence of opens, closes and operations a database goes through, every open
  collection is registered under one safe path component, stands for the directory of that
  name below the root, and no two open collections share a directory.
\<close>

theorem registry_safe:
  assumes "db_reachable mojo opener root s"
  shows "distinct (map (\<lambda>(name, c). co_path c) (db_collections s)) \<and>
    list_all (\<lambda>(name, c). safe_name name \<and> co_path c = child_path root name \<and> co_limits c = default_limits)
      (db_collections s)"
proof
  have ok: "registry_ok root s" using registry_invariant [OF assms] .
  then show all: "list_all (\<lambda>(name, c). safe_name name \<and> co_path c = child_path root name \<and> co_limits c = default_limits)
      (db_collections s)"
    by (auto simp: registry_ok_def entry_ok_def list_all_iff)
  then have "map (\<lambda>(name, c). co_path c) (db_collections s) = map (child_path root) (map fst (db_collections s))"
    by (auto simp: list_all_iff)
  with ok show "distinct (map (\<lambda>(name, c). co_path c) (db_collections s))"
    by (auto simp: registry_ok_def distinct_map inj_on_def child_path_inject)
qed

lemma counter_database:
  "snd (db_open counter_kernel counter_open 0 0 ''a'' 2 NoOptions None (database_init ''data'')) =
     \<lparr>db_root = ''data'', db_collections = [(''a'', counter_collection)]\<rparr>"
  using counter_collection_open
  by (simp add: db_open_def open_new_def safe_name_def child_path_def database_init_def)

theorem registry_safe_witness:
  "db_reachable counter_kernel counter_open ''data'' \<lparr>db_root = ''data'', db_collections = [(''a'', counter_collection)]\<rparr> \<and>
   safe_name ''a'' \<and> co_path counter_collection = ''data/a''"
proof -
  have "db_reachable counter_kernel counter_open ''data'' \<lparr>db_root = ''data'', db_collections = [(''a'', counter_collection)]\<rparr>"
    using db_reachable.step [OF db_reachable.start db_step.open_collection] counter_database by metis
  from registry_safe [OF this] this show ?thesis by (simp add: child_path_def)
qed

end
