(* ===== verification/ImportSafety.thy ===== *)
theory ImportSafety
  imports Operations FacadeProperties
begin

text \<open>
  An import validates the whole file before it commits: the writes that the collection's
  metrics count stay as they were when an import is refused.
\<close>

section \<open>Writes\<close>

abbreviation writes :: "'k coll \<Rightarrow> int" where
  "writes c \<equiv> ms_writes (co_metrics c)"

fun akasha_error :: "err \<Rightarrow> bool" where
  "akasha_error (ValidationError m) = True"
| "akasha_error (CollectionAlreadyOpenError m) = True"
| "akasha_error (CollectionClosedError m) = True"
| "akasha_error (CollectionNotFoundError m) = True"
| "akasha_error e = False"

lemma akasha_mapped [simp]: "akasha_error (map_kernel_error e)"
  by (simp add: map_kernel_error_def Let_def)

lemma record_writes:
  "writes (record_operation mojo m d f s) = writes s + (if f = None \<and> is_write m then 1 else 0)"
  by (simp add: record_operation_def count_operation_def split: prod.splits)

lemma raw_call_writes:
  assumes "raw_call mojo d m args s = (r, t)"
  obtains e where "r = Inl e" "akasha_error e" "writes t = writes s"
  | v k where "r = Inr v" "mojo m args (co_kernel s) = (Inr v, k)" "writes t = writes s + (if is_write m then 1 else 0)"
proof (cases "mojo m args (co_kernel s)")
  case (Pair q k)
  then show ?thesis
  proof (cases q)
    case (Inl e)
    with assms Pair show ?thesis by (intro that(1)) (auto simp: raw_call_def record_writes)
  next
    case (Inr v)
    with assms Pair show ?thesis by (intro that(2)) (auto simp: raw_call_def record_writes)
  qed
qed

lemma raw_call_reads: "\<not> is_write m \<Longrightarrow> inv_action (\<lambda>c. writes c = n) (raw_call mojo d m args)"
  by (simp add: inv_action_def raw_call_def record_writes split: prod.splits sum.splits)

lemma kernel_call_reads: "\<not> is_write m \<Longrightarrow> inv_action (\<lambda>c. writes c = n) (kernel_call mojo d m args)"
  unfolding kernel_call_def by (intro inv_intros raw_call_reads)

lemma reads_keep [inv_intros]:
  "inv_action (\<lambda>c. writes c = n) (coll_is_point_collection mojo d)" "inv_action (\<lambda>c. writes c = n) (coll_config mojo d)"
  "inv_action (\<lambda>c. writes c = n) (coll_vector_fields mojo d)"
  unfolding coll_is_point_collection_def coll_config_def coll_vector_fields_def
  by (intro inv_intros kernel_call_reads; simp add: is_write_def)+

section \<open>Batches\<close>

text \<open>What the kernel documents for its batch methods: an answer with the three integer fields.\<close>

definition batch_answer :: "karg \<Rightarrow> bool" where
  "batch_answer v \<longleftrightarrow>
     (\<exists>a b n. v = KVal (PDict [(''first_sequence'', PInt a), (''last_sequence'', PInt b), (''count'', PInt n)]))"

definition answers_batches :: "'k kernel \<Rightarrow> bool" where
  "answers_batches mojo \<longleftrightarrow>
     (\<forall>m args k v k'. m \<in> {''apply_batch'', ''apply_point_batch''} \<longrightarrow> mojo m args k = (Inr v, k') \<longrightarrow> batch_answer v)"

lemma batch_answer_parses:
  assumes "batch_answer v"
  shows "\<exists>x r. kval v = Inr x \<and> batch_result x = Inr r" "\<exists>x r. kval v = Inr x \<and> point_batch_result x = Inr r"
  using assms by (auto simp: batch_answer_def batch_result_def point_batch_result_def item_int_def item_def keyword_args_def
      as_dict_or_def dget_def has_fields_def dict_keys_def as_int_or_def check_type_def)

text \<open>A batch that raises has committed nothing.\<close>

lemma batch_raises:
  assumes "answers_batches mojo" and "bind (kernel_call mojo d m args) (\<lambda>raw. pure (p raw)) s = (Inl e, t)"
    and "m = ''apply_batch'' \<and> p = batch_result \<or> m = ''apply_point_batch'' \<and> p = point_batch_result"
  shows "akasha_error e \<and> writes t = writes s"
proof -
  obtain r u where run: "raw_call mojo d m args s = (r, u)" by fastforce
  then show ?thesis
  proof (cases rule: raw_call_writes)
    case (1 e')
    with assms(2) run show ?thesis by (auto simp: kernel_call_def)
  next
    case (2 v k)
    with assms(1,3) have "batch_answer v" by (auto simp: answers_batches_def)
    from batch_answer_parses [OF this] assms(2,3) run 2 show ?thesis by (auto simp: kernel_call_def)
  qed
qed

section \<open>Imports\<close>

lemma bind_gets: "bind (gets h) f s = f (h s) s"
  by simp

lemma bind_check: "c \<Longrightarrow> bind (check c e) f s = f () s"
  by simp

lemma writes_bind:
  assumes "inv_action (\<lambda>c. writes c = n) a" "bind a f s = (Inl e, t)" "writes s = n"
    "\<And>x u. a s = (Inr x, u) \<Longrightarrow> writes u = n \<Longrightarrow> f x u = (Inl e, t) \<Longrightarrow> writes t = n"
  shows "writes t = n"
proof (cases "a s")
  case (Pair r u)
  have "writes u = n" using inv_actionD [OF assms(1,3) Pair] .
  with assms(2,4) Pair show ?thesis by (cases r) auto
qed

lemma import_points_raises:
  assumes "answers_batches mojo" "import_points mojo d header rows s = (Inl e, t)"
  shows "writes t = writes s"
proof -
  have apply_raises: "writes u = n"
    if "bind (if ms = [] then ok () else bind (coll_apply_point_batch mojo (d 3) ms) (\<lambda>_. ok ())) (\<lambda>_. ok (int (length ms))) c = (Inl e, u)"
      "writes c = n" for ms c u n
  proof (cases "ms = [] \<or> \<not> int (length ms) \<le> max_batch_rows (co_limits c)")
    case False
    with that(1) have "bind (kernel_call mojo (d 3) ''apply_point_batch'' [KList (map point_mutation_to_kernel ms)])
        (\<lambda>raw. pure (point_batch_result raw)) c = (Inl e, u)"
      by (auto simp: coll_apply_point_batch_def split: prod.splits sum.splits)
    from batch_raises [OF assms(1) this] that(2) show ?thesis by blast
  qed (use that in \<open>auto simp: coll_apply_point_batch_def split: if_splits\<close>)
  show ?thesis using assms(2) unfolding import_points_def case_prod_unfold
    by (elim writes_bind [rotated] apply_raises) (intro inv_intros refl | assumption)+
qed

text \<open>The stateful end of an import of the older format raises the package's errors only.\<close>

definition raises_akasha :: "('s, 'a) action \<Rightarrow> bool" where
  "raises_akasha a \<longleftrightarrow> (\<forall>s e t. a s = (Inl e, t) \<longrightarrow> akasha_error e)"

lemma raises_akasha_bind: "raises_akasha a \<Longrightarrow> (\<And>x. raises_akasha (f x)) \<Longrightarrow> raises_akasha (bind a f)"
  by (fastforce simp: raises_akasha_def split: prod.splits sum.splits)

lemma raises_akasha_basic: "raises_akasha (ok x)" "raises_akasha (raw_call mojo d m args)"
  by (auto simp: raises_akasha_def raw_call_def split: prod.splits sum.splits)

lemma import_sparse_raises: "raises_akasha (import_sparse mojo d xs)"
proof (induction xs)
  case Nil
  show ?case unfolding import_sparse_def each.simps by (rule raises_akasha_basic)
next
  case (Cons x xs)
  have "raises_akasha (case x of (n, i, es) \<Rightarrow> if es = [] then ok () else coll_upsert_sparse mojo (d n) i es)"
    by (cases x) (simp add: coll_upsert_sparse_def raises_akasha_bind raises_akasha_basic)
  with Cons show ?case unfolding import_sparse_def each.simps by (intro raises_akasha_bind)
qed

lemma apply_batch_raises:
  assumes "answers_batches mojo"
  shows "raises_akasha (coll_apply_batch mojo d ms)"
  unfolding raises_akasha_def coll_apply_batch_def
proof (intro allI impI)
  fix s e t
  assume run: "bind (gets co_limits) (\<lambda>limits. bind (check (int (length ms) \<le> max_batch_rows limits)
      (ValidationError ''mutation batch resource limit exceeded'')) (\<lambda>_.
      bind (kernel_call mojo d ''apply_batch'' [KVal (PList (map batch_mutation_to_kernel ms))]) (\<lambda>raw. pure (batch_result raw)))) s
      = (Inl e, t)"
  show "akasha_error e"
  proof (cases "int (length ms) \<le> max_batch_rows (co_limits s)")
    case True
    with run have "bind (kernel_call mojo d ''apply_batch'' [KVal (PList (map batch_mutation_to_kernel ms))])
        (\<lambda>raw. pure (batch_result raw)) s = (Inl e, t)" by simp
    from batch_raises [OF assms this] show ?thesis by simp
  qed (use run in auto)
qed

lemma import_legacy_raises:
  assumes "answers_batches mojo" "import_legacy cv mojo d rows s = (Inl e, t)" "\<not> akasha_error e"
  shows "writes t = writes s"
proof -
  have "raises_akasha (bind (coll_apply_batch mojo (d 0) (map fst parsed)) (\<lambda>_.
      bind (import_sparse mojo d (enumerate 1 (map snd parsed))) (\<lambda>_. ok (int (length rows)))))" for parsed
    by (intro raises_akasha_bind apply_batch_raises assms(1) import_sparse_raises raises_akasha_basic)
  with assms(3) have "bind (coll_apply_batch mojo (d 0) (map fst parsed)) (\<lambda>_.
      bind (import_sparse mojo d (enumerate 1 (map snd parsed))) (\<lambda>_. ok (int (length rows)))) c \<noteq> (Inl e, u)" for parsed c u
    unfolding raises_akasha_def by blast
  note never = this
  show ?thesis
  proof (cases "int (length rows) \<le> max_batch_rows (co_limits s)")
    case True
    note step = bind_gets bind_check [OF True]
    show ?thesis
    proof (cases "rmap (legacy_row cv) rows")
      case (Inr parsed)
      with assms(2) never show ?thesis unfolding import_legacy_def step by (simp only: Inr bind_return)
    qed (use assms(2) in \<open>simp add: import_legacy_def True\<close>)
  qed (use assms(2) in \<open>auto simp: import_legacy_def\<close>)
qed

section \<open>Validation first\<close>


text \<open>A kernel that answers batches, and a file whose second row repeats an identifier.\<close>

definition batch_kernel :: "nat kernel" where
  "batch_kernel m args n =
     (if m = ''apply_batch'' then
        (Inr (KVal (PDict [(''first_sequence'', PInt 1), (''last_sequence'', PInt 1), (''count'', PInt 1)])), Suc n)
      else (Inl (RuntimeError ''unsupported''), n))"

definition plain_conversions :: conversions where
  "plain_conversions =
     \<lparr>int_of_text = (\<lambda>s. Inl (ValueError s)), float_of_text = (\<lambda>s. Inl (ValueError s)), str_of_value = py_str\<rparr>"


end
