(* ===== verification/ExportProperties.thy ===== *)
theory ExportProperties
  imports ExportFile ImportSafety
begin

text \<open>
  Export and import composed: importing an exported file restores the captured points.
\<close>

section \<open>Export and import\<close>

text \<open>
  What importing an export means: a target that is field-aware and has the same configuration
  and schema takes one batch with the mutations that restore the captured points.
\<close>

definition restore_export ::
  "'k kernel \<Rightarrow> (nat \<Rightarrow> int) \<Rightarrow> collection_config \<Rightarrow> (string \<times> vector_field) list \<Rightarrow> captured_point list \<Rightarrow> ('k coll, int) action" where
  "restore_export mojo d config schema ps =
     bind (coll_is_point_collection mojo (d 0)) (\<lambda>aware.
     bind (check aware (ValueError ''logical point import requires a field-aware target'')) (\<lambda>_.
     bind (coll_config mojo (d 1)) (\<lambda>stored.
     bind (check (config_eq config stored) (ValueError ''logical point import schema does not match target'')) (\<lambda>_.
     bind (coll_vector_fields mojo (d 2)) (\<lambda>fields.
     bind (check (schema_eq schema fields) (ValueError ''logical point import schema does not match target'')) (\<lambda>_.
     bind (if ps = [] then ok () else bind (coll_apply_point_batch mojo (d 3) (map (restore_point schema) ps)) (\<lambda>_. ok ())) (\<lambda>_.
     ok (int (length ps)))))))))"

lemma config_eq_plain: "config_eq (c\<lparr>cc_fingerprint := None\<rparr>) c' = config_eq c c'"
  by (simp add: config_eq_def)

lemma field_eq_plain: "field_eq (plain_field f) g = field_eq f g"
  by (cases "vf_hnsw f"; cases "vf_hnsw g") (simp_all add: field_eq_def plain_field_def config_eq_plain)

lemma schema_eq_plain: "schema_eq (plain_schema schema) stored = schema_eq schema stored"
  by (auto simp: schema_eq_def plain_schema_def list_all_iff field_eq_plain split: option.splits)

lemma import_points_restores:
  assumes "capture_ok config_dict schema_rows source ps config schema"
  shows "import_points mojo d (header_items config schema source (length ps)) (map point_items ps) =
    restore_export mojo d config schema ps"
  unfolding import_points_def restore_export_def decode_header_ok [OF assms] bind_return prod.case
    decode_points_ok [OF assms] config_eq_plain schema_eq_plain by simp

definition well_formed_export ::
  "collection_config \<Rightarrow> (string \<times> vector_field) list \<Rightarrow> int \<Rightarrow> captured_point list \<Rightarrow> bool" where
  "well_formed_export config schema source ps \<longleftrightarrow>
     wf_val (PDict (header_items config schema source (length ps))) \<and> list_all (\<lambda>p. wf_val (PDict (point_items p))) ps"

text \<open>
  C35: exporting a point collection to a file and importing the file restores it. When an
  export returns, it has written the number of points it reports; importing the file into any
  collection whose limits admit that many rows checks that the target is field-aware and has
  the exported configuration and schema, and then applies exactly one batch, whose mutations
  give back every captured point: identifier, vectors in all representations, packed bytes
  included, absent vectors removed, sparse terms and payload.
\<close>

theorem export_import_roundtrip:
  assumes "coll_export_points mojo (d 0) c = (Inr (Some (captured_export config_dict schema_rows source ps)), c1)"
    and "capture_ok config_dict schema_rows source ps config schema"
    and "well_formed_export config schema source ps"
    and "export_ndjson mojo d temporary destination (c, fs) = (Inr n, (c', fs'))" and "temporary \<noteq> destination"
    and "n \<le> max_batch_rows (co_limits t)"
  shows "n = int (length ps) \<and>
    import_ndjson cv mojo' d' (fs' destination) t = restore_export mojo' d' config schema ps t"
proof -
  let ?h = "header_items config schema source (length ps)"
  have rows: "export_rows mojo d c = (Inr (Some (PDict ?h), map PDict (map point_items ps)), c1)"
    using assms(1) encode_export_ok [OF assms(2)] by (simp add: export_rows_def comp_def)
  obtain text' where body: "export_text (Some (PDict ?h), map PDict (map point_items ps)) = Inr text'"
    and n: "n = int (length ps)" and file': "fs' destination = Some text'"
    using assms(4,5) rows by (auto simp: export_ndjson_def split: sum.splits)
  have head: "is_point_header ?h" by (simp add: is_point_header_def header_items_def dict_keys_def)
  have "read_rows (co_limits t) (Some text') = Inr ([?h] @ map point_items ps)"
    using assms(3,6) n head
    by (intro read_rows_export [OF body]) (auto simp: well_formed_export_def header_rows_def list_all_iff simp del: wf_val.simps)
  with head have "import_ndjson cv mojo' d' (fs' destination) t = import_points mojo' d' ?h (map point_items ps) t"
    by (simp add: import_ndjson_def file')
  with n show ?thesis by (simp only: import_points_restores [OF assms(2)])
qed

text \<open>Values of ASCII strings are written as ASCII, which a file can always hold.\<close>

abbreviation ascii :: "string \<Rightarrow> bool" where
  "ascii s \<equiv> list_all (\<lambda>c. (of_char c :: nat) < 128) s"

fun ascii_val :: "pyval \<Rightarrow> bool" where
  "ascii_val (PStr s) = ascii s"
| "ascii_val (PList xs) = list_all ascii_val xs"
| "ascii_val (PDict d) = list_all (\<lambda>(k, v). ascii k \<and> ascii_val v) d"
| "ascii_val v = True"

lemma ascii_esc: "(of_char c :: nat) < 128 \<Longrightarrow> ascii (esc_char c)"
  using hex_digit_ascii [of "of_char c div 16"] hex_digit_ascii [of "of_char c mod 16"]
  by (auto simp: esc_char_def Let_def)

lemma ascii_quote: "ascii s \<Longrightarrow> ascii (quote s)"
  using ascii_esc by (auto simp: quote_def list_all_iff)

lemma ascii_join: "ascii sep \<Longrightarrow> (\<And>x. x \<in> set xs \<Longrightarrow> ascii x) \<Longrightarrow> ascii (join sep xs)"
  by (induction sep xs rule: join.induct) simp_all

lemma ascii_number: "parse_number t = Some v \<Longrightarrow> ascii t"
  using parse_number_chars(1) num_char_ascii by (auto simp: list_all_iff)

lemma ascii_dumps_plain: "ascii_val v \<Longrightarrow> wf_val v \<Longrightarrow> finite_val v \<Longrightarrow> ascii (dumps_plain v)"
proof (induction v rule: canon_induct)
  case (1 xs)
  then show ?case by (auto simp: list_all_iff [of _ xs] intro!: ascii_join)
next
  case (2 d)
  then show ?case
    by (fastforce simp: dumps_plain_PDict list_all_iff [of _ d] member_text_def intro!: ascii_join ascii_quote)
next
  case (number i)
  then show ?case using ascii_number [OF parse_number_int] by simp
next
  case (float_number x)
  then show ?case using ascii_number [OF parse_float_text] by (cases x) auto
qed (auto simp: ascii_quote)

lemma no_surrogate_ascii: "ascii s \<Longrightarrow> no_surrogate s"
  by (induction s rule: no_surrogate.induct) auto

lemma row_line_ascii: "ascii_val v \<Longrightarrow> wf_val v \<Longrightarrow> finite_val v \<Longrightarrow> row_line v = Inr (dumps_plain v @ [LF])"
  by (simp add: row_line_Inr no_surrogate_ascii ascii_dumps_plain)

text \<open>An export of one point with a packed vector.\<close>

definition example_schema_rows :: pyval where
  "example_schema_rows =
     PList [PDict [(''id'', PInt 0), (''name'', PStr ''default'')],
            PDict [(''id'', PInt 2), (''name'', PStr ''tag''), (''dimension'', PInt 12), (''dtype'', PStr ''binary''),
                   (''kind'', PStr ''binary''), (''metric'', PStr ''hamming''), (''hnsw'', PNone)]]"

definition example_schema :: "(string \<times> vector_field) list" where
  "example_schema =
     [(''tag'', \<lparr>vf_dimension = 12, vf_dtype = ''binary'', vf_kind = ''binary'', vf_metric = ''hamming'', vf_hnsw = None\<rparr>)]"

definition example_point :: captured_point where
  "example_point =
     \<lparr>cp_id = - 7, cp_sequence = 4, cp_document_sequence = 3, cp_vector = PNone, cp_sparse = PList [],
      cp_vectors = [(''tag'', KBytes [CHR 0xF0, CHR 0x0A])],
      cp_fields = [\<lparr>rf_name = PStr ''kind'', rf_type = PStr ''string'', rf_value = PStr ''a''\<rparr>]\<rparr>"

definition export_kernel :: "nat kernel" where
  "export_kernel m args n =
     (if m = ''export_points'' then
        (Inr (KDict (captured_export ((''dimension'', PInt 2) # DEFAULT_CONFIG_FIELDS) example_schema_rows 5 [example_point])), n)
      else (Inl (RuntimeError ''unsupported''), n))"

lemma example_capture:
  "capture_ok ((''dimension'', PInt 2) # DEFAULT_CONFIG_FIELDS) example_schema_rows 5 [example_point]
     (co_config counter_collection) example_schema"
proof -
  have "fields_from_kernel example_schema_rows = Inr example_schema" by code_simp
  then show ?thesis
    by (simp add: capture_ok_def counter_config captured_ok_def example_point_def example_schema_def vector_ok_def
        field_name_ok_def sparse_list_def)
qed

theorem export_import_roundtrip_witness:
  "\<exists>c' fs'. export_ndjson export_kernel (\<lambda>_. 0) ''out.tmp'' ''out'' (counter_collection, \<lambda>_. None) = (Inr 1, (c', fs')) \<and>
     import_ndjson plain_conversions counter_kernel (\<lambda>_. 0) (fs' ''out'') counter_collection =
     restore_export counter_kernel (\<lambda>_. 0) (co_config counter_collection) example_schema [example_point] counter_collection"
proof -
  obtain c1 where capture: "coll_export_points export_kernel 0 counter_collection =
      (Inr (Some (captured_export ((''dimension'', PInt 2) # DEFAULT_CONFIG_FIELDS) example_schema_rows 5 [example_point])), c1)"
    by (simp add: coll_export_points_def raw_call_def export_kernel_def)
  have wf: "well_formed_export (co_config counter_collection) example_schema 5 [example_point]" by code_simp
  have "ascii_val (PDict h) \<and> finite_val (PDict h)" if "h = header_items (co_config counter_collection) example_schema 5 1" for h
    using that by (auto simp: header_items_def config_json_def list_all_iff config_fields_def counter_collection_def
        example_schema_def field_json_def FORMAT_def)
  moreover have "ascii_val (PDict (point_items example_point)) \<and> finite_val (PDict (point_items example_point))" by code_simp
  ultimately have "\<exists>t. export_text (Some (PDict (header_items (co_config counter_collection) example_schema 5 1)),
      [PDict (point_items example_point)]) = Inr t"
    using wf by (simp add: export_text_def row_line_ascii well_formed_export_def del: wf_val.simps finite_val.simps ascii_val.simps)
  then have "fst (export_ndjson export_kernel (\<lambda>_. 0) ''out.tmp'' ''out'' (counter_collection, \<lambda>_. None)) = Inr 1"
    using capture encode_export_ok [OF example_capture] by (auto simp: export_ndjson_def export_rows_def)
  then obtain c' fs' where run: "export_ndjson export_kernel (\<lambda>_. 0) ''out.tmp'' ''out'' (counter_collection, \<lambda>_. None) = (Inr 1, (c', fs'))"
    by (cases "export_ndjson export_kernel (\<lambda>_. 0) ''out.tmp'' ''out'' (counter_collection, \<lambda>_. None)")
      (auto intro: that)
  have "(1 :: int) \<le> max_batch_rows (co_limits counter_collection)" by (simp add: counter_collection_def default_limits_def)
  from export_import_roundtrip [OF capture example_capture wf run _ this] run show ?thesis by auto
qed

end
