(* ===== verification/Quarantine.thy ===== *)
theory Quarantine
  imports Operations
begin

text \<open>
  The quarantine of orphans: whatever happens, a file is only ever moved, never changed or
  overwritten, and only an unreferenced file that matches the pattern is moved.
\<close>

definition movable :: "string list \<Rightarrow> string \<Rightarrow> bool" where
  "movable referenced name \<longleftrightarrow> name \<notin> set referenced \<and> orphan_pattern name"

text \<open>Where the file of a name can be after some moves: in its place, or in the quarantine.\<close>

definition moved_only :: "string list \<Rightarrow> storage_dirs \<Rightarrow> storage_dirs \<Rightarrow> string \<Rightarrow> bool" where
  "moved_only referenced s t name \<longleftrightarrow>
     (map_of (sd_files t) name = map_of (sd_files s) name \<and> map_of (sd_quarantine t) name = map_of (sd_quarantine s) name) \<or>
     (movable referenced name \<and> map_of (sd_files s) name \<noteq> None \<and> map_of (sd_quarantine s) name = None \<and>
      map_of (sd_files t) name = None \<and> map_of (sd_quarantine t) name = map_of (sd_files s) name)"

lemma map_of_dict_del [simp]: "map_of (dict_del k d) = (map_of d)(k := None)"
  by (induction d) (auto simp: dict_del_def fun_eq_iff)

lemma quarantine_loop_moved:
  assumes "quarantine_loop referenced xs (s, moved) = (r, t)"
    and "\<And>n x. (n, x) \<in> set xs \<Longrightarrow> map_of (sd_files s) n = Some x" and "distinct (map fst xs)"
  shows "moved_only referenced s t name \<and>
    (name \<notin> set (map fst xs) \<longrightarrow> map_of (sd_files t) name = map_of (sd_files s) name) \<and>
    (case r of Inl _ \<Rightarrow> True | Inr names \<Rightarrow> names = moved @ filter (movable referenced) (map fst xs) \<and>
       (name \<in> set (map fst xs) \<longrightarrow> movable referenced name \<longrightarrow> map_of (sd_files t) name = None))"
  using assms
proof (induction xs arbitrary: s moved)
  case Nil
  then show ?case by (auto simp: moved_only_def)
next
  case (Cons x xs)
  obtain n data where x: "x = (n, data)" by (cases x)
  have n: "map_of (sd_files s) n = Some data" "n \<notin> fst ` set xs" using Cons.prems(2,3) x by auto
  consider (skip) "\<not> movable referenced n" | (clash) "movable referenced n" "map_of (sd_quarantine s) n \<noteq> None"
    | (move) "movable referenced n" "map_of (sd_quarantine s) n = None" by blast
  then show ?case
  proof cases
    case skip
    with Cons.prems x have "quarantine_loop referenced xs (s, moved) = (r, t)"
      by (simp add: quarantine_file_def movable_def)
    from Cons.IH [OF this] Cons.prems(2,3) skip x show ?thesis by (auto split: sum.splits)
  next
    case clash
    with Cons.prems x show ?thesis by (auto simp: quarantine_file_def movable_def moved_only_def)
  next
    case move
    define u where "u = \<lparr>sd_files = dict_del n (sd_files s), sd_quarantine = dict_set n data (sd_quarantine s)\<rparr>"
    from move Cons.prems x have run: "quarantine_loop referenced xs (u, moved @ [n]) = (r, t)"
      by (simp add: quarantine_file_def movable_def u_def)
    have files: "map_of (sd_files u) m = Some y" if "(m, y) \<in> set xs" for m y
      using that Cons.prems(2) n(2) by (force simp: u_def)
    have "distinct (map fst xs)" using Cons.prems(3) by simp
    from Cons.IH [OF run files this] show ?thesis
      using n move x by (auto simp: u_def moved_only_def split: sum.splits if_splits)
  qed
qed

section \<open>Safety\<close>

text \<open>
  C33: quarantining moves files and does nothing else. Whatever its outcome, every file is
  unchanged in its place or stands unchanged in the quarantine under a name that was free
  there; the manifest, every file the manifest references and every file that does not look
  like a storage artifact stay in place; and when it returns, exactly the unreferenced
  artifacts have been moved, in order of their names.
\<close>

theorem quarantine_safe:
  assumes "quarantine_orphans inspect path dim s = (r, t)" "inspect_storage inspect path dim = Inr report"
    and "distinct (map fst (sd_files s))"
    and "referenced = ''manifest.bin'' # rep_segment_names report @ rep_sparse_names report"
  shows "(\<forall>name. moved_only referenced s t name) \<and>
    (\<forall>moved. r = Inr moved \<longrightarrow>
       moved = filter (movable referenced) (sort (map fst (sd_files s))) \<and>
       (\<forall>name. movable referenced name \<longrightarrow> map_of (sd_files t) name = None))"
proof -
  let ?xs = "sort_items (sd_files s)"
  have run: "quarantine_loop referenced ?xs (s, []) = (r, t)"
    using assms(1,2,4) by (simp add: quarantine_orphans_def)
  have files: "map_of (sd_files s) n = Some x" if "(n, x) \<in> set ?xs" for n x
    using that assms(3) by simp
  have dist: "distinct (map fst ?xs)" using assms(3) by simp
  note moved = quarantine_loop_moved [OF run files dist]
  have absent: "map_of (sd_files s) name = None" if "name \<notin> set (map fst ?xs)" for name
    using that by (auto simp: map_of_eq_None_iff)
  show ?thesis using moved absent map_fst_sort_items [of "sd_files s"] by (fastforce split: sum.splits)
qed

definition example_report :: pyval where
  "example_report =
     PDict [(''dimension'', PInt 2), (''format_version'', PInt 1), (''generation'', PInt 3), (''last_sequence'', PInt 9),
            (''segment_count'', PInt 1), (''live_points'', PInt 4), (''valid'', PBool True), (''config_fingerprint'', PInt 0),
            (''segment_names'', PList [PStr ''segment-1.bin'']), (''sparse_names'', PList [])]"

theorem quarantine_safe_witness:
  "\<exists>t. quarantine_orphans (\<lambda>_ _. Inr example_report) ''data'' 2
      \<lparr>sd_files = [(''segment-2.bin'', ''x''), (''segment-1.bin'', ''y''), (''notes.txt'', ''z'')], sd_quarantine = []\<rparr> =
      (Inr [''segment-2.bin''], t) \<and> map_of (sd_files t) ''segment-1.bin'' = Some ''y'' \<and> map_of (sd_files t) ''segment-2.bin'' = None"
proof -
  let ?s = "\<lparr>sd_files = [(''segment-2.bin'', ''x''), (''segment-1.bin'', ''y''), (''notes.txt'', ''z'')], sd_quarantine = []\<rparr>"
  have report: "inspect_storage (\<lambda>_ _. Inr example_report) ''data'' 2 = Inr
      \<lparr>rep_dimension = 2, rep_format_version = 1, rep_generation = 3, rep_last_sequence = 9, rep_segment_count = 1,
       rep_live_points = 4, rep_valid = True, rep_config_fingerprint = 0, rep_segment_names = [''segment-1.bin''],
       rep_sparse_names = []\<rparr>"
    by code_simp
  obtain r t where run: "quarantine_orphans (\<lambda>_ _. Inr example_report) ''data'' 2 ?s = (r, t)" by fastforce
  have "fst (quarantine_orphans (\<lambda>_ _. Inr example_report) ''data'' 2 ?s) = Inr [''segment-2.bin'']" by code_simp
  with run have r: "r = Inr [''segment-2.bin'']" by simp
  have names: "movable [''manifest.bin'', ''segment-1.bin''] ''segment-2.bin''" "\<not> movable [''manifest.bin'', ''segment-1.bin''] ''segment-1.bin''"
    by code_simp+
  from quarantine_safe [OF run report _ refl] r names(1)
  have "moved_only [''manifest.bin'', ''segment-1.bin''] ?s t ''segment-1.bin''" "map_of (sd_files t) ''segment-2.bin'' = None"
    by simp_all
  with names(2) r run show ?thesis by (simp add: moved_only_def)
qed

end
