(* ===== verification/ArrowScan.thy ===== *)
theory ArrowScan
  imports Collection
begin

text \<open>
  The Arrow scanner (arrow.py, \<open>scan_record_batches\<close> and \<open>ArrowScanner\<close>). The native scanner
  and the record batches it exports belong to the kernel and to pyarrow: they are parameters,
  a record of actions on the native state and the row count of a batch. The theory gives the
  admitted requests and what iterating a scanner returns.
\<close>

section \<open>Requests\<close>

text \<open>A name list as given: text (\<open>str\<close> or \<open>bytes\<close>) or a sequence of values.\<close>

datatype name_list = Text_list | Name_items "pyval list"

record scan_column =
  col_name :: string
  col_kind :: int
  col_payload :: string

definition SCAN_KINDS :: "(string \<times> int) list" where
  "SCAN_KINDS = [(''id'', 1), (''sequence'', 2), (''vector'', 3), (''sparse_term_ids'', 4), (''sparse_weights'', 5),
     (''document_sequence'', 11)]"

definition SCAN_PAYLOAD_KINDS :: "(string \<times> int) list" where
  "SCAN_PAYLOAD_KINDS = [(''string'', 6), (''int'', 7), (''float'', 8), (''bool'', 9)]"

definition max_signed :: int where
  "max_signed = 2 ^ 63 - 1"

definition positive_signed :: "string \<Rightarrow> pyval \<Rightarrow> int result" where
  "positive_signed name v =
     (case as_int v of
        Some i \<Rightarrow> require (0 < i \<and> i \<le> max_signed) (ValueError (name @ '' must be a positive signed 64-bit integer'')) (Inr i)
      | None \<Rightarrow> Inl (ValueError (name @ '' must be a positive signed 64-bit integer'')))"

definition deadline_signed :: "pyval \<Rightarrow> int result" where
  "deadline_signed v =
     (case as_int v of
        Some i \<Rightarrow> require (0 \<le> i \<and> i \<le> max_signed) (ValueError ''deadline_ns must be a nonnegative signed 64-bit integer'') (Inr i)
      | None \<Rightarrow> Inl (ValueError ''deadline_ns must be a nonnegative signed 64-bit integer''))"

definition plain_name :: "string \<Rightarrow> bool" where
  "plain_name s \<longleftrightarrow> s \<noteq> [] \<and> CHR 0x00 \<notin> set s"

definition core_column :: "pyval \<Rightarrow> scan_column result" where
  "core_column v =
     (case as_str v of
        None \<Rightarrow> Inl (ValueError ''unknown scanner column'')
      | Some name \<Rightarrow>
          (case map_of SCAN_KINDS name of
             None \<Rightarrow> Inl (ValueError ''unknown scanner column'')
           | Some kind \<Rightarrow> Inr \<lparr>col_name = name, col_kind = kind, col_payload = ''''\<rparr>))"

definition vector_column :: "pyval \<Rightarrow> scan_column result" where
  "vector_column v =
     (case as_str v of
        None \<Rightarrow> Inl (ValueError ''vector names must be nonempty strings without NUL'')
      | Some name \<Rightarrow>
          require (plain_name name) (ValueError ''vector names must be nonempty strings without NUL'')
            (Inr \<lparr>col_name = ''vectors.'' @ name, col_kind = 10, col_payload = name\<rparr>))"

definition payload_column :: "pyval \<times> pyval \<Rightarrow> scan_column result" where
  "payload_column p =
     (case as_str (fst p) of
        None \<Rightarrow> Inl (ValueError ''payload names must be nonempty strings without NUL'')
      | Some name \<Rightarrow>
          require (plain_name name) (ValueError ''payload names must be nonempty strings without NUL'')
            (case as_str (snd p) of
               None \<Rightarrow> Inl (ValueError ''unsupported scanner payload type'')
             | Some type_name \<Rightarrow>
                 (case map_of SCAN_PAYLOAD_KINDS type_name of
                    None \<Rightarrow> Inl (ValueError ''unsupported scanner payload type'')
                  | Some kind \<Rightarrow> Inr \<lparr>col_name = ''payload.'' @ name, col_kind = kind, col_payload = name\<rparr>)))"

definition named_items :: "string \<Rightarrow> name_list \<Rightarrow> pyval list result" where
  "named_items message names = (case names of Text_list \<Rightarrow> Inl (TypeError message) | Name_items vs \<Rightarrow> Inr vs)"

definition column_to_kernel :: "scan_column \<Rightarrow> pyval" where
  "column_to_kernel c =
     PDict [(''name'', PStr (col_name c)), (''kind'', PInt (col_kind c)), (''payload_name'', PStr (col_payload c))]"

definition scan_message ::
  "int \<Rightarrow> scan_column list \<Rightarrow> (string \<times> pyval) list option \<Rightarrow> int \<Rightarrow> int \<Rightarrow> int \<Rightarrow> pyval" where
  "scan_message batch_size columns filter_by candidates deadline_ns batch_bytes =
     PDict [(''batch_size'', PInt batch_size), (''columns'', PList (map column_to_kernel columns)),
       (''filter'', (case filter_by of None \<Rightarrow> PNone | Some d \<Rightarrow> PDict d)), (''max_candidates'', PInt candidates),
       (''deadline_ns'', PInt deadline_ns), (''max_batch_bytes'', PInt batch_bytes)]"

text \<open>The checks of \<open>scan_record_batches\<close>, in the order of the code, up to the kernel call.\<close>

definition scan_options ::
  "resource_limits \<Rightarrow> pyval \<Rightarrow> name_list \<Rightarrow> name_list \<Rightarrow> (pyval \<times> pyval) list \<Rightarrow> (string \<times> pyval) list option \<Rightarrow>
     pyval \<Rightarrow> pyval \<Rightarrow> pyval \<Rightarrow> pyval result" where
  "scan_options limits batch_size columns vectors payload_schema filter_by candidates deadline_ns batch_bytes =
     rbind (positive_signed ''batch_size'' batch_size) (\<lambda>b.
     rbind (positive_signed ''max_candidates''
       (if candidates = PNone then PInt (max_candidates limits) else candidates)) (\<lambda>c.
     rbind (positive_signed ''max_batch_bytes'' batch_bytes) (\<lambda>m.
     require (b \<le> m div 8) (ValueError ''batch_size selection exceeds max_batch_bytes'')
    (rbind (deadline_signed deadline_ns) (\<lambda>deadline_ns.
     rbind (rbind (named_items ''columns must be a sequence of column names'' columns) (rmap core_column)) (\<lambda>core.
     rbind (rbind (named_items ''vectors must be a sequence of field names'' vectors) (rmap vector_column)) (\<lambda>named.
     rbind (rmap payload_column payload_schema) (\<lambda>payload.
     let descriptors = core @ named @ payload in
     require (card (set (map col_name descriptors)) = length descriptors) (ValueError ''scanner column names must be unique'')
       (Inr (scan_message b descriptors filter_by c deadline_ns m))))))))))"

section \<open>The scanner\<close>

text \<open>What \<open>next_batch\<close> of the native scanner answers; no batch means the end of the snapshot.\<close>

record 'b scan_answer =
  an_batch :: "'b option"
  an_visited_slots :: int
  an_materialized_bytes :: int
  an_borrowed_bytes :: int

record ('n, 'b, 'm) native_scanner =
  native_next :: "bool \<Rightarrow> ('n, 'b scan_answer) action"
  native_close :: "('n, unit) action"
  native_schema :: "'n \<Rightarrow> 'm"
  num_rows :: "'b \<Rightarrow> int"

record scan_stats =
  st_rows :: int
  st_batches :: int
  st_materialized_bytes :: int
  st_borrowed_bytes :: int
  st_visited_slots :: int

record ('n, 'm) scanner =
  sc_native :: 'n
  sc_cancellation :: "cancellation_token option"
  sc_schema :: 'm
  sc_closed :: bool
  sc_exhausted :: bool
  sc_stats :: scan_stats

definition scanner_init :: "('n, 'b, 'm) native_scanner \<Rightarrow> 'n \<Rightarrow> cancellation_token option \<Rightarrow> ('n, 'm) scanner" where
  "scanner_init ns native cancellation =
     \<lparr>sc_native = native, sc_cancellation = cancellation, sc_schema = native_schema ns native, sc_closed = False, sc_exhausted = False,
      sc_stats = \<lparr>st_rows = 0, st_batches = 0, st_materialized_bytes = 0, st_borrowed_bytes = 0, st_visited_slots = 0\<rparr>\<rparr>"

definition on_native :: "('n, 'a) action \<Rightarrow> (('n, 'm) scanner, 'a) action" where
  "on_native a = zoom sc_native (\<lambda>n s. s\<lparr>sc_native := n\<rparr>) a"

definition scanner_close :: "('n, 'b, 'm) native_scanner \<Rightarrow> (('n, 'm) scanner, unit) action" where
  "scanner_close ns =
     bind (gets sc_closed) (\<lambda>closed.
     if closed then ok ()
     else bind (on_native (native_close ns)) (\<lambda>_. modify (\<lambda>s. s\<lparr>sc_closed := True\<rparr>)))"

definition add_batch :: "int \<Rightarrow> 'b scan_answer \<Rightarrow> scan_stats \<Rightarrow> scan_stats" where
  "add_batch rows a st =
     st\<lparr>st_rows := st_rows st + rows, st_batches := st_batches st + 1,
        st_materialized_bytes := st_materialized_bytes st + an_materialized_bytes a,
        st_borrowed_bytes := st_borrowed_bytes st + an_borrowed_bytes a\<rparr>"

definition set_visited :: "'b scan_answer \<Rightarrow> scan_stats \<Rightarrow> scan_stats" where
  "set_visited a st = st\<lparr>st_visited_slots := an_visited_slots a\<rparr>"

definition on_stats :: "(scan_stats \<Rightarrow> scan_stats) \<Rightarrow> (('n, 'm) scanner, unit) action" where
  "on_stats f = modify (\<lambda>s. s\<lparr>sc_stats := f (sc_stats s)\<rparr>)"

text \<open>\<open>__next__\<close>; \<open>None\<close> stands for \<open>StopIteration\<close>.\<close>

definition scanner_next :: "('n, 'b, 'm) native_scanner \<Rightarrow> (('n, 'm) scanner, 'b option) action" where
  "scanner_next ns =
     bind (gets sc_closed) (\<lambda>closed.
     bind (check (\<not> closed) (RuntimeError ''scanner is closed'')) (\<lambda>_.
     bind (gets sc_exhausted) (\<lambda>exhausted.
     if exhausted then ok None
     else
       bind (gets sc_cancellation) (\<lambda>cancellation.
       bind (catching (\<lambda>_. True) (on_native (native_next ns (cancelled_argument cancellation)))
               (\<lambda>e. bind (scanner_close ns) (\<lambda>_. raise (map_kernel_error e)))) (\<lambda>result.
       bind (on_stats (set_visited result)) (\<lambda>_.
       case an_batch result of
         None \<Rightarrow>
           bind (modify (\<lambda>s. s\<lparr>sc_exhausted := True\<rparr>)) (\<lambda>_.
           bind (on_native (native_close ns)) (\<lambda>_. ok None))
       | Some batch \<Rightarrow>
           bind (on_stats (add_batch (num_rows ns batch) result)) (\<lambda>_. ok (Some batch))))))))"

definition scanner_enter :: "(('n, 'm) scanner, unit) action" where
  "scanner_enter =
     bind (gets sc_closed) (\<lambda>closed. check (\<not> closed) (RuntimeError ''scanner is closed''))"

definition scanner_exit :: "('n, 'b, 'm) native_scanner \<Rightarrow> (('n, 'm) scanner, unit) action" where
  "scanner_exit ns = scanner_close ns"

definition scanner_stats :: "(('n, 'm) scanner, scan_stats) action" where
  "scanner_stats = gets sc_stats"

text \<open>
  \<open>scan_record_batches\<close>: the kernel's answer stands for a native scanner, given by
  \<open>scanner_of\<close>.
\<close>

definition scan_record_batches ::
  "'k kernel \<Rightarrow> int \<Rightarrow> ('n, 'b, 'm) native_scanner \<Rightarrow> (karg \<Rightarrow> 'n) \<Rightarrow> pyval \<Rightarrow> name_list \<Rightarrow> name_list \<Rightarrow> (pyval \<times> pyval) list \<Rightarrow>
     (string \<times> pyval) list option \<Rightarrow> cancellation_token option \<Rightarrow> pyval \<Rightarrow> pyval \<Rightarrow> pyval \<Rightarrow> ('k coll, ('n, 'm) scanner) action" where
  "scan_record_batches mojo duration ns scanner_of batch_size columns vectors payload_schema filter_by cancellation
       candidates deadline_ns batch_bytes =
     bind (gets co_limits) (\<lambda>limits.
     bind (pure (scan_options limits batch_size columns vectors payload_schema filter_by candidates deadline_ns batch_bytes))
       (\<lambda>options.
     bind (raw_call mojo duration ''scanner'' [KVal options]) (\<lambda>native.
     ok (scanner_init ns (scanner_of native) cancellation))))"

text \<open>\<open>list(scanner)\<close>: the loop of \<open>__iter__\<close> and \<open>__next__\<close>, which has no bound of its own.\<close>

partial_function (option) drain ::
  "('n, 'b, 'm) native_scanner \<Rightarrow> 'b list \<Rightarrow> ('n, 'm) scanner \<Rightarrow> ('b list result \<times> ('n, 'm) scanner) option" where
  "drain ns acc s =
     (case scanner_next ns s of (r, t) \<Rightarrow>
        (case r of
           Inl e \<Rightarrow> Some (Inl e, t)
         | Inr next_batch \<Rightarrow>
             (case next_batch of None \<Rightarrow> Some (Inr acc, t) | Some batch \<Rightarrow> drain ns (acc @ [batch]) t)))"

end
