(* ===== verification/ArrowScanProperties.thy ===== *)
theory ArrowScanProperties
  imports ArrowScan
begin

text \<open>
  What the scanner promises: a scan request is admitted exactly when its sizes, names and
  types are in range, and iterating a scanner ends, returns the native batches in order, adds
  them up and never reads the native scanner again.
\<close>

section \<open>Admitted requests\<close>

definition core_scan :: "string \<Rightarrow> scan_column" where
  "core_scan name = \<lparr>col_name = name, col_kind = the (map_of SCAN_KINDS name), col_payload = ''''\<rparr>"

definition vector_scan :: "string \<Rightarrow> scan_column" where
  "vector_scan name = \<lparr>col_name = ''vectors.'' @ name, col_kind = 10, col_payload = name\<rparr>"

definition payload_scan :: "string \<times> string \<Rightarrow> scan_column" where
  "payload_scan p =
     \<lparr>col_name = ''payload.'' @ fst p, col_kind = the (map_of SCAN_PAYLOAD_KINDS (snd p)), col_payload = fst p\<rparr>"

definition core_name :: "string \<Rightarrow> bool" where
  "core_name name \<longleftrightarrow> name \<in> fst ` set SCAN_KINDS"

definition payload_entry :: "string \<times> string \<Rightarrow> bool" where
  "payload_entry p \<longleftrightarrow> plain_name (fst p) \<and> snd p \<in> fst ` set SCAN_PAYLOAD_KINDS"

lemma known_name: "n \<in> fst ` set d \<longleftrightarrow> map_of d n \<noteq> None"
  by (metis map_of_eq_None_iff)

lemma core_column_Inr: "core_column v = Inr c \<longleftrightarrow> (\<exists>n. v = PStr n \<and> core_name n \<and> c = core_scan n)"
proof (cases v)
  case (PStr n)
  then show ?thesis
    by (cases "map_of SCAN_KINDS n") (auto simp: core_column_def core_name_def core_scan_def known_name)
qed (auto simp: core_column_def)

lemma vector_column_Inr: "vector_column v = Inr c \<longleftrightarrow> (\<exists>n. v = PStr n \<and> plain_name n \<and> c = vector_scan n)"
  by (cases v) (auto simp: vector_column_def vector_scan_def)

lemma payload_column_Inr:
  "payload_column v = Inr c \<longleftrightarrow> (\<exists>n k. v = (PStr n, PStr k) \<and> payload_entry (n, k) \<and> c = payload_scan (n, k))"
proof (cases "as_str (fst v)"; cases "as_str (snd v)")
  fix n k assume "as_str (fst v) = Some n" "as_str (snd v) = Some k"
  then have "v = (PStr n, PStr k)" by (cases v; cases "fst v"; cases "snd v") auto
  then show ?thesis
    by (cases "map_of SCAN_PAYLOAD_KINDS k") (auto simp: payload_column_def payload_entry_def payload_scan_def known_name)
qed (auto simp: payload_column_def split: option.splits)

lemma rmap_shape:
  assumes "\<And>v c. f v = Inr c \<longleftrightarrow> (\<exists>n. v = g n \<and> P n \<and> c = h n)"
  shows "rmap f vs = Inr cs \<longleftrightarrow> (\<exists>ns. vs = map g ns \<and> list_all P ns \<and> cs = map h ns)"
proof (induction vs arbitrary: cs)
  case (Cons v vs)
  have "rmap f (v # vs) = Inr cs \<longleftrightarrow> (\<exists>c cs'. f v = Inr c \<and> rmap f vs = Inr cs' \<and> cs = c # cs')"
    by (cases "f v"; cases "rmap f vs") auto
  also have "\<dots> \<longleftrightarrow> (\<exists>n ns. v = g n \<and> P n \<and> vs = map g ns \<and> list_all P ns \<and> cs = h n # map h ns)"
    unfolding Cons.IH assms by blast
  also have "\<dots> \<longleftrightarrow> (\<exists>ns. v # vs = map g ns \<and> list_all P ns \<and> cs = map h ns)"
  proof (intro iffI; elim exE conjE)
    fix n ns assume "v = g n" "P n" "vs = map g ns" "list_all P ns" "cs = h n # map h ns"
    then show "\<exists>ns. v # vs = map g ns \<and> list_all P ns \<and> cs = map h ns" by (intro exI [of _ "n # ns"]) simp
  next
    fix ns assume "v # vs = map g ns" "list_all P ns" "cs = map h ns"
    then show "\<exists>n ns. v = g n \<and> P n \<and> vs = map g ns \<and> list_all P ns \<and> cs = h n # map h ns" by (cases ns) auto
  qed
  finally show ?case .
qed auto

lemma payload_pairs:
  "payload_column v = Inr c \<longleftrightarrow>
     (\<exists>p. v = (case p of (n, k) \<Rightarrow> (PStr n, PStr k)) \<and> payload_entry p \<and> c = payload_scan p)"
  by (auto simp: payload_column_Inr)

lemmas column_lists = rmap_shape [OF core_column_Inr] rmap_shape [OF vector_column_Inr] rmap_shape [OF payload_pairs]

text \<open>The three families of columns have disjoint names, so names repeat only inside a family.\<close>

lemma distinct_columns:
  assumes "list_all core_name cs"
  shows "distinct (map col_name (map core_scan cs @ map vector_scan vs @ map payload_scan ps)) \<longleftrightarrow>
    distinct cs \<and> distinct vs \<and> distinct (map fst ps)"
proof -
  have "set cs \<inter> (((@) ''vectors.'') ` set vs \<union> ((@) ''payload.'') ` fst ` set ps) = {}"
    using assms by (fastforce simp: list_all_iff core_name_def SCAN_KINDS_def)
  moreover have "((@) ''vectors.'') ` set vs \<inter> ((@) ''payload.'') ` fst ` set ps = {}" by auto
  ultimately show ?thesis
    by (auto simp: core_scan_def vector_scan_def payload_scan_def distinct_map inj_on_def comp_def image_image)
qed

lemma unique_columns:
  assumes "list_all core_name cs"
  shows "card (set (map col_name (map core_scan cs @ map vector_scan vs @ map payload_scan ps))) =
      length (map core_scan cs @ map vector_scan vs @ map payload_scan ps) \<longleftrightarrow>
    distinct cs \<and> distinct vs \<and> distinct (map fst ps)"
  unfolding distinct_columns [OF assms, symmetric] by (metis card_distinct distinct_card length_map)

lemma positive_signed_Inr: "positive_signed n v = Inr i \<longleftrightarrow> v = PInt i \<and> 0 < i \<and> i \<le> max_signed"
  by (cases v) (auto simp: positive_signed_def)

lemma deadline_signed_Inr: "deadline_signed v = Inr i \<longleftrightarrow> v = PInt i \<and> 0 \<le> i \<and> i \<le> max_signed"
  by (cases v) (auto simp: deadline_signed_def)

lemma named_items_Inr: "named_items e l = Inr vs \<longleftrightarrow> l = Name_items vs"
  by (cases l) (auto simp: named_items_def)

lemma scan_admits:
  assumes "0 < b" "8 * b \<le> m" "m < 2 ^ 63" "0 < c" "c < 2 ^ 63" "0 \<le> t" "t < 2 ^ 63"
    and candidates: "(if candidates = PNone then PInt (max_candidates limits) else candidates) = PInt c"
    and names: "list_all core_name cs" "list_all plain_name vs" "list_all payload_entry ps"
    and unique: "distinct cs" "distinct vs" "distinct (map fst ps)"
  shows "scan_options limits (PInt b) (Name_items (map PStr cs)) (Name_items (map PStr vs))
      (map (\<lambda>(n, k). (PStr n, PStr k)) ps) filter_by candidates (PInt t) (PInt m) =
    Inr (scan_message b (map core_scan cs @ map vector_scan vs @ map payload_scan ps) filter_by c t m)"
proof -
  have "rmap core_column (map PStr cs) = Inr (map core_scan cs)" "rmap vector_column (map PStr vs) = Inr (map vector_scan vs)"
    "rmap payload_column (map (\<lambda>(n, k). (PStr n, PStr k)) ps) = Inr (map payload_scan ps)"
    using names unfolding column_lists by blast+
  moreover have "positive_signed n (PInt b) = Inr b" "positive_signed n (PInt m) = Inr m" "positive_signed n (PInt c) = Inr c"
    "deadline_signed (PInt t) = Inr t" "b \<le> m div 8" for n
    using assms(1-7) unfolding positive_signed_Inr deadline_signed_Inr max_signed_def by simp_all
  moreover note iffD2 [OF unique_columns [OF names(1)] conjI [OF unique(1) conjI [OF unique(2,3)]]]
  ultimately show ?thesis
    by (simp only: scan_options_def rbind_Inr require_True Let_def candidates named_items_def name_list.case refl)
qed

text \<open>
  C38: a scan request reaches the kernel exactly when its batch size, candidate budget and
  buffer limit are positive signed 64-bit integers, eight bytes per selected row fit the
  buffer limit, the deadline is a nonnegative signed 64-bit integer, the columns are known,
  the field and payload names are not empty and have no NUL, the payload types are supported
  and no name is given twice within its list; names of different lists never collide. The
  kernel then receives these values with one descriptor per column, in order.
\<close>

theorem scan_admission:
  "scan_options limits batch_size columns vectors payload_schema filter_by candidates deadline_ns batch_bytes = Inr options \<longleftrightarrow>
     (\<exists>b c m t cs vs ps.
        batch_size = PInt b \<and> 0 < b \<and> 8 * b \<le> m \<and> batch_bytes = PInt m \<and> m < 2 ^ 63 \<and>
        (if candidates = PNone then c = max_candidates limits else candidates = PInt c) \<and> 0 < c \<and> c < 2 ^ 63 \<and>
        deadline_ns = PInt t \<and> 0 \<le> t \<and> t < 2 ^ 63 \<and>
        columns = Name_items (map PStr cs) \<and> list_all core_name cs \<and> distinct cs \<and>
        vectors = Name_items (map PStr vs) \<and> list_all plain_name vs \<and> distinct vs \<and>
        payload_schema = map (\<lambda>(n, k). (PStr n, PStr k)) ps \<and> list_all payload_entry ps \<and> distinct (map fst ps) \<and>
        options = scan_message b (map core_scan cs @ map vector_scan vs @ map payload_scan ps) filter_by c t m)"
  (is "?admitted \<longleftrightarrow> ?described")
proof
  assume ?admitted
  then obtain b c m t core named payload cols vecs where steps:
    "positive_signed ''batch_size'' batch_size = Inr b" "b \<le> m div 8" "positive_signed ''max_batch_bytes'' batch_bytes = Inr m"
    "positive_signed ''max_candidates'' (if candidates = PNone then PInt (max_candidates limits) else candidates) = Inr c"
    "deadline_signed deadline_ns = Inr t" "columns = Name_items cols" "rmap core_column cols = Inr core"
    "vectors = Name_items vecs" "rmap vector_column vecs = Inr named" "rmap payload_column payload_schema = Inr payload"
    and unique: "card (set (map col_name (core @ named @ payload))) = length (core @ named @ payload)"
    and options: "options = scan_message b (core @ named @ payload) filter_by c t m"
    by (auto simp: scan_options_def Let_def named_items_Inr image_Un)
  obtain cs where cs: "cols = map PStr cs" "list_all core_name cs" "core = map core_scan cs"
    using steps(7) unfolding column_lists by (elim exE conjE)
  obtain vs where vs: "vecs = map PStr vs" "list_all plain_name vs" "named = map vector_scan vs"
    using steps(9) unfolding column_lists by (elim exE conjE)
  obtain ps where ps: "payload_schema = map (\<lambda>(n, k). (PStr n, PStr k)) ps" "list_all payload_entry ps"
    "payload = map payload_scan ps"
    using steps(10) unfolding column_lists by (elim exE conjE)
  have names: "distinct cs" "distinct vs" "distinct (map fst ps)"
    using unique unique_columns [OF cs(2)] unfolding cs(3) vs(3) ps(3) by blast+
  have numbers: "batch_size = PInt b" "0 < b" "8 * b \<le> m" "batch_bytes = PInt m" "m < 2 ^ 63" "0 < c" "c < 2 ^ 63"
    "if candidates = PNone then c = max_candidates limits else candidates = PInt c"
    "deadline_ns = PInt t" "0 \<le> t" "t < 2 ^ 63"
    using steps(1-5) unfolding positive_signed_Inr deadline_signed_Inr max_signed_def by (simp_all split: if_splits)
  have lists: "columns = Name_items (map PStr cs)" "vectors = Name_items (map PStr vs)"
    "options = scan_message b (map core_scan cs @ map vector_scan vs @ map payload_scan ps) filter_by c t m"
    using steps(6,8) options unfolding cs vs ps by simp_all
  show ?described
    by (intro exI [of _ b] exI [of _ c] exI [of _ m] exI [of _ t] exI [of _ cs] exI [of _ vs] exI [of _ ps] conjI;
      fact numbers names lists cs(2) vs(2) ps(1,2))
next
  assume ?described
  then show ?admitted by (elim exE conjE) (simp only:, rule scan_admits; simp split: if_splits)
qed

section \<open>Iteration\<close>

lemma on_native_run [simp]: "on_native a s = (case a (sc_native s) of (r, n) \<Rightarrow> (r, s\<lparr>sc_native := n\<rparr>))"
  by (simp add: on_native_def)

lemma on_stats_run [simp]: "on_stats f s = (Inr (), s\<lparr>sc_stats := f (sc_stats s)\<rparr>)"
  by (simp add: on_stats_def)

lemma next_batch:
  assumes "\<not> sc_closed s" "\<not> sc_exhausted s"
    and "native_next ns (cancelled_argument (sc_cancellation s)) (sc_native s) = (Inr a, n)" "an_batch a = Some b"
  shows "scanner_next ns s =
    (Inr (Some b), s\<lparr>sc_native := n, sc_stats := add_batch (num_rows ns b) a (set_visited a (sc_stats s))\<rparr>)"
  using assms by (simp add: scanner_next_def)

lemma next_end:
  assumes "\<not> sc_closed s" "\<not> sc_exhausted s"
    and "native_next ns (cancelled_argument (sc_cancellation s)) (sc_native s) = (Inr a, n)" "an_batch a = None"
    and "native_close ns n = (Inr (), m)"
  shows "scanner_next ns s =
    (Inr None, s\<lparr>sc_native := m, sc_exhausted := True, sc_stats := set_visited a (sc_stats s)\<rparr>)"
  using assms by (simp add: scanner_next_def)

lemma next_error:
  assumes "\<not> sc_closed s" "\<not> sc_exhausted s"
    and "native_next ns (cancelled_argument (sc_cancellation s)) (sc_native s) = (Inl e, n)"
    and "native_close ns n = (Inr (), m)"
  shows "scanner_next ns s = (Inl (map_kernel_error e), s\<lparr>sc_native := m, sc_closed := True\<rparr>)"
  using assms by (simp add: scanner_next_def scanner_close_def)

text \<open>A finished scanner answers without the native one.\<close>

lemma next_finished:
  "sc_closed s \<Longrightarrow> scanner_next ns s = (Inl (RuntimeError ''scanner is closed''), s)"
  "\<not> sc_closed s \<Longrightarrow> sc_exhausted s \<Longrightarrow> scanner_next ns s = (Inr None, s)"
  by (simp_all add: scanner_next_def)

text \<open>
  The native scanner, read with the same cancellation flag, gives the answers \<open>as\<close> and then
  ends with \<open>r\<close>: an answer without a batch, or an exception.
\<close>

definition final :: "'b scan_answer result \<Rightarrow> bool" where
  "final r \<longleftrightarrow> (case r of Inl e \<Rightarrow> True | Inr a \<Rightarrow> an_batch a = None)"

inductive delivers :: "('n, 'b, 'm) native_scanner \<Rightarrow> bool \<Rightarrow> 'n \<Rightarrow> 'b scan_answer list \<Rightarrow> 'b scan_answer result \<Rightarrow> 'n \<Rightarrow> bool"
  for ns c where
  stop: "native_next ns c n = (r, m) \<Longrightarrow> final r \<Longrightarrow> delivers ns c n [] r m"
| batch: "native_next ns c n = (Inr a, n') \<Longrightarrow> an_batch a \<noteq> None \<Longrightarrow> delivers ns c n' as r m \<Longrightarrow>
    delivers ns c n (a # as) r m"

definition answer_batch :: "'b scan_answer \<Rightarrow> 'b" where
  "answer_batch a = the (an_batch a)"

definition visited_last :: "'b scan_answer list \<Rightarrow> int \<Rightarrow> int" where
  "visited_last as v = (if as = [] then v else an_visited_slots (last as))"

definition totals :: "('n, 'b, 'm) native_scanner \<Rightarrow> 'b scan_answer list \<Rightarrow> 'b scan_answer result \<Rightarrow> scan_stats \<Rightarrow> scan_stats" where
  "totals ns as r st =
     \<lparr>st_rows = st_rows st + sum_list (map (\<lambda>a. num_rows ns (answer_batch a)) as),
      st_batches = st_batches st + int (length as),
      st_materialized_bytes = st_materialized_bytes st + sum_list (map an_materialized_bytes as),
      st_borrowed_bytes = st_borrowed_bytes st + sum_list (map an_borrowed_bytes as),
      st_visited_slots = (case r of Inl e \<Rightarrow> visited_last as (st_visited_slots st) | Inr a \<Rightarrow> an_visited_slots a)\<rparr>"

lemma totals_Nil: "totals ns [] r st = (case r of Inl e \<Rightarrow> st | Inr a \<Rightarrow> set_visited a st)"
  by (cases r) (simp_all add: totals_def visited_last_def set_visited_def)

lemma totals_Cons:
  "totals ns (a # as) r st = totals ns as r (add_batch (num_rows ns (answer_batch a)) a (set_visited a st))"
  by (cases r) (simp_all add: totals_def visited_last_def set_visited_def add_batch_def)

definition drained :: "('n, 'b, 'm) native_scanner \<Rightarrow> 'b scan_answer list \<Rightarrow> 'b scan_answer result \<Rightarrow> 'n \<Rightarrow> ('n, 'm) scanner \<Rightarrow> ('n, 'm) scanner" where
  "drained ns as r m s =
     s\<lparr>sc_native := m, sc_closed := (case r of Inl e \<Rightarrow> True | Inr a \<Rightarrow> False),
       sc_exhausted := (case r of Inl e \<Rightarrow> False | Inr a \<Rightarrow> True), sc_stats := totals ns as r (sc_stats s)\<rparr>"

lemma drain_delivers:
  assumes "delivers ns c n as r m" "native_close ns m = (Inr (), m')"
    and "\<not> sc_closed s" "\<not> sc_exhausted s" "cancelled_argument (sc_cancellation s) = c" "sc_native s = n"
  shows "drain ns acc s =
    Some (case r of Inl e \<Rightarrow> Inl (map_kernel_error e) | Inr _ \<Rightarrow> Inr (acc @ map answer_batch as), drained ns as r m' s)"
  using assms
proof (induction arbitrary: s acc rule: delivers.induct)
  case (stop n r m)
  then show ?case
    by (subst drain.simps, cases r)
      (auto simp: final_def drained_def totals_Nil next_error [where n = m and m = m'] next_end [where n = m and m = m'])
next
  case (batch n a n' as r m)
  then obtain b where b: "an_batch a = Some b" by auto
  let ?t = "s\<lparr>sc_native := n', sc_stats := add_batch (num_rows ns b) a (set_visited a (sc_stats s))\<rparr>"
  have next_step: "scanner_next ns s = (Inr (Some b), ?t)" using batch.prems batch.hyps(1) b by (simp add: next_batch)
  have "drain ns acc s = drain ns (acc @ [b]) ?t" by (subst drain.simps) (simp add: next_step)
  also have "\<dots> = Some (case r of Inl e \<Rightarrow> Inl (map_kernel_error e) | Inr _ \<Rightarrow> Inr ((acc @ [b]) @ map answer_batch as),
      drained ns as r m' ?t)"
    by (rule batch.IH) (use batch.prems in simp_all)
  also have "drained ns as r m' ?t = drained ns (a # as) r m' s"
    by (simp add: drained_def totals_Cons answer_batch_def b)
  finally show ?case by (simp add: answer_batch_def b split: sum.splits)
qed

text \<open>
  C36: iterating a scanner ends whenever the native scanner does. When it reaches the end of
  the snapshot the loop returns its batches in order; when it fails the loop raises the
  mapped error and the scanner is closed. In both cases the native scanner has been closed,
  the statistics are the totals of the batches returned, and a further step answers without
  reading the native scanner again.
\<close>

theorem scan_terminates:
  assumes "delivers ns (cancelled_argument token) n answers r m" and "native_close ns m = (Inr (), m')"
  shows "\<exists>t. drain ns [] (scanner_init ns n token) =
      Some (case r of Inl e \<Rightarrow> Inl (map_kernel_error e) | Inr _ \<Rightarrow> Inr (map answer_batch answers), t) \<and>
    sc_native t = m' \<and> sc_stats t = totals ns answers r (sc_stats (scanner_init ns n token)) \<and>
    scanner_next ns t = (case r of Inl e \<Rightarrow> Inl (RuntimeError ''scanner is closed'') | Inr _ \<Rightarrow> Inr None, t)"
proof -
  let ?t = "drained ns answers r m' (scanner_init ns n token)"
  have "drain ns [] (scanner_init ns n token) =
      Some (case r of Inl e \<Rightarrow> Inl (map_kernel_error e) | Inr _ \<Rightarrow> Inr ([] @ map answer_batch answers), ?t)"
    by (rule drain_delivers [OF assms]) (simp_all add: scanner_init_def)
  moreover have "scanner_next ns ?t = (case r of Inl e \<Rightarrow> Inl (RuntimeError ''scanner is closed'') | Inr _ \<Rightarrow> Inr None, ?t)"
    by (cases r) (simp_all add: next_finished drained_def)
  moreover have "sc_native ?t = m'" "sc_stats ?t = totals ns answers r (sc_stats (scanner_init ns n token))"
    by (simp_all add: drained_def)
  ultimately show ?thesis by (intro exI [of _ ?t]) (simp split: sum.splits)
qed

text \<open>A native scanner over rows: batches of at most two rows, each row one visited slot.\<close>

definition row_scanner :: "(string list \<times> int, string list, string) native_scanner" where
  "row_scanner =
     \<lparr>native_next = (\<lambda>cancelled (rows, seen).
        if cancelled then (Inl (RuntimeError ''scan cancelled''), (rows, seen))
        else (Inr \<lparr>an_batch = (if rows = [] then None else Some (take 2 rows)),
                   an_visited_slots = seen + int (length (take 2 rows)), an_materialized_bytes = 8 * int (length (take 2 rows)),
                   an_borrowed_bytes = 0\<rparr>, (drop 2 rows, seen + int (length (take 2 rows))))),
      native_close = (\<lambda>n. (Inr (), ([], snd n))), native_schema = (\<lambda>n. ''name: string''), num_rows = (\<lambda>b. int (length b))\<rparr>"

theorem scan_terminates_witness:
  "\<exists>t. drain row_scanner [] (scanner_init row_scanner ([''a'', ''b'', ''c''], 0) None) = Some (Inr [[''a'', ''b''], [''c'']], t) \<and>
    sc_native t = ([], 3) \<and>
    sc_stats t = \<lparr>st_rows = 3, st_batches = 2, st_materialized_bytes = 24, st_borrowed_bytes = 0, st_visited_slots = 3\<rparr> \<and>
    scanner_next row_scanner t = (Inr None, t)"
proof -
  let ?a = "\<lparr>an_batch = Some [''a'', ''b''], an_visited_slots = 2, an_materialized_bytes = 16, an_borrowed_bytes = 0\<rparr>"
  let ?b = "\<lparr>an_batch = Some [''c''], an_visited_slots = 3, an_materialized_bytes = 8, an_borrowed_bytes = 0\<rparr>"
  let ?e = "\<lparr>an_batch = None, an_visited_slots = 3, an_materialized_bytes = 0, an_borrowed_bytes = 0\<rparr>"
  have "delivers row_scanner (cancelled_argument None) ([''a'', ''b'', ''c''], 0) [?a, ?b] (Inr ?e) ([], 3)"
    by (rule delivers.batch, simp add: row_scanner_def cancelled_argument_def, simp)
      (rule delivers.batch, simp add: row_scanner_def cancelled_argument_def, simp,
        rule delivers.stop, simp_all add: row_scanner_def cancelled_argument_def final_def)
  from scan_terminates [OF this, of "([], 3)"] show ?thesis
    by (simp add: row_scanner_def totals_def answer_batch_def scanner_init_def)
qed

end
