(* ===== verification/ArrowBatch.thy ===== *)
theory ArrowBatch
  imports Collection
begin

text \<open>
  Arrow record batches going in and out of a collection (arrow.py). Arrays, batches and the C
  data import belong to pyarrow, array operations to numpy: both are parameters, records of
  the operations the code calls, with numpy's documented behaviour as the predicate
  \<open>numpy_laws\<close>. Numeric views are lists. \<open>marshal\<close> is the descriptor as the kernel receives it.
\<close>

section \<open>Leases\<close>

record 'r lease =
  ls_batch :: "'r option"
  ls_released :: bool

record ('p, 'r) c_data =
  has_c_array :: "'p \<Rightarrow> bool"
  import_batch :: "'p \<Rightarrow> 'r result"

definition lease_from_producer :: "('p, 'r) c_data \<Rightarrow> 'p \<Rightarrow> 'r lease result" where
  "lease_from_producer cd producer =
     require (has_c_array cd producer) (TypeError ''producer does not implement Arrow C Data protocol'')
       (rbind (import_batch cd producer) (\<lambda>batch. Inr \<lparr>ls_batch = Some batch, ls_released = False\<rparr>))"

definition lease_released :: "('r lease, bool) action" where
  "lease_released = gets ls_released"

definition lease_batch :: "('r lease, 'r) action" where
  "lease_batch =
     bind (gets ls_released) (\<lambda>released.
     bind (gets ls_batch) (\<lambda>batch.
     case (released, batch) of
       (False, Some b) \<Rightarrow> ok b
     | _ \<Rightarrow> raise (RuntimeError ''Arrow batch lease has been released'')))"

definition lease_release :: "('r lease, unit) action" where
  "lease_release =
     bind (gets ls_released) (\<lambda>released.
     bind (check (\<not> released) (RuntimeError ''Arrow batch lease must be released exactly once'')) (\<lambda>_.
     modify (\<lambda>l. l\<lparr>ls_batch := None, ls_released := True\<rparr>)))"

definition lease_enter :: "('r lease, unit) action" where
  "lease_enter = bind lease_batch (\<lambda>_. ok ())"

definition lease_exit :: "('r lease, unit) action" where
  "lease_exit = lease_release"

section \<open>Arrays and batches\<close>

datatype arrow_type =
    Int8 | Uint8 | Uint16 | Int32 | Int64 | Float16 | Float32 | Float64 | Utf8 | Bool
  | Fixed_binary int
  | Fixed_list arrow_type int
  | List_of arrow_type
  | Struct "(string \<times> arrow_type) list"
  | Other_type string

record 'a arrow_arrays =
  arr_type :: "'a \<Rightarrow> arrow_type"
  arr_len :: "'a \<Rightarrow> int"
  arr_offset :: "'a \<Rightarrow> int"
  arr_null_count :: "'a \<Rightarrow> int"
  arr_values :: "'a \<Rightarrow> 'a"
  arr_offsets :: "'a \<Rightarrow> 'a"
  arr_equals :: "'a \<Rightarrow> 'a \<Rightarrow> bool"
  arr_ints :: "'a \<Rightarrow> int \<Rightarrow> int \<Rightarrow> int list result"
  arr_floats :: "'a \<Rightarrow> int \<Rightarrow> int \<Rightarrow> pyfloat list result"

record ('r, 'a) arrow_batches =
  is_record_batch :: "'r \<Rightarrow> bool"
  validate_full :: "'r \<Rightarrow> unit result"
  batch_rows :: "'r \<Rightarrow> int"
  batch_names :: "'r \<Rightarrow> string list"
  batch_column :: "'r \<Rightarrow> string \<Rightarrow> 'a"

text \<open>
  The array operations of numpy: \<open>a <= b\<close>, \<open>a < c\<close>, \<open>a - c\<close>, \<open>np.any\<close>, \<open>np.all\<close>,
  \<open>m[indices] = False\<close>, \<open>np.isfinite\<close> and \<open>a == 0.0\<close>.
\<close>

record numpy =
  np_less_equal :: "int list \<Rightarrow> int list \<Rightarrow> bool list"
  np_less :: "int list \<Rightarrow> int \<Rightarrow> bool list"
  np_minus :: "int list \<Rightarrow> int \<Rightarrow> int list"
  np_any :: "bool list \<Rightarrow> bool"
  np_all :: "bool list \<Rightarrow> bool"
  np_clear :: "bool list \<Rightarrow> int list \<Rightarrow> bool list result"
  np_isfinite :: "pyfloat list \<Rightarrow> bool list"
  np_equal_zero :: "pyfloat list \<Rightarrow> bool list"

section \<open>Checking sparse rows\<close>

definition row_slice :: "nat \<Rightarrow> nat \<Rightarrow> 'x list \<Rightarrow> 'x list" where
  "row_slice a b xs = take (b - a) (drop a xs)"

definition check_sparse_rows :: "numpy \<Rightarrow> int list \<Rightarrow> int list \<Rightarrow> pyfloat list \<Rightarrow> unit result" where
  "check_sparse_rows np offsets terms weights =
     require (length terms = length weights) (ValueError ''sparse offsets must identify non-empty bounded rows'')
    (require (offsets \<noteq> []) (IndexError ''index 0 is out of bounds'')
    (require (0 \<le> hd offsets \<and> last offsets \<le> int (length terms) \<and>
        \<not> np_any np (np_less_equal np (tl offsets) (butlast offsets)))
      (ValueError ''sparse offsets must identify non-empty bounded rows'')
    (let active_terms = row_slice (nat (hd offsets)) (nat (last offsets)) terms;
         active_weights = row_slice (nat (hd offsets)) (nat (last offsets)) weights
     in
     rbind (np_clear np (np_less_equal np (tl active_terms) (butlast active_terms))
       (np_minus np (np_minus np (butlast (tl offsets)) (hd offsets)) 1)) (\<lambda>invalid_order.
     require (\<not> np_any np (np_less np active_terms 0) \<and> \<not> np_any np invalid_order)
       (ValueError ''sparse term IDs must be non-negative and ascending'')
    (require (np_all np (np_isfinite np active_weights) \<and> \<not> np_any np (np_equal_zero np active_weights))
       (ValueError ''sparse weights must be finite and non-zero'')
       (Inr ()))))))"

section \<open>Descriptors\<close>

definition primitive_view ::
  "'a arrow_arrays \<Rightarrow> ('a \<Rightarrow> int \<Rightarrow> int \<Rightarrow> 'x list result) \<Rightarrow> 'a \<Rightarrow> int \<Rightarrow> int \<Rightarrow> 'x list result" where
  "primitive_view pa view array start len =
     require (0 \<le> start \<and> 0 \<le> len \<and> start + len \<le> arr_len pa array)
       (ValueError ''Arrow primitive buffer bounds are invalid'') (view array start len)"

record ('r, 'a) batch_descriptor =
  de_row_count :: int
  de_ids :: "int list"
  de_vectors :: "pyfloat list"
  de_has_sparse :: bool
  de_sparse_offsets :: "int list"
  de_sparse_terms :: "int list"
  de_sparse_weights :: "pyfloat list"
  de_payloads :: "(string \<times> string \<times> 'a) list"
  de_owners :: 'r

definition known_column :: "string \<Rightarrow> bool" where
  "known_column name \<longleftrightarrow>
     name \<in> {''id'', ''vector'', ''sparse_term_ids'', ''sparse_weights''} \<or> prefix ''payload.'' name"

text \<open>The sparse columns of a batch, which appear together and are checked row by row.\<close>

definition sparse_columns ::
  "numpy \<Rightarrow> 'a arrow_arrays \<Rightarrow> int \<Rightarrow> 'a \<Rightarrow> 'a \<Rightarrow> (int list \<times> int list \<times> pyfloat list) result" where
  "sparse_columns np pa rows terms weights =
     require (arr_type pa terms = List_of Int64 \<and> arr_type pa weights = List_of Float32)
       (ValueError ''sparse columns must be list<int64> and list<float32>'')
    (require (arr_null_count pa terms = 0 \<and> arr_null_count pa weights = 0 \<and>
        arr_null_count pa (arr_values pa terms) = 0 \<and> arr_null_count pa (arr_values pa weights) = 0)
       (ValueError ''sparse columns cannot contain nulls'')
    (require (arr_equals pa (arr_offsets pa terms) (arr_offsets pa weights))
       (ValueError ''sparse term and weight offsets must match'')
    (rbind (primitive_view pa (arr_ints pa) (arr_offsets pa terms) 0 (rows + 1)) (\<lambda>offsets.
     rbind (primitive_view pa (arr_ints pa) (arr_values pa terms) 0 (arr_len pa (arr_values pa terms))) (\<lambda>term_view.
     rbind (primitive_view pa (arr_floats pa) (arr_values pa weights) 0 (arr_len pa (arr_values pa weights))) (\<lambda>weight_view.
     rbind (check_sparse_rows np offsets term_view weight_view) (\<lambda>_.
     Inr (offsets, term_view, weight_view))))))))"

definition payload_type :: "arrow_type \<Rightarrow> string option" where
  "payload_type t =
     (case t of Utf8 \<Rightarrow> Some ''string'' | Int64 \<Rightarrow> Some ''int'' | Float64 \<Rightarrow> Some ''float'' | Bool \<Rightarrow> Some ''bool'' | _ \<Rightarrow> None)"

definition payload_entry_of :: "'a arrow_arrays \<Rightarrow> ('r, 'a) arrow_batches \<Rightarrow> 'r \<Rightarrow> string \<Rightarrow> (string \<times> string \<times> 'a) result" where
  "payload_entry_of pa pb batch name =
     (let field_name = drop (length ''payload.'') name; array = batch_column pb batch name in
      require (field_name \<noteq> [] \<and> CHR 0x00 \<notin> set field_name) (ValueError ''payload field name is invalid'')
        (case payload_type (arr_type pa array) of
           None \<Rightarrow> Inl (ValueError ''unsupported payload Arrow type'')
         | Some kind \<Rightarrow> Inr (field_name, kind, array)))"

definition validated_descriptor ::
  "numpy \<Rightarrow> 'a arrow_arrays \<Rightarrow> ('r, 'a) arrow_batches \<Rightarrow> int \<Rightarrow> 'r \<Rightarrow> ('r, 'a) batch_descriptor result" where
  "validated_descriptor np pa pb dim batch =
     require (is_record_batch pb batch) (TypeError ''Arrow producer must yield one RecordBatch'')
    (rbind (validate_full pb batch) (\<lambda>_.
     require (0 < batch_rows pb batch) (ValueError ''Arrow record batch cannot be empty'')
    (let rows = batch_rows pb batch; names = batch_names pb batch;
         ids = batch_column pb batch ''id''; vectors = batch_column pb batch ''vector'';
         has_terms = (''sparse_term_ids'' \<in> set names); has_weights = (''sparse_weights'' \<in> set names)
     in
     require (card (set names) = length names) (ValueError ''Arrow column names must be unique'')
    (require (''id'' \<in> set names \<and> ''vector'' \<in> set names) (ValueError ''Arrow batch requires id and vector columns'')
    (require (filter (\<lambda>name. \<not> known_column name) names = []) (ValueError ''unknown Arrow columns'')
    (require (arr_type pa ids = Int64 \<and> arr_null_count pa ids = 0) (ValueError ''id must be non-null int64'')
    (require (arr_type pa vectors = Fixed_list Float32 dim \<and> arr_null_count pa vectors = 0 \<and>
        arr_null_count pa (arr_values pa vectors) = 0)
       (ValueError ''vector must be non-null fixed-size float32 list matching collection dimension'')
    (rbind (primitive_view pa (arr_ints pa) ids 0 rows) (\<lambda>id_view.
     rbind (primitive_view pa (arr_floats pa) (arr_values pa vectors) (arr_offset pa vectors * dim) (rows * dim)) (\<lambda>vector_view.
     require (has_terms = has_weights) (ValueError ''sparse term and weight columns must appear together'')
    (rbind (if has_terms
            then sparse_columns np pa rows (batch_column pb batch ''sparse_term_ids'') (batch_column pb batch ''sparse_weights'')
            else Inr ([], [], [])) (\<lambda>(offsets, terms, weights).
     rbind (rmap (payload_entry_of pa pb batch) (filter (prefix ''payload.'') names)) (\<lambda>payloads.
     Inr \<lparr>de_row_count = rows, de_ids = id_view, de_vectors = vector_view, de_has_sparse = has_terms,
          de_sparse_offsets = offsets, de_sparse_terms = terms, de_sparse_weights = weights,
          de_payloads = payloads, de_owners = batch\<rparr>)))))))))))))"

section \<open>Ingestion\<close>

text \<open>\<open>try: ... finally: ...\<close>\<close>

definition finally_do :: "('s, 'a) action \<Rightarrow> ('s, unit) action \<Rightarrow> ('s, 'a) action" where
  "finally_do a h = (\<lambda>s. case a s of (r, t) \<Rightarrow> (case h t of (Inl e, u) \<Rightarrow> (Inl e, u) | (Inr _, u) \<Rightarrow> (r, u)))"

text \<open>
  A producer is imported into a lease of its own, a caller's lease is used as it is; the state
  holds the collection and the lease in use.
\<close>

datatype 'p batch_source = Producer 'p | Caller_lease

record ('k, 'r) ingest =
  in_coll :: "'k coll"
  in_lease :: "'r lease"

definition on_coll :: "('k coll, 'a) action \<Rightarrow> (('k, 'r) ingest, 'a) action" where
  "on_coll a = zoom in_coll (\<lambda>c s. s\<lparr>in_coll := c\<rparr>) a"

definition on_lease :: "('r lease, 'a) action \<Rightarrow> (('k, 'r) ingest, 'a) action" where
  "on_lease a = zoom in_lease (\<lambda>l s. s\<lparr>in_lease := l\<rparr>) a"

definition with_lease ::
  "('p, 'r) c_data \<Rightarrow> 'p batch_source \<Rightarrow> ('r \<Rightarrow> ('k coll, 'a) action) \<Rightarrow> (('k, 'r) ingest, 'a) action" where
  "with_lease cd source body =
     (let ingest = bind (on_lease lease_batch) (\<lambda>batch. on_coll (body batch)) in
      case source of
        Producer producer \<Rightarrow>
          bind (pure (lease_from_producer cd producer)) (\<lambda>l.
          bind (modify (\<lambda>s. s\<lparr>in_lease := l\<rparr>)) (\<lambda>_.
          finally_do ingest (on_lease lease_release)))
      | Caller_lease \<Rightarrow> ingest)"

definition ingest_rows ::
  "numpy \<Rightarrow> 'a arrow_arrays \<Rightarrow> ('r, 'a) arrow_batches \<Rightarrow> (('r, 'a) batch_descriptor \<Rightarrow> karg) \<Rightarrow> 'k kernel \<Rightarrow> int \<Rightarrow> 'r \<Rightarrow>
     ('k coll, int) action" where
  "ingest_rows np pa pb marshal mojo duration batch =
     bind (gets co_dimension) (\<lambda>dim.
     bind (pure (validated_descriptor np pa pb dim batch)) (\<lambda>descriptor.
     bind (kernel_call mojo duration ''apply_arrow_batch'' [marshal descriptor]) (\<lambda>v. pure (py_to_int v))))"

definition upsert_record_batch ::
  "('p, 'r) c_data \<Rightarrow> numpy \<Rightarrow> 'a arrow_arrays \<Rightarrow> ('r, 'a) arrow_batches \<Rightarrow> (('r, 'a) batch_descriptor \<Rightarrow> karg) \<Rightarrow>
     'k kernel \<Rightarrow> int \<Rightarrow> 'p batch_source \<Rightarrow> (('k, 'r) ingest, int) action" where
  "upsert_record_batch cd np pa pb marshal mojo duration source =
     with_lease cd source (ingest_rows np pa pb marshal mojo duration)"

section \<open>Results as columns\<close>

text \<open>
  \<open>make_batch t ids scores\<close> is pyarrow's record batch of an \<open>id\<close> column of 64-bit integers and
  a \<open>score\<close> column of type \<open>t\<close>.
\<close>

definition columns_batch :: "(arrow_type \<Rightarrow> pyval \<Rightarrow> pyval \<Rightarrow> 'r result) \<Rightarrow> arrow_type \<Rightarrow> pyval \<Rightarrow> 'r result" where
  "columns_batch make_batch t columns =
     rbind (item columns ''ids'') (\<lambda>ids. rbind (item columns ''scores'') (\<lambda>scores. make_batch t ids scores))"

definition search_record_batch ::
  "(arrow_type \<Rightarrow> pyval \<Rightarrow> pyval \<Rightarrow> 'r result) \<Rightarrow> 'k kernel \<Rightarrow> int \<Rightarrow> search_request \<Rightarrow> ('k coll, 'r) action" where
  "search_record_batch make_batch mojo duration request =
     bind (search_raw mojo duration True request) (\<lambda>columns. pure (columns_batch make_batch Float32 columns))"

definition search_field_record_batch ::
  "(arrow_type \<Rightarrow> pyval \<Rightarrow> pyval \<Rightarrow> 'r result) \<Rightarrow> 'k kernel \<Rightarrow> int \<Rightarrow> int \<Rightarrow> string \<Rightarrow> vector_arg \<Rightarrow> pyval \<Rightarrow> pyval \<Rightarrow> pyval \<Rightarrow>
     pyval \<Rightarrow> pyval \<Rightarrow> ivf_options option \<Rightarrow> cancellation_token option \<Rightarrow> pyval \<Rightarrow> ('k coll, 'r) action" where
  "search_field_record_batch make_batch mojo duration now name vector k where_filter mode ef_search rerank_k ivf cancellation timeout =
     bind (search_field_raw mojo duration now True name vector k where_filter mode ef_search rerank_k ivf
       (cancelled_argument cancellation) timeout) (\<lambda>columns. pure (columns_batch make_batch Float64 columns))"

definition search_fields_record_batch ::
  "(arrow_type \<Rightarrow> pyval \<Rightarrow> pyval \<Rightarrow> 'r result) \<Rightarrow> 'k kernel \<Rightarrow> int \<Rightarrow> int \<Rightarrow> field_query list \<Rightarrow> pyval \<Rightarrow> pyval \<Rightarrow> pyval \<Rightarrow> pyval \<Rightarrow>
     field_query option \<Rightarrow> cancellation_token option \<Rightarrow> pyval \<Rightarrow> ('k coll, 'r) action" where
  "search_fields_record_batch make_batch mojo duration now queries k fetch_k rank_constant where_filter rerank cancellation timeout =
     bind (search_fields_raw mojo duration now True queries k fetch_k rank_constant where_filter rerank
       (cancelled_argument cancellation) timeout) (\<lambda>columns. pure (columns_batch make_batch Float64 columns))"

definition results_to_record_batch ::
  "(arrow_type \<Rightarrow> pyval \<Rightarrow> pyval \<Rightarrow> 'r result) \<Rightarrow> search_result list \<Rightarrow> 'r result" where
  "results_to_record_batch make_batch results =
     make_batch Float32 (PList (map (\<lambda>r. PInt (res_id r)) results)) (PList (map (\<lambda>r. PFloat (res_score r)) results))"

definition results_to_columns :: "search_result list \<Rightarrow> pyval" where
  "results_to_columns results =
     PDict [(''id'', PList (map (\<lambda>r. PInt (res_id r)) results)), (''score'', PList (map (\<lambda>r. PFloat (res_score r)) results))]"

section \<open>Copying ingestion\<close>

text \<open>A column with \<open>to_pylist\<close>, with \<open>tolist\<close>, or a plain sequence.\<close>

datatype column_values = To_pylist "pyval list" | Tolist "pyval list" | Sequence "pyval list"

fun to_list :: "column_values \<Rightarrow> pyval list" where
  "to_list (To_pylist vs) = vs"
| "to_list (Tolist vs) = vs"
| "to_list (Sequence vs) = vs"

definition upsert_row :: "'k kernel \<Rightarrow> int \<Rightarrow> pyval \<times> pyval \<times> pyval \<Rightarrow> ('k coll, unit) action" where
  "upsert_row mojo duration row =
     (case row of (id_value, values, payload_value) \<Rightarrow>
      bind (pure (if payload_value = PNone then Inr None
                  else rbind (rbind (as_list_or payload_value) (rmap payload_from_kernel)) (\<lambda>fs. Inr (Some fs)))) (\<lambda>flds.
      bind (pure (py_to_int id_value)) (\<lambda>i.
      bind (pure (rbind (as_list_or values) (rmap py_to_float))) (\<lambda>vector.
      coll_upsert mojo duration i vector flds))))"

text \<open>\<open>duration i\<close> is what the timer measures around the call for row \<open>i\<close>.\<close>

definition upsert_columns :: "'k kernel \<Rightarrow> (nat \<Rightarrow> int) \<Rightarrow> (string \<times> column_values) list \<Rightarrow> ('k coll, int) action" where
  "upsert_columns mojo duration columns =
     (case (map_of columns ''id'', map_of columns ''vector'') of
        (Some id_column, Some vector_column) \<Rightarrow>
          let ids = to_list id_column; vectors = to_list vector_column;
              payloads = (case map_of columns ''fields'' of Some c \<Rightarrow> to_list c | None \<Rightarrow> replicate (length ids) PNone)
          in bind (check (length ids = length vectors \<and> length ids = length payloads)
               (ValueError ''Arrow-compatible columns must have equal lengths'')) (\<lambda>_.
             bind (each (\<lambda>(i, row). upsert_row mojo (duration i) row) (enumerate 0 (zip ids (zip vectors payloads)))) (\<lambda>_.
             ok (int (length ids))))
      | _ \<Rightarrow> raise (ValueError ''column batch requires id and vector columns''))"

end
