(* ===== verification/ArrowPoints.thy ===== *)
theory ArrowPoints
  imports ArrowBatch
begin

text \<open>
  Atomic point ingestion from a record batch (arrow_points.py and \<open>upsert_point_record_batch\<close>
  of arrow.py): every column is matched with the collection's vector schema and becomes one
  borrowed descriptor. Buffers and the views over them are pyarrow's and numpy's: parameters.
\<close>

record ('a, 'u, 'w) array_buffers =
  ab_buffer :: "'a \<Rightarrow> nat \<Rightarrow> 'u option"
  ab_frombuffer :: "'u \<Rightarrow> string \<Rightarrow> int option \<Rightarrow> int \<Rightarrow> 'w result"
  ab_empty :: "string \<Rightarrow> 'w"
  ab_child :: "'a \<Rightarrow> nat \<Rightarrow> 'a"
  ab_slice :: "'a \<Rightarrow> int \<Rightarrow> int \<Rightarrow> 'a"

section \<open>Views\<close>

record 'w validity =
  va_bytes :: 'w
  va_offset :: int

record 'w primitive =
  pr_values :: 'w
  pr_validity :: "'w validity"

definition validity :: "'a arrow_arrays \<Rightarrow> ('a, 'u, 'w) array_buffers \<Rightarrow> 'a \<Rightarrow> 'w validity result" where
  "validity pa ab array =
     rbind (case ab_buffer ab array 0 of
              None \<Rightarrow> Inr (ab_empty ab ''uint8'')
            | Some buffer \<Rightarrow> ab_frombuffer ab buffer ''uint8'' None 0) (\<lambda>bytes.
     Inr \<lparr>va_bytes = bytes, va_offset = arr_offset pa array\<rparr>)"

text \<open>The numpy type of an Arrow type, with its item size.\<close>

definition numpy_type :: "arrow_type \<Rightarrow> (string \<times> int) result" where
  "numpy_type t =
     (case t of
        Int8 \<Rightarrow> Inr (''int8'', 1) | Uint8 \<Rightarrow> Inr (''uint8'', 1) | Uint16 \<Rightarrow> Inr (''uint16'', 2) | Int32 \<Rightarrow> Inr (''int32'', 4)
      | Int64 \<Rightarrow> Inr (''int64'', 8) | Float16 \<Rightarrow> Inr (''float16'', 2) | Float32 \<Rightarrow> Inr (''float32'', 4)
      | _ \<Rightarrow> Inl (KeyError ''array type''))"

definition primitive :: "'a arrow_arrays \<Rightarrow> ('a, 'u, 'w) array_buffers \<Rightarrow> 'a \<Rightarrow> 'w primitive result" where
  "primitive pa ab array =
     rbind (numpy_type (arr_type pa array)) (\<lambda>(dtype, itemsize).
     rbind (case ab_buffer ab array 1 of
              None \<Rightarrow> Inr (ab_empty ab dtype)
            | Some buffer \<Rightarrow> ab_frombuffer ab buffer dtype (Some (arr_len pa array)) (arr_offset pa array * itemsize)) (\<lambda>values.
     rbind (validity pa ab array) (\<lambda>valid.
     Inr \<lparr>pr_values = values, pr_validity = valid\<rparr>)))"

definition primitive_values :: "'a arrow_arrays \<Rightarrow> ('a, 'u, 'w) array_buffers \<Rightarrow> 'a \<Rightarrow> 'w result" where
  "primitive_values pa ab array = rbind (primitive pa ab array) (\<lambda>p. Inr (pr_values p))"

section \<open>Vector columns\<close>

datatype 'w vector_views =
    Packed_bits 'w
  | Sparse_rows 'w "'w validity" "'w primitive" "'w primitive"
  | Dense_rows "'w primitive"
  | Multi_rows 'w "'w validity" "'w primitive"

record 'w vector_column =
  vc_validity :: "'w validity"
  vc_row_count :: int
  vc_views :: "'w vector_views"

definition binary_width :: "vector_field \<Rightarrow> int" where
  "binary_width spec = (vf_dimension spec + 7) div 8"

definition binary_views :: "'a arrow_arrays \<Rightarrow> ('a, 'u, 'w) array_buffers \<Rightarrow> 'a \<Rightarrow> vector_field \<Rightarrow> 'w vector_views result" where
  "binary_views pa ab array spec =
     (let width = binary_width spec in
      require (arr_type pa array = Fixed_binary width)
        (ValueError ''binary field requires fixed-size bytes matching its bit dimension'')
       (case ab_buffer ab array 1 of
          None \<Rightarrow> Inl (TypeError ''a bytes-like object is required'')
        | Some buffer \<Rightarrow>
            rbind (ab_frombuffer ab buffer ''uint8'' (Some (arr_len pa array * width)) (arr_offset pa array * width))
              (\<lambda>values. Inr (Packed_bits values))))"

definition is_struct_list :: "arrow_type \<Rightarrow> bool" where
  "is_struct_list t = (case t of List_of (Struct fs) \<Rightarrow> True | _ \<Rightarrow> False)"

definition sparse_views :: "'a arrow_arrays \<Rightarrow> ('a, 'u, 'w) array_buffers \<Rightarrow> 'a \<Rightarrow> 'w vector_views result" where
  "sparse_views pa ab array =
     require (is_struct_list (arr_type pa array))
       (ValueError ''sparse field requires list<struct<term_id: int64, weight: float32>>'')
      (let inner = arr_values pa array in
       require (arr_type pa inner = Struct [(''term_id'', Int64), (''weight'', Float32)])
         (ValueError ''sparse element types must be int64 term_id and float32 weight'')
        (rbind (primitive_values pa ab (arr_offsets pa array)) (\<lambda>offsets.
         rbind (validity pa ab inner) (\<lambda>elements.
         rbind (primitive pa ab (ab_child ab inner 0)) (\<lambda>terms.
         rbind (primitive pa ab (ab_child ab inner 1)) (\<lambda>weights.
         Inr (Sparse_rows offsets elements terms weights)))))))"

definition scalar_type :: "string \<Rightarrow> arrow_type result" where
  "scalar_type dtype =
     (if dtype = ''f32'' then Inr Float32 else if dtype = ''f16'' then Inr Float16 else if dtype = ''bf16'' then Inr Uint16
      else if dtype = ''i8'' then Inr Int8 else if dtype = ''u8'' then Inr Uint8 else Inl (KeyError dtype))"

text \<open>Dense vectors and multivectors; \<open>bf16\<close> bits are marked by the field's metadata.\<close>

definition numeric_views ::
  "'a arrow_arrays \<Rightarrow> ('a, 'u, 'w) array_buffers \<Rightarrow> 'a \<Rightarrow> vector_field \<Rightarrow> (string \<times> string) list \<Rightarrow> 'w vector_views result" where
  "numeric_views pa ab array spec metadata =
     rbind (scalar_type (vf_dtype spec)) (\<lambda>scalar.
     require (vf_dtype spec \<noteq> ''bf16'' \<or> map_of metadata ''akashadb.dtype'' = Some ''bf16'')
       (ValueError ''BF16 Arrow fields require akashadb.dtype=bf16 metadata for UInt16 bits'')
    (let multi = (vf_kind spec = ''multivector''); vector_type = Fixed_list scalar (vf_dimension spec);
         inner = (if multi then arr_values pa array else array);
         components = primitive pa ab (ab_slice ab (arr_values pa inner) (arr_offset pa inner * vf_dimension spec)
           (arr_len pa inner * vf_dimension spec))
     in
     require (arr_type pa array = (if multi then List_of vector_type else vector_type))
       (ValueError ''vector Arrow type must match'')
      (if multi then
         rbind (primitive_values pa ab (arr_offsets pa array)) (\<lambda>offsets.
         rbind (validity pa ab inner) (\<lambda>elements.
         rbind components (\<lambda>c. Inr (Multi_rows offsets elements c))))
       else rbind components (\<lambda>c. Inr (Dense_rows c)))))"

definition vector_descriptor ::
  "'a arrow_arrays \<Rightarrow> ('a, 'u, 'w) array_buffers \<Rightarrow> 'a \<Rightarrow> vector_field \<Rightarrow> (string \<times> string) list \<Rightarrow> 'w vector_column result" where
  "vector_descriptor pa ab array spec metadata =
     rbind (validity pa ab array) (\<lambda>valid.
     rbind (if vf_kind spec = ''binary'' then binary_views pa ab array spec
            else if vf_kind spec = ''sparse'' then sparse_views pa ab array
            else numeric_views pa ab array spec metadata) (\<lambda>views.
     Inr \<lparr>vc_validity = valid, vc_row_count = arr_len pa array, vc_views = views\<rparr>))"

section \<open>Point batches\<close>

datatype field_identity = Field_id int | Field_name string

datatype ('a, 'w) point_column =
    Payload_column string string 'a
  | Vector_column field_identity "'w vector_column"

record ('r, 'a, 'w) point_descriptor =
  pd_row_count :: int
  pd_ids :: 'w
  pd_updates :: "(field_identity \<times> 'w vector_column) list"
  pd_payloads :: "(string \<times> string \<times> 'a) list"
  pd_owners :: 'r

text \<open>The field a column stands for, with its schema.\<close>

definition column_field :: "int \<Rightarrow> (string \<times> vector_field) list \<Rightarrow> string \<Rightarrow> (field_identity \<times> vector_field) result" where
  "column_field dim schema name =
     (if name = ''vector'' then
        rbind (vector_field_init (PInt dim) (PStr ''f32'') (PStr ''dense'') (PStr ''l2'') None) (\<lambda>spec. Inr (Field_id 0, spec))
      else if name = ''sparse'' then
        rbind (vector_field_init (PInt 0) (PStr ''f32'') (PStr ''sparse'') (PStr ''dot'') None) (\<lambda>spec. Inr (Field_id 1, spec))
      else
        (let key = drop (length ''vectors.'') name in
         case (if prefix ''vectors.'' name then map_of schema key else None) of
           Some spec \<Rightarrow> Inr (Field_name key, spec)
         | None \<Rightarrow> Inl (ValueError (''unknown point Arrow column: '' @ name))))"

definition point_column ::
  "'a arrow_arrays \<Rightarrow> ('a, 'u, 'w) array_buffers \<Rightarrow> (string \<Rightarrow> 'a) \<Rightarrow> (string \<Rightarrow> (string \<times> string) list) \<Rightarrow> int \<Rightarrow>
     (string \<times> vector_field) list \<Rightarrow> string \<Rightarrow> ('a, 'w) point_column result" where
  "point_column pa ab column metadata dim schema name =
     (let array = column name in
      if prefix ''payload.'' name then
        (let key = drop (length ''payload.'') name in
         case (if key \<noteq> [] \<and> CHR 0x00 \<notin> set key then payload_type (arr_type pa array) else None) of
           None \<Rightarrow> Inl (ValueError ''invalid Arrow payload name or type'')
         | Some kind \<Rightarrow> Inr (Payload_column key kind array))
      else
        rbind (column_field dim schema name) (\<lambda>(identity, spec).
        rbind (vector_descriptor pa ab array spec (metadata name)) (\<lambda>d. Inr (Vector_column identity d))))"

definition updates_of :: "('a, 'w) point_column list \<Rightarrow> (field_identity \<times> 'w vector_column) list" where
  "updates_of cs = concat (map (\<lambda>c. case c of Vector_column i d \<Rightarrow> [(i, d)] | Payload_column n k a \<Rightarrow> []) cs)"

definition payloads_of :: "('a, 'w) point_column list \<Rightarrow> (string \<times> string \<times> 'a) list" where
  "payloads_of cs = concat (map (\<lambda>c. case c of Payload_column n k a \<Rightarrow> [(n, k, a)] | Vector_column i d \<Rightarrow> []) cs)"

definition point_descriptor ::
  "'a arrow_arrays \<Rightarrow> ('a, 'u, 'w) array_buffers \<Rightarrow> ('r, 'a) arrow_batches \<Rightarrow> ('r \<Rightarrow> string \<Rightarrow> (string \<times> string) list) \<Rightarrow>
     'k kernel \<Rightarrow> int \<Rightarrow> 'r \<Rightarrow> ('k coll, ('r, 'a, 'w) point_descriptor) action" where
  "point_descriptor pa ab pb metadata mojo duration batch =
     bind (check (is_record_batch pb batch) (TypeError ''Arrow producer must yield one RecordBatch'')) (\<lambda>_.
     bind (pure (validate_full pb batch)) (\<lambda>_.
     bind (gets co_limits) (\<lambda>limits.
     bind (check (0 < batch_rows pb batch \<and> batch_rows pb batch \<le> min (max_batch_rows limits) 65536)
       (ValueError ''point Arrow batch row count exceeds resource limit'')) (\<lambda>_.
     let names = batch_names pb batch; ids = batch_column pb batch ''id'' in
     bind (check (card (set names) = length names \<and> ''id'' \<in> set names)
       (ValueError ''point Arrow batch requires unique column names and id'')) (\<lambda>_.
     bind (check (arr_type pa ids = Int64 \<and> arr_null_count pa ids = 0) (ValueError ''id must be non-null int64'')) (\<lambda>_.
     bind (coll_vector_fields mojo duration) (\<lambda>schema.
     bind (gets co_dimension) (\<lambda>dim.
     bind (pure (rmap (point_column pa ab (batch_column pb batch) (metadata batch) dim schema)
       (filter (\<lambda>name. name \<noteq> ''id'') names))) (\<lambda>columns.
     bind (pure (primitive_values pa ab ids)) (\<lambda>id_values.
     ok \<lparr>pd_row_count = batch_rows pb batch, pd_ids = id_values, pd_updates = updates_of columns,
         pd_payloads = payloads_of columns, pd_owners = batch\<rparr>))))))))))"

definition ingest_points ::
  "'a arrow_arrays \<Rightarrow> ('a, 'u, 'w) array_buffers \<Rightarrow> ('r, 'a) arrow_batches \<Rightarrow> ('r \<Rightarrow> string \<Rightarrow> (string \<times> string) list) \<Rightarrow>
     (('r, 'a, 'w) point_descriptor \<Rightarrow> karg) \<Rightarrow> 'k kernel \<Rightarrow> int \<Rightarrow> int \<Rightarrow> 'r \<Rightarrow> ('k coll, batch_write_result) action" where
  "ingest_points pa ab pb metadata marshal mojo schema_duration duration batch =
     bind (point_descriptor pa ab pb metadata mojo schema_duration batch) (\<lambda>descriptor.
     bind (kernel_call mojo duration ''apply_point_arrow_batch'' [marshal descriptor]) (\<lambda>raw.
     pure (point_batch_result raw)))"

definition upsert_point_record_batch ::
  "('p, 'r) c_data \<Rightarrow> 'a arrow_arrays \<Rightarrow> ('a, 'u, 'w) array_buffers \<Rightarrow> ('r, 'a) arrow_batches \<Rightarrow>
     ('r \<Rightarrow> string \<Rightarrow> (string \<times> string) list) \<Rightarrow> (('r, 'a, 'w) point_descriptor \<Rightarrow> karg) \<Rightarrow> 'k kernel \<Rightarrow> int \<Rightarrow> int \<Rightarrow>
     'p batch_source \<Rightarrow> (('k, 'r) ingest, batch_write_result) action" where
  "upsert_point_record_batch cd pa ab pb metadata marshal mojo schema_duration duration source =
     with_lease cd source (ingest_points pa ab pb metadata marshal mojo schema_duration duration)"

end
