(* ===== verification/ArrowBatchProperties.thy ===== *)
theory ArrowBatchProperties
  imports ArrowBatch
begin

text \<open>
  Two contracts of Arrow ingestion: the vectorised check of the sparse columns accepts exactly
  the batches whose rows are well formed one by one, and a lease is released exactly once by
  the call that owns it and by no other.
\<close>

section \<open>Numpy\<close>

text \<open>The documented elementwise behaviour on arrays of equal length and indices in range.\<close>

definition numpy_laws :: "numpy \<Rightarrow> bool" where
  "numpy_laws np \<longleftrightarrow>
     (\<forall>xs ys. length xs = length ys \<longrightarrow> np_less_equal np xs ys = map2 (\<le>) xs ys) \<and>
     (\<forall>xs c. np_less np xs c = map (\<lambda>x. x < c) xs) \<and>
     (\<forall>xs c. list_all (\<lambda>x. 0 \<le> c \<and> c \<le> x) xs \<longrightarrow> np_minus np xs c = map (\<lambda>x. x - c) xs) \<and>
     (\<forall>bs. np_any np bs = list_ex (\<lambda>b. b) bs) \<and> (\<forall>bs. np_all np bs = list_all (\<lambda>b. b) bs) \<and>
     (\<forall>bs is. list_all (\<lambda>i. 0 \<le> i \<and> i < int (length bs)) is \<longrightarrow>
        np_clear np bs is = Inr (map (\<lambda>(j, b). b \<and> int j \<notin> set is) (enumerate 0 bs))) \<and>
     (\<forall>xs. np_isfinite np xs = map isfinite xs) \<and>
     (\<forall>xs. np_equal_zero np xs = map (\<lambda>x. feq x (FFin False 0)) xs)"

lemma numpy_lawsD:
  assumes "numpy_laws np"
  shows "length xs = length ys \<Longrightarrow> np_less_equal np xs ys = map2 (\<le>) xs ys" "np_less np xs c = map (\<lambda>x. x < c) xs"
    "list_all (\<lambda>x. 0 \<le> c \<and> c \<le> x) xs \<Longrightarrow> np_minus np xs c = map (\<lambda>x. x - c) xs"
    "np_any np bs = list_ex (\<lambda>b. b) bs" "np_all np bs = list_all (\<lambda>b. b) bs"
    "list_all (\<lambda>i. 0 \<le> i \<and> i < int (length bs)) is \<Longrightarrow>
      np_clear np bs is = Inr (map (\<lambda>(j, b). b \<and> int j \<notin> set is) (enumerate 0 bs))"
    "np_isfinite np ws = map isfinite ws" "np_equal_zero np ws = map (\<lambda>x. feq x (FFin False 0)) ws"
  using assms unfolding numpy_laws_def by blast+

section \<open>Rows between offsets\<close>

fun rows_of :: "nat list \<Rightarrow> 'x list \<Rightarrow> 'x list list" where
  "rows_of (a # b # os) xs = row_slice a b xs # rows_of (b # os) xs"
| "rows_of os xs = []"

definition term_row :: "int list \<Rightarrow> bool" where
  "term_row ts \<longleftrightarrow> ts \<noteq> [] \<and> sorted_wrt (<) ts \<and> list_all (\<lambda>t. 0 \<le> t) ts"

definition weight_ok :: "pyfloat \<Rightarrow> bool" where
  "weight_ok w \<longleftrightarrow> isfinite w \<and> \<not> feq w (FFin False 0)"

lemma length_row_slice [simp]: "b \<le> length xs \<Longrightarrow> length (row_slice a b xs) = b - a"
  by (simp add: row_slice_def)

lemma nth_row_slice: "b \<le> length xs \<Longrightarrow> a + i < b \<Longrightarrow> row_slice a b xs ! i = xs ! (a + i)"
  by (simp add: row_slice_def)

lemma slice_split: "a \<le> b \<Longrightarrow> b \<le> c \<Longrightarrow> row_slice a c xs = row_slice a b xs @ row_slice b c xs"
proof -
  assume "a \<le> b" "b \<le> c"
  then have "c - a = (b - a) + (c - b)" by simp
  then have "row_slice a c xs = take (b - a) (drop a xs) @ take (c - b) (drop (b - a) (drop a xs))"
    by (simp add: row_slice_def take_add)
  then show ?thesis using \<open>a \<le> b\<close> by (simp add: row_slice_def)
qed

lemma last_above: "sorted_wrt (<) (b # os) \<Longrightarrow> b \<le> last (b # os)" for b :: nat
  by (cases os rule: rev_cases) (auto simp: sorted_wrt_append)

lemma concat_rows: "sorted_wrt (<) os \<Longrightarrow> os \<noteq> [] \<Longrightarrow> concat (rows_of os xs) = row_slice (hd os) (last os) xs"
proof (induction os xs rule: rows_of.induct)
  case (1 a b os xs)
  then have "b \<le> last (b # os)" by (intro last_above) simp
  with 1 show ?case using slice_split [of a b "last (b # os)" xs] by (auto simp: less_imp_le)
qed (auto simp: row_slice_def)

lemma all_from: "(\<forall>j. Suc j < b - a \<longrightarrow> P (a + j)) \<longleftrightarrow> (\<forall>i. a \<le> i \<and> Suc i < b \<longrightarrow> P i)" for a b :: nat
proof (intro iffI allI impI)
  fix i assume "\<forall>j. Suc j < b - a \<longrightarrow> P (a + j)" "a \<le> i \<and> Suc i < b"
  then show "P i" by (elim allE [of _ "i - a"]) (simp, arith)
qed simp

lemma ascending_slice:
  assumes "b \<le> length xs"
  shows "sorted_wrt (<) (row_slice a b (xs :: int list)) \<longleftrightarrow> (\<forall>i. a \<le> i \<and> Suc i < b \<longrightarrow> xs ! i < xs ! Suc i)"
  using assms all_from [of b a "\<lambda>i. xs ! i < xs ! Suc i"] by (simp add: sorted_wrt_iff_nth_Suc_transp nth_row_slice)

lemma ascending_rows:
  assumes "sorted_wrt (<) os" "last os \<le> length xs" "os \<noteq> []"
  shows "list_all (sorted_wrt (<)) (rows_of os (xs :: int list)) \<longleftrightarrow>
    (\<forall>i. hd os \<le> i \<and> Suc i < last os \<and> Suc i \<notin> set (butlast (tl os)) \<longrightarrow> xs ! i < xs ! Suc i)"
  using assms
proof (induction os xs rule: rows_of.induct)
  case (1 a b os xs)
  have b: "a < b" "b \<le> length xs" using "1.prems" last_above [of b os] by auto
  show ?case
  proof (cases os)
    case Nil
    then show ?thesis using 1 ascending_slice [of b xs a] by simp
  next
    case (Cons c cs)
    have above: "b < j" if "j \<in> set (butlast os)" for j using "1.prems"(1) in_set_butlastD [OF that] by simp
    have "(\<forall>i. a \<le> i \<and> Suc i < last os \<and> Suc i \<notin> set (b # butlast os) \<longrightarrow> xs ! i < xs ! Suc i) \<longleftrightarrow>
        (\<forall>i. a \<le> i \<and> Suc i < b \<longrightarrow> xs ! i < xs ! Suc i) \<and>
        (\<forall>i. b \<le> i \<and> Suc i < last os \<and> Suc i \<notin> set (butlast os) \<longrightarrow> xs ! i < xs ! Suc i)" (is "?all \<longleftrightarrow> ?here \<and> ?there")
    proof (intro iffI conjI allI impI)
      fix i assume ?all "a \<le> i \<and> Suc i < b"
      moreover have "b \<le> last os" using "1.prems"(1) last_above [of b os] Cons by simp
      ultimately show "xs ! i < xs ! Suc i" using above [of "Suc i"] by (elim allE [of _ i]) auto
    next
      fix i assume ?all "b \<le> i \<and> Suc i < last os \<and> Suc i \<notin> set (butlast os)"
      then show "xs ! i < xs ! Suc i" using b(1) by (elim allE [of _ i]) auto
    next
      fix i assume "?here \<and> ?there" "a \<le> i \<and> Suc i < last os \<and> Suc i \<notin> set (b # butlast os)"
      then show "xs ! i < xs ! Suc i" by (cases "Suc i < b") auto
    qed
    with 1 b Cons ascending_slice [of b xs a] show ?thesis by auto
  qed
qed auto

lemma adjacent_sorted: "\<not> list_ex (\<lambda>b. b) (map2 (\<le>) (tl xs) (butlast xs)) \<longleftrightarrow> sorted_wrt (<) (xs :: int list)"
proof (induction xs rule: induct_list012)
  case (3 x y zs)
  then show ?case by (auto simp: sorted_wrt2 simp del: sorted_wrt.simps)
qed simp_all

lemma list_ex_nth: "list_ex P xs \<longleftrightarrow> (\<exists>i<length xs. P (xs ! i))"
  by (simp add: list_ex_iff Bex_def in_set_conv_nth) blast

text \<open>The mask of descents, cleared where a row ends, is empty exactly when every row ascends.\<close>

lemma order_mask:
  assumes np: "numpy_laws np" and os: "sorted_wrt (<) os" "last os \<le> length ts" "os \<noteq> []"
  defines "A \<equiv> row_slice (hd os) (last os) ts"
  shows "\<exists>mask. np_clear np (np_less_equal np (tl A) (butlast A))
      (np_minus np (np_minus np (map int (butlast (tl os))) (int (hd os))) 1) = Inr mask \<and>
    (\<not> np_any np mask \<longleftrightarrow> list_all (sorted_wrt (<)) (rows_of os ts))"
proof -
  let ?in = "butlast (tl os)" and ?B = "map2 (\<le>) (tl A) (butlast A)"
  let ?idx = "map (\<lambda>x. int x - int (hd os) - 1) ?in"
  have inside: "hd os < x \<and> x < last os" if "x \<in> set ?in" for x
    using os(1,3) that by (cases os; cases "tl os" rule: rev_cases) (auto simp: sorted_wrt_append)
  have len: "length A = last os - hd os" "length ?B = last os - hd os - 1" using os(2) by (simp_all add: A_def)
  have B: "?B ! j \<longleftrightarrow> ts ! (hd os + Suc j) \<le> ts ! (hd os + j)" if "Suc j < length A" for j
    using that len os(2) by (simp add: nth_tl nth_butlast) (simp add: A_def nth_row_slice)
  have idx: "np_minus np (np_minus np (map int ?in) (int (hd os))) 1 = ?idx"
  proof -
    have "np_minus np (map int ?in) (int (hd os)) = map (\<lambda>x. int x - int (hd os)) ?in"
      by (subst numpy_lawsD(3) [OF np]) (auto simp: list_all_iff dest!: inside)
    then show ?thesis by simp (subst numpy_lawsD(3) [OF np], auto simp: list_all_iff dest!: inside)
  qed
  have range: "list_all (\<lambda>i. 0 \<le> i \<and> i < int (length ?B)) ?idx"
    unfolding len(2) list_all_iff by (auto dest!: inside)
  have "np_clear np (np_less_equal np (tl A) (butlast A)) ?idx = Inr (map (\<lambda>(j, b). b \<and> int j \<notin> set ?idx) (enumerate 0 ?B))"
    using numpy_lawsD(6) [OF np range] numpy_lawsD(1) [OF np, of "tl A" "butlast A"] by simp
  moreover have "\<not> np_any np (map (\<lambda>(j, b). b \<and> int j \<notin> set ?idx) (enumerate 0 ?B)) \<longleftrightarrow>
      (\<forall>j. Suc j < length A \<longrightarrow> ts ! (hd os + j) < ts ! (hd os + Suc j) \<or> hd os + Suc j \<in> set ?in)"
  proof -
    have "int j = int x - int (hd os) - 1 \<longleftrightarrow> x = hd os + Suc j" for j x by linarith
    then have mem: "int j \<in> set ?idx \<longleftrightarrow> hd os + Suc j \<in> set ?in" for j by (simp only: set_map image_iff) blast
    have "j < last os - Suc (hd os) \<longleftrightarrow> Suc j < last os - hd os" for j by arith
    then show ?thesis unfolding numpy_lawsD(4) [OF np] list_ex_nth using B len
      by (auto simp: nth_enumerate_eq mem not_le [symmetric] simp del: set_map)
  qed
  moreover have "\<dots> \<longleftrightarrow> (\<forall>i. hd os \<le> i \<and> Suc i < last os \<and> Suc i \<notin> set ?in \<longrightarrow> ts ! i < ts ! Suc i)"
    using all_from [of "last os" "hd os" "\<lambda>i. ts ! i < ts ! Suc i \<or> Suc i \<in> set ?in"] unfolding len(1) add_Suc_right by blast
  ultimately show ?thesis unfolding idx ascending_rows [OF os(1,2,3)] by blast
qed

lemma list_all_rows:
  "sorted_wrt (<) os \<Longrightarrow> os \<noteq> [] \<Longrightarrow>
    list_all (list_all P) (rows_of os xs) \<longleftrightarrow> list_all P (row_slice (hd os) (last os) xs)"
  by (simp add: concat_rows [symmetric] list_all_iff)

lemma rows_nonempty: "sorted_wrt (<) os \<Longrightarrow> os \<noteq> [] \<Longrightarrow> last os \<le> length xs \<Longrightarrow> list_all (\<lambda>r. r \<noteq> []) (rows_of os xs)"
proof (induction os xs rule: rows_of.induct)
  case (1 a b os xs)
  then have "b \<le> length xs" using last_above [of b os] by auto
  with 1 show ?case by (auto simp flip: length_greater_0_conv)
qed auto

lemma term_rows:
  assumes "sorted_wrt (<) os" "os \<noteq> []" "last os \<le> length ts"
  shows "list_all term_row (rows_of os ts) \<longleftrightarrow>
    list_all (\<lambda>t. 0 \<le> t) (row_slice (hd os) (last os) ts) \<and> list_all (sorted_wrt (<)) (rows_of os ts)"
  using rows_nonempty [OF assms] list_all_rows [OF assms(1,2), of "\<lambda>t. 0 \<le> t" ts]
  unfolding term_row_def list_all_iff by blast

lemma offsets_nat:
  assumes "offsets \<noteq> []" "0 \<le> hd offsets" "sorted_wrt (<) offsets"
  obtains os where "offsets = map int os" "map nat offsets = os" "os \<noteq> []" "sorted_wrt (<) os"
proof (rule that [of "map nat offsets"])
  have "\<forall>x\<in>set offsets. 0 \<le> x" using assms by (cases offsets) auto
  then show "offsets = map int (map nat offsets)" by (simp add: map_idI)
  have "sorted_wrt (\<lambda>x y. nat x < nat y) offsets"
    by (rule sorted_wrt_mono_rel [OF _ assms(3)]) (use \<open>\<forall>x\<in>set offsets. 0 \<le> x\<close> in force)
  then show "sorted_wrt (<) (map nat offsets)" by (simp only: sorted_wrt_map)
qed (use assms(1) in simp_all)

text \<open>
  C37: the vectorised check of the sparse columns, which compares whole arrays and clears the
  comparisons that straddle two rows, accepts exactly the columns whose offsets increase
  within the data and whose rows are one by one not empty, strictly ascending, not negative
  and of finite weights other than zero.
\<close>

theorem sparse_rows_checked:
  assumes np: "numpy_laws np"
  shows "check_sparse_rows np offsets terms weights = Inr () \<longleftrightarrow>
    length terms = length weights \<and> offsets \<noteq> [] \<and> 0 \<le> hd offsets \<and> last offsets \<le> int (length terms) \<and>
    sorted_wrt (<) offsets \<and> list_all term_row (rows_of (map nat offsets) terms) \<and>
    list_all (list_all weight_ok) (rows_of (map nat offsets) weights)"
proof -
  have sorted: "\<not> np_any np (np_less_equal np (tl offsets) (butlast offsets)) \<longleftrightarrow> sorted_wrt (<) offsets"
    using numpy_lawsD(1) [OF np, of "tl offsets" "butlast offsets"] adjacent_sorted numpy_lawsD(4) [OF np] by simp
  show ?thesis
  proof (cases "length terms = length weights \<and> offsets \<noteq> [] \<and> 0 \<le> hd offsets \<and> last offsets \<le> int (length terms) \<and>
      sorted_wrt (<) offsets")
    case True
    then obtain os where os: "offsets = map int os" "map nat offsets = os" "os \<noteq> []" "sorted_wrt (<) os"
      using offsets_nat by metis
    have ends: "hd offsets = int (hd os)" "last offsets = int (last os)" "butlast (tl offsets) = map int (butlast (tl os))"
      using os(1,3) by (simp_all add: hd_map last_map map_butlast map_tl)
    have len: "last os \<le> length terms" using True ends by simp
    from order_mask [OF np os(4) len os(3)] obtain mask where mask:
      "np_clear np (np_less_equal np (tl (row_slice (hd os) (last os) terms)) (butlast (row_slice (hd os) (last os) terms)))
        (np_minus np (np_minus np (butlast (tl offsets)) (hd offsets)) 1) = Inr mask"
      "\<not> np_any np mask \<longleftrightarrow> list_all (sorted_wrt (<)) (rows_of os terms)" unfolding ends by blast
    have "check_sparse_rows np offsets terms weights = Inr () \<longleftrightarrow>
        (list_all (\<lambda>t. 0 \<le> t) (row_slice (hd os) (last os) terms) \<and> list_all (sorted_wrt (<)) (rows_of os terms)) \<and>
        list_all weight_ok (row_slice (hd os) (last os) weights)"
      using True sorted mask
      by (auto simp: check_sparse_rows_def Let_def ends numpy_lawsD [OF np] list_ex_iff list_all_iff weight_ok_def not_less)
    then show ?thesis
      using term_rows [OF os(4,3) len] list_all_rows [OF os(4,3), of weight_ok weights] True unfolding os(2) by blast
  next
    case False
    then show ?thesis using sorted by (auto simp: check_sparse_rows_def)
  qed
qed

text \<open>Numpy's operations on lists.\<close>

definition list_numpy :: numpy where
  "list_numpy =
     \<lparr>np_less_equal = map2 (\<le>), np_less = (\<lambda>xs c. map (\<lambda>x. x < c) xs), np_minus = (\<lambda>xs c. map (\<lambda>x. x - c) xs),
      np_any = list_ex (\<lambda>b. b), np_all = list_all (\<lambda>b. b),
      np_clear = (\<lambda>bs is. Inr (map (\<lambda>(j, b). b \<and> int j \<notin> set is) (enumerate 0 bs))),
      np_isfinite = map isfinite, np_equal_zero = map (\<lambda>x. feq x (FFin False 0))\<rparr>"

lemma list_numpy_laws: "numpy_laws list_numpy"
  by (simp add: numpy_laws_def list_numpy_def)

theorem sparse_rows_checked_witness:
  "check_sparse_rows list_numpy [1, 3, 4] [9, 2, 5, 1] (replicate 4 (FFin False 1)) = Inr () \<and>
   check_sparse_rows list_numpy [0, 3, 4] [9, 2, 5, 1] (replicate 4 (FFin False 1)) \<noteq> Inr () \<and>
   list_all term_row (rows_of (map nat [1, 3, 4]) [9, 2, 5, 1])"
  unfolding sparse_rows_checked [OF list_numpy_laws] by code_simp

section \<open>Leases\<close>

abbreviation released_lease :: "'r lease" where
  "released_lease \<equiv> \<lparr>ls_batch = None, ls_released = True\<rparr>"

text \<open>Reading the batch changes nothing, so the release that follows is the first one.\<close>

lemma lease_from_producer_Inr:
  "lease_from_producer cd p = Inr l \<longleftrightarrow>
     has_c_array cd p \<and> (\<exists>batch. import_batch cd p = Inr batch \<and> l = \<lparr>ls_batch = Some batch, ls_released = False\<rparr>)"
  by (auto simp: lease_from_producer_def)

lemma with_caller_lease:
  "with_lease cd Caller_lease body s =
     (case ls_batch (in_lease s) of
        Some batch \<Rightarrow>
          if ls_released (in_lease s) then (Inl (RuntimeError ''Arrow batch lease has been released''), s)
          else (case body batch (in_coll s) of (r, c) \<Rightarrow> (r, s\<lparr>in_coll := c\<rparr>))
      | None \<Rightarrow> (Inl (RuntimeError ''Arrow batch lease has been released''), s))"
  by (cases "ls_batch (in_lease s)"; cases "ls_released (in_lease s)")
    (simp_all add: with_lease_def on_lease_def on_coll_def lease_batch_def)

lemma with_producer:
  assumes "lease_from_producer cd p = Inr l"
  shows "with_lease cd (Producer p) body s =
    (case with_lease cd Caller_lease body (s\<lparr>in_lease := l\<rparr>) of (r, t) \<Rightarrow> (r, t\<lparr>in_lease := released_lease\<rparr>))"
proof -
  obtain batch where "l = \<lparr>ls_batch = Some batch, ls_released = False\<rparr>" using assms by (auto simp: lease_from_producer_Inr)
  with assms show ?thesis
    by (cases "body batch (in_coll s)")
      (simp add: with_lease_def finally_do_def on_lease_def on_coll_def lease_batch_def lease_release_def)
qed

text \<open>
  The discipline of an ingestion: from a producer it does what it does through a caller's
  lease on the imported batch and then has released its own lease; it leaves a caller's lease
  as it is, and refuses a released one without touching the collection.
\<close>

definition lease_discipline :: "('p, 'r) c_data \<Rightarrow> ('p batch_source \<Rightarrow> (('k, 'r) ingest, 'a) action) \<Rightarrow> bool" where
  "lease_discipline cd ingest_from \<longleftrightarrow>
     (\<forall>p s. ingest_from (Producer p) s =
        (case lease_from_producer cd p of
           Inl e \<Rightarrow> (Inl e, s)
         | Inr l \<Rightarrow> (case ingest_from Caller_lease (s\<lparr>in_lease := l\<rparr>) of (r, t) \<Rightarrow> (r, t\<lparr>in_lease := released_lease\<rparr>)))) \<and>
     (\<forall>s. in_lease (snd (ingest_from Caller_lease s)) = in_lease s) \<and>
     (\<forall>s. ingest_from Caller_lease (s\<lparr>in_lease := released_lease\<rparr>) =
        (Inl (RuntimeError ''Arrow batch lease has been released''), s\<lparr>in_lease := released_lease\<rparr>))"

lemma with_lease_discipline: "lease_discipline cd (\<lambda>source. with_lease cd source body)"
proof -
  have "with_lease cd (Producer p) body s =
      (case lease_from_producer cd p of
         Inl e \<Rightarrow> (Inl e, s)
       | Inr l \<Rightarrow> (case with_lease cd Caller_lease body (s\<lparr>in_lease := l\<rparr>) of (r, t) \<Rightarrow> (r, t\<lparr>in_lease := released_lease\<rparr>)))" for p s
    by (cases "lease_from_producer cd p") (simp_all add: with_producer, simp add: with_lease_def)
  moreover have "in_lease (snd (with_lease cd Caller_lease body s)) = in_lease s" for s
    by (simp add: with_caller_lease split: option.splits prod.splits)
  ultimately show ?thesis by (simp add: lease_discipline_def with_caller_lease)
qed

end
