(* ===== verification/ArrowPointProperties.thy ===== *)
theory ArrowPointProperties
  imports ArrowPoints ArrowBatchProperties FacadeProperties
begin

text \<open>
  What an accepted point batch looks like: within the row limit, with every column typed as
  its field of the schema demands and used exactly once.
\<close>

section \<open>Columns and fields\<close>

definition fits_field :: "'a arrow_arrays \<Rightarrow> 'a \<Rightarrow> (string \<times> string) list \<Rightarrow> vector_field \<Rightarrow> bool" where
  "fits_field pa array metadata spec \<longleftrightarrow>
     (if vf_kind spec = ''binary'' then arr_type pa array = Fixed_binary (binary_width spec)
      else if vf_kind spec = ''sparse'' then
        is_struct_list (arr_type pa array) \<and>
        arr_type pa (arr_values pa array) = Struct [(''term_id'', Int64), (''weight'', Float32)]
      else
        (\<exists>scalar. scalar_type (vf_dtype spec) = Inr scalar \<and>
          (if vf_dtype spec = ''bf16'' then map_of metadata ''akashadb.dtype'' = Some ''bf16'' else True) \<and>
          arr_type pa array =
            (if vf_kind spec = ''multivector'' then List_of (Fixed_list scalar (vf_dimension spec))
             else Fixed_list scalar (vf_dimension spec))))"

definition fits_column ::
  "'a arrow_arrays \<Rightarrow> (string \<Rightarrow> 'a) \<Rightarrow> (string \<Rightarrow> (string \<times> string) list) \<Rightarrow> int \<Rightarrow> (string \<times> vector_field) list \<Rightarrow> string \<Rightarrow> bool" where
  "fits_column pa column metadata dim schema name \<longleftrightarrow>
     (if name = ''id'' then arr_type pa (column name) = Int64 \<and> arr_null_count pa (column name) = 0
      else if prefix ''payload.'' name then payload_type (arr_type pa (column name)) \<noteq> None
      else (\<exists>identity spec. column_field dim schema name = Inr (identity, spec) \<and>
             fits_field pa (column name) (metadata name) spec))"

lemma vector_descriptor_fits:
  assumes "vector_descriptor pa ab array spec metadata = Inr d"
  shows "fits_field pa array metadata spec \<and> vc_row_count d = arr_len pa array"
  using assms
  by (auto simp: vector_descriptor_def binary_views_def sparse_views_def numeric_views_def fits_field_def Let_def
      split: if_splits option.splits)

text \<open>The entry a column becomes, by its name: no two columns share one.\<close>

definition entry_name :: "('a, 'w) point_column \<Rightarrow> string" where
  "entry_name c =
     (case c of
        Payload_column n k a \<Rightarrow> ''payload.'' @ n
      | Vector_column (Field_id i) d \<Rightarrow> (if i = 0 then ''vector'' else ''sparse'')
      | Vector_column (Field_name n) d \<Rightarrow> ''vectors.'' @ n)"

lemma prefix_drop: "prefix p s \<Longrightarrow> p @ drop (length p) s = s"
  by (auto simp: prefix_def)

lemma column_field_name:
  assumes "column_field dim schema name = Inr (i, spec)"
  shows "entry_name (Vector_column i d) = name"
  using assms prefix_drop [of "''vectors.''" name]
  by (auto simp: column_field_def entry_name_def Let_def split: if_splits option.splits)

lemma point_column_accepts:
  assumes "point_column pa ab column metadata dim schema name = Inr c" "name \<noteq> ''id''"
  shows "fits_column pa column metadata dim schema name \<and> entry_name c = name"
proof (cases "prefix ''payload.'' name")
  case True
  then show ?thesis using assms prefix_drop [of "''payload.''" name]
    by (auto simp: point_column_def fits_column_def entry_name_def Let_def split: option.splits if_splits)
next
  case False
  with assms obtain i spec d where "column_field dim schema name = Inr (i, spec)"
    "vector_descriptor pa ab (column name) spec (metadata name) = Inr d" "c = Vector_column i d"
    by (auto simp: point_column_def Let_def)
  with False assms(2) show ?thesis
    by (auto simp: fits_column_def column_field_name dest: vector_descriptor_fits)
qed

lemma point_columns_accept:
  assumes "rmap (point_column pa ab column metadata dim schema) names = Inr cs" "''id'' \<notin> set names"
  shows "list_all (fits_column pa column metadata dim schema) names \<and> map entry_name cs = names"
  using assms
proof (induction names arbitrary: cs)
  case (Cons name names)
  then obtain c cs' where "point_column pa ab column metadata dim schema name = Inr c" "cs = c # cs'"
    "rmap (point_column pa ab column metadata dim schema) names = Inr cs'" by auto
  with Cons point_column_accepts show ?case by fastforce
qed simp

section \<open>Every column once\<close>

lemma updates_payloads_length: "length (updates_of cs) + length (payloads_of cs) = length cs"
  by (induction cs) (auto simp: updates_of_def payloads_of_def split: point_column.splits)

lemma updates_in: "(i, d) \<in> set (updates_of cs) \<longleftrightarrow> Vector_column i d \<in> set cs"
  by (auto simp: updates_of_def split: point_column.splits)

lemma payloads_in: "(n, k, a) \<in> set (payloads_of cs) \<longleftrightarrow> Payload_column n k a \<in> set cs"
  by (auto simp: payloads_of_def split: point_column.splits)

lemma updates_distinct: "distinct (map entry_name cs) \<Longrightarrow> distinct (map fst (updates_of cs))"
proof (induction cs)
  case (Cons c cs)
  have "i \<notin> fst ` set (updates_of cs)" if "c = Vector_column i d" for i d
  proof
    assume "i \<in> fst ` set (updates_of cs)"
    then obtain c' d' where "c' \<in> set cs" "c' = Vector_column i d'" by (auto simp: updates_in)
    moreover from this have "entry_name c' = entry_name c" by (simp add: that entry_name_def split: field_identity.splits)
    ultimately show False using Cons.prems by (metis distinct.simps(2) image_eqI list.set_map list.simps(9))
  qed
  with Cons show ?case by (cases c) (auto simp: updates_of_def)
qed (simp add: updates_of_def)

lemma payloads_distinct: "distinct (map entry_name cs) \<Longrightarrow> distinct (map fst (payloads_of cs))"
proof (induction cs)
  case (Cons c cs)
  have "n \<notin> fst ` set (payloads_of cs)" if "c = Payload_column n k a" for n k a
  proof
    assume "n \<in> fst ` set (payloads_of cs)"
    then obtain c' k' a' where "c' \<in> set cs" "c' = Payload_column n k' a'" by (auto simp: payloads_in)
    moreover from this have "entry_name c' = entry_name c" by (simp add: that entry_name_def)
    ultimately show False using Cons.prems by (metis distinct.simps(2) image_eqI list.set_map list.simps(9))
  qed
  with Cons show ?case by (cases c) (auto simp: payloads_of_def)
qed (simp add: payloads_of_def)

text \<open>
  C39: an accepted point batch has between one row and the smaller of the collection's row
  limit and 65536, unique column names and an \<open>id\<close> column of non-null 64-bit integers; every
  other column is a payload of a supported type or has exactly the Arrow type of the vector
  field it names in the schema the kernel reported. Each column becomes one entry of the
  descriptor, and no field and no payload name is given twice.
\<close>

theorem point_batch_typed:
  assumes "point_descriptor pa ab pb metadata mojo d batch s = (Inr desc, t)"
  shows "0 < pd_row_count desc \<and> pd_row_count desc = batch_rows pb batch \<and>
    pd_row_count desc \<le> max_batch_rows (co_limits s) \<and> pd_row_count desc \<le> 65536 \<and>
    (\<exists>schema. coll_vector_fields mojo d s = (Inr schema, t) \<and>
      list_all (fits_column pa (batch_column pb batch) (metadata batch) (co_dimension t) schema) (batch_names pb batch)) \<and>
    distinct (batch_names pb batch) \<and> ''id'' \<in> set (batch_names pb batch) \<and>
    Suc (length (pd_updates desc) + length (pd_payloads desc)) = length (batch_names pb batch) \<and>
    distinct (map fst (pd_updates desc)) \<and> distinct (map fst (pd_payloads desc))"
proof -
  let ?names = "batch_names pb batch" and ?rest = "filter (\<lambda>name. name \<noteq> ''id'') (batch_names pb batch)"
  let ?ids = "batch_column pb batch ''id''"
  obtain schema cs v where run: "0 < batch_rows pb batch" "batch_rows pb batch \<le> min (max_batch_rows (co_limits s)) 65536"
    "card (set ?names) = length ?names" "''id'' \<in> set ?names" "arr_type pa ?ids = Int64" "arr_null_count pa ?ids = 0"
    "coll_vector_fields mojo d s = (Inr schema, t)"
    "rmap (point_column pa ab (batch_column pb batch) (metadata batch) (co_dimension t) schema) ?rest = Inr cs"
    "desc = \<lparr>pd_row_count = batch_rows pb batch, pd_ids = v, pd_updates = updates_of cs, pd_payloads = payloads_of cs,
      pd_owners = batch\<rparr>"
    using assms unfolding point_descriptor_def Let_def by (elim runE) (auto simp del: bind_run)
  have dist: "distinct ?names" using run(3) by (rule card_distinct)
  have fits: "list_all (fits_column pa (batch_column pb batch) (metadata batch) (co_dimension t) schema) ?rest"
    "map entry_name cs = ?rest" using point_columns_accept [OF run(8)] by simp_all
  have "length ?names = Suc (length ?rest)"
    using dist run(4) sum_length_filter_compl [of "\<lambda>name. name = ''id''" ?names] by (simp add: distinct_length_filter Int_insert_left)
  moreover have "length cs = length ?rest" using fits(2) by (metis length_map)
  moreover have "list_all (fits_column pa (batch_column pb batch) (metadata batch) (co_dimension t) schema) ?names"
    using fits(1) run(5,6) by (auto simp: list_all_iff fits_column_def)
  moreover have "distinct (map entry_name cs)" using dist by (simp add: fits(2))
  ultimately show ?thesis
    using run dist updates_payloads_length [of cs] updates_distinct [of cs] payloads_distinct [of cs] by simp
qed

text \<open>Arrays known by their types, of two rows each, and views known by their numpy types.\<close>

definition type_arrays :: "arrow_type arrow_arrays" where
  "type_arrays =
     \<lparr>arr_type = (\<lambda>t. t), arr_len = (\<lambda>t. 2), arr_offset = (\<lambda>t. 0), arr_null_count = (\<lambda>t. 0),
      arr_values = (\<lambda>t. case t of Fixed_list u n \<Rightarrow> u | List_of u \<Rightarrow> u | _ \<Rightarrow> t), arr_offsets = (\<lambda>t. Int32), arr_equals = (=),
      arr_ints = (\<lambda>t start n. Inr []), arr_floats = (\<lambda>t start n. Inr [])\<rparr>"

definition type_buffers :: "(arrow_type, unit, string) array_buffers" where
  "type_buffers =
     \<lparr>ab_buffer = (\<lambda>t i. if i = 0 then None else Some ()), ab_frombuffer = (\<lambda>u dtype len start. Inr dtype),
      ab_empty = (\<lambda>dtype. dtype), ab_child = (\<lambda>t i. t), ab_slice = (\<lambda>t start n. t)\<rparr>"

definition type_batches :: "((string \<times> arrow_type) list, arrow_type) arrow_batches" where
  "type_batches =
     \<lparr>is_record_batch = (\<lambda>b. True), validate_full = (\<lambda>b. Inr ()), batch_rows = (\<lambda>b. 2), batch_names = map fst,
      batch_column = (\<lambda>b name. the (map_of b name))\<rparr>"

definition schema_kernel :: "nat kernel" where
  "schema_kernel m args n = (Inr (KVal (PList [])), n)"

definition point_batch :: "(string \<times> arrow_type) list" where
  "point_batch = [(''id'', Int64), (''vector'', Fixed_list Float32 2), (''payload.tag'', Utf8)]"

lemma point_batch_accepted:
  "\<exists>desc t. point_descriptor type_arrays type_buffers type_batches (\<lambda>b n. []) schema_kernel 5 point_batch counter_collection =
     (Inr desc, t) \<and> length (pd_updates desc) = 1 \<and> map fst (pd_payloads desc) = [''tag'']"
  by (simp add: point_descriptor_def type_arrays_def type_batches_def type_buffers_def point_batch_def counter_collection_def
      default_limits_def coll_vector_fields_def kernel_call_def raw_call_def schema_kernel_def record_operation_def
      write_sequence_def is_write_def fields_from_kernel_def as_list_or_def point_column_def column_field_def
      payload_type_def vector_field_init_def check_int_def check_choice_def in_choices_def check_hnsw_def VECTOR_DTYPES_def
      vector_descriptor_def validity_def numeric_views_def scalar_type_def primitive_def primitive_values_def numpy_type_def
      updates_of_def payloads_of_def card_insert_if)

theorem point_batch_typed_witness:
  "\<exists>desc t. point_descriptor type_arrays type_buffers type_batches (\<lambda>b n. []) schema_kernel 5 point_batch counter_collection =
     (Inr desc, t) \<and> map fst (pd_payloads desc) = [''tag''] \<and> distinct (map fst (pd_updates desc)) \<and>
     Suc (length (pd_updates desc) + length (pd_payloads desc)) = 3"
proof -
  obtain desc t where run: "point_descriptor type_arrays type_buffers type_batches (\<lambda>b n. []) schema_kernel 5 point_batch
      counter_collection = (Inr desc, t)" "map fst (pd_payloads desc) = [''tag'']"
    using point_batch_accepted by (elim exE conjE)
  from point_batch_typed [OF run(1)] run show ?thesis by (auto simp: type_batches_def point_batch_def)
qed

section \<open>Leases\<close>

text \<open>
  C40: both ingestions keep the discipline of leases: a batch imported from a producer is
  ingested as through a caller's lease, with the same result or error, and its lease is then
  released, exactly once; a producer that cannot be imported changes nothing; a caller's
  lease is left as it is, and a released one is refused before the collection is touched.
\<close>

theorem lease_released_once:
  "lease_discipline cd (upsert_record_batch cd np pa pb marshal mojo d) \<and>
   lease_discipline cd (upsert_point_record_batch cd pa' ab pb' metadata marshal' mojo schema_d d)"
  using with_lease_discipline [of cd "ingest_rows np pa pb marshal mojo d"]
    with_lease_discipline [of cd "ingest_points pa' ab pb' metadata marshal' mojo schema_d d"]
  by (simp add: upsert_record_batch_def [abs_def] upsert_point_record_batch_def [abs_def])

end
