(* ===== verification/Spec2Isabelle.thy ===== *)
theory Spec2Isabelle
  imports SearchProperties ExportProperties Quarantine ArrowScanProperties ArrowPointProperties
begin

text \<open>
  A verification of the Python package of AkashaDB (\<^verbatim>\<open>src/python/akashadb\<close>): the distributed
  layer that shards and replicates collections over replica processes, and the local layer
  that puts a typed facade, a registry and export tooling over the compiled vector kernel.

  \<^bold>\<open>The program.\<close> \<^verbatim>\<open>distributed/cluster.py\<close> holds a coordinator, \<open>DistributedCluster\<close>, whose
  state is the cluster metadata (members, shard placements with leader, term, epochs and log
  indexes, and a table of requests) and one process per node. A write is sent to the replicas
  of its shard in two rounds, prepare and commit, and acknowledged when a quorum has committed
  it; reads go to a replica that has applied everything committed; failed leaders are replaced
  by an election that moves a quorum to the next term. \<^verbatim>\<open>distributed/replica.py\<close> holds the
  replica: a shard with a journal, a state file and a collection, snapshots for new replicas,
  and the process that serves requests. \<^verbatim>\<open>distributed/protocol.py\<close> holds the wire format, the
  journal and the metadata file. \<^verbatim>\<open>database.py\<close>, \<^verbatim>\<open>vectors.py\<close>, \<^verbatim>\<open>models.py\<close> and
  \<^verbatim>\<open>exceptions.py\<close> are the facade over the kernel, \<^verbatim>\<open>logical_points.py\<close> and \<^verbatim>\<open>operations.py\<close>
  export, import and quarantine, \<^verbatim>\<open>arrow.py\<close> and \<^verbatim>\<open>arrow_points.py\<close> exchange record batches.

  \<^bold>\<open>Conventions.\<close> Exceptions are the values of \<open>err\<close>; pure code returns \<open>'a result\<close>, code with
  state is an \<open>action\<close>, which keeps the state an exception leaves behind (theories \<open>Prelude\<close>,
  \<open>Action\<close>). Dynamic Python values are \<open>pyval\<close>, dictionaries association lists in insertion
  order (\<open>PyValue\<close>), strings their UTF-8 bytes, floats exact doubles with correct rounding
  (\<open>PyFloat\<close>), integers unbounded except where the kernel's binding cuts them to 64 bits
  (\<open>Config\<close>). What is not under \<^verbatim>\<open>src/python\<close> is a parameter: the collection a replica keeps
  is a \<open>collection_api\<close>, the kernel below the facade a function from method names and arguments
  to actions, pyarrow and numpy records of the operations the code calls (with numpy's
  documented behaviour as the hypothesis \<open>numpy_laws\<close>), the clocks and temporary names
  arguments.

  \<^bold>\<open>Theories and what they show.\<close>

  \<^item> \<open>Json\<close>, \<open>JsonDecode\<close>, \<open>JsonLines\<close>: \<open>json.dumps\<close> and \<open>json.loads\<close>, with the sorted keys of
    the protocol and with the strict hooks of exports. Decoding what was written gives the value
    back. The decoder takes its fuel from the length of the text; \<open>pval_enough\<close> shows that more
    fuel never changes its answer.

  \<^item> \<open>Envelope\<close>, \<open>Mutation\<close>: checked envelopes with CRC-32 and the admission of mutations: round
    trip, and equivalence with a declarative description.

  \<^item> \<open>Config\<close>, \<open>ConfigCanonical\<close>: the collection configuration in Python and in the kernel
    (\<^verbatim>\<open>config.mojo\<close>, \<^verbatim>\<open>python_module.mojo\<close>): accepted configurations are fixed points.

  \<^item> \<open>LineLog\<close>, \<open>Journal\<close>, \<open>JournalSafety\<close>: the replica journal. The locale \<open>line_codec\<close> states
    what a file of one record per line needs of its codec. After any operations and crashes the
    journal reopens to the same tables, and nothing durable is lost.

  \<^item> \<open>Metadata\<close>, \<open>MetadataStore\<close>, \<open>AtomicFile\<close>, \<open>Quorum\<close>: cluster metadata: validation, both
    file versions, atomic publication, quorums that intersect.

  \<^item> \<open>Snapshot\<close>, \<open>Replica\<close>, \<open>ReplicaSafety\<close>, \<open>ReplicaRecovery\<close>, \<open>ReplicaProperties\<close>: the shard.
    Invariant of memory and files, refinement of the log, crashes inside a commit and inside a
    snapshot installation, fencing of deposed leaders, and what happens to late commits.

  \<^item> \<open>Server\<close>, \<open>ServerSafety\<close>: the replica process: requests, lost responses, crashes, restarts.
    The messages of \<open>ReplicaUnavailable\<close> leave out the name of the node.

  \<^item> \<open>Cluster\<close>, \<open>ClusterSafety\<close>, \<open>ClusterViews\<close>, \<open>ClusterLife\<close>, \<open>ClusterLiveness\<close>,
    \<open>ClusterElection\<close>, \<open>ClusterProperties\<close>: the coordinator. Its operations are the steps of
    \<open>cluster_step\<close>, the replicas may fail between any two requests. Acknowledged writes are on a
    quorum, writes are available while a quorum is, exactly once per request, elections are
    safe, reads are caught up, and everything only grows.

  \<^item> \<open>Search\<close>, \<open>SearchMerge\<close>, \<open>SearchProperties\<close>: fan-out, the global top-k merge, which equals
    ranking all points at once, and rank fusion.

  \<^item> \<open>Vectors\<close>, \<open>FieldSchema\<close>: vector fields, queries and point mutations; the constructor of a
    field accepts exactly the table of valid fields.

  \<^item> \<open>Collection\<close>, \<open>Facade\<close>, \<open>FacadeLimits\<close>, \<open>Database\<close>, \<open>DatabaseSafety\<close>, \<open>FacadeProperties\<close>: the
    facade and the registry. Every operation makes at most one recorded call (locale
    \<open>carried\<close>); the kernel never sees a call beyond the limits, metrics and traces are those of
    the calls, and names map to distinct directories below the root.

  \<^item> \<open>LogicalPoints\<close>, \<open>Operations\<close>, \<open>ExportCodec\<close>, \<open>ExportFile\<close>, \<open>ExportProperties\<close>,
    \<open>ImportSafety\<close>, \<open>Quarantine\<close>: the point export as text, its import, and the quarantine. An
    imported export restores every point, a refused import has committed nothing, and only
    unreferenced artifacts are ever moved.

  \<^item> \<open>ArrowScan\<close>, \<open>ArrowScanProperties\<close>: the Arrow scanner. Exactly the well-formed requests reach
    the kernel; the loop over a scanner is a \<open>partial_function\<close> and is shown to return whenever
    the native scanner ends.

  \<^item> \<open>ArrowBatch\<close>, \<open>ArrowBatchProperties\<close>, \<open>ArrowPoints\<close>, \<open>ArrowPointProperties\<close>: leases, the
    validation of record batches and the descriptors handed to the kernel. The vectorised check
    of sparse rows equals the check row by row, accepted point batches are typed by the schema,
    and leases are released exactly once.

  \<^bold>\<open>Interfaces.\<close> The locales are interpreted on the model's own definitions: \<open>line_codec\<close> on the
  journal's records, \<open>carried\<close> on the statements about a collection, the interfaces of the
  cluster proofs on the calls to running nodes.

  \<^bold>\<open>Not modelled.\<close> The Mojo kernel apart from its configuration, since the package only calls
  it. The contents of Arrow buffers, which are pyarrow's. The
  command line (\<^verbatim>\<open>admin.py\<close>) and the HTTP application, which only parse and print.
  \<open>report_json\<close>. Threads inside the coordinator: its lock makes operations sequential, so a run
  is a sequence of steps. Python's limits on recursion and on the digits of an integer. Names of
  storage files with digits outside ASCII. The numeric strings that \<open>int()\<close> and \<open>float()\<close> accept
  are a parameter in the import of the older row format and raise elsewhere, where the callers
  pass numbers.
\<close>

end
